(* ===== verification/Prelude.thy ===== *)
theory Prelude
  imports Complex_Main
begin

text \<open>
  Shared vocabulary of the development. JavaScript values are modelled as follows.
  \<^item> A \<open>number\<close> is a \<^typ>\<open>real\<close>: the code's arithmetic on timestamps, pixels and
    minutes is read without floating-point rounding (the spec states its transform
    contracts "to floating-point tolerance"). \<open>Math.round\<close> is \<open>js_round\<close>, rounding
    half up as ECMAScript does.
  \<^item> A plain object used as a dictionary (\<open>Record<string, T>\<close>) and a \<open>Map\<close> are both
    an insertion-ordered dictionary \<open>('k, 'v) obj\<close>: an association list with distinct
    keys, new keys appended, an assignment to an existing key updating it in place
    (\<open>obj_set\<close>), \<open>delete\<close> removing it (\<open>obj_delete\<close>); \<open>Object.keys\<close> and
    \<open>Object.values\<close> read it in order.
  \<^item> A \<open>Set\<close> is a duplicate-free list in insertion order (\<open>jsset_add\<close>,
    \<open>jsset_delete\<close>, \<open>jsset_of_list\<close> for \<open>new Set(xs)\<close>).
  The collections \<open>obj_simps\<close> and \<open>jsset_simps\<close> carry the lemmas the components'
  proofs use about these structures.
\<close>

named_theorems obj_simps "lemmas on insertion-ordered dictionaries"
named_theorems jsset_simps "lemmas on insertion-ordered sets"

type_synonym task_id = string
type_synonym resource_id = string
type_synonym order_id = string
type_synonym dependency_id = string
type_synonym group_id = string

type_synonym number = real

text \<open>Milliseconds per hour and per minute, as the code writes them.\<close>

definition MS_PER_HOUR :: real where
  "MS_PER_HOUR = 60 * 60 * 1000"

definition MS_PER_MINUTE :: real where
  "MS_PER_MINUTE = 60 * 1000"

definition js_round :: "real \<Rightarrow> real" where
  "js_round x = of_int \<lfloor>x + 1 / 2\<rfloor>"

subsection \<open>Insertion-ordered dictionaries\<close>

type_synonym ('k, 'v) obj = "('k \<times> 'v) list"

definition obj_get :: "('k, 'v) obj \<Rightarrow> 'k \<Rightarrow> 'v option" where
  "obj_get d k = map_of d k"

definition obj_keys :: "('k, 'v) obj \<Rightarrow> 'k list" where
  "obj_keys d = map fst d"

definition obj_values :: "('k, 'v) obj \<Rightarrow> 'v list" where
  "obj_values d = map snd d"

fun obj_upd :: "'k \<Rightarrow> 'v \<Rightarrow> ('k, 'v) obj \<Rightarrow> ('k, 'v) obj" where
  "obj_upd k v [] = []"
| "obj_upd k v ((k', v') # d) = (if k' = k then (k', v) else (k', v')) # obj_upd k v d"

definition obj_set :: "('k, 'v) obj \<Rightarrow> 'k \<Rightarrow> 'v \<Rightarrow> ('k, 'v) obj" where
  "obj_set d k v = (if k \<in> set (map fst d) then obj_upd k v d else d @ [(k, v)])"

definition obj_delete :: "('k, 'v) obj \<Rightarrow> 'k \<Rightarrow> ('k, 'v) obj" where
  "obj_delete d k = filter (\<lambda>(k', _). k' \<noteq> k) d"

text \<open>\<open>d = {}; for (const x of xs) d[key x] = x\<close>.\<close>

definition obj_of_list :: "('v \<Rightarrow> 'k) \<Rightarrow> 'v list \<Rightarrow> ('k, 'v) obj" where
  "obj_of_list key xs = fold (\<lambda>x d. obj_set d (key x) x) xs []"

definition obj_wf :: "('k, 'v) obj \<Rightarrow> bool" where
  "obj_wf d \<longleftrightarrow> distinct (map fst d)"

lemma map_of_obj_upd:
  "map_of (obj_upd k v d) j = (if j = k \<and> k \<in> set (map fst d) then Some v else map_of d j)"
  by (induction d rule: obj_upd.induct) (auto simp: rev_image_eqI)

lemma map_fst_obj_upd [simp]: "map fst (obj_upd k v d) = map fst d"
  by (induction d rule: obj_upd.induct) auto

lemma obj_get_set [obj_simps]:
  "obj_get (obj_set d k v) j = (if j = k then Some v else obj_get d j)"
proof (cases "k \<in> set (map fst d)")
  case True
  then show ?thesis by (simp add: obj_get_def obj_set_def map_of_obj_upd)
next
  case False
  then have "map_of d k = None" by (simp add: map_of_eq_None_iff)
  with False show ?thesis
    by (auto simp: obj_get_def obj_set_def map_add_def split: option.splits)
qed

lemma obj_keys_set [obj_simps]:
  "obj_keys (obj_set d k v) = (if k \<in> set (obj_keys d) then obj_keys d else obj_keys d @ [k])"
  by (simp add: obj_keys_def obj_set_def)

lemma obj_wf_set [obj_simps]: "obj_wf d \<Longrightarrow> obj_wf (obj_set d k v)"
  by (simp add: obj_wf_def obj_set_def)

lemma obj_wf_delete [obj_simps]: "obj_wf d \<Longrightarrow> obj_wf (obj_delete d k)"
  unfolding obj_wf_def obj_delete_def
  by (induction d) (auto simp: image_iff)

lemma obj_get_delete [obj_simps]:
  "obj_get (obj_delete d k) j = (if j = k then None else obj_get d j)"
  by (induction d) (auto simp: obj_get_def obj_delete_def)

lemma obj_keys_delete [obj_simps]:
  "obj_keys (obj_delete d k) = removeAll k (obj_keys d)"
  by (induction d) (auto simp: obj_keys_def obj_delete_def)

lemma obj_wf_empty [obj_simps]: "obj_wf []"
  by (simp add: obj_wf_def)

lemma obj_get_empty [obj_simps]: "obj_get [] k = None"
  by (simp add: obj_get_def)

lemma obj_get_in_values:
  "obj_get d k = Some v \<Longrightarrow> v \<in> set (obj_values d)"
  by (induction d) (auto simp: obj_get_def obj_values_def split: if_splits)

lemma set_obj_set [obj_simps]: "set (obj_set d k v) \<subseteq> insert (k, v) (set d)"
proof -
  have "set (obj_upd k v d) \<subseteq> insert (k, v) (set d)" by (induction d rule: obj_upd.induct) auto
  then show ?thesis by (auto simp: obj_set_def)
qed

lemma obj_get_mem: "obj_get d k = Some v \<Longrightarrow> (k, v) \<in> set d"
  by (simp add: obj_get_def map_of_SomeD)

text \<open>Keys set in order, none of them present before: the entries are appended.\<close>

lemma fold_obj_set_fresh:
  "distinct (map key xs) \<Longrightarrow> (\<forall>x \<in> set xs. key x \<notin> set (map fst d)) \<Longrightarrow>
   fold (\<lambda>x d. obj_set d (key x) (f x)) xs d = d @ map (\<lambda>x. (key x, f x)) xs"
proof (induction xs arbitrary: d)
  case (Cons x xs)
  have "fold (\<lambda>x d. obj_set d (key x) (f x)) xs (d @ [(key x, f x)]) = (d @ [(key x, f x)]) @ map (\<lambda>x. (key x, f x)) xs"
  proof (rule Cons.IH)
    show "distinct (map key xs)" using Cons.prems by simp
    have "key x \<notin> key ` set xs" using Cons.prems(1) by simp
    show "\<forall>y \<in> set xs. key y \<notin> set (map fst (d @ [(key x, f x)]))"
    proof
      fix y assume y: "y \<in> set xs"
      then have "key y \<noteq> key x" using \<open>key x \<notin> key ` set xs\<close> by (metis imageI)
      moreover have "key y \<notin> set (map fst d)" using Cons.prems(2) y by simp
      ultimately show "key y \<notin> set (map fst (d @ [(key x, f x)]))" by simp
    qed
  qed
  then show ?case using Cons.prems by (simp add: obj_set_def)
qed simp

lemma obj_keys_dom: "set (obj_keys d) = dom (obj_get d)"
  unfolding obj_keys_def obj_get_def by (simp add: dom_map_of_conv_image_fst [symmetric] fun_eq_iff)

lemma obj_wf_of_list [obj_simps]: "obj_wf (obj_of_list key xs)"
proof -
  have "\<And>d. obj_wf d \<Longrightarrow> obj_wf (fold (\<lambda>x d. obj_set d (key x) x) xs d)"
    by (induction xs) (auto simp: obj_wf_set)
  then show ?thesis by (simp add: obj_of_list_def obj_wf_empty)
qed

text \<open>A lookup in a dictionary built from a list finds the last element with that key.\<close>

lemma obj_get_fold_set:
  "obj_get (fold (\<lambda>x d. obj_set d (key x) x) xs d) k =
   (case filter (\<lambda>x. key x = k) (rev xs) of [] \<Rightarrow> obj_get d k | x # _ \<Rightarrow> Some x)"
  by (induction xs arbitrary: d) (auto simp: obj_get_set split: list.splits)

lemma obj_get_of_list [obj_simps]:
  "obj_get (obj_of_list key xs) k =
   (case filter (\<lambda>x. key x = k) (rev xs) of [] \<Rightarrow> None | x # _ \<Rightarrow> Some x)"
  by (simp add: obj_of_list_def obj_get_fold_set obj_get_empty split: list.splits)

lemma obj_values_set_sub: "set (obj_values (obj_set d k v)) \<subseteq> insert v (set (obj_values d))"
proof -
  have "set (map snd (obj_upd k v d)) \<subseteq> insert v (set (map snd d))"
    by (induction d rule: obj_upd.induct) auto
  then show ?thesis by (auto simp: obj_values_def obj_set_def)
qed

lemma obj_values_delete_sub: "set (obj_values (obj_delete d k)) \<subseteq> set (obj_values d)"
  by (auto simp: obj_values_def obj_delete_def)

lemma fold_obj_set_values:
  "set (obj_values (fold (\<lambda>x d. obj_set d (key x) (val x)) xs d)) \<subseteq> set (obj_values d) \<union> val ` set xs"
proof (induction xs arbitrary: d)
  case Nil then show ?case by simp
next
  case (Cons x xs)
  from Cons.IH [of "obj_set d (key x) (val x)"] obj_values_set_sub [of d "key x" "val x"]
  show ?case by auto
qed

lemma fold_obj_set_wf: "obj_wf d \<Longrightarrow> obj_wf (fold (\<lambda>x d. obj_set d (key x) (val x)) xs d)"
  by (induction xs arbitrary: d) (simp_all add: obj_wf_set)

subsection \<open>Insertion-ordered sets\<close>

definition jsset_add :: "'a \<Rightarrow> 'a list \<Rightarrow> 'a list" where
  "jsset_add x xs = (if x \<in> set xs then xs else xs @ [x])"

definition jsset_delete :: "'a \<Rightarrow> 'a list \<Rightarrow> 'a list" where
  "jsset_delete x xs = removeAll x xs"

definition jsset_of_list :: "'a list \<Rightarrow> 'a list" where
  "jsset_of_list xs = fold jsset_add xs []"

lemma set_jsset_add [jsset_simps]: "set (jsset_add x xs) = insert x (set xs)"
  by (auto simp: jsset_add_def)

lemma distinct_jsset_add [jsset_simps]: "distinct xs \<Longrightarrow> distinct (jsset_add x xs)"
  by (simp add: jsset_add_def)

lemma set_jsset_delete [jsset_simps]: "set (jsset_delete x xs) = set xs - {x}"
  by (simp add: jsset_delete_def)

lemma distinct_jsset_delete [jsset_simps]: "distinct xs \<Longrightarrow> distinct (jsset_delete x xs)"
  by (simp add: jsset_delete_def distinct_removeAll)

lemma fold_jsset_add:
  "set (fold jsset_add xs ys) = set ys \<union> set xs \<and>
   (distinct ys \<longrightarrow> distinct (fold jsset_add xs ys))"
  by (induction xs arbitrary: ys) (auto simp: set_jsset_add distinct_jsset_add)

lemma set_jsset_of_list [jsset_simps]: "set (jsset_of_list xs) = set xs"
  by (simp add: jsset_of_list_def fold_jsset_add)

lemma distinct_jsset_of_list [jsset_simps]: "distinct (jsset_of_list xs)"
  by (simp add: jsset_of_list_def fold_jsset_add)

text \<open>Deleting an element that was just added restores the set.\<close>

lemma jsset_delete_add [jsset_simps]:
  "x \<notin> set xs \<Longrightarrow> jsset_delete x (jsset_add x xs) = xs"
  by (simp add: jsset_add_def jsset_delete_def)

subsection \<open>Dictionaries of sets\<close>

text \<open>The idiom \<open>if (!m.has(k)) m.set(k, new Set()); m.get(k)?.add(v)\<close>.\<close>

definition multimap_add :: "('k, 'v list) obj \<Rightarrow> 'k \<Rightarrow> 'v \<Rightarrow> ('k, 'v list) obj" where
  "multimap_add d k v = obj_set d k (jsset_add v (case obj_get d k of None \<Rightarrow> [] | Some s \<Rightarrow> s))"

definition multimap_get :: "('k, 'v list) obj \<Rightarrow> 'k \<Rightarrow> 'v list" where
  "multimap_get d k = (case obj_get d k of None \<Rightarrow> [] | Some s \<Rightarrow> s)"

lemma multimap_get_add [obj_simps]:
  "multimap_get (multimap_add d k v) j =
     (if j = k then jsset_add v (multimap_get d k) else multimap_get d j)"
  by (simp add: multimap_add_def multimap_get_def obj_get_set)

lemma multimap_get_empty [obj_simps]: "multimap_get [] k = []"
  by (simp add: multimap_get_def obj_get_empty)

lemma set_multimap_get_fold:
  "set (multimap_get (fold (\<lambda>x d. multimap_add d (key x) (val x)) xs d) k) =
   set (multimap_get d k) \<union> {val x | x. x \<in> set xs \<and> key x = k}"
  by (induction xs arbitrary: d) (auto simp: multimap_get_add set_jsset_add)

lemma distinct_multimap_get_fold:
  "(\<forall>j. distinct (multimap_get d j)) \<Longrightarrow>
   distinct (multimap_get (fold (\<lambda>x d. multimap_add d (key x) (val x)) xs d) k)"
  by (induction xs arbitrary: d) (auto simp: multimap_get_add distinct_jsset_add)

lemma set_map_filter: "set (List.map_filter f xs) = {y. \<exists>x \<in> set xs. f x = Some y}"
  by (induction xs) (auto simp: List.map_filter_simps split: option.splits)

subsection \<open>Rounding\<close>

lemma js_round_of_int [simp]: "js_round (of_int n) = of_int n"
  by (simp add: js_round_def)

lemma js_round_bounds: "x - 1 / 2 < js_round x \<and> js_round x \<le> x + 1 / 2"
  unfolding js_round_def by linarith

end
