(* ===== verification/Task.thy ===== *)
theory Task
  imports Prelude
begin

text \<open>
  The data model of \<open>types/index.ts\<close> and the task utilities of \<open>utils/task-utils.ts\<close>
  (\<open>calculateTotalDuration\<close>, \<open>calculateEndTime\<close>, \<open>hydrateTask\<close>, \<open>getPhaseRanges\<close>,
  \<open>tasksOverlap\<close>, \<open>taskOverlapsRange\<close>, \<open>snapToInterval\<close>). A \<open>StoredTask\<close> is the
  record \<open>stored_task\<close>; a \<open>Task\<close> extends it with the two cached fields \<open>_endTime\<close>
  and \<open>_totalDuration\<close>, exactly as \<open>StoredTask = Omit<Task, ...>\<close> says.
  \<open>task_consistent\<close> is the cache invariant: both cached fields agree with the phases.
\<close>

datatype phase_type = Setup | Execution | Cleanup

record task_phase =
  phase_type :: phase_type
  duration :: number
  phase_color :: "string option"

datatype dependency_type = FS | FF | SS | SF

record task_dependency =
  dep_id :: dependency_id
  predecessorId :: task_id
  successorId :: task_id
  dep_type :: dependency_type
  lag :: number

datatype resource_type = Operator | Machine | Generic

record resource =
  res_id :: resource_id
  res_name :: string
  res_type :: resource_type
  capacity :: number
  res_groupId :: "group_id option"

record resource_group =
  group_id :: group_id
  group_name :: string
  group_type :: resource_type

datatype task_status = Scheduled | In_progress | Completed | Blocked

record constraints =
  earliestStart :: "number option"
  latestEnd :: "number option"
  fixedTime :: "bool option"

record stored_task =
  task_id :: task_id
  startTime :: number
  phases :: "task_phase list"
  resourceId :: resource_id
  orderId :: order_id
  task_name :: string
  task_color :: "string option"
  priority :: number
  status :: task_status
  progress :: number
  task_constraints :: "constraints option"

record task = stored_task +
  endTime :: number
  totalDuration :: number

record order =
  order_id :: order_id
  order_name :: string
  order_priority :: number

subsection \<open>Task utilities\<close>

definition calculateTotalDuration :: "task_phase list \<Rightarrow> number" where
  "calculateTotalDuration ps = fold (\<lambda>p s. s + duration p) ps 0"

definition calculateEndTime :: "number \<Rightarrow> task_phase list \<Rightarrow> number" where
  "calculateEndTime st ps = st + calculateTotalDuration ps * 60 * 1000"

definition hydrateTask :: "stored_task \<Rightarrow> task" where
  "hydrateTask t =
     (let total = calculateTotalDuration (phases t)
      in stored_task.extend t (task.fields (startTime t + total * 60 * 1000) total))"

text \<open>The inverse view: a task with its cached fields dropped.\<close>

definition dehydrate :: "task \<Rightarrow> stored_task" where
  "dehydrate t = stored_task.truncate t"

text \<open>\<open>getPhaseRanges\<close>: the loop advancing \<open>currentStart\<close>, as a recursion on the phases.\<close>

fun phase_ranges_from ::
  "number \<Rightarrow> task_phase list \<Rightarrow> (phase_type \<times> number \<times> number \<times> string option) list" where
  "phase_ranges_from cur [] = []"
| "phase_ranges_from cur (p # ps) =
     (phase_type p, cur, cur + duration p * 60 * 1000, phase_color p)
     # phase_ranges_from (cur + duration p * 60 * 1000) ps"

definition getPhaseRanges :: "task \<Rightarrow> (phase_type \<times> number \<times> number \<times> string option) list" where
  "getPhaseRanges t = phase_ranges_from (startTime t) (phases t)"

definition tasksOverlap :: "task \<Rightarrow> task \<Rightarrow> bool" where
  "tasksOverlap a b \<longleftrightarrow> startTime a < endTime b \<and> endTime a > startTime b"

definition taskOverlapsRange :: "task \<Rightarrow> number \<Rightarrow> number \<Rightarrow> bool" where
  "taskOverlapsRange t rs re \<longleftrightarrow> startTime t < re \<and> endTime t > rs"

definition snapToInterval :: "number \<Rightarrow> number \<Rightarrow> number" where
  "snapToInterval ts mins = (let ms = mins * 60 * 1000 in js_round (ts / ms) * ms)"

text \<open>The cache invariant of a task (\<open>_endTime\<close> and \<open>_totalDuration\<close> never stale).\<close>

definition task_consistent :: "task \<Rightarrow> bool" where
  "task_consistent t \<longleftrightarrow>
     totalDuration t = calculateTotalDuration (phases t) \<and>
     endTime t = startTime t + totalDuration t * 60 * 1000"

definition is_fixed :: "task \<Rightarrow> bool" where
  "is_fixed t \<longleftrightarrow> (case task_constraints t of None \<Rightarrow> False
                    | Some c \<Rightarrow> fixedTime c = Some True)"

subsection \<open>Lemmas\<close>

lemma fold_add_duration:
  "fold (\<lambda>p s. s + duration p) ps a = a + sum_list (map duration ps)"
  by (induction ps arbitrary: a) (auto simp: algebra_simps)

lemma calculateTotalDuration_sum_list:
  "calculateTotalDuration ps = sum_list (map duration ps)"
  by (simp add: calculateTotalDuration_def fold_add_duration)

lemma hydrateTask_fields [simp]:
  "stored_task.truncate (hydrateTask t) = t"
  "endTime (hydrateTask t) = startTime t + calculateTotalDuration (phases t) * 60 * 1000"
  "totalDuration (hydrateTask t) = calculateTotalDuration (phases t)"
  "startTime (hydrateTask t) = startTime t"
  "phases (hydrateTask t) = phases t"
  "resourceId (hydrateTask t) = resourceId t"
  "task_id (hydrateTask t) = task_id t"
  "orderId (hydrateTask t) = orderId t"
  by (simp_all add: hydrateTask_def Let_def stored_task.defs task.defs)

lemma phase_ranges_from_length [simp]:
  "length (phase_ranges_from cur ps) = length ps"
  by (induction ps arbitrary: cur) auto

lemma phase_ranges_from_nth:
  "i < length ps \<Longrightarrow> phase_ranges_from cur ps ! i =
     (phase_type (ps ! i), cur + sum_list (map duration (take i ps)) * 60000,
      cur + sum_list (map duration (take (Suc i) ps)) * 60000, phase_color (ps ! i))"
proof (induction ps arbitrary: cur i)
  case Nil
  then show ?case by simp
next
  case (Cons p ps)
  then show ?case
    by (cases i) (auto simp: algebra_simps)
qed

lemma hydrateTask_consistent: "task_consistent (hydrateTask s)"
  by (simp add: task_consistent_def)

lemma phase_ranges_from_sum:
  "phase_ranges_from cur ps \<noteq> [] \<Longrightarrow>
   fst (snd (snd (last (phase_ranges_from cur ps)))) = cur + sum_list (map duration ps) * 60000"
proof (induction ps arbitrary: cur)
  case Nil
  then show ?case by simp
next
  case (Cons p ps)
  show ?case
  proof (cases "ps = []")
    case True
    then show ?thesis by simp
  next
    case False
    then have "phase_ranges_from (cur + duration p * 60 * 1000) ps \<noteq> []"
      by (cases ps) auto
    with Cons.IH False show ?thesis by (simp add: algebra_simps)
  qed
qed

text \<open>
  C2. Round trip of the cached fields: dehydrating a consistent task (dropping
  \<open>_endTime\<close> and \<open>_totalDuration\<close>) and hydrating it again gives back the same
  task, so the cached fields are exactly the values \<open>hydrateTask\<close> computes.
\<close>

theorem hydrate_dehydrate_roundtrip:
  assumes "task_consistent t"
  shows "hydrateTask (dehydrate t) = t"
proof -
  have "hydrateTask (dehydrate t) =
          stored_task.extend (stored_task.truncate t)
            (task.fields (startTime t + totalDuration t * 60 * 1000) (totalDuration t))"
    using assms by (simp add: hydrateTask_def dehydrate_def task_consistent_def Let_def
                              stored_task.defs)
  also have "\<dots> = t"
    using assms by (cases t) (simp add: task_consistent_def stored_task.defs task.defs)
  finally show ?thesis .
qed

text \<open>
  C3. \<open>getPhaseRanges\<close> tiles the task: one range per phase, the first starts at
  \<open>startTime\<close>, each ends where the next starts, and the last ends at the cached
  \<open>_endTime\<close> of a consistent task.
\<close>

theorem getPhaseRanges_tile:
  assumes "task_consistent t" and "phases t \<noteq> []"
  shows "length (getPhaseRanges t) = length (phases t) \<and>
         fst (snd (hd (getPhaseRanges t))) = startTime t \<and>
         fst (snd (snd (last (getPhaseRanges t)))) = endTime t \<and>
         (\<forall>i. Suc i < length (getPhaseRanges t) \<longrightarrow>
            fst (snd (snd (getPhaseRanges t ! i))) = fst (snd (getPhaseRanges t ! Suc i)))"
proof (intro conjI allI impI)
  show "length (getPhaseRanges t) = length (phases t)"
    by (simp add: getPhaseRanges_def)
  show "fst (snd (hd (getPhaseRanges t))) = startTime t"
    using assms(2) by (cases "phases t") (simp_all add: getPhaseRanges_def)
  have "getPhaseRanges t \<noteq> []"
    using assms(2) by (cases "phases t") (simp_all add: getPhaseRanges_def)
  then show "fst (snd (snd (last (getPhaseRanges t)))) = endTime t"
    using assms(1) phase_ranges_from_sum
    by (simp add: getPhaseRanges_def task_consistent_def calculateTotalDuration_sum_list)
next
  fix i assume i: "Suc i < length (getPhaseRanges t)"
  then show "fst (snd (snd (getPhaseRanges t ! i))) = fst (snd (getPhaseRanges t ! Suc i))"
    by (simp add: getPhaseRanges_def phase_ranges_from_nth take_Suc_conv_app_nth)
qed

end
