(* ===== verification/Viewport.thy ===== *)
theory Viewport
  imports Prelude
begin

text \<open>
  The Viewport Transform: \<open>engine/viewport-manager.ts\<close> (class \<open>ViewportManager\<close>) and
  the viewport actions of the store (\<open>getZoomLevel\<close>, \<open>getSnapIntervalMs\<close>,
  \<open>zoomViewport\<close>, \<open>panViewport\<close>, \<open>setZoomLevel\<close>, \<open>scrollToTime\<close>,
  \<open>scrollToRow\<close> in the store factory, \<open>src/unnamed/part_001\<close>). \<open>ViewportState\<close>
  is the record \<open>viewport_state\<close>; the manager's private fields (\<open>canvasRect\<close>,
  \<open>dpr\<close>) are the record \<open>viewport_manager\<close>. Every transform is a pure function of
  the state. The lemmas show the round trips between time and pixels, that zooming
  keeps the time under the cursor and the zoom within its bounds, and what snapping
  rounds to.
\<close>

datatype zoom_level = Hour | Day | Week | Month

record viewport_state =
  scrollX :: number
  timeOrigin :: number
  pixelsPerHour :: number
  scrollY :: number
  rowHeight :: number
  vp_width :: number
  vp_height :: number
  zoomLevel :: zoom_level

record viewport_manager =
  vm_viewport :: viewport_state
  canvasRect :: "(number \<times> number) option"
  dpr :: number

subsection \<open>Data to viewport and back\<close>

definition timeToX :: "viewport_state \<Rightarrow> number \<Rightarrow> number" where
  "timeToX v ts = (ts - timeOrigin v) / MS_PER_HOUR * pixelsPerHour v - scrollX v"

definition virtualYToY :: "viewport_state \<Rightarrow> number \<Rightarrow> number" where
  "virtualYToY v vy = vy - scrollY v"

definition durationToWidth :: "viewport_state \<Rightarrow> number \<Rightarrow> number" where
  "durationToWidth v d = d / MS_PER_HOUR * pixelsPerHour v"

definition xToTime :: "viewport_state \<Rightarrow> number \<Rightarrow> number" where
  "xToTime v x = timeOrigin v + (x + scrollX v) / pixelsPerHour v * MS_PER_HOUR"

definition yToVirtualY :: "viewport_state \<Rightarrow> number \<Rightarrow> number" where
  "yToVirtualY v y = y + scrollY v"

definition viewportToData :: "viewport_state \<Rightarrow> number \<Rightarrow> number \<Rightarrow> number \<times> number" where
  "viewportToData v x y = (xToTime v x, yToVirtualY v y)"

definition widthToDuration :: "viewport_state \<Rightarrow> number \<Rightarrow> number" where
  "widthToDuration v w = w / pixelsPerHour v * MS_PER_HOUR"

text \<open>\<open>screenToViewport\<close> returns \<open>null\<close> until the canvas rect is known.\<close>

definition screenToViewport :: "viewport_manager \<Rightarrow> number \<Rightarrow> number \<Rightarrow> (number \<times> number) option" where
  "screenToViewport m sx sy =
     (case canvasRect m of None \<Rightarrow> None | Some (rl, rt) \<Rightarrow> Some (sx - rl, sy - rt))"

definition screenToData :: "viewport_manager \<Rightarrow> number \<Rightarrow> number \<Rightarrow> (number \<times> number) option" where
  "screenToData m sx sy =
     (case screenToViewport m sx sy of None \<Rightarrow> None
      | Some (x, y) \<Rightarrow> Some (viewportToData (vm_viewport m) x y))"

definition getVisibleTimeRange :: "viewport_state \<Rightarrow> number \<times> number" where
  "getVisibleTimeRange v = (xToTime v 0, xToTime v (vp_width v))"

definition isTimeRangeVisible :: "viewport_state \<Rightarrow> number \<Rightarrow> number \<Rightarrow> bool" where
  "isTimeRangeVisible v s e = (case getVisibleTimeRange v of (vs, ve) \<Rightarrow> s < ve \<and> e > vs)"

definition isYRangeVisible :: "viewport_state \<Rightarrow> number \<Rightarrow> number \<Rightarrow> bool" where
  "isYRangeVisible v lo hi \<longleftrightarrow> lo < scrollY v + vp_height v \<and> hi > scrollY v"

definition isVisible :: "viewport_state \<Rightarrow> number \<Rightarrow> number \<Rightarrow> number \<Rightarrow> number \<Rightarrow> bool" where
  "isVisible v st en lo hi \<longleftrightarrow> isTimeRangeVisible v st en \<and> isYRangeVisible v lo hi"

subsection \<open>The manager's own state\<close>

text \<open>The constructor reads \<open>window.devicePixelRatio\<close>, the parameter \<open>wdpr\<close>
  (\<open>None\<close> when \<open>window\<close> is undefined, as during server rendering).\<close>

definition createViewportManager :: "viewport_state \<Rightarrow> number option \<Rightarrow> viewport_manager" where
  "createViewportManager v wdpr =
     \<lparr>vm_viewport = v, canvasRect = None, dpr = (case wdpr of None \<Rightarrow> 1 | Some d \<Rightarrow> d)\<rparr>"

definition setViewport :: "viewport_state \<Rightarrow> viewport_manager \<Rightarrow> viewport_manager" where
  "setViewport v m = m\<lparr>vm_viewport := v\<rparr>"

definition setCanvasRect :: "number \<Rightarrow> number \<Rightarrow> viewport_manager \<Rightarrow> viewport_manager" where
  "setCanvasRect rl rt m = m\<lparr>canvasRect := Some (rl, rt)\<rparr>"

text \<open>\<open>calculateZoomToFit\<close>: the pixels per hour that fit \<open>[startTime, endTime]\<close> in the
  viewport width less the padding on both sides.\<close>

definition calculateZoomToFit :: "viewport_state \<Rightarrow> number \<Rightarrow> number \<Rightarrow> number \<Rightarrow> number" where
  "calculateZoomToFit v st en padding =
     (let durationHours = (en - st) / MS_PER_HOUR; availableWidth = vp_width v - padding * 2
      in availableWidth / durationHours)"

definition vm_scale :: "viewport_manager \<Rightarrow> number \<Rightarrow> number" where
  "vm_scale m x = x * dpr m"

definition vm_unscale :: "viewport_manager \<Rightarrow> number \<Rightarrow> number" where
  "vm_unscale m x = x / dpr m"

subsection \<open>Snapping\<close>

text \<open>\<open>ZOOM_SNAP_INTERVALS\<close> (minutes per zoom tier), the same table in the manager and
  the store factory.\<close>

fun zoom_snap_minutes :: "zoom_level \<Rightarrow> number" where
  "zoom_snap_minutes Hour = 15"
| "zoom_snap_minutes Day = 60"
| "zoom_snap_minutes Week = 360"
| "zoom_snap_minutes Month = 1440"

definition getSnapInterval :: "viewport_state \<Rightarrow> number \<Rightarrow> number" where
  "getSnapInterval v minRes = max (zoom_snap_minutes (zoomLevel v)) minRes * 60 * 1000"

definition snapToGrid :: "viewport_state \<Rightarrow> number \<Rightarrow> number \<Rightarrow> number" where
  "snapToGrid v ts minRes = (let i = getSnapInterval v minRes in js_round (ts / i) * i)"

text \<open>The store factory's copy, on a zoom level instead of a whole viewport.\<close>

definition getSnapIntervalMs :: "zoom_level \<Rightarrow> number \<Rightarrow> number" where
  "getSnapIntervalMs zl minRes = max (zoom_snap_minutes zl) minRes * 60 * 1000"

definition snap_ms :: "number \<Rightarrow> number \<Rightarrow> number" where
  "snap_ms i ts = js_round (ts / i) * i"

subsection \<open>Zoom and scroll actions of the store\<close>

definition getZoomLevel :: "number \<Rightarrow> zoom_level" where
  "getZoomLevel pph =
     (if pph \<ge> 30 then Hour else if pph \<ge> 5 then Day else if pph \<ge> 1 then Week else Month)"

fun zoom_config_pph :: "zoom_level \<Rightarrow> number" where
  "zoom_config_pph Hour = 60"
| "zoom_config_pph Day = 10"
| "zoom_config_pph Week = 2"
| "zoom_config_pph Month = 1 / 2"

definition zoomViewport :: "number \<Rightarrow> number \<Rightarrow> viewport_state \<Rightarrow> viewport_state" where
  "zoomViewport factor centerX v =
     (let old = pixelsPerHour v;
          new = max (1 / 4) (min 120 (old * factor));
          scrollXOffset = centerX + scrollX v;
          timeOffset = scrollXOffset / old;
          newScrollX = timeOffset * new - centerX
      in v\<lparr>pixelsPerHour := new, scrollX := max 0 newScrollX, zoomLevel := getZoomLevel new\<rparr>)"

definition panViewport :: "number \<Rightarrow> number \<Rightarrow> viewport_state \<Rightarrow> viewport_state" where
  "panViewport dx dy v = v\<lparr>scrollX := max 0 (scrollX v + dx), scrollY := max 0 (scrollY v + dy)\<rparr>"

definition setZoomLevel :: "zoom_level \<Rightarrow> viewport_state \<Rightarrow> viewport_state" where
  "setZoomLevel l v = v\<lparr>pixelsPerHour := zoom_config_pph l, zoomLevel := l\<rparr>"

definition scrollToTime :: "number \<Rightarrow> viewport_state \<Rightarrow> viewport_state" where
  "scrollToTime ts v =
     v\<lparr>scrollX := (ts - timeOrigin v) / (60 * 60 * 1000) * pixelsPerHour v - vp_width v / 2\<rparr>"

definition scrollToRow :: "number \<Rightarrow> viewport_state \<Rightarrow> viewport_state" where
  "scrollToRow i v = v\<lparr>scrollY := i * rowHeight v\<rparr>"

subsection \<open>Lemmas\<close>

lemma MS_PER_HOUR_pos [simp]: "0 < MS_PER_HOUR" and MS_PER_HOUR_val: "MS_PER_HOUR = 3600000"
  by (simp_all add: MS_PER_HOUR_def)

lemma zoom_snap_minutes_pos [simp]: "0 < zoom_snap_minutes l"
  by (cases l) simp_all

lemma getZoomLevel_tiers:
  "getZoomLevel p = Hour \<longleftrightarrow> 30 \<le> p"
  "getZoomLevel p = Day \<longleftrightarrow> 5 \<le> p \<and> p < 30"
  "getZoomLevel p = Week \<longleftrightarrow> 1 \<le> p \<and> p < 5"
  "getZoomLevel p = Month \<longleftrightarrow> p < 1"
  by (auto simp: getZoomLevel_def)

lemma zoomViewport_fields [simp]:
  "pixelsPerHour (zoomViewport f c v) = max (1 / 4) (min 120 (pixelsPerHour v * f))"
  "zoomLevel (zoomViewport f c v) = getZoomLevel (pixelsPerHour (zoomViewport f c v))"
  "timeOrigin (zoomViewport f c v) = timeOrigin v"
  "scrollY (zoomViewport f c v) = scrollY v"
  by (simp_all add: zoomViewport_def Let_def)

lemma snap_ms_bounds:
  assumes "0 < i"
  shows "\<bar>snap_ms i ts - ts\<bar> \<le> i / 2"
proof -
  have "ts / i - 1 / 2 < js_round (ts / i) \<and> js_round (ts / i) \<le> ts / i + 1 / 2"
    by (rule js_round_bounds)
  then have "(ts / i - 1 / 2) * i \<le> js_round (ts / i) * i \<and>
             js_round (ts / i) * i \<le> (ts / i + 1 / 2) * i"
    using assms by (auto intro: mult_right_mono)
  moreover have "(ts / i - 1 / 2) * i = ts - i / 2" and "(ts / i + 1 / 2) * i = ts + i / 2"
    using assms by (simp_all add: algebra_simps)
  ultimately show ?thesis
    unfolding snap_ms_def abs_le_iff by linarith
qed

lemma snap_ms_multiple: "\<exists>k::int. snap_ms i ts = of_int k * i"
  by (auto simp: snap_ms_def js_round_def)

lemma snap_ms_of_multiple [simp]: "0 < i \<Longrightarrow> snap_ms i (of_int k * i) = of_int k * i"
  by (simp add: snap_ms_def)

lemma getSnapInterval_pos [simp]: "0 < getSnapInterval v m"
proof -
  have "0 < max (zoom_snap_minutes (zoomLevel v)) m"
    by (simp add: less_max_iff_disj)
  then show ?thesis by (simp add: getSnapInterval_def)
qed

lemma getSnapIntervalMs_pos [simp]: "0 < getSnapIntervalMs l m"
proof -
  have "0 < max (zoom_snap_minutes l) m" by (simp add: less_max_iff_disj)
  then show ?thesis by (simp add: getSnapIntervalMs_def)
qed

text \<open>
  C1. The transforms are inverse to each other for any viewport with a positive zoom:
  \<open>xToTime (timeToX t) = t\<close>, \<open>timeToX (xToTime x) = x\<close>,
  \<open>widthToDuration (durationToWidth d) = d\<close>, and the row-space pair
  \<open>yToVirtualY\<close>/\<open>virtualYToY\<close> likewise.
\<close>

theorem viewport_transform_roundtrip:
  assumes "0 < pixelsPerHour v"
  shows "xToTime v (timeToX v t) = t \<and> timeToX v (xToTime v x) = x \<and>
         widthToDuration v (durationToWidth v d) = d \<and>
         yToVirtualY v (virtualYToY v y) = y \<and> virtualYToY v (yToVirtualY v y) = y"
  using assms
  by (simp add: xToTime_def timeToX_def widthToDuration_def durationToWidth_def
                yToVirtualY_def virtualYToY_def MS_PER_HOUR_def field_simps)

text \<open>
  C4. Anchor-preserving zoom, exactly: for a positive zoom, \<open>zoomViewport factor
  centerX\<close> keeps the timestamp under pixel \<open>centerX\<close> if and only if the
  recomputed scroll offset is not negative, i.e. was not clamped to 0 by
  \<open>Math.max(0, newScrollX)\<close>.
\<close>

theorem zoomViewport_keeps_anchor:
  assumes "0 < pixelsPerHour v"
  shows "xToTime (zoomViewport f c v) c = xToTime v c \<longleftrightarrow>
         0 \<le> (c + scrollX v) / pixelsPerHour v * pixelsPerHour (zoomViewport f c v) - c"
proof -
  let ?new = "pixelsPerHour (zoomViewport f c v)"
  let ?ns = "(c + scrollX v) / pixelsPerHour v * ?new - c"
  have new_pos: "0 < ?new" by (simp add: less_max_iff_disj)
  have sx: "scrollX (zoomViewport f c v) = max 0 ?ns"
    by (simp add: zoomViewport_def Let_def)
  have anchor: "(c + ?ns) / ?new = (c + scrollX v) / pixelsPerHour v"
    using new_pos by simp
  have eq1: "xToTime (zoomViewport f c v) c = timeOrigin v + (c + max 0 ?ns) / ?new * MS_PER_HOUR"
    by (simp only: xToTime_def sx zoomViewport_fields)
  have eq2: "xToTime v c = timeOrigin v + (c + ?ns) / ?new * MS_PER_HOUR"
    by (simp only: xToTime_def anchor)
  have "xToTime (zoomViewport f c v) c = xToTime v c \<longleftrightarrow>
        (c + max 0 ?ns) / ?new = (c + ?ns) / ?new"
  proof -
    have H: "MS_PER_HOUR \<noteq> 0" using MS_PER_HOUR_pos by linarith
    show ?thesis unfolding eq1 eq2 by (simp only: add_left_cancel mult_cancel_right H simp_thms)
  qed
  also have "\<dots> \<longleftrightarrow> max 0 ?ns = ?ns"
  proof -
    have N: "?new \<noteq> 0" using new_pos by linarith
    show ?thesis by (simp only: divide_cancel_right add_left_cancel N simp_thms)
  qed
  also have "\<dots> \<longleftrightarrow> 0 \<le> ?ns" by (simp add: max_def)
  finally show ?thesis .
qed

text \<open>
  C5. Zoom bounds: after \<open>zoomViewport\<close>, \<open>pixelsPerHour\<close> lies in [0.25, 120],
  the scroll offset is not negative, and the discrete zoom level is the tier of the new
  \<open>pixelsPerHour\<close> (hour from 30, day from 5, week from 1, month below).
\<close>

theorem zoomViewport_bounds:
  "1 / 4 \<le> pixelsPerHour (zoomViewport f c v) \<and> pixelsPerHour (zoomViewport f c v) \<le> 120 \<and>
   0 \<le> scrollX (zoomViewport f c v) \<and>
   zoomLevel (zoomViewport f c v) = getZoomLevel (pixelsPerHour (zoomViewport f c v))"
  by (simp add: zoomViewport_def Let_def)

text \<open>
  C6. Snap correctness: \<open>snapToGrid\<close> rounds to a multiple of the effective interval
  \<open>max(zoom-tier minutes, minResolution)\<close> minutes, and moves the timestamp by at most
  half that interval.
\<close>

theorem snapToGrid_nearest:
  "getSnapInterval v m = max (zoom_snap_minutes (zoomLevel v)) m * 60000 \<and>
   (\<exists>k::int. snapToGrid v ts m = of_int k * getSnapInterval v m) \<and>
   \<bar>snapToGrid v ts m - ts\<bar> \<le> getSnapInterval v m / 2"
proof -
  have "snapToGrid v ts m = snap_ms (getSnapInterval v m) ts"
    by (simp add: snapToGrid_def snap_ms_def Let_def)
  then show ?thesis
    using snap_ms_multiple snap_ms_bounds [OF getSnapInterval_pos]
    by (simp add: getSnapInterval_def)
qed


text \<open>Zoom to fit: with the computed zoom, the range spans exactly the padded width.\<close>

lemma calculateZoomToFit_fits:
  assumes "st < en"
  shows "durationToWidth (v\<lparr>pixelsPerHour := calculateZoomToFit v st en p\<rparr>) (en - st) = vp_width v - 2 * p"
proof -
  have "en - st \<noteq> 0" using assms by simp
  then show ?thesis by (simp add: durationToWidth_def calculateZoomToFit_def MS_PER_HOUR_def Let_def
                                  divide_simps algebra_simps)
qed

lemma vm_unscale_scale: "dpr m \<noteq> 0 \<Longrightarrow> vm_unscale m (vm_scale m x) = x"
  by (simp add: vm_scale_def vm_unscale_def)

text \<open>Once the canvas rect is set, screen coordinates convert to data coordinates.\<close>

lemma screenToData_setCanvasRect:
  "screenToData (setCanvasRect rl rt m) sx sy = Some (viewportToData (vm_viewport m) (sx - rl) (sy - rt))"
  by (simp add: screenToData_def screenToViewport_def setCanvasRect_def)

end
