(* ===== verification/RowLayout.thy ===== *)
theory RowLayout
  imports Task
begin

text \<open>
  The Row Layout Engine: \<open>hooks/useComposableVirtualRows.ts\<close>
  (\<open>useComposableVirtualRows\<close>, \<open>useComposableVisibleRows\<close>) and the grouping actions of
  the store factory (\<open>setGroupingMode\<close>, \<open>toggleGroup\<close>, \<open>expandAllGroups\<close>,
  \<open>collapseAllGroups\<close>, \<open>src/unnamed/part_001\<close>). The hook's running \<open>currentY\<close>
  is threaded explicitly: every emitter takes the current offset and returns its rows
  with the offset after them. Expansion is read through the predicate
  \<open>isExpanded\<close>, which \<open>virtualRows\<close> builds from the expanded-group set, since the
  code only asks \<open>expandedGroups.has(groupId)\<close>.
  The lemmas show that the rows are contiguous from offset 0, that the total height is
  the sum of the row heights, and what each grouping mode emits.
\<close>

datatype grouping_mode = Group_none | Group_resource_type | Group_order

record virtual_row =
  row_id :: string
  row_resourceId :: "resource_id option"
  virtualY :: number
  row_height :: number
  isGroupHeader :: bool
  row_groupId :: "string option"
  groupName :: "string option"
  isCollapsed :: "bool option"

record grouping_state =
  mode :: grouping_mode
  expandedGroups :: "string list"

definition GROUP_HEADER_HEIGHT :: number where
  "GROUP_HEADER_HEIGHT = 32"

fun resource_type_str :: "resource_type \<Rightarrow> string" where
  "resource_type_str Operator = ''operator''"
| "resource_type_str Machine = ''machine''"
| "resource_type_str Generic = ''generic''"

text \<open>\<open>type.charAt(0).toUpperCase() + type.slice(1) + "s"\<close>, on the three type names.\<close>

fun resource_type_label :: "resource_type \<Rightarrow> string" where
  "resource_type_label Operator = ''Operators''"
| "resource_type_label Machine = ''Machines''"
| "resource_type_label Generic = ''Generics''"

definition resource_row ::
  "string \<Rightarrow> resource \<Rightarrow> number \<Rightarrow> number \<Rightarrow> string option \<Rightarrow> virtual_row" where
  "resource_row rid r y h g =
     \<lparr>row_id = rid, row_resourceId = Some (res_id r), virtualY = y, row_height = h,
      isGroupHeader = False, row_groupId = g, groupName = None, isCollapsed = None\<rparr>"

definition header_row :: "string \<Rightarrow> string \<Rightarrow> number \<Rightarrow> bool \<Rightarrow> virtual_row" where
  "header_row gid name y expanded =
     \<lparr>row_id = gid, row_resourceId = None, virtualY = y, row_height = GROUP_HEADER_HEIGHT,
      isGroupHeader = True, row_groupId = Some gid, groupName = Some name,
      isCollapsed = Some (\<not> expanded)\<rparr>"

subsection \<open>Emitters\<close>

text \<open>The inner \<open>for (const resource of ...)\<close> loops: one resource row each.\<close>

fun emit_resource_rows ::
  "number \<Rightarrow> number \<Rightarrow> string option \<Rightarrow> resource list \<Rightarrow> virtual_row list \<times> number" where
  "emit_resource_rows y h g [] = ([], y)"
| "emit_resource_rows y h g (r # rs) =
     (let (rows, y') = emit_resource_rows (y + h) h g rs
      in (resource_row (''resource-'' @ res_id r) r y h g # rows, y'))"

text \<open>The order mode's inner loop: a resource id not in \<open>resources\<close> is skipped.\<close>

fun emit_order_rows ::
  "(resource_id, resource) obj \<Rightarrow> order_id \<Rightarrow> number \<Rightarrow> number \<Rightarrow> string \<Rightarrow> resource_id list
   \<Rightarrow> virtual_row list \<times> number" where
  "emit_order_rows res oid y h g [] = ([], y)"
| "emit_order_rows res oid y h g (rid # rids) =
     (case obj_get res rid of
        None \<Rightarrow> emit_order_rows res oid y h g rids
      | Some r \<Rightarrow>
          (let (rows, y') = emit_order_rows res oid (y + h) h g rids
           in (resource_row (''resource-'' @ res_id r @ ''-'' @ oid) r y h (Some g) # rows, y')))"

text \<open>A header row, then (if expanded) its member rows.\<close>

definition emit_group ::
  "string \<Rightarrow> string \<Rightarrow> bool \<Rightarrow> number \<Rightarrow> (number \<Rightarrow> virtual_row list \<times> number)
   \<Rightarrow> virtual_row list \<times> number" where
  "emit_group gid name expanded y members =
     (let hdr = header_row gid name y expanded;
          y1 = y + GROUP_HEADER_HEIGHT
      in if expanded then (let (rows, y2) = members y1 in (hdr # rows, y2)) else ([hdr], y1))"

text \<open>\<open>for (const [type, typeResources] of byType)\<close>: the types in order of first
  occurrence, each with its resources in order.\<close>

fun emit_type_groups ::
  "(string \<Rightarrow> bool) \<Rightarrow> number \<Rightarrow> resource list \<Rightarrow> number \<Rightarrow> resource_type list
   \<Rightarrow> virtual_row list \<times> number" where
  "emit_type_groups isExp h rs y [] = ([], y)"
| "emit_type_groups isExp h rs y (t # ts) =
     (let gid = ''type-'' @ resource_type_str t;
          (rows, y1) = emit_group gid (resource_type_label t) (isExp gid) y
                         (\<lambda>y. emit_resource_rows y h (Some gid) (filter (\<lambda>r. res_type r = t) rs));
          (rows', y2) = emit_type_groups isExp h rs y1 ts
      in (rows @ rows', y2))"

text \<open>\<open>for (const order of sortedOrders)\<close>, skipping orders without resources.\<close>

fun emit_order_groups ::
  "(string \<Rightarrow> bool) \<Rightarrow> number \<Rightarrow> (resource_id, resource) obj \<Rightarrow> (order_id, resource_id list) obj
   \<Rightarrow> number \<Rightarrow> order list \<Rightarrow> virtual_row list \<times> number" where
  "emit_order_groups isExp h res orr y [] = ([], y)"
| "emit_order_groups isExp h res orr y (od # os) =
     (case obj_get orr (order_id od) of
        None \<Rightarrow> emit_order_groups isExp h res orr y os
      | Some rids \<Rightarrow>
          (if rids = [] then emit_order_groups isExp h res orr y os
           else
             (let gid = ''order-'' @ order_id od;
                  (rows, y1) = emit_group gid (order_name od) (isExp gid) y
                                 (\<lambda>y. emit_order_rows res (order_id od) y h gid rids);
                  (rows', y2) = emit_order_groups isExp h res orr y1 os
              in (rows @ rows', y2))))"

text \<open>\<open>orderResources\<close>: order id to the set of resources with a task in that order.\<close>

definition orderResources :: "task list \<Rightarrow> (order_id, resource_id list) obj" where
  "orderResources ts = fold (\<lambda>t d. multimap_add d (orderId t) (resourceId t)) ts []"

definition assignedResources :: "(order_id, resource_id list) obj \<Rightarrow> resource_id list" where
  "assignedResources orr = fold (\<lambda>ids acc. fold jsset_add ids acc) (obj_values orr) []"

text \<open>\<open>Object.values(orders).sort((a, b) => a.priority - b.priority)\<close>: a stable sort.\<close>

definition sortedOrders :: "(order_id, order) obj \<Rightarrow> order list" where
  "sortedOrders os = sort_key order_priority (obj_values os)"

definition emit_unassigned ::
  "(string \<Rightarrow> bool) \<Rightarrow> number \<Rightarrow> resource list \<Rightarrow> number \<Rightarrow> virtual_row list \<times> number" where
  "emit_unassigned isExp h un y =
     (if un = [] then ([], y)
      else emit_group ''unassigned'' ''Unassigned'' (isExp ''unassigned'') y
             (\<lambda>y. emit_resource_rows y h (Some ''unassigned'') un))"

definition virtualRows ::
  "(resource_id, resource) obj \<Rightarrow> (task_id, task) obj \<Rightarrow> (order_id, order) obj \<Rightarrow>
   grouping_mode \<Rightarrow> string list \<Rightarrow> number \<Rightarrow> virtual_row list" where
  "virtualRows resources tasks orders gmode expanded h =
     (let resourceList = obj_values resources;
          isExp = (\<lambda>g. g \<in> set expanded)
      in case gmode of
           Group_none \<Rightarrow> fst (emit_resource_rows 0 h None resourceList)
         | Group_resource_type \<Rightarrow>
             fst (emit_type_groups isExp h resourceList 0
                    (jsset_of_list (map res_type resourceList)))
         | Group_order \<Rightarrow>
             (let orr = orderResources (obj_values tasks);
                  assigned = assignedResources orr;
                  (rows, y1) = emit_order_groups isExp h resources orr 0 (sortedOrders orders);
                  un = filter (\<lambda>r. res_id r \<notin> set assigned) resourceList
              in rows @ fst (emit_unassigned isExp h un y1)))"

text \<open>\<open>useComposableVisibleRows\<close>: rows within the viewport, three row heights of buffer.\<close>

definition visibleRows :: "virtual_row list \<Rightarrow> number \<Rightarrow> number \<Rightarrow> number \<Rightarrow> virtual_row list" where
  "visibleRows rows sy vh h =
     (if rows = [] \<or> vh = 0 then []
      else filter (\<lambda>r. virtualY r + row_height r \<ge> sy - 3 * h \<and>
                       virtualY r \<le> sy + vh + 3 * h) rows)"

subsection \<open>Grouping actions\<close>

definition setGroupingMode :: "grouping_mode \<Rightarrow> grouping_state \<Rightarrow> grouping_state" where
  "setGroupingMode m g = g\<lparr>mode := m, expandedGroups := []\<rparr>"

definition toggleGroup :: "string \<Rightarrow> grouping_state \<Rightarrow> grouping_state" where
  "toggleGroup gid g =
     g\<lparr>expandedGroups := (if gid \<in> set (expandedGroups g) then jsset_delete gid (expandedGroups g)
                          else jsset_add gid (expandedGroups g))\<rparr>"

definition expandAllGroups :: "(group_id, resource_group) obj \<Rightarrow> grouping_state \<Rightarrow> grouping_state" where
  "expandAllGroups groups g = g\<lparr>expandedGroups := jsset_of_list (obj_keys groups)\<rparr>"

definition collapseAllGroups :: "grouping_state \<Rightarrow> grouping_state" where
  "collapseAllGroups g = g\<lparr>expandedGroups := []\<rparr>"

definition layout_of ::
  "(resource_id, resource) obj \<Rightarrow> (task_id, task) obj \<Rightarrow> (order_id, order) obj \<Rightarrow>
   grouping_state \<Rightarrow> number \<Rightarrow> virtual_row list" where
  "layout_of res ts os g h = virtualRows res ts os (mode g) (expandedGroups g) h"

subsection \<open>Contiguity\<close>

text \<open>Rows laid out from offset \<open>y\<close> with no gap or overlap.\<close>

fun contiguous_from :: "number \<Rightarrow> virtual_row list \<Rightarrow> bool" where
  "contiguous_from y [] = True"
| "contiguous_from y (r # rs) = (virtualY r = y \<and> contiguous_from (y + row_height r) rs)"

definition rows_height :: "virtual_row list \<Rightarrow> number" where
  "rows_height rows = sum_list (map row_height rows)"

text \<open>What every emitter returns: contiguous rows from \<open>y\<close> and the offset after them.\<close>

definition emits_from :: "number \<Rightarrow> virtual_row list \<times> number \<Rightarrow> bool" where
  "emits_from y out \<longleftrightarrow> contiguous_from y (fst out) \<and> snd out = y + rows_height (fst out)"

lemma contiguous_from_append [simp]:
  "contiguous_from y (xs @ ys) \<longleftrightarrow> contiguous_from y xs \<and> contiguous_from (y + rows_height xs) ys"
  by (induction xs arbitrary: y) (auto simp: rows_height_def add.assoc)

lemma rows_height_simps [simp]:
  "rows_height [] = 0"
  "rows_height (r # rs) = row_height r + rows_height rs"
  "rows_height (xs @ ys) = rows_height xs + rows_height ys"
  by (simp_all add: rows_height_def)

lemma emits_from_append:
  "emits_from y p \<Longrightarrow> emits_from (snd p) q \<Longrightarrow> emits_from y (fst p @ fst q, snd q)"
  by (simp add: emits_from_def add.assoc)

lemma emits_from_Nil [simp]: "emits_from y ([], y)"
  by (simp add: emits_from_def)

lemma emits_from_Cons:
  "emits_from (y + row_height r) p \<Longrightarrow> virtualY r = y \<Longrightarrow> emits_from y (r # fst p, snd p)"
  by (simp add: emits_from_def add.assoc)

lemma row_fields [simp]:
  "virtualY (resource_row rid r y h g) = y" "row_height (resource_row rid r y h g) = h"
  "isGroupHeader (resource_row rid r y h g) = False"
  "row_resourceId (resource_row rid r y h g) = Some (res_id r)"
  "virtualY (header_row gid n y e) = y" "row_height (header_row gid n y e) = GROUP_HEADER_HEIGHT"
  "isGroupHeader (header_row gid n y e) = True"
  "isCollapsed (header_row gid n y e) = Some (\<not> e)"
  "row_resourceId (header_row gid n y e) = None"
  by (simp_all add: resource_row_def header_row_def)

lemma emit_resource_rows_emits: "emits_from y (emit_resource_rows y h g rs)"
  by (induction rs arbitrary: y) (simp_all add: Let_def case_prod_unfold emits_from_Cons)

lemma emit_order_rows_emits: "emits_from y (emit_order_rows res oid y h g rids)"
  by (induction rids arbitrary: y) (simp_all add: Let_def case_prod_unfold emits_from_Cons split: option.split)

lemma emit_group_emits:
  assumes "\<And>y'. emits_from y' (members y')"
  shows "emits_from y (emit_group gid name e y members)"
  using assms [of "y + GROUP_HEADER_HEIGHT"]
  by (simp add: emit_group_def Let_def case_prod_unfold emits_from_Cons)
     (simp add: emits_from_def)

lemma emit_type_groups_emits: "emits_from y (emit_type_groups isExp h rs y ts)"
proof (induction ts arbitrary: y)
  case Nil
  then show ?case by simp
next
  case (Cons t ts)
  let ?g = "emit_group (''type-'' @ resource_type_str t) (resource_type_label t)
              (isExp (''type-'' @ resource_type_str t)) y
              (\<lambda>y. emit_resource_rows y h (Some (''type-'' @ resource_type_str t))
                     (filter (\<lambda>r. res_type r = t) rs))"
  have "emits_from y ?g" by (rule emit_group_emits) (rule emit_resource_rows_emits)
  from emits_from_append [OF this Cons.IH] show ?case
    by (simp add: Let_def case_prod_unfold)
qed

lemma emit_order_groups_emits: "emits_from y (emit_order_groups isExp h res orr y os)"
proof (induction os arbitrary: y)
  case Nil
  then show ?case by simp
next
  case (Cons od os)
  let ?gid = "''order-'' @ order_id od"
  have "emits_from y (emit_group ?gid (order_name od) (isExp ?gid) y
                       (\<lambda>y. emit_order_rows res (order_id od) y h ?gid rids))" for rids
    by (rule emit_group_emits) (rule emit_order_rows_emits)
  from emits_from_append [OF this Cons.IH] Cons.IH show ?case
    by (simp add: Let_def case_prod_unfold split: option.split)
qed

lemma emit_unassigned_emits: "emits_from y (emit_unassigned isExp h un y)"
  unfolding emit_unassigned_def
  by (simp, intro impI emit_group_emits emit_resource_rows_emits)

lemmas emitters_emit =
  emit_resource_rows_emits emit_order_rows_emits emit_type_groups_emits
  emit_order_groups_emits emit_unassigned_emits

lemma virtualRows_contiguous_from:
  "contiguous_from 0 (virtualRows res ts os m ex h)"
proof (cases m)
  case Group_none
  then show ?thesis
    using emitters_emit(1) [of 0 h None "obj_values res"]
    by (simp add: virtualRows_def emits_from_def Let_def)
next
  case Group_resource_type
  then show ?thesis
    using emitters_emit(3) [of 0 "\<lambda>g. g \<in> set ex" h "obj_values res"]
    by (simp add: virtualRows_def emits_from_def Let_def)
next
  case Group_order
  let ?isExp = "\<lambda>g. g \<in> set ex"
  let ?orr = "orderResources (obj_values ts)"
  obtain rows y1 where eq: "emit_order_groups ?isExp h res ?orr 0 (sortedOrders os) = (rows, y1)"
    by fastforce
  have "emits_from 0 (rows, y1)"
    using emitters_emit(4) [of 0 ?isExp h res ?orr "sortedOrders os"] eq by simp
  moreover have "emits_from y1 (emit_unassigned ?isExp h un y1)" for un
    by (rule emitters_emit(5))
  ultimately show ?thesis
    using Group_order eq by (simp add: virtualRows_def Let_def emits_from_def case_prod_unfold)
qed

text \<open>Every emitted row is a resource row of height \<open>h\<close> or a group header.\<close>

definition row_height_ok :: "number \<Rightarrow> virtual_row \<Rightarrow> bool" where
  "row_height_ok h r \<longleftrightarrow> row_height r = h \<or> row_height r = GROUP_HEADER_HEIGHT"

lemma emit_resource_rows_heights: "\<forall>r \<in> set (fst (emit_resource_rows y h g rs)). row_height_ok h r"
  by (induction rs arbitrary: y) (simp_all add: Let_def case_prod_unfold row_height_ok_def)

lemma emit_order_rows_heights: "\<forall>r \<in> set (fst (emit_order_rows res oid y h g rids)). row_height_ok h r"
  by (induction rids arbitrary: y)
     (simp_all add: Let_def case_prod_unfold row_height_ok_def split: option.split)

lemma emit_group_heights:
  "(\<And>y'. \<forall>r \<in> set (fst (members y')). row_height_ok h r) \<Longrightarrow>
   \<forall>r \<in> set (fst (emit_group gid name e y members)). row_height_ok h r"
  by (simp add: emit_group_def Let_def case_prod_unfold row_height_ok_def)

lemma emit_type_groups_heights:
  "\<forall>r \<in> set (fst (emit_type_groups isExp h rs y ts)). row_height_ok h r"
proof (induction ts arbitrary: y)
  case Nil
  then show ?case by simp
next
  case (Cons t ts)
  have "\<forall>r \<in> set (fst (emit_group gid n e y (\<lambda>y. emit_resource_rows y h g rs'))). row_height_ok h r"
    for gid n e y g rs'
    by (rule emit_group_heights) (rule emit_resource_rows_heights)
  with Cons show ?case by (simp add: Let_def case_prod_unfold ball_Un)
qed

lemma emit_order_groups_heights:
  "\<forall>r \<in> set (fst (emit_order_groups isExp h res orr y os)). row_height_ok h r"
proof (induction os arbitrary: y)
  case Nil
  then show ?case by simp
next
  case (Cons od os)
  have "\<forall>r \<in> set (fst (emit_group gid n e y (\<lambda>y. emit_order_rows res oid y h g rids))).
          row_height_ok h r" for gid n e y oid g rids
    by (rule emit_group_heights) (rule emit_order_rows_heights)
  with Cons show ?case by (simp add: Let_def case_prod_unfold ball_Un split: option.split)
qed

lemma virtualRows_heights:
  "\<forall>r \<in> set (virtualRows res ts os m ex h). row_height_ok h r"
proof -
  have "\<forall>r \<in> set (fst (emit_unassigned isExp h un y)). row_height_ok h r" for isExp un y
    unfolding emit_unassigned_def
    by (simp, intro impI emit_group_heights emit_resource_rows_heights)
  then show ?thesis
    using emit_resource_rows_heights emit_type_groups_heights emit_order_groups_heights
    by (cases m) (auto simp: virtualRows_def Let_def case_prod_unfold)
qed

lemma contiguous_sorted:
  "contiguous_from y rs \<Longrightarrow> \<forall>r \<in> set rs. 0 \<le> row_height r \<Longrightarrow>
   sorted (map virtualY rs) \<and> (\<forall>r \<in> set rs. y \<le> virtualY r)"
  by (induction y rs rule: contiguous_from.induct) force+

lemma contiguous_last:
  "contiguous_from y rs \<Longrightarrow> rs \<noteq> [] \<Longrightarrow>
   virtualY (last rs) + row_height (last rs) = y + rows_height rs"
  by (induction y rs rule: contiguous_from.induct) (auto simp: add.assoc)

lemma virtualRows_sorted:
  "0 \<le> h \<Longrightarrow> sorted (map virtualY (virtualRows res ts os m ex h))"
  using contiguous_sorted [OF virtualRows_contiguous_from] virtualRows_heights
  by (force simp: row_height_ok_def GROUP_HEADER_HEIGHT_def)

text \<open>
  C7. Row layout contiguity: in every grouping mode the rows start at offset 0 and each
  row starts where the previous one ends; for a non-negative row height the offsets
  \<open>virtualY\<close> increase monotonically, so the rows tile the virtual axis without
  gaps or overlaps, as the binary search of the index manager assumes.
\<close>

theorem virtualRows_contiguous:
  "0 \<le> h \<Longrightarrow> contiguous_from 0 (virtualRows res ts os m ex h) \<and>
   sorted (map virtualY (virtualRows res ts os m ex h))"
  by (simp add: virtualRows_contiguous_from virtualRows_sorted)

lemma virtualRows_expanded_cong:
  "set e1 = set e2 \<Longrightarrow> virtualRows res ts os m e1 h = virtualRows res ts os m e2 h"
  by (simp add: virtualRows_def)

lemma toggleGroup_twice_set:
  "set (expandedGroups (toggleGroup gid (toggleGroup gid g))) = set (expandedGroups g)"
  by (auto simp: toggleGroup_def jsset_simps)

text \<open>
  Toggling a group twice restores the layout: whatever the grouping mode and whether
  the group was expanded or collapsed, \<open>toggleGroup g\<close> applied twice gives exactly
  the same virtual rows, hence the same row count and total height.
\<close>

theorem toggleGroup_twice_layout:
  "layout_of res ts os (toggleGroup gid (toggleGroup gid g)) h = layout_of res ts os g h"
proof -
  have "mode (toggleGroup gid (toggleGroup gid g)) = mode g"
    by (simp add: toggleGroup_def)
  then show ?thesis
    using virtualRows_expanded_cong [OF toggleGroup_twice_set]
    by (simp add: layout_of_def)
qed

subsection \<open>Collapsed layouts\<close>

definition collapsed_header :: "virtual_row \<Rightarrow> bool" where
  "collapsed_header r \<longleftrightarrow> isGroupHeader r \<and> isCollapsed r = Some True"

lemma emit_group_collapsed:
  "\<forall>r \<in> set (fst (emit_group gid name False y members)). collapsed_header r"
  by (simp add: emit_group_def Let_def collapsed_header_def)

lemma emit_type_groups_collapsed:
  "\<forall>r \<in> set (fst (emit_type_groups (\<lambda>_. False) h rs y ts)). collapsed_header r"
proof (induction ts arbitrary: y)
  case Nil
  then show ?case by simp
next
  case (Cons t ts)
  then show ?case
    using emit_group_collapsed by (simp add: Let_def case_prod_unfold) blast
qed

lemma emit_order_groups_collapsed:
  "\<forall>r \<in> set (fst (emit_order_groups (\<lambda>_. False) h res orr y os)). collapsed_header r"
proof (induction os arbitrary: y)
  case Nil
  then show ?case by simp
next
  case (Cons od os)
  then show ?case
    using emit_group_collapsed
    by (simp add: Let_def case_prod_unfold split: option.split) blast
qed

lemma emit_unassigned_collapsed:
  "\<forall>r \<in> set (fst (emit_unassigned (\<lambda>_. False) h un y)). collapsed_header r"
  using emit_group_collapsed by (simp add: emit_unassigned_def)

text \<open>
  C8. Switching the grouping mode collapses every group: after
  \<open>setGroupingMode m\<close> with a grouping mode other than none, the expanded set is empty
  and every row of the layout is a collapsed group header (no resource row is shown
  until a group is expanded again).
\<close>

theorem setGroupingMode_collapses:
  assumes "m \<noteq> Group_none"
  shows "expandedGroups (setGroupingMode m g) = [] \<and>
         (\<forall>r \<in> set (layout_of res ts os (setGroupingMode m g) h). collapsed_header r)"
proof (cases m)
  case Group_none
  with assms show ?thesis by simp
next
  case Group_resource_type
  then show ?thesis
    using emit_type_groups_collapsed
    by (simp add: setGroupingMode_def layout_of_def virtualRows_def Let_def)
next
  case Group_order
  then show ?thesis
    using emit_order_groups_collapsed emit_unassigned_collapsed
    by (simp add: setGroupingMode_def layout_of_def virtualRows_def Let_def case_prod_unfold
                  ball_Un)
qed

lemma emit_resource_rows_length [simp]: "length (fst (emit_resource_rows y h g rs)) = length rs"
  by (induction rs arbitrary: y) (simp_all add: Let_def case_prod_unfold)

lemma emit_resource_rows_nth:
  "i < length rs \<Longrightarrow>
   fst (emit_resource_rows y h g rs) ! i = resource_row (''resource-'' @ res_id (rs ! i)) (rs ! i) (y + of_nat i * h) h g"
proof (induction rs arbitrary: y i)
  case Nil
  then show ?case by simp
next
  case (Cons r rs)
  then show ?case
    by (cases i) (simp_all add: Let_def case_prod_unfold algebra_simps)
qed

text \<open>
  Without grouping, the layout has exactly one row per resource, in the order of
  \<open>Object.values(resources)\<close>: row \<open>i\<close> is the resource row of the \<open>i\<close>-th
  resource, of height \<open>rowHeight\<close>, at offset \<open>i * rowHeight\<close>, with no group.
\<close>

theorem virtualRows_none:
  "length (virtualRows res ts os Group_none ex h) = length (obj_values res) \<and>
   (\<forall>i < length (obj_values res).
      virtualRows res ts os Group_none ex h ! i =
        resource_row (''resource-'' @ res_id (obj_values res ! i)) (obj_values res ! i)
                     (of_nat i * h) h None)"
  by (simp add: virtualRows_def Let_def emit_resource_rows_nth)

end
