(* ===== verification/Scheduler.thy ===== *)
theory Scheduler
  imports Prelude
begin

text \<open>
  The Render Scheduler, \<open>engine/render-scheduler.ts\<close> (class \<open>RenderScheduler\<close>). Its
  private fields are the record \<open>scheduler\<close>: the pending frame id (\<open>frameId\<close>),
  the dirty-layer set, the registered callbacks and \<open>isDestroyed\<close>. A callback is
  opaque to the scheduler; it is modelled by a name and whether it throws, and a call
  of it is an effect \<open>Drawn\<close> or, when it throws and the scheduler catches and logs,
  \<open>Draw_failed\<close>. \<open>requestAnimationFrame\<close> and \<open>cancelAnimationFrame\<close> are
  effects too; the browser's queue of live frame requests is modelled by
  \<open>env_apply\<close>, and firing a live frame runs the scheduled callback
  (\<open>fire\<close>). \<open>sched_reachable\<close> is the set of states reachable from a fresh
  scheduler by any interleaving of API calls and frame callbacks.
\<close>

datatype render_layer = Grid | Tasks | Dependencies | Interaction

record render_callback =
  cb_name :: string
  cb_throws :: bool

datatype sched_effect =
    Request_frame nat
  | Cancel_frame nat
  | Drawn render_layer string
  | Draw_failed render_layer string

record scheduler =
  frameId :: "nat option"
  dirtyLayers :: "render_layer list"
  renderers :: "(render_layer, render_callback) obj"
  isDestroyed :: bool
  next_frame :: nat

definition init_scheduler :: scheduler where
  "init_scheduler = \<lparr>frameId = None, dirtyLayers = [], renderers = [], isDestroyed = False,
                     next_frame = 1\<rparr>"

definition layer_order :: "render_layer list" where
  "layer_order = [Grid, Tasks, Dependencies, Interaction]"

definition registerRenderer :: "render_layer \<Rightarrow> render_callback \<Rightarrow> scheduler \<Rightarrow> scheduler" where
  "registerRenderer l cb s = s\<lparr>renderers := obj_set (renderers s) l cb\<rparr>"

definition unregisterRenderer :: "render_layer \<Rightarrow> scheduler \<Rightarrow> scheduler" where
  "unregisterRenderer l s = s\<lparr>renderers := obj_delete (renderers s) l\<rparr>"

definition scheduleRender :: "scheduler \<Rightarrow> scheduler \<times> sched_effect list" where
  "scheduleRender s =
     (if frameId s \<noteq> None \<or> isDestroyed s then (s, [])
      else (s\<lparr>frameId := Some (next_frame s), next_frame := Suc (next_frame s)\<rparr>,
            [Request_frame (next_frame s)]))"

definition markDirty :: "render_layer \<Rightarrow> scheduler \<Rightarrow> scheduler \<times> sched_effect list" where
  "markDirty l s =
     (if isDestroyed s then (s, [])
      else scheduleRender (s\<lparr>dirtyLayers := jsset_add l (dirtyLayers s)\<rparr>))"

definition markDirtyMany :: "render_layer list \<Rightarrow> scheduler \<Rightarrow> scheduler \<times> sched_effect list" where
  "markDirtyMany ls s =
     (if isDestroyed s then (s, [])
      else scheduleRender (s\<lparr>dirtyLayers := fold jsset_add ls (dirtyLayers s)\<rparr>))"

definition markAllDirty :: "scheduler \<Rightarrow> scheduler \<times> sched_effect list" where
  "markAllDirty s =
     (if isDestroyed s then (s, [])
      else scheduleRender (s\<lparr>dirtyLayers := fold jsset_add layer_order (dirtyLayers s)\<rparr>))"

definition cancelScheduledRender :: "scheduler \<Rightarrow> scheduler \<times> sched_effect list" where
  "cancelScheduledRender s =
     (case frameId s of None \<Rightarrow> (s, []) | Some i \<Rightarrow> (s\<lparr>frameId := None\<rparr>, [Cancel_frame i]))"

text \<open>One layer of the render loop: skip it unless dirty and registered; a throwing
  callback is caught (\<open>try ... catch\<close>) and the loop goes on.\<close>

definition render_layer_effect ::
  "render_layer list \<Rightarrow> (render_layer, render_callback) obj \<Rightarrow> render_layer \<Rightarrow> sched_effect list" where
  "render_layer_effect layers rs l =
     (if l \<in> set layers then
        (case obj_get rs l of None \<Rightarrow> []
         | Some cb \<Rightarrow> [if cb_throws cb then Draw_failed l (cb_name cb) else Drawn l (cb_name cb)])
      else [])"

definition render :: "scheduler \<Rightarrow> scheduler \<times> sched_effect list" where
  "render s =
     (if isDestroyed s then (s, [])
      else (let layers = dirtyLayers s
            in (s\<lparr>dirtyLayers := []\<rparr>, concat (map (render_layer_effect layers (renderers s)) layer_order))))"

definition forceRender :: "scheduler \<Rightarrow> scheduler \<times> sched_effect list" where
  "forceRender s =
     (if isDestroyed s then (s, [])
      else (let (s1, e1) = cancelScheduledRender s; (s2, e2) = render s1 in (s2, e1 @ e2)))"

text \<open>The callback handed to \<open>requestAnimationFrame\<close>.\<close>

definition fire :: "scheduler \<Rightarrow> scheduler \<times> sched_effect list" where
  "fire s = render (s\<lparr>frameId := None\<rparr>)"

definition dispose :: "scheduler \<Rightarrow> scheduler \<times> sched_effect list" where
  "dispose s =
     (let (s1, e1) = cancelScheduledRender (s\<lparr>isDestroyed := True\<rparr>)
      in (s1\<lparr>dirtyLayers := [], renderers := []\<rparr>, e1))"

datatype sched_call =
    Register render_layer render_callback
  | Unregister render_layer
  | Mark_dirty render_layer
  | Mark_dirty_many "render_layer list"
  | Mark_all_dirty
  | Force_render
  | Dispose

fun sched_apply :: "scheduler \<Rightarrow> sched_call \<Rightarrow> scheduler \<times> sched_effect list" where
  "sched_apply s (Register l cb) = (registerRenderer l cb s, [])"
| "sched_apply s (Unregister l) = (unregisterRenderer l s, [])"
| "sched_apply s (Mark_dirty l) = markDirty l s"
| "sched_apply s (Mark_dirty_many ls) = markDirtyMany ls s"
| "sched_apply s Mark_all_dirty = markAllDirty s"
| "sched_apply s Force_render = forceRender s"
| "sched_apply s Dispose = dispose s"

text \<open>The browser's list of live frame requests after the scheduler's effects.\<close>

fun env_apply :: "nat list \<Rightarrow> sched_effect list \<Rightarrow> nat list" where
  "env_apply live [] = live"
| "env_apply live (Request_frame i # es) = env_apply (live @ [i]) es"
| "env_apply live (Cancel_frame i # es) = env_apply (removeAll i live) es"
| "env_apply live (_ # es) = env_apply live es"

inductive sched_reachable :: "scheduler \<Rightarrow> nat list \<Rightarrow> bool" where
  start: "sched_reachable init_scheduler []"
| call: "sched_reachable s live \<Longrightarrow> sched_apply s c = (s', es) \<Longrightarrow>
         sched_reachable s' (env_apply live es)"
| frame: "sched_reachable s live \<Longrightarrow> i \<in> set live \<Longrightarrow> fire s = (s', es) \<Longrightarrow>
          sched_reachable s' (env_apply (removeAll i live) es)"

text \<open>The invariant: the browser holds at most one live frame, the one the scheduler
  tracks in \<open>frameId\<close>; a disposed
  scheduler has no frame and no dirty layer.\<close>

definition sched_inv :: "scheduler \<Rightarrow> nat list \<Rightarrow> bool" where
  "sched_inv s live \<longleftrightarrow>
     live = (case frameId s of None \<Rightarrow> [] | Some i \<Rightarrow> [i]) \<and>
     (isDestroyed s \<longrightarrow> frameId s = None \<and> dirtyLayers s = [])"

text \<open>A dirty layer of a live scheduler always has a frame pending to draw it.\<close>

definition dirty_pending :: "scheduler \<Rightarrow> bool" where
  "dirty_pending s \<longleftrightarrow> (dirtyLayers s \<noteq> [] \<longrightarrow> frameId s \<noteq> None)"

fun effect_layer :: "sched_effect \<Rightarrow> render_layer option" where
  "effect_layer (Drawn l n) = Some l"
| "effect_layer (Draw_failed l n) = Some l"
| "effect_layer _ = None"

subsection \<open>Lemmas\<close>

lemma env_apply_append: "env_apply live (es @ fs) = env_apply (env_apply live es) fs"
  by (induction live es rule: env_apply.induct) auto

lemma render_layer_effect_no_frames:
  assumes that: "e \<in> set (render_layer_effect ls rs l)"
  shows "effect_layer e = Some l"
proof (cases "l \<in> set ls")
  case True
  then show ?thesis
    using that by (cases "obj_get rs l") (auto simp: render_layer_effect_def)
next
  case False
  then show ?thesis using that by (simp add: render_layer_effect_def)
qed

lemma in_layer_order [simp]: "l \<in> set layer_order"
  by (cases l) (simp_all add: layer_order_def)

lemma env_apply_draws:
  "(\<forall>e \<in> set es. effect_layer e \<noteq> None) \<Longrightarrow> env_apply live es = live"
  by (induction live es rule: env_apply.induct) auto

lemma render_effects_are_draws:
  "render s = (s', es) \<Longrightarrow> \<forall>e \<in> set es. effect_layer e \<noteq> None"
  by (fastforce simp: render_def Let_def dest: render_layer_effect_no_frames split: if_splits)

lemma render_state:
  "render s = (s', es) \<Longrightarrow>
     frameId s' = frameId s \<and> isDestroyed s' = isDestroyed s \<and>
     (\<not> isDestroyed s \<longrightarrow> dirtyLayers s' = []) \<and> (isDestroyed s \<longrightarrow> s' = s)"
  by (auto simp: render_def Let_def split: if_splits)

lemma scheduleRender_inv:
  assumes "sched_inv s live" and "scheduleRender s = (s', es)"
  shows "sched_inv s' (env_apply live es)"
  using assms
  by (auto simp: sched_inv_def scheduleRender_def split: if_splits option.splits)

lemma dirty_update_inv:
  "sched_inv s live \<Longrightarrow> \<not> isDestroyed s \<Longrightarrow> sched_inv (s\<lparr>dirtyLayers := d\<rparr>) live"
  by (simp add: sched_inv_def)

lemma render_inv:
  assumes "sched_inv s live" and "render s = (s', es)"
  shows "sched_inv s' (env_apply live es)"
proof -
  have "env_apply live es = live"
    using env_apply_draws render_effects_are_draws [OF assms(2)] by blast
  then show ?thesis
    using assms(1) render_state [OF assms(2)] by (auto simp: sched_inv_def)
qed

lemma sched_call_inv:
  assumes "sched_inv s live" and "sched_apply s c = (s', es)"
  shows "sched_inv s' (env_apply live es)"
proof (cases c)
  case (Register l cb)
  with assms show ?thesis by (auto simp: sched_inv_def registerRenderer_def)
next
  case (Unregister l)
  with assms show ?thesis by (auto simp: sched_inv_def unregisterRenderer_def)
next
  case (Mark_dirty l)
  with assms show ?thesis
    by (auto simp: markDirty_def intro: scheduleRender_inv dirty_update_inv split: if_splits)
next
  case (Mark_dirty_many ls)
  with assms show ?thesis
    by (auto simp: markDirtyMany_def intro: scheduleRender_inv dirty_update_inv split: if_splits)
next
  case Mark_all_dirty
  with assms show ?thesis
    by (auto simp: markAllDirty_def intro: scheduleRender_inv dirty_update_inv split: if_splits)
next
  case Force_render
  show ?thesis
  proof (cases "isDestroyed s")
    case True
    with assms Force_render show ?thesis by (simp add: forceRender_def)
  next
    case False
    obtain s1 e1 where c1: "cancelScheduledRender s = (s1, e1)" by fastforce
    obtain s2 e2 where r2: "render s1 = (s2, e2)" by fastforce
    have inv1: "sched_inv s1 (env_apply live e1)"
      using assms(1) c1 by (auto simp: sched_inv_def cancelScheduledRender_def split: option.splits)
    have "sched_inv s2 (env_apply (env_apply live e1) e2)"
      by (rule render_inv [OF inv1 r2])
    with assms(2) Force_render False c1 r2 show ?thesis
      by (auto simp: forceRender_def env_apply_append)
  qed
next
  case Dispose
  with assms show ?thesis
    by (auto simp: dispose_def cancelScheduledRender_def sched_inv_def split: option.splits)
qed

lemma fire_inv:
  assumes "sched_inv s live" and "i \<in> set live" and "fire s = (s', es)"
  shows "sched_inv s' (env_apply (removeAll i live) es)"
proof -
  have "sched_inv (s\<lparr>frameId := None\<rparr>) (removeAll i live)"
    using assms(1,2) by (auto simp: sched_inv_def split: option.splits)
  then show ?thesis
    using render_inv assms(3) by (simp add: fire_def)
qed

lemma scheduleRender_pending [simp]:
  "\<not> isDestroyed s \<Longrightarrow> frameId (fst (scheduleRender s)) \<noteq> None"
  "dirtyLayers (fst (scheduleRender s)) = dirtyLayers s"
  by (simp_all add: scheduleRender_def)

lemma sched_call_pending:
  assumes "sched_inv s live" and "dirty_pending s" and "sched_apply s c = (s', es)"
  shows "dirty_pending s'"
proof -
  have s': "s' = fst (sched_apply s c)" using assms(3) by simp
  show ?thesis
  proof (cases c)
    case Force_render
    with assms show ?thesis
      by (auto simp: forceRender_def cancelScheduledRender_def render_def dirty_pending_def Let_def
               split: option.splits if_splits)
  qed (use assms(2) in \<open>simp_all add: s' dirty_pending_def registerRenderer_def unregisterRenderer_def
         markDirty_def markDirtyMany_def markAllDirty_def dispose_def cancelScheduledRender_def
         case_prod_unfold del: not_None_eq split: option.splits\<close>)
qed

lemma fire_pending:
  assumes "sched_inv s live" and "fire s = (s', es)"
  shows "dirty_pending s'"
  using assms by (auto simp: fire_def render_def sched_inv_def dirty_pending_def Let_def split: if_splits)

text \<open>Both invariants hold in every reachable state.\<close>

lemma sched_reachable_invs:
  assumes "sched_reachable s live"
  shows "sched_inv s live \<and> dirty_pending s"
  using assms
proof (induction rule: sched_reachable.induct)
  case start
  then show ?case by (simp add: sched_inv_def dirty_pending_def init_scheduler_def)
next
  case (call s live c s' es)
  then show ?case using sched_call_inv sched_call_pending by blast
next
  case (frame s live i s' es)
  then show ?case using fire_inv fire_pending by blast
qed

text \<open>
  C9. One render pass (the frame callback, or \<open>forceRender\<close> after cancelling):
  exactly the layers that are dirty and have a registered callback are drawn, one
  effect each, in the fixed order grid, tasks, dependencies, interaction. A callback
  that throws is reported as a failed draw and does not stop the later layers: which
  layers are drawn does not depend on any callback throwing. The dirty set is empty
  afterwards.
\<close>

theorem render_pass:
  assumes "\<not> isDestroyed s" and "render s = (s', es)"
  shows "map effect_layer es =
           map Some (filter (\<lambda>l. l \<in> set (dirtyLayers s) \<and> obj_get (renderers s) l \<noteq> None)
                            layer_order) \<and>
         (\<forall>l cb. obj_get (renderers s) l = Some cb \<and> l \<in> set (dirtyLayers s) \<longrightarrow>
            (if cb_throws cb then Draw_failed l (cb_name cb) else Drawn l (cb_name cb)) \<in> set es) \<and>
         dirtyLayers s' = []"
proof -
  have es: "es = concat (map (render_layer_effect (dirtyLayers s) (renderers s)) layer_order)"
    and d: "dirtyLayers s' = []"
    using assms by (auto simp: render_def Let_def)
  have lay: "map effect_layer (render_layer_effect ls rs l) =
               (if l \<in> set ls \<and> obj_get rs l \<noteq> None then [Some l] else [])" for ls rs l
    by (auto simp: render_layer_effect_def split: option.splits)
  have "map effect_layer es =
          concat (map (\<lambda>l. if l \<in> set (dirtyLayers s) \<and> obj_get (renderers s) l \<noteq> None
                            then [Some l] else []) layer_order)"
    by (simp add: es map_concat comp_def lay)
  also have "\<dots> = map Some (filter (\<lambda>l. l \<in> set (dirtyLayers s) \<and> obj_get (renderers s) l \<noteq> None)
                                 layer_order)"
    by (simp add: layer_order_def)
  finally have order: "map effect_layer es =
      map Some (filter (\<lambda>l. l \<in> set (dirtyLayers s) \<and> obj_get (renderers s) l \<noteq> None) layer_order)" .
  have "(if cb_throws cb then Draw_failed l (cb_name cb) else Drawn l (cb_name cb)) \<in> set es"
    if "obj_get (renderers s) l = Some cb" and "l \<in> set (dirtyLayers s)" for l cb
  proof -
    have "(if cb_throws cb then Draw_failed l (cb_name cb) else Drawn l (cb_name cb)) \<in>
            set (render_layer_effect (dirtyLayers s) (renderers s) l)"
      using that by (simp add: render_layer_effect_def)
    then show ?thesis using in_layer_order [of l] by (auto simp: es)
  qed
  with order d show ?thesis by blast
qed

text \<open>
  C10. In every state reachable by any interleaving of API calls and frame callbacks,
  the browser holds at most one live animation frame, and it is the one the scheduler
  tracks in \<open>frameId\<close> (no leaked or untracked frame); a disposed scheduler has no
  pending frame and no dirty layer.
\<close>

theorem sched_reachable_inv:
  assumes "sched_reachable s live"
  shows "live = (case frameId s of None \<Rightarrow> [] | Some i \<Rightarrow> [i]) \<and>
         (isDestroyed s \<longrightarrow> frameId s = None \<and> dirtyLayers s = [])"
  using sched_reachable_invs [OF assms] by (simp add: sched_inv_def)

text \<open>
  Coalescing: \<open>markDirty\<close> on a live scheduler adds the layer to the dirty set
  and requests an animation frame only when none is pending; while a frame is pending
  it requests nothing, so any number of marks before the frame fires share one redraw.
\<close>

theorem markDirty_coalesces:
  assumes "\<not> isDestroyed s" and "markDirty l s = (s', es)"
  shows "es = (case frameId s of None \<Rightarrow> [Request_frame (next_frame s)] | Some _ \<Rightarrow> []) \<and>
         l \<in> set (dirtyLayers s') \<and> frameId s' \<noteq> None \<and>
         (frameId s \<noteq> None \<longrightarrow> frameId s' = frameId s)"
  using assms
  by (auto simp: markDirty_def scheduleRender_def jsset_simps split: option.splits if_splits)

text \<open>
  \<open>dispose\<close> is idempotent and final: disposing twice gives the state of one
  dispose with no further effect, and on a disposed scheduler \<open>markDirty\<close>,
  \<open>markAllDirty\<close> and \<open>forceRender\<close> change nothing and request or draw nothing.
\<close>

theorem dispose_idempotent_final:
  "dispose (fst (dispose s)) = (fst (dispose s), []) \<and>
   markDirty l (fst (dispose s)) = (fst (dispose s), []) \<and>
   markAllDirty (fst (dispose s)) = (fst (dispose s), []) \<and>
   forceRender (fst (dispose s)) = (fst (dispose s), [])"
  by (simp add: dispose_def cancelScheduledRender_def markDirty_def markAllDirty_def
                forceRender_def split: option.splits)


text \<open>
  C21. Every dirty layer is eventually drawn: in every reachable state, a layer that is
  dirty and has a registered callback has exactly one live animation frame pending,
  and when the browser fires it the layer's callback is called (or its failure
  reported).
\<close>

theorem dirty_layer_drawn:
  assumes "sched_reachable s live" and "l \<in> set (dirtyLayers s)" and "obj_get (renderers s) l = Some cb"
  shows "\<exists>i. live = [i] \<and> frameId s = Some i \<and>
           (if cb_throws cb then Draw_failed l (cb_name cb) else Drawn l (cb_name cb)) \<in> set (snd (fire s))"
proof -
  have inv: "sched_inv s live" and pend: "dirty_pending s"
    using sched_reachable_invs [OF assms(1)] by auto
  have live: "\<not> isDestroyed s" using inv assms(2) by (auto simp: sched_inv_def)
  obtain i where fid: "frameId s = Some i" using pend assms(2) by (auto simp: dirty_pending_def)
  have "(if cb_throws cb then Draw_failed l (cb_name cb) else Drawn l (cb_name cb)) \<in>
          set (render_layer_effect (dirtyLayers s) (renderers s) l)"
    using assms(2,3) by (simp add: render_layer_effect_def)
  then have "(if cb_throws cb then Draw_failed l (cb_name cb) else Drawn l (cb_name cb)) \<in> set (snd (fire s))"
    using live in_layer_order [of l] by (auto simp: fire_def render_def Let_def)
  then show ?thesis using inv fid by (simp add: sched_inv_def)
qed

end
