(* ===== verification/Indexes.thy ===== *)
theory Indexes
  imports RowLayout
begin

text \<open>
  The Spatial Index (\<open>indexes/spatial-index.ts\<close>, \<open>src/unnamed/part_003\<close>) and the
  Relational Index (\<open>indexes/index-manager.ts\<close>, \<open>src/unnamed/part_002\<close>).
  The R-tree of the \<open>rbush\<close> library is not part of the repository: it is modelled by
  its read contract (\<open>rbush_search\<close>: the items whose box meets the query box, borders
  included, as \<open>rbush\<close>'s \<open>intersects\<close> tests), over the list of items the index
  bulk-loads. The JavaScript \<open>-Infinity\<close>/\<open>Infinity\<close> of \<open>queryTimeRange\<close> are the
  constructors of \<open>ext_num\<close>. \<open>Map<K, Set<V>>\<close> indexes are dictionaries of
  insertion-ordered sets (\<open>multimap_add\<close>). The breadth-first walk of
  \<open>getDependencyChain\<close> is a \<open>function\<close> whose termination is proved from the
  finite set of task ids the adjacency maps hold.
\<close>

record task_bounds =
  b_minX :: number
  b_minY :: number
  b_maxX :: number
  b_maxY :: number
  b_taskId :: task_id

datatype ext_num = Minus_infinity | Fin number | Plus_infinity

fun ext_le :: "ext_num \<Rightarrow> ext_num \<Rightarrow> bool" where
  "ext_le Minus_infinity _ = True"
| "ext_le _ Plus_infinity = True"
| "ext_le (Fin a) (Fin b) = (a \<le> b)"
| "ext_le _ _ = False"

record search_box =
  q_minX :: ext_num
  q_minY :: ext_num
  q_maxX :: ext_num
  q_maxY :: ext_num

text \<open>\<open>rbush\<close>'s \<open>intersects(a, b)\<close>: \<open>b.minX <= a.maxX && b.minY <= a.maxY &&
  b.maxX >= a.minX && b.maxY >= a.minY\<close>.\<close>

definition box_intersects :: "search_box \<Rightarrow> task_bounds \<Rightarrow> bool" where
  "box_intersects q b \<longleftrightarrow>
     ext_le (Fin (b_minX b)) (q_maxX q) \<and> ext_le (Fin (b_minY b)) (q_maxY q) \<and>
     ext_le (q_minX q) (Fin (b_maxX b)) \<and> ext_le (q_minY q) (Fin (b_maxY b))"

definition rbush_search :: "task_bounds list \<Rightarrow> search_box \<Rightarrow> task_bounds list" where
  "rbush_search items q = filter (box_intersects q) items"

record spatial_index =
  tree :: "task_bounds list"
  taskBoundsMap :: "(task_id, task_bounds) obj"

subsection \<open>Spatial index\<close>

text \<open>\<open>rowByResource\<close>: a later row of the same resource overwrites an earlier one; a row
  whose \<open>resourceId\<close> is absent or the empty string (falsy in \<open>if (row.resourceId)\<close>)
  is skipped.\<close>

definition rowByResource :: "virtual_row list \<Rightarrow> (resource_id, virtual_row) obj" where
  "rowByResource rows =
     fold (\<lambda>r d. case row_resourceId r of None \<Rightarrow> d
                    | Some rid \<Rightarrow> if rid = [] then d else obj_set d rid r) rows []"

definition task_bounds_of :: "task \<Rightarrow> virtual_row \<Rightarrow> task_bounds" where
  "task_bounds_of t row =
     \<lparr>b_minX = startTime t, b_minY = virtualY row, b_maxX = endTime t,
      b_maxY = virtualY row + row_height row, b_taskId = task_id t\<rparr>"

text \<open>The loop of \<open>rebuild\<close>: a task whose resource has no row is skipped.\<close>

fun bounds_items :: "(resource_id, virtual_row) obj \<Rightarrow> task list \<Rightarrow> task_bounds list" where
  "bounds_items rbr [] = []"
| "bounds_items rbr (t # ts) =
     (case obj_get rbr (resourceId t) of
        None \<Rightarrow> bounds_items rbr ts
      | Some row \<Rightarrow> task_bounds_of t row # bounds_items rbr ts)"

definition rebuild :: "task list \<Rightarrow> virtual_row list \<Rightarrow> spatial_index" where
  "rebuild ts rows =
     (let items = bounds_items (rowByResource rows) ts
      in \<lparr>tree = items, taskBoundsMap = obj_of_list b_taskId items\<rparr>)"

definition queryPoint :: "spatial_index \<Rightarrow> number \<Rightarrow> number \<Rightarrow> task_id list" where
  "queryPoint si ts y =
     map b_taskId (rbush_search (tree si) \<lparr>q_minX = Fin ts, q_minY = Fin y, q_maxX = Fin ts, q_maxY = Fin y\<rparr>)"

definition queryRect :: "spatial_index \<Rightarrow> number \<Rightarrow> number \<Rightarrow> number \<Rightarrow> number \<Rightarrow> task_id list" where
  "queryRect si x0 y0 x1 y1 =
     map b_taskId (rbush_search (tree si) \<lparr>q_minX = Fin x0, q_minY = Fin y0, q_maxX = Fin x1, q_maxY = Fin y1\<rparr>)"

definition queryTimeRange :: "spatial_index \<Rightarrow> number \<Rightarrow> number \<Rightarrow> task_id list" where
  "queryTimeRange si s e =
     map b_taskId (rbush_search (tree si)
       \<lparr>q_minX = Fin s, q_minY = Minus_infinity, q_maxX = Fin e, q_maxY = Plus_infinity\<rparr>)"

definition getTaskBounds :: "spatial_index \<Rightarrow> task_id \<Rightarrow> task_bounds option" where
  "getTaskBounds si tid = obj_get (taskBoundsMap si) tid"

subsection \<open>Index manager\<close>

record index_manager =
  spatialIndex :: spatial_index
  resourceTasksIndex :: "(resource_id, task_id list) obj"
  orderTasksIndex :: "(order_id, task_id list) obj"
  predecessorIndex :: "(task_id, task_id list) obj"
  successorIndex :: "(task_id, task_id list) obj"
  dependencyMap :: "(dependency_id, task_dependency) obj"
  taskDependenciesIndex :: "(task_id, dependency_id list) obj"
  im_virtualRows :: "virtual_row list"
  rowByResourceId :: "(resource_id, virtual_row) obj"

definition add_dependency_to_index :: "index_manager \<Rightarrow> task_dependency \<Rightarrow> index_manager" where
  "add_dependency_to_index im d =
     im\<lparr>dependencyMap := obj_set (dependencyMap im) (dep_id d) d,
        predecessorIndex := multimap_add (predecessorIndex im) (successorId d) (predecessorId d),
        successorIndex := multimap_add (successorIndex im) (predecessorId d) (successorId d),
        taskDependenciesIndex :=
          fold (\<lambda>tid m. multimap_add m tid (dep_id d)) [predecessorId d, successorId d]
               (taskDependenciesIndex im)\<rparr>"

definition buildIndexes ::
  "task list \<Rightarrow> task_dependency list \<Rightarrow> virtual_row list \<Rightarrow> index_manager \<Rightarrow> index_manager" where
  "buildIndexes ts deps rows im =
     (let im1 = im\<lparr>im_virtualRows := rows, rowByResourceId := rowByResource rows,
                   resourceTasksIndex := [], orderTasksIndex := [], predecessorIndex := [],
                   successorIndex := [], dependencyMap := [], taskDependenciesIndex := []\<rparr>;
          im2 = im1\<lparr>resourceTasksIndex := fold (\<lambda>t m. multimap_add m (resourceId t) (task_id t)) ts [],
                    orderTasksIndex := fold (\<lambda>t m. multimap_add m (orderId t) (task_id t)) ts []\<rparr>;
          im3 = fold (\<lambda>d im. add_dependency_to_index im d) deps im2
      in im3\<lparr>spatialIndex := rebuild ts rows\<rparr>)"

definition updateVirtualRows :: "task list \<Rightarrow> virtual_row list \<Rightarrow> index_manager \<Rightarrow> index_manager" where
  "updateVirtualRows ts rows im =
     im\<lparr>im_virtualRows := rows, rowByResourceId := rowByResource rows,
        spatialIndex := rebuild ts rows\<rparr>"

definition getTasksByResource :: "index_manager \<Rightarrow> resource_id \<Rightarrow> task_id list" where
  "getTasksByResource im r = multimap_get (resourceTasksIndex im) r"

definition getRowForResource :: "index_manager \<Rightarrow> resource_id \<Rightarrow> virtual_row option" where
  "getRowForResource im r = obj_get (rowByResourceId im) r"

fun resource_at_y :: "virtual_row list \<Rightarrow> number \<Rightarrow> resource_id option" where
  "resource_at_y [] y = None"
| "resource_at_y (r # rs) y =
     (if \<not> isGroupHeader r \<and> row_resourceId r \<noteq> None \<and> row_resourceId r \<noteq> Some [] \<and>
         y \<ge> virtualY r \<and> y < virtualY r + row_height r
      then row_resourceId r else resource_at_y rs y)"

definition getResourceAtY :: "index_manager \<Rightarrow> number \<Rightarrow> resource_id option" where
  "getResourceAtY im y = resource_at_y (im_virtualRows im) y"

definition getTasksByOrder :: "index_manager \<Rightarrow> order_id \<Rightarrow> task_id list" where
  "getTasksByOrder im oid = multimap_get (orderTasksIndex im) oid"

definition getPredecessors :: "index_manager \<Rightarrow> task_id \<Rightarrow> task_id list" where
  "getPredecessors im t = multimap_get (predecessorIndex im) t"

definition getSuccessors :: "index_manager \<Rightarrow> task_id \<Rightarrow> task_id list" where
  "getSuccessors im t = multimap_get (successorIndex im) t"

definition getTaskDependencies :: "index_manager \<Rightarrow> task_id \<Rightarrow> task_dependency list" where
  "getTaskDependencies im t =
     List.map_filter (obj_get (dependencyMap im)) (multimap_get (taskDependenciesIndex im) t)"

definition getDependency :: "index_manager \<Rightarrow> dependency_id \<Rightarrow> task_dependency option" where
  "getDependency im d = obj_get (dependencyMap im) d"

definition getAllDependencies :: "index_manager \<Rightarrow> task_dependency list" where
  "getAllDependencies im = obj_values (dependencyMap im)"

subsection \<open>Dependency chain\<close>

datatype chain_direction = Dir_predecessors | Dir_successors | Dir_both

definition chain_step :: "index_manager \<Rightarrow> chain_direction \<Rightarrow> task_id \<Rightarrow> task_id list \<Rightarrow> task_id list" where
  "chain_step im dir c vis =
     (if dir = Dir_predecessors \<or> dir = Dir_both then filter (\<lambda>p. p \<notin> set vis) (getPredecessors im c) else []) @
     (if dir = Dir_successors \<or> dir = Dir_both then filter (\<lambda>s. s \<notin> set vis) (getSuccessors im c) else [])"

text \<open>Every task id the adjacency maps can hand out.\<close>

definition adjacency_ids :: "index_manager \<Rightarrow> task_id set" where
  "adjacency_ids im = (\<Union>ids \<in> set (obj_values (predecessorIndex im)). set ids) \<union>
                      (\<Union>ids \<in> set (obj_values (successorIndex im)). set ids)"

function chain_bfs ::
  "index_manager \<Rightarrow> chain_direction \<Rightarrow> task_id list \<Rightarrow> task_id list \<Rightarrow> task_id list" where
  "chain_bfs im dir [] vis = vis"
| "chain_bfs im dir (c # q) vis =
     (if c \<in> set vis then chain_bfs im dir q vis
      else chain_bfs im dir (q @ chain_step im dir c (vis @ [c])) (vis @ [c]))"
  by pat_completeness auto

lemma getPredecessors_adjacency: "set (getPredecessors im c) \<subseteq> adjacency_ids im"
proof (cases "obj_get (predecessorIndex im) c")
  case (Some ids)
  then have "ids \<in> set (obj_values (predecessorIndex im))" by (rule obj_get_in_values)
  with Some show ?thesis by (auto simp: getPredecessors_def multimap_get_def adjacency_ids_def)
qed (simp add: getPredecessors_def multimap_get_def)

lemma getSuccessors_adjacency: "set (getSuccessors im c) \<subseteq> adjacency_ids im"
proof (cases "obj_get (successorIndex im) c")
  case (Some ids)
  then have "ids \<in> set (obj_values (successorIndex im))" by (rule obj_get_in_values)
  with Some show ?thesis by (auto simp: getSuccessors_def multimap_get_def adjacency_ids_def)
qed (simp add: getSuccessors_def multimap_get_def)

lemma chain_step_adjacency: "set (chain_step im dir c vis) \<subseteq> adjacency_ids im"
  using getPredecessors_adjacency [of im c] getSuccessors_adjacency [of im c]
  by (auto simp: chain_step_def)

lemma finite_adjacency_ids [simp]: "finite (adjacency_ids im)"
  by (simp add: adjacency_ids_def)

termination chain_bfs
proof (relation "measures [\<lambda>(im, dir, q, vis). card ((set q \<union> adjacency_ids im) - set vis),
                           \<lambda>(im, dir, q, vis). length q]")
  show "wf (measures [\<lambda>(im, dir, q, vis). card ((set q \<union> adjacency_ids im) - set vis),
                      \<lambda>(im, dir, q, vis). length q])"
    by simp
next
  fix im dir and c :: task_id and q vis :: "task_id list"
  assume "c \<in> set vis"
  then have "(set q \<union> adjacency_ids im) - set vis \<subseteq> (set (c # q) \<union> adjacency_ids im) - set vis"
    by auto
  then have "card ((set q \<union> adjacency_ids im) - set vis) \<le> card ((set (c # q) \<union> adjacency_ids im) - set vis)"
    by (rule card_mono [rotated]) simp
  then show "((im, dir, q, vis), im, dir, c # q, vis) \<in>
      measures [\<lambda>(im, dir, q, vis). card ((set q \<union> adjacency_ids im) - set vis),
                \<lambda>(im, dir, q, vis). length q]"
    by (auto simp: measures_def)
next
  fix im dir and c :: task_id and q vis :: "task_id list"
  assume c: "c \<notin> set vis"
  let ?q' = "q @ chain_step im dir c (vis @ [c])"
  have "(set ?q' \<union> adjacency_ids im) - set (vis @ [c]) \<subset> (set (c # q) \<union> adjacency_ids im) - set vis"
    using chain_step_adjacency [of im dir c "vis @ [c]"] c by auto
  then have "card ((set ?q' \<union> adjacency_ids im) - set (vis @ [c])) <
             card ((set (c # q) \<union> adjacency_ids im) - set vis)"
    by (rule psubset_card_mono [rotated]) simp
  then show "((im, dir, ?q', vis @ [c]), im, dir, c # q, vis) \<in>
      measures [\<lambda>(im, dir, q, vis). card ((set q \<union> adjacency_ids im) - set vis),
                \<lambda>(im, dir, q, vis). length q]"
    by (simp add: measures_def)
qed

definition getDependencyChain :: "index_manager \<Rightarrow> task_id \<Rightarrow> chain_direction \<Rightarrow> task_id list" where
  "getDependencyChain im tid dir = removeAll tid (chain_bfs im dir [tid] [])"

subsection \<open>Virtual rows\<close>

fun find_index_from :: "(virtual_row \<Rightarrow> bool) \<Rightarrow> nat \<Rightarrow> virtual_row list \<Rightarrow> nat option" where
  "find_index_from P i [] = None"
| "find_index_from P i (r # rs) = (if P r then Some i else find_index_from P (Suc i) rs)"

text \<open>The two scans of \<open>getVisibleRows\<close> (\<open>startIndex\<close> keeps 0 and \<open>endIndex\<close> keeps the
  length when their scan finds nothing), then three rows of buffer on each side.\<close>

definition getVisibleRows :: "index_manager \<Rightarrow> number \<Rightarrow> number \<Rightarrow> virtual_row list \<times> nat \<times> nat" where
  "getVisibleRows im sy vh =
     (let rows = im_virtualRows im; n = length rows
      in if n = 0 then ([], 0, 0)
         else (let s0 = (case find_index_from (\<lambda>r. virtualY r + row_height r > sy) 0 rows of
                           None \<Rightarrow> 0 | Some i \<Rightarrow> i);
                   e0 = (case find_index_from (\<lambda>r. virtualY r > sy + vh) s0 (drop s0 rows) of
                           None \<Rightarrow> n | Some i \<Rightarrow> i);
                   s = s0 - 3;
                   e = min n (e0 + 3)
               in (take (e - s) (drop s rows), s, e)))"

definition getTotalHeight :: "index_manager \<Rightarrow> number" where
  "getTotalHeight im =
     (if im_virtualRows im = [] then 0
      else virtualY (last (im_virtualRows im)) + row_height (last (im_virtualRows im)))"

subsection \<open>Abstract specifications\<close>

text \<open>The graph \<open>getDependencyChain\<close> walks: an edge from a task to each task the
  adjacency maps list for it, in the requested direction.\<close>

definition chain_edges :: "index_manager \<Rightarrow> chain_direction \<Rightarrow> (task_id \<times> task_id) set" where
  "chain_edges im dir =
     {(a, b). (dir \<noteq> Dir_successors \<and> b \<in> set (getPredecessors im a)) \<or>
              (dir \<noteq> Dir_predecessors \<and> b \<in> set (getSuccessors im a))}"

text \<open>The dependency graph of a list of dependencies: predecessor to successor.\<close>

definition dep_edges :: "task_dependency list \<Rightarrow> (task_id \<times> task_id) set" where
  "dep_edges deps = {(predecessorId d, successorId d) | d. d \<in> set deps}"

subsection \<open>Spatial index lemmas\<close>

lemma b_taskId_of [simp]: "b_taskId (task_bounds_of t row) = task_id t"
  by (simp add: task_bounds_of_def)

lemma obj_get_rowByResource:
  "obj_get (rowByResource rows) rid =
   (if rid = [] then None
    else case filter (\<lambda>r. row_resourceId r = Some rid) (rev rows) of [] \<Rightarrow> None | r # _ \<Rightarrow> Some r)"
proof -
  have "\<And>d. obj_get (fold (\<lambda>r d. case row_resourceId r of None \<Rightarrow> d
                        | Some rid \<Rightarrow> if rid = [] then d else obj_set d rid r) rows d) rid =
   (if rid = [] then obj_get d rid
    else case filter (\<lambda>r. row_resourceId r = Some rid) (rev rows) of [] \<Rightarrow> obj_get d rid | r # _ \<Rightarrow> Some r)"
    by (induction rows rule: rev_induct) (auto simp: obj_get_set split: option.splits list.splits)
  then show ?thesis by (simp add: rowByResource_def obj_get_empty split: list.splits)
qed

lemma in_bounds_items:
  "x \<in> set (bounds_items rbr ts) \<longleftrightarrow>
   (\<exists>t row. t \<in> set ts \<and> obj_get rbr (resourceId t) = Some row \<and> x = task_bounds_of t row)"
  by (induction ts) (auto split: option.splits)

lemma rebuild_search:
  "b_taskId ` set (rbush_search (tree (rebuild ts rows)) q) =
   {task_id t | t row. t \<in> set ts \<and> obj_get (rowByResource rows) (resourceId t) = Some row \<and>
                      box_intersects q (task_bounds_of t row)}"
  by (auto simp: rbush_search_def rebuild_def Let_def in_bounds_items image_iff) fastforce

subsection \<open>Relational index lemmas\<close>

lemma fold_add_dependency_fields:
  "predecessorIndex (fold (\<lambda>d im. add_dependency_to_index im d) deps im) =
     fold (\<lambda>d m. multimap_add m (successorId d) (predecessorId d)) deps (predecessorIndex im)"
  "successorIndex (fold (\<lambda>d im. add_dependency_to_index im d) deps im) =
     fold (\<lambda>d m. multimap_add m (predecessorId d) (successorId d)) deps (successorIndex im)"
  "dependencyMap (fold (\<lambda>d im. add_dependency_to_index im d) deps im) =
     fold (\<lambda>d m. obj_set m (dep_id d) d) deps (dependencyMap im)"
  "im_virtualRows (fold (\<lambda>d im. add_dependency_to_index im d) deps im) = im_virtualRows im"
  by (induction deps arbitrary: im) (simp_all add: add_dependency_to_index_def)

lemma buildIndexes_predecessors:
  "predecessorIndex (buildIndexes ts deps rows im) =
     fold (\<lambda>d m. multimap_add m (successorId d) (predecessorId d)) deps []"
  "successorIndex (buildIndexes ts deps rows im) =
     fold (\<lambda>d m. multimap_add m (predecessorId d) (successorId d)) deps []"
  "im_virtualRows (buildIndexes ts deps rows im) = rows"
  by (simp_all add: buildIndexes_def Let_def fold_add_dependency_fields)

lemma set_getPredecessors_buildIndexes:
  "set (getPredecessors (buildIndexes ts deps rows im) t) =
     {predecessorId d | d. d \<in> set deps \<and> successorId d = t}"
  by (simp add: getPredecessors_def buildIndexes_predecessors multimap_get_empty
      set_multimap_get_fold [where key = successorId and val = predecessorId, simplified])

lemma set_getSuccessors_buildIndexes:
  "set (getSuccessors (buildIndexes ts deps rows im) t) =
     {successorId d | d. d \<in> set deps \<and> predecessorId d = t}"
  by (simp add: getSuccessors_def buildIndexes_predecessors multimap_get_empty
      set_multimap_get_fold [where key = predecessorId and val = successorId, simplified])

lemma chain_edges_buildIndexes:
  "chain_edges (buildIndexes ts deps rows im) Dir_successors = dep_edges deps"
  "chain_edges (buildIndexes ts deps rows im) Dir_predecessors = (dep_edges deps)\<inverse>"
  "chain_edges (buildIndexes ts deps rows im) Dir_both = dep_edges deps \<union> (dep_edges deps)\<inverse>"
  by (auto simp: chain_edges_def dep_edges_def set_getPredecessors_buildIndexes
                 set_getSuccessors_buildIndexes)

lemma fold_add_dependency_taskDeps:
  "set (multimap_get (taskDependenciesIndex (fold (\<lambda>d im. add_dependency_to_index im d) deps im)) t) =
   set (multimap_get (taskDependenciesIndex im) t) \<union>
   {dep_id d | d. d \<in> set deps \<and> (predecessorId d = t \<or> successorId d = t)}"
  by (induction deps arbitrary: im) (auto simp: add_dependency_to_index_def multimap_get_add set_jsset_add)

lemma obj_get_dependencyMap_buildIndexes:
  "obj_get (dependencyMap (buildIndexes ts deps rows im)) k =
   (case filter (\<lambda>d. dep_id d = k) (rev deps) of [] \<Rightarrow> None | d # _ \<Rightarrow> Some d)"
  by (simp add: buildIndexes_def Let_def fold_add_dependency_fields obj_get_fold_set obj_get_empty
           split: list.splits)

lemma set_taskDeps_buildIndexes:
  "set (multimap_get (taskDependenciesIndex (buildIndexes ts deps rows im)) t) =
   {dep_id d | d. d \<in> set deps \<and> (predecessorId d = t \<or> successorId d = t)}"
  by (simp add: buildIndexes_def Let_def fold_add_dependency_taskDeps multimap_get_empty)

lemma filter_rev_distinct_key:
  "distinct (map key xs) \<Longrightarrow> x \<in> set xs \<Longrightarrow> filter (\<lambda>y. key y = key x) (rev xs) = [x]"
proof (induction xs)
  case Nil then show ?case by simp
next
  case (Cons a xs)
  then show ?case by (auto simp: filter_empty_conv rev_image_eqI)
qed

subsection \<open>Dependency chain lemmas\<close>

lemma set_chain_step: "set (chain_step im dir c vis) = {b. (c, b) \<in> chain_edges im dir} - set vis"
  by (cases dir) (auto simp: chain_step_def chain_edges_def)

lemma closed_reach:
  assumes "\<forall>v\<in>V. \<forall>w. (v, w) \<in> E \<longrightarrow> w \<in> V \<union> Q"
  shows "E\<^sup>* `` V \<subseteq> V \<union> E\<^sup>* `` Q"
proof
  fix x assume "x \<in> E\<^sup>* `` V"
  then obtain v where v: "v \<in> V" "(v, x) \<in> E\<^sup>*" by blast
  from v(2) show "x \<in> V \<union> E\<^sup>* `` Q"
  proof (induction rule: rtrancl_induct)
    case base then show ?case using v(1) by simp
  next
    case (step y z)
    then show ?case using assms by (auto intro: rtrancl_into_rtrancl)
  qed
qed

lemma chain_bfs_closure:
  "\<forall>v\<in>set vis. \<forall>w. (v, w) \<in> chain_edges im dir \<longrightarrow> w \<in> set vis \<union> set q \<Longrightarrow> distinct vis \<Longrightarrow>
   set (chain_bfs im dir q vis) = set vis \<union> (chain_edges im dir)\<^sup>* `` set q \<and>
   distinct (chain_bfs im dir q vis)"
proof (induction im dir q vis rule: chain_bfs.induct)
  case (1 im dir vis)
  then show ?case by simp
next
  case (2 im dir c q vis)
  let ?E = "chain_edges im dir"
  show ?case
  proof (cases "c \<in> set vis")
    case True
    have inv: "\<forall>v\<in>set vis. \<forall>w. (v, w) \<in> ?E \<longrightarrow> w \<in> set vis \<union> set q"
      using "2.prems"(1) True by auto
    have "?E\<^sup>* `` {c} \<subseteq> set vis \<union> ?E\<^sup>* `` set q"
      using closed_reach [OF inv] True by blast
    then show ?thesis
      using "2.IH"(1) [OF True inv "2.prems"(2)] True by auto
  next
    case False
    let ?vis = "vis @ [c]" and ?q = "q @ chain_step im dir c (vis @ [c])"
    have inv: "\<forall>v\<in>set ?vis. \<forall>w. (v, w) \<in> ?E \<longrightarrow> w \<in> set ?vis \<union> set ?q"
      using "2.prems"(1) by (auto simp: set_chain_step)
    have dist: "distinct ?vis" using "2.prems"(2) False by simp
    have IH: "set (chain_bfs im dir ?q ?vis) = set ?vis \<union> ?E\<^sup>* `` set ?q \<and>
              distinct (chain_bfs im dir ?q ?vis)"
      by (rule "2.IH"(2) [OF False inv dist])
    have sub1: "?E\<^sup>* `` set ?q \<subseteq> ?E\<^sup>* `` set (c # q)"
      by (auto simp: set_chain_step intro: converse_rtrancl_into_rtrancl)
    have "?E\<^sup>* `` set ?vis \<subseteq> set ?vis \<union> ?E\<^sup>* `` set ?q"
      by (rule closed_reach [OF inv])
    then have sub2: "?E\<^sup>* `` {c} \<subseteq> set ?vis \<union> ?E\<^sup>* `` set ?q" by auto
    have "?E\<^sup>* `` set q \<subseteq> ?E\<^sup>* `` set ?q" by auto
    then show ?thesis
      using IH sub1 sub2 False by auto
  qed
qed

lemma getDependencyChain_set:
  "set (getDependencyChain im tid dir) = (chain_edges im dir)\<^sup>* `` {tid} - {tid} \<and>
   distinct (getDependencyChain im tid dir)"
  using chain_bfs_closure [of "[]" im dir "[tid]"]
  by (simp add: getDependencyChain_def distinct_removeAll)


subsection \<open>Virtual row lemmas\<close>

lemma find_index_from_None: "find_index_from P i rs = None \<longleftrightarrow> (\<forall>r\<in>set rs. \<not> P r)"
  by (induction P i rs rule: find_index_from.induct) auto

lemma find_index_from_Some:
  "find_index_from P i rs = Some k \<Longrightarrow>
   i \<le> k \<and> k < i + length rs \<and> P (rs ! (k - i)) \<and> (\<forall>m < k - i. \<not> P (rs ! m))"
proof (induction P i rs rule: find_index_from.induct)
  case (1 P i)
  then show ?case by simp
next
  case (2 P i r rs)
  show ?case
  proof (cases "P r")
    case True
    then show ?thesis using "2.prems" by auto
  next
    case False
    with "2.prems" have "find_index_from P (Suc i) rs = Some k" by simp
    from "2.IH" [OF False this] have ih:
      "Suc i \<le> k" "k < Suc i + length rs" "P (rs ! (k - Suc i))" "\<forall>m < k - Suc i. \<not> P (rs ! m)"
      by auto
    have k: "k - i = Suc (k - Suc i)" using ih(1) by simp
    have "\<forall>m < k - i. \<not> P ((r # rs) ! m)"
    proof (intro allI impI)
      fix m assume "m < k - i"
      then show "\<not> P ((r # rs) ! m)" using False ih(4) k by (cases m) auto
    qed
    then show ?thesis using ih k by simp
  qed
qed

lemma getVisibleRows_complete:
  assumes sorted: "sorted (map virtualY (im_virtualRows im))"
    and j: "j < length (im_virtualRows im)"
    and below: "sy < virtualY (im_virtualRows im ! j) + row_height (im_virtualRows im ! j)"
    and above: "virtualY (im_virtualRows im ! j) \<le> sy + vh"
  shows "im_virtualRows im ! j \<in> set (fst (getVisibleRows im sy vh))"
proof -
  define rows where "rows = im_virtualRows im"
  define n where "n = length rows"
  define s0 where "s0 = (case find_index_from (\<lambda>r. virtualY r + row_height r > sy) 0 rows of
                          None \<Rightarrow> 0 | Some i \<Rightarrow> i)"
  define e0 where "e0 = (case find_index_from (\<lambda>r. virtualY r > sy + vh) s0 (drop s0 rows) of
                          None \<Rightarrow> n | Some i \<Rightarrow> i)"
  have ne: "rows \<noteq> []" using j by (auto simp: rows_def)
  have s0: "s0 \<le> j"
  proof (cases "find_index_from (\<lambda>r. virtualY r + row_height r > sy) 0 rows")
    case (Some k)
    from find_index_from_Some [OF this] have "\<forall>m < k. \<not> sy < virtualY (rows ! m) + row_height (rows ! m)"
      by simp
    then have "k \<le> j" using below by (auto simp: rows_def not_less [symmetric])
    then show ?thesis using Some by (simp add: s0_def)
  qed (simp add: s0_def)
  have e0: "j < e0"
  proof (cases "find_index_from (\<lambda>r. virtualY r > sy + vh) s0 (drop s0 rows)")
    case None
    then show ?thesis using j by (simp add: e0_def n_def rows_def)
  next
    case (Some k)
    from find_index_from_Some [OF this] have k: "s0 \<le> k" "k < n" "sy + vh < virtualY (rows ! k)"
      by (auto simp: n_def)
    have "\<not> k \<le> j"
    proof
      assume "k \<le> j"
      then have "virtualY (rows ! k) \<le> virtualY (rows ! j)"
        using sorted j by (simp add: rows_def sorted_iff_nth_mono)
      then show False using k(3) above by (simp add: rows_def)
    qed
    then show ?thesis using Some by (simp add: e0_def)
  qed
  have "getVisibleRows im sy vh = (take (min n (e0 + 3) - (s0 - 3)) (drop (s0 - 3) rows),
                                   s0 - 3, min n (e0 + 3))"
    using ne unfolding getVisibleRows_def Let_def e0_def s0_def n_def rows_def by simp
  moreover have "rows ! j \<in> set (take (min n (e0 + 3) - (s0 - 3)) (drop (s0 - 3) rows))"
  proof -
    let ?i = "j - (s0 - 3)"
    have "?i < length (take (min n (e0 + 3) - (s0 - 3)) (drop (s0 - 3) rows))"
      using s0 e0 j by (simp add: n_def rows_def)
    moreover have "take (min n (e0 + 3) - (s0 - 3)) (drop (s0 - 3) rows) ! ?i = rows ! j"
      using s0 e0 j by (simp add: n_def rows_def)
    ultimately show ?thesis by (metis nth_mem)
  qed
  ultimately show ?thesis by (simp add: rows_def)
qed

subsection \<open>Properties\<close>

text \<open>
  C12. Hit-testing: after \<open>rebuild\<close>, \<open>queryPoint(t, y)\<close> returns exactly the ids of
  the tasks whose resource has a row and whose box (start to end time, row top to row
  bottom, borders included) contains the point; a task without a row is never returned.
\<close>

theorem queryPoint_rebuild:
  "set (queryPoint (rebuild ts rows) x y) =
   {task_id t | t row. t \<in> set ts \<and> obj_get (rowByResource rows) (resourceId t) = Some row \<and>
      startTime t \<le> x \<and> x \<le> endTime t \<and> virtualY row \<le> y \<and> y \<le> virtualY row + row_height row}"
  unfolding queryPoint_def set_map rebuild_search
  by (auto simp: box_intersects_def task_bounds_of_def)

text \<open>
  Horizontal culling: \<open>queryTimeRange(start, end)\<close> returns exactly the ids of the
  indexed tasks whose time span meets \<open>[start, end]\<close>, whatever their row.
\<close>

theorem queryTimeRange_rebuild:
  "set (queryTimeRange (rebuild ts rows) s e) =
   {task_id t | t row. t \<in> set ts \<and> obj_get (rowByResource rows) (resourceId t) = Some row \<and>
      startTime t \<le> e \<and> s \<le> endTime t}"
  unfolding queryTimeRange_def set_map rebuild_search
  by (auto simp: box_intersects_def task_bounds_of_def)


text \<open>
  C13. The adjacency indexes built by \<open>buildIndexes\<close> refine the dependency list:
  \<open>getPredecessors t\<close> lists, without repetition, exactly the predecessors of the
  dependencies whose successor is \<open>t\<close>, and \<open>getSuccessors t\<close> symmetrically.
\<close>

theorem getPredecessors_buildIndexes:
  "set (getPredecessors (buildIndexes ts deps rows im) t) =
     {predecessorId d | d. d \<in> set deps \<and> successorId d = t} \<and>
   distinct (getPredecessors (buildIndexes ts deps rows im) t) \<and>
   set (getSuccessors (buildIndexes ts deps rows im) t) =
     {successorId d | d. d \<in> set deps \<and> predecessorId d = t} \<and>
   distinct (getSuccessors (buildIndexes ts deps rows im) t)"
  by (simp add: set_getPredecessors_buildIndexes set_getSuccessors_buildIndexes)
     (simp add: getPredecessors_def getSuccessors_def buildIndexes_predecessors
      distinct_multimap_get_fold [where key = successorId and val = predecessorId, simplified]
      distinct_multimap_get_fold [where key = predecessorId and val = successorId, simplified]
      multimap_get_empty)


text \<open>
  With distinct dependency ids, \<open>getTaskDependencies t\<close> after \<open>buildIndexes\<close>
  returns exactly the dependencies incident to \<open>t\<close> (as predecessor or successor).
\<close>

theorem getTaskDependencies_buildIndexes:
  assumes "distinct (map dep_id deps)"
  shows "set (getTaskDependencies (buildIndexes ts deps rows im) t) =
         {d \<in> set deps. predecessorId d = t \<or> successorId d = t}"
proof -
  have get: "obj_get (dependencyMap (buildIndexes ts deps rows im)) (dep_id d) = Some d"
    if "d \<in> set deps" for d
    using filter_rev_distinct_key [OF assms that] by (simp add: obj_get_dependencyMap_buildIndexes)
  have from_map: "d \<in> set deps \<and> dep_id d = k"
    if m: "obj_get (dependencyMap (buildIndexes ts deps rows im)) k = Some d" for k d
  proof -
    obtain r where "filter (\<lambda>d. dep_id d = k) (rev deps) = d # r"
      using m by (cases "filter (\<lambda>d. dep_id d = k) (rev deps)")
                    (simp_all add: obj_get_dependencyMap_buildIndexes)
    then have "d \<in> set (filter (\<lambda>d. dep_id d = k) (rev deps))" by simp
    then show ?thesis by simp
  qed
  show ?thesis
    unfolding getTaskDependencies_def set_map_filter set_taskDeps_buildIndexes
    using get from_map by fastforce
qed


text \<open>
  C14. \<open>getDependencyChain\<close> is the transitive closure: on the indexes built from a
  dependency list it returns, without repetition, every task reachable from the origin
  along dependencies in the requested direction (forward for successors, backward for
  predecessors, either way for both), the origin excluded, cycles included; the walk
  always terminates (its termination is proved with the function).
\<close>

theorem getDependencyChain_buildIndexes:
  "let im' = buildIndexes ts deps rows im in
   set (getDependencyChain im' tid Dir_successors) = (dep_edges deps)\<^sup>* `` {tid} - {tid} \<and>
   set (getDependencyChain im' tid Dir_predecessors) = ((dep_edges deps)\<inverse>)\<^sup>* `` {tid} - {tid} \<and>
   set (getDependencyChain im' tid Dir_both) = (dep_edges deps \<union> (dep_edges deps)\<inverse>)\<^sup>* `` {tid} - {tid} \<and>
   distinct (getDependencyChain im' tid dir)"
  by (simp add: getDependencyChain_set chain_edges_buildIndexes)

text \<open>
  The index manager's row queries on a layout: for a non-negative row height,
  \<open>getTotalHeight\<close> is the sum of the row heights of the layout, and every row whose
  extent meets \<open>[scrollY, scrollY + viewportHeight]\<close> is among the rows
  \<open>getVisibleRows\<close> returns.
\<close>

theorem buildIndexes_layout_rows:
  assumes "0 \<le> h"
  shows "let rows = layout_of res tm os g h; im' = buildIndexes ts deps rows im in
         getTotalHeight im' = rows_height rows \<and>
         (\<forall>j < length rows. sy < virtualY (rows ! j) + row_height (rows ! j) \<and>
                            virtualY (rows ! j) \<le> sy + vh \<longrightarrow>
                            rows ! j \<in> set (fst (getVisibleRows im' sy vh)))"
proof -
  let ?rows = "layout_of res tm os g h"
  let ?im = "buildIndexes ts deps ?rows im"
  have rows: "im_virtualRows ?im = ?rows" by (simp add: buildIndexes_predecessors)
  have "getTotalHeight ?im = rows_height ?rows"
    using contiguous_last [OF virtualRows_contiguous_from]
    by (simp add: getTotalHeight_def buildIndexes_predecessors layout_of_def)
  moreover have "sorted (map virtualY (im_virtualRows ?im))"
    using virtualRows_sorted [OF assms] by (simp add: buildIndexes_predecessors layout_of_def)
  ultimately show ?thesis
    using getVisibleRows_complete [of ?im] by (simp add: Let_def rows)
qed

text \<open>
  C15. \<open>getVisibleRows\<close> when the viewport is below every row: the first scan finds no
  row and \<open>startIndex\<close> keeps its initial 0, the second finds no row starting below the
  viewport, so the whole layout is returned instead of the (empty) slice of rows meeting
  the viewport that the index manager's contract describes.
\<close>

theorem getVisibleRows_all_above:
  assumes ne: "im_virtualRows im \<noteq> []"
    and rows: "\<forall>r\<in>set (im_virtualRows im). virtualY r + row_height r \<le> sy \<and> 0 \<le> row_height r"
    and vh: "0 \<le> vh"
  shows "getVisibleRows im sy vh = (im_virtualRows im, 0, length (im_virtualRows im))"
proof -
  have "find_index_from (\<lambda>r. virtualY r + row_height r > sy) 0 (im_virtualRows im) = None"
    using rows by (auto simp: find_index_from_None)
  moreover have "find_index_from (\<lambda>r. virtualY r > sy + vh) 0 (im_virtualRows im) = None"
    using rows vh by (fastforce simp: find_index_from_None)
  ultimately show ?thesis using ne by (simp add: getVisibleRows_def Let_def)
qed

end
