(* ===== verification/Store.thy ===== *)
theory Store
  imports Viewport RowLayout
begin

text \<open>
  The composable store, \<open>store/create-gantt-store.ts\<close> (\<open>createGanttStore\<close>,
  \<open>src/unnamed/part_001\<close>), without its history middleware (theory \<open>History\<close>).
  The state \<open>GanttStoreState\<close> is the record \<open>store_state\<close>. Every action is a function
  of the state; an action that calls \<open>set\<close> more than once, as \<open>commitDrag\<close> does, is
  the list of its \<open>set\<close> steps (\<open>store_steps\<close>), because the history records each
  \<open>set\<close> separately. An action that throws is the error \<open>Inl\<close>.
  \<open>Partial<StoredTask>\<close> is the record \<open>task_update\<close> of optional fields, \<open>None\<close>
  for a key absent from the update.
\<close>

record selection_state =
  sel_taskIds :: "task_id list"
  sel_resourceIds :: "resource_id list"
  lastSelectedTaskId :: "task_id option"

datatype drag_type = Move | Resize_start | Resize_end | Reassign

record dependency_violation =
  violation_dep :: dependency_id
  violation_message :: string

record drag_state =
  dtype :: drag_type
  drag_taskId :: task_id
  originalTask :: task
  previewStartTime :: number
  previewEndTime :: number
  previewResourceId :: resource_id
  collisions :: "task_id list"
  dependencyViolations :: "dependency_violation list"
  startX :: number
  startY :: number
  currentX :: number
  currentY :: number

record store_state =
  tasks :: "(task_id, task) obj"
  resources :: "(resource_id, resource) obj"
  dependencies :: "(dependency_id, task_dependency) obj"
  orders :: "(order_id, order) obj"
  groups :: "(group_id, resource_group) obj"
  viewport :: viewport_state
  selection :: selection_state
  grouping :: grouping_state
  drag :: "drag_state option"
  hoveredTaskId :: "task_id option"
  sidebarWidth :: number
  minResolution :: number
  isLoading :: bool
  store_error :: "string option"

definition DEFAULT_MIN_RESOLUTION :: number where
  "DEFAULT_MIN_RESOLUTION = 30"

text \<open>\<open>createInitialState()\<close>, with \<open>Date.now()\<close> as the parameter \<open>now\<close>.\<close>

definition createInitialState :: "number \<Rightarrow> store_state" where
  "createInitialState now =
     \<lparr>tasks = [], resources = [], dependencies = [], orders = [], groups = [],
      viewport = \<lparr>scrollX = 0, timeOrigin = now - 24 * 60 * 60 * 1000, pixelsPerHour = 10,
                  scrollY = 0, rowHeight = 40, vp_width = 0, vp_height = 0, zoomLevel = Day\<rparr>,
      selection = \<lparr>sel_taskIds = [], sel_resourceIds = [], lastSelectedTaskId = None\<rparr>,
      grouping = \<lparr>mode = Group_none, expandedGroups = []\<rparr>,
      drag = None, hoveredTaskId = None, sidebarWidth = 200,
      minResolution = DEFAULT_MIN_RESOLUTION, isLoading = False, store_error = None\<rparr>"

subsection \<open>Task actions\<close>

record task_update =
  upd_id :: "task_id option"
  upd_startTime :: "number option"
  upd_phases :: "task_phase list option"
  upd_resourceId :: "resource_id option"
  upd_orderId :: "order_id option"
  upd_name :: "string option"
  upd_color :: "string option"
  upd_priority :: "number option"
  upd_status :: "task_status option"
  upd_progress :: "number option"
  upd_constraints :: "constraints option"

definition no_update :: task_update where
  "no_update = \<lparr>upd_id = None, upd_startTime = None, upd_phases = None, upd_resourceId = None,
                upd_orderId = None, upd_name = None, upd_color = None, upd_priority = None,
                upd_status = None, upd_progress = None, upd_constraints = None\<rparr>"

definition opt_upd :: "'a option \<Rightarrow> 'a \<Rightarrow> 'a" where
  "opt_upd u x = (case u of None \<Rightarrow> x | Some v \<Rightarrow> v)"

text \<open>\<open>Object.assign(task, updates)\<close>.\<close>

definition assign_update :: "task_update \<Rightarrow> task \<Rightarrow> task" where
  "assign_update u t =
     t\<lparr>task_id := opt_upd (upd_id u) (task_id t), startTime := opt_upd (upd_startTime u) (startTime t),
       phases := opt_upd (upd_phases u) (phases t), resourceId := opt_upd (upd_resourceId u) (resourceId t),
       orderId := opt_upd (upd_orderId u) (orderId t), task_name := opt_upd (upd_name u) (task_name t),
       task_color := (case upd_color u of None \<Rightarrow> task_color t | Some c \<Rightarrow> Some c),
       priority := opt_upd (upd_priority u) (priority t), status := opt_upd (upd_status u) (status t),
       progress := opt_upd (upd_progress u) (progress t),
       task_constraints := (case upd_constraints u of None \<Rightarrow> task_constraints t | Some c \<Rightarrow> Some c)\<rparr>"

text \<open>The body shared by \<open>updateTask\<close> and \<open>updateTasks\<close>: assign, then recompute the
  cached fields when \<open>startTime\<close> or \<open>phases\<close> was given.\<close>

definition apply_task_update :: "task_update \<Rightarrow> task \<Rightarrow> task" where
  "apply_task_update u t =
     (let t' = assign_update u t
      in if upd_startTime u \<noteq> None \<or> upd_phases u \<noteq> None
         then (let total = calculateTotalDuration (phases t')
               in t'\<lparr>totalDuration := total, endTime := startTime t' + total * 60 * 1000\<rparr>)
         else t')"

definition update_in :: "task_id \<Rightarrow> task_update \<Rightarrow> (task_id, task) obj \<Rightarrow> (task_id, task) obj" where
  "update_in tid u ts = (case obj_get ts tid of None \<Rightarrow> ts | Some t \<Rightarrow> obj_set ts tid (apply_task_update u t))"

definition setTasks :: "stored_task list \<Rightarrow> store_state \<Rightarrow> store_state" where
  "setTasks sts s = s\<lparr>tasks := fold (\<lambda>t d. obj_set d (task_id t) (hydrateTask t)) sts []\<rparr>"

definition addTask :: "stored_task \<Rightarrow> store_state \<Rightarrow> store_state" where
  "addTask st s = s\<lparr>tasks := obj_set (tasks s) (task_id st) (hydrateTask st)\<rparr>"

definition updateTask :: "task_id \<Rightarrow> task_update \<Rightarrow> store_state \<Rightarrow> store_state" where
  "updateTask tid u s = s\<lparr>tasks := update_in tid u (tasks s)\<rparr>"

text \<open>\<open>deleteTask\<close>: the task, then every dependency incident to it, in key order.\<close>

definition drop_if_incident ::
  "task_id \<Rightarrow> dependency_id \<Rightarrow> (dependency_id, task_dependency) obj \<Rightarrow> (dependency_id, task_dependency) obj" where
  "drop_if_incident tid k ds =
     (case obj_get ds k of None \<Rightarrow> ds
      | Some d \<Rightarrow> if predecessorId d = tid \<or> successorId d = tid then obj_delete ds k else ds)"

definition deleteTask :: "task_id \<Rightarrow> store_state \<Rightarrow> store_state" where
  "deleteTask tid s =
     s\<lparr>tasks := obj_delete (tasks s) tid,
       dependencies := fold (drop_if_incident tid) (obj_keys (dependencies s)) (dependencies s)\<rparr>"

definition updateTasks :: "(task_id \<times> task_update) list \<Rightarrow> store_state \<Rightarrow> store_state" where
  "updateTasks us s = s\<lparr>tasks := fold (\<lambda>(tid, u) ts. update_in tid u ts) us (tasks s)\<rparr>"

definition move_task :: "number \<Rightarrow> resource_id option \<Rightarrow> task \<Rightarrow> task" where
  "move_task delta nr t =
     (let st = startTime t + delta
      in t\<lparr>startTime := st, endTime := st + totalDuration t * 60 * 1000,
           resourceId := opt_upd nr (resourceId t)\<rparr>)"

text \<open>\<open>moveTasks\<close>: tasks that are missing or fixed are skipped.\<close>

definition moveTasks :: "task_id list \<Rightarrow> number \<Rightarrow> resource_id option \<Rightarrow> store_state \<Rightarrow> store_state" where
  "moveTasks tids delta nr s =
     s\<lparr>tasks := fold (\<lambda>tid ts. case obj_get ts tid of None \<Rightarrow> ts
                               | Some t \<Rightarrow> if is_fixed t then ts else obj_set ts tid (move_task delta nr t))
                    tids (tasks s)\<rparr>"

subsection \<open>Other data actions\<close>

definition setResources :: "resource list \<Rightarrow> store_state \<Rightarrow> store_state" where
  "setResources rs s = s\<lparr>resources := obj_of_list res_id rs\<rparr>"

definition addResource :: "resource \<Rightarrow> store_state \<Rightarrow> store_state" where
  "addResource r s = s\<lparr>resources := obj_set (resources s) (res_id r) r\<rparr>"

definition deleteResource :: "resource_id \<Rightarrow> store_state \<Rightarrow> store_state" where
  "deleteResource rid s = s\<lparr>resources := obj_delete (resources s) rid\<rparr>"

definition setDependencies :: "task_dependency list \<Rightarrow> store_state \<Rightarrow> store_state" where
  "setDependencies ds s = s\<lparr>dependencies := obj_of_list dep_id ds\<rparr>"

definition addDependency :: "task_dependency \<Rightarrow> store_state \<Rightarrow> store_state" where
  "addDependency d s = s\<lparr>dependencies := obj_set (dependencies s) (dep_id d) d\<rparr>"

definition removeDependency :: "dependency_id \<Rightarrow> store_state \<Rightarrow> store_state" where
  "removeDependency i s = s\<lparr>dependencies := obj_delete (dependencies s) i\<rparr>"

definition setOrders :: "order list \<Rightarrow> store_state \<Rightarrow> store_state" where
  "setOrders os s = s\<lparr>orders := obj_of_list order_id os\<rparr>"

definition setGroups :: "resource_group list \<Rightarrow> store_state \<Rightarrow> store_state" where
  "setGroups gs s = s\<lparr>groups := obj_of_list group_id gs\<rparr>"

record init_data =
  init_tasks :: "stored_task list"
  init_resources :: "resource list"
  init_dependencies :: "task_dependency list option"
  init_orders :: "order list option"
  init_groups :: "resource_group list option"

definition initializeData :: "init_data \<Rightarrow> store_state \<Rightarrow> store_state" where
  "initializeData dt s =
     s\<lparr>tasks := fold (\<lambda>t d. obj_set d (task_id t) (hydrateTask t)) (init_tasks dt) [],
       resources := obj_of_list res_id (init_resources dt),
       dependencies := obj_of_list dep_id (case init_dependencies dt of None \<Rightarrow> [] | Some ds \<Rightarrow> ds),
       orders := obj_of_list order_id (case init_orders dt of None \<Rightarrow> [] | Some os \<Rightarrow> os),
       groups := obj_of_list group_id (case init_groups dt of None \<Rightarrow> [] | Some gs \<Rightarrow> gs),
       isLoading := False, store_error := None\<rparr>"

subsection \<open>Viewport, selection and grouping actions\<close>

text \<open>The viewport actions of the store apply the functions of theory \<open>Viewport\<close>
  (\<open>panViewport\<close>, \<open>zoomViewport\<close>, \<open>setZoomLevel\<close>, \<open>scrollToTime\<close>,
  \<open>scrollToRow\<close>) to the \<open>viewport\<close> field, the grouping actions those of theory
  \<open>RowLayout\<close> to the \<open>grouping\<close> field.\<close>

definition on_viewport :: "(viewport_state \<Rightarrow> viewport_state) \<Rightarrow> store_state \<Rightarrow> store_state" where
  "on_viewport f s = s\<lparr>viewport := f (viewport s)\<rparr>"

definition on_grouping :: "(grouping_state \<Rightarrow> grouping_state) \<Rightarrow> store_state \<Rightarrow> store_state" where
  "on_grouping f s = s\<lparr>grouping := f (grouping s)\<rparr>"

datatype select_mode = Sel_replace | Sel_add | Sel_toggle

definition selectTask :: "task_id \<Rightarrow> select_mode \<Rightarrow> store_state \<Rightarrow> store_state" where
  "selectTask tid m s =
     (let ids = sel_taskIds (selection s);
          ids' = (case m of Sel_replace \<Rightarrow> [tid]
                  | Sel_add \<Rightarrow> jsset_add tid ids
                  | Sel_toggle \<Rightarrow> if tid \<in> set ids then jsset_delete tid ids else jsset_add tid ids)
      in s\<lparr>selection := (selection s)\<lparr>sel_taskIds := ids', lastSelectedTaskId := Some tid\<rparr>\<rparr>)"

text \<open>\<open>selectTasks\<close>: any mode but \<open>replace\<close> adds.\<close>

definition selectTasks :: "task_id list \<Rightarrow> select_mode \<Rightarrow> store_state \<Rightarrow> store_state" where
  "selectTasks tids m s =
     (let sel = selection s;
          ids' = (if m = Sel_replace then jsset_of_list tids else fold jsset_add tids (sel_taskIds sel));
          last' = (if tids \<noteq> [] then Some (last tids) else lastSelectedTaskId sel)
      in s\<lparr>selection := sel\<lparr>sel_taskIds := ids', lastSelectedTaskId := last'\<rparr>\<rparr>)"

definition clearSelection :: "store_state \<Rightarrow> store_state" where
  "clearSelection s =
     s\<lparr>selection := \<lparr>sel_taskIds = [], sel_resourceIds = [], lastSelectedTaskId = None\<rparr>\<rparr>"

definition selectAllTasks :: "store_state \<Rightarrow> store_state" where
  "selectAllTasks s = s\<lparr>selection := (selection s)\<lparr>sel_taskIds := jsset_of_list (obj_keys (tasks s))\<rparr>\<rparr>"

subsection \<open>Drag actions\<close>

text \<open>\<open>startDrag\<close> refuses a missing or fixed task: no drag state is created.\<close>

definition startDrag :: "task_id \<Rightarrow> drag_type \<Rightarrow> number \<Rightarrow> number \<Rightarrow> store_state \<Rightarrow> store_state" where
  "startDrag tid ty x y s =
     (case obj_get (tasks s) tid of
        None \<Rightarrow> s
      | Some t \<Rightarrow>
          if is_fixed t then s
          else s\<lparr>drag := Some \<lparr>dtype = ty, drag_taskId = tid, originalTask = t,
                               previewStartTime = startTime t, previewEndTime = endTime t,
                               previewResourceId = resourceId t, collisions = [],
                               dependencyViolations = [], startX = x, startY = y,
                               currentX = x, currentY = y\<rparr>\<rparr>)"

definition updateDrag :: "number \<Rightarrow> number \<Rightarrow> store_state \<Rightarrow> store_state" where
  "updateDrag cx cy s =
     (case drag s of
        None \<Rightarrow> s
      | Some d \<Rightarrow>
          (let deltaX = cx - startX d;
               hoursPerPixel = 1 / pixelsPerHour (viewport s);
               deltaTimeMs = deltaX * hoursPerPixel * 60 * 60 * 1000;
               minDurationMs = minResolution s * 60 * 1000;
               ot = originalTask d;
               d1 = d\<lparr>currentX := cx, currentY := cy\<rparr>;
               d2 = (case dtype d of
                       Move \<Rightarrow> d1\<lparr>previewStartTime := startTime ot + deltaTimeMs,
                                  previewEndTime := endTime ot + deltaTimeMs\<rparr>
                     | Reassign \<Rightarrow> d1\<lparr>previewStartTime := startTime ot + deltaTimeMs,
                                      previewEndTime := endTime ot + deltaTimeMs\<rparr>
                     | Resize_start \<Rightarrow>
                         d1\<lparr>previewStartTime := min (startTime ot + deltaTimeMs) (endTime ot - minDurationMs)\<rparr>
                     | Resize_end \<Rightarrow>
                         d1\<lparr>previewEndTime := max (endTime ot + deltaTimeMs) (startTime ot + minDurationMs)\<rparr>)
           in s\<lparr>drag := Some d2\<rparr>))"

definition cancelDrag :: "store_state \<Rightarrow> store_state" where
  "cancelDrag s = s\<lparr>drag := None\<rparr>"

text \<open>Failures of \<open>commitDrag\<close>: a resize whose task has left the store reads
  \<open>originalTask._totalDuration\<close> of \<open>undefined\<close> and throws; a resize of a task of
  total duration 0 divides by 0 and writes \<open>NaN\<close> durations.\<close>

datatype store_err = Missing_task task_id | NaN_durations task_id

text \<open>The resize commit's \<open>originalTask.phases.map(...)\<close>: every phase scaled by the
  same factor and rounded.\<close>

definition scale_phases :: "number \<Rightarrow> task_phase list \<Rightarrow> task_phase list" where
  "scale_phases sf ps = map (\<lambda>p. p\<lparr>duration := js_round (duration p * sf)\<rparr>) ps"

text \<open>\<open>commitDrag\<close> as its sequence of \<open>set\<close> steps: the \<open>updateTask\<close> call, then
  \<open>set(s => { s.drag = null })\<close>. The arguments of \<open>updateTask\<close> are computed from
  the state read by \<open>get()\<close> at the start.\<close>

definition commitDrag_steps :: "store_state \<Rightarrow> store_err + (store_state \<Rightarrow> store_state) list" where
  "commitDrag_steps s =
     (case drag s of
        None \<Rightarrow> Inr []
      | Some d \<Rightarrow>
          if dependencyViolations d \<noteq> [] then Inr [cancelDrag]
          else
            (let tid = drag_taskId d;
                 snapInterval = getSnapIntervalMs (zoomLevel (viewport s)) (minResolution s);
                 snappedStart = snap_ms snapInterval (previewStartTime d);
                 snappedEnd = snap_ms snapInterval (previewEndTime d)
             in if dtype d = Move \<or> dtype d = Reassign then
                  Inr [updateTask tid (no_update\<lparr>upd_startTime := Some snappedStart,
                                                 upd_resourceId := Some (previewResourceId d)\<rparr>),
                       cancelDrag]
                else
                  (case obj_get (tasks s) tid of
                     None \<Rightarrow> Inl (Missing_task tid)
                   | Some ot \<Rightarrow>
                       if totalDuration ot = 0 then Inl (NaN_durations tid)
                       else
                         (let newDurationMinutes = (snappedEnd - snappedStart) / (60 * 1000);
                              scaleFactor = newDurationMinutes / totalDuration ot;
                              newPhases = scale_phases scaleFactor (phases ot)
                          in Inr [updateTask tid (no_update\<lparr>upd_startTime := Some snappedStart,
                                                            upd_phases := Some newPhases\<rparr>),
                                  cancelDrag]))))"

subsection \<open>Remaining actions\<close>

definition setHoveredTask :: "task_id option \<Rightarrow> store_state \<Rightarrow> store_state" where
  "setHoveredTask t s = s\<lparr>hoveredTaskId := t\<rparr>"

definition setSidebarWidth :: "number \<Rightarrow> store_state \<Rightarrow> store_state" where
  "setSidebarWidth w s = s\<lparr>sidebarWidth := max 100 (min 400 w)\<rparr>"

definition setLoading :: "bool \<Rightarrow> store_state \<Rightarrow> store_state" where
  "setLoading b s = s\<lparr>isLoading := b\<rparr>"

definition setError :: "string option \<Rightarrow> store_state \<Rightarrow> store_state" where
  "setError e s = s\<lparr>store_error := e\<rparr>"

text \<open>\<open>reset\<close> sets a fresh initial state, built at time \<open>now\<close>.\<close>

definition reset :: "number \<Rightarrow> store_state \<Rightarrow> store_state" where
  "reset now s = createInitialState now"

subsection \<open>The action interface\<close>

datatype store_action =
    Set_tasks "stored_task list" | Add_task stored_task | Update_task task_id task_update
  | Delete_task task_id | Update_tasks "(task_id \<times> task_update) list"
  | Move_tasks "task_id list" number "resource_id option"
  | Set_resources "resource list" | Add_resource resource | Delete_resource resource_id
  | Set_dependencies "task_dependency list" | Add_dependency task_dependency
  | Remove_dependency dependency_id | Set_orders "order list" | Set_groups "resource_group list"
  | Initialize_data init_data
  | Pan_viewport number number | Zoom_viewport number number | Set_zoom_level zoom_level
  | Scroll_to_time number | Scroll_to_row number
  | Select_task task_id select_mode | Select_tasks "task_id list" select_mode
  | Clear_selection | Select_all_tasks
  | Set_grouping_mode grouping_mode | Toggle_group string | Expand_all_groups | Collapse_all_groups
  | Start_drag task_id drag_type number number | Update_drag number number
  | Commit_drag | Cancel_drag
  | Set_hovered_task "task_id option" | Set_sidebar_width number | Set_loading bool
  | Set_error "string option" | Reset number

text \<open>Each action as the list of its \<open>set\<close> steps.\<close>

fun store_steps :: "store_action \<Rightarrow> store_state \<Rightarrow> store_err + (store_state \<Rightarrow> store_state) list" where
  "store_steps (Set_tasks ts) s = Inr [setTasks ts]"
| "store_steps (Add_task t) s = Inr [addTask t]"
| "store_steps (Update_task tid u) s = Inr [updateTask tid u]"
| "store_steps (Delete_task tid) s = Inr [deleteTask tid]"
| "store_steps (Update_tasks us) s = Inr [updateTasks us]"
| "store_steps (Move_tasks tids dt nr) s = Inr [moveTasks tids dt nr]"
| "store_steps (Set_resources rs) s = Inr [setResources rs]"
| "store_steps (Add_resource r) s = Inr [addResource r]"
| "store_steps (Delete_resource r) s = Inr [deleteResource r]"
| "store_steps (Set_dependencies ds) s = Inr [setDependencies ds]"
| "store_steps (Add_dependency d) s = Inr [addDependency d]"
| "store_steps (Remove_dependency d) s = Inr [removeDependency d]"
| "store_steps (Set_orders os) s = Inr [setOrders os]"
| "store_steps (Set_groups gs) s = Inr [setGroups gs]"
| "store_steps (Initialize_data dt) s = Inr [initializeData dt]"
| "store_steps (Pan_viewport dx dy) s = Inr [on_viewport (panViewport dx dy)]"
| "store_steps (Zoom_viewport f cx) s = Inr [on_viewport (zoomViewport f cx)]"
| "store_steps (Set_zoom_level l) s = Inr [on_viewport (setZoomLevel l)]"
| "store_steps (Scroll_to_time t) s = Inr [on_viewport (scrollToTime t)]"
| "store_steps (Scroll_to_row i) s = Inr [on_viewport (scrollToRow i)]"
| "store_steps (Select_task tid m) s = Inr [selectTask tid m]"
| "store_steps (Select_tasks tids m) s = Inr [selectTasks tids m]"
| "store_steps Clear_selection s = Inr [clearSelection]"
| "store_steps Select_all_tasks s = Inr [selectAllTasks]"
| "store_steps (Set_grouping_mode m) s = Inr [on_grouping (setGroupingMode m)]"
| "store_steps (Toggle_group g) s = Inr [on_grouping (toggleGroup g)]"
| "store_steps Expand_all_groups s = Inr [on_grouping (expandAllGroups (groups s))]"
| "store_steps Collapse_all_groups s = Inr [on_grouping collapseAllGroups]"
| "store_steps (Start_drag tid ty x y) s = Inr [startDrag tid ty x y]"
| "store_steps (Update_drag x y) s = Inr [updateDrag x y]"
| "store_steps Commit_drag s = commitDrag_steps s"
| "store_steps Cancel_drag s = Inr [cancelDrag]"
| "store_steps (Set_hovered_task t) s = Inr [setHoveredTask t]"
| "store_steps (Set_sidebar_width w) s = Inr [setSidebarWidth w]"
| "store_steps (Set_loading b) s = Inr [setLoading b]"
| "store_steps (Set_error e) s = Inr [setError e]"
| "store_steps (Reset now) s = Inr [reset now]"

text \<open>The store without history: run the steps of an action one after the other.\<close>

definition store_apply :: "store_action \<Rightarrow> store_state \<Rightarrow> store_err + store_state" where
  "store_apply a s = (case store_steps a s of Inl e \<Rightarrow> Inl e | Inr fs \<Rightarrow> Inr (fold (\<lambda>f s. f s) fs s))"

text \<open>A sequence of actions, stopping at the first that throws.\<close>

fun store_run :: "store_action list \<Rightarrow> store_state \<Rightarrow> store_err + store_state" where
  "store_run [] s = Inr s"
| "store_run (a # as) s = (case store_apply a s of Inl e \<Rightarrow> Inl e | Inr s' \<Rightarrow> store_run as s')"

subsection \<open>Invariant\<close>

text \<open>The store invariant: the dictionaries have distinct keys and every task's cached
  \<open>_totalDuration\<close> and \<open>_endTime\<close> agree with its phases (theory \<open>Task\<close>).\<close>

definition tasks_consistent :: "(task_id, task) obj \<Rightarrow> bool" where
  "tasks_consistent ts \<longleftrightarrow> (\<forall>t \<in> set (obj_values ts). task_consistent t)"

definition store_inv :: "store_state \<Rightarrow> bool" where
  "store_inv s \<longleftrightarrow> obj_wf (tasks s) \<and> obj_wf (dependencies s) \<and> tasks_consistent (tasks s)"

definition inv_preserving :: "(store_state \<Rightarrow> store_state) \<Rightarrow> bool" where
  "inv_preserving f \<longleftrightarrow> (\<forall>s. store_inv s \<longrightarrow> store_inv (f s))"

subsection \<open>Lemmas\<close>

lemma opt_upd_simps [simp]: "opt_upd None x = x" "opt_upd (Some v) x = v"
  by (simp_all add: opt_upd_def)

lemma tasks_consistent_set:
  "tasks_consistent ts \<Longrightarrow> task_consistent t \<Longrightarrow> tasks_consistent (obj_set ts k t)"
  using obj_values_set_sub [of ts k t] by (auto simp: tasks_consistent_def)

lemma tasks_consistent_get:
  "tasks_consistent ts \<Longrightarrow> obj_get ts k = Some t \<Longrightarrow> task_consistent t"
  by (auto simp: tasks_consistent_def dest: obj_get_in_values)

lemma apply_task_update_consistent:
  "task_consistent t \<Longrightarrow> task_consistent (apply_task_update u t)"
  by (auto simp: apply_task_update_def assign_update_def task_consistent_def Let_def)

lemma move_task_consistent:
  "task_consistent t \<Longrightarrow> task_consistent (move_task delta nr t)"
  by (simp add: move_task_def task_consistent_def Let_def)

lemma update_in_inv:
  "obj_wf ts \<Longrightarrow> tasks_consistent ts \<Longrightarrow> obj_wf (update_in tid u ts) \<and> tasks_consistent (update_in tid u ts)"
  by (auto simp: update_in_def obj_wf_set tasks_consistent_set apply_task_update_consistent
                 tasks_consistent_get split: option.splits)

lemma fold_update_in_inv:
  "obj_wf ts \<Longrightarrow> tasks_consistent ts \<Longrightarrow>
   obj_wf (fold (\<lambda>(tid, u) ts. update_in tid u ts) us ts) \<and>
   tasks_consistent (fold (\<lambda>(tid, u) ts. update_in tid u ts) us ts)"
  by (induction us arbitrary: ts) (auto dest: update_in_inv)

lemma fold_move_inv:
  "obj_wf ts \<Longrightarrow> tasks_consistent ts \<Longrightarrow>
   obj_wf (fold (\<lambda>tid ts. case obj_get ts tid of None \<Rightarrow> ts
                | Some t \<Rightarrow> if is_fixed t then ts else obj_set ts tid (move_task delta nr t)) tids ts) \<and>
   tasks_consistent (fold (\<lambda>tid ts. case obj_get ts tid of None \<Rightarrow> ts
                | Some t \<Rightarrow> if is_fixed t then ts else obj_set ts tid (move_task delta nr t)) tids ts)"
proof (induction tids arbitrary: ts)
  case Nil then show ?case by simp
next
  case (Cons tid tids)
  show ?case
  proof (cases "obj_get ts tid")
    case None with Cons show ?thesis by simp
  next
    case (Some t)
    have "task_consistent (move_task delta nr t)"
      using Cons.prems(2) Some by (blast intro: move_task_consistent tasks_consistent_get)
    with Cons Some show ?thesis by (simp add: obj_wf_set tasks_consistent_set)
  qed
qed

lemma hydrated_fold_inv:
  "obj_wf (fold (\<lambda>t d. obj_set d (task_id t) (hydrateTask t)) sts []) \<and>
   tasks_consistent (fold (\<lambda>t d. obj_set d (task_id t) (hydrateTask t)) sts [])"
proof -
  have "set (obj_values (fold (\<lambda>t d. obj_set d (task_id t) (hydrateTask t)) sts [])) \<subseteq> hydrateTask ` set sts"
    using fold_obj_set_values [of task_id hydrateTask sts "[]"] by (simp add: obj_values_def)
  then show ?thesis
    using fold_obj_set_wf [of "[]" task_id hydrateTask sts]
    by (auto simp: tasks_consistent_def obj_wf_empty hydrateTask_consistent)
qed

lemma fold_delete_deps_wf: "obj_wf ds0 \<Longrightarrow> obj_wf (fold (drop_if_incident tid) ks ds0)"
  by (induction ks arbitrary: ds0) (auto simp: drop_if_incident_def obj_wf_delete split: option.split)

lemma inv_preserving_tasks:
  "(\<And>ts. obj_wf ts \<Longrightarrow> tasks_consistent ts \<Longrightarrow> obj_wf (g ts) \<and> tasks_consistent (g ts)) \<Longrightarrow>
   inv_preserving (\<lambda>s. s\<lparr>tasks := g (tasks s)\<rparr>)"
  by (simp add: inv_preserving_def store_inv_def)

lemma inv_preserving_other:
  "(\<And>s. tasks (f s) = tasks s \<and> dependencies (f s) = dependencies s) \<Longrightarrow> inv_preserving f"
  by (simp add: inv_preserving_def store_inv_def)

lemma inv_preserving_actions:
  "inv_preserving (setTasks sts)" "inv_preserving (addTask st)" "inv_preserving (updateTask tid u)"
  "inv_preserving (deleteTask tid)" "inv_preserving (updateTasks us)"
  "inv_preserving (moveTasks tids dt nr)" "inv_preserving (initializeData dt0)"
  "inv_preserving (setDependencies ds)" "inv_preserving (addDependency d)"
  "inv_preserving (removeDependency di)" "inv_preserving (reset now)"
  "inv_preserving cancelDrag"
proof -
  show "inv_preserving (setTasks sts)"
    using hydrated_fold_inv by (simp add: setTasks_def inv_preserving_def store_inv_def)
  show "inv_preserving (addTask st)"
    by (auto simp: addTask_def inv_preserving_def store_inv_def obj_wf_set
             intro: tasks_consistent_set hydrateTask_consistent)
  show "inv_preserving (updateTask tid u)"
    unfolding updateTask_def by (rule inv_preserving_tasks) (rule update_in_inv)
  show "inv_preserving (deleteTask tid)"
    by (auto simp: deleteTask_def inv_preserving_def store_inv_def obj_wf_delete tasks_consistent_def
             intro: fold_delete_deps_wf dest: subsetD [OF obj_values_delete_sub])
  show "inv_preserving (updateTasks us)"
    unfolding updateTasks_def by (rule inv_preserving_tasks) (rule fold_update_in_inv)
  show "inv_preserving (moveTasks tids dt nr)"
    unfolding moveTasks_def by (rule inv_preserving_tasks) (rule fold_move_inv)
  show "inv_preserving (initializeData dt0)"
    using hydrated_fold_inv by (simp add: initializeData_def inv_preserving_def store_inv_def obj_wf_of_list)
  show "inv_preserving (setDependencies ds)"
    by (simp add: setDependencies_def inv_preserving_def store_inv_def obj_wf_of_list)
  show "inv_preserving (addDependency d)"
    by (simp add: addDependency_def inv_preserving_def store_inv_def obj_wf_set)
  show "inv_preserving (removeDependency di)"
    by (simp add: removeDependency_def inv_preserving_def store_inv_def obj_wf_delete)
  show "inv_preserving (reset now)"
    by (simp add: reset_def inv_preserving_def store_inv_def createInitialState_def obj_wf_empty
                  tasks_consistent_def obj_values_def)
  show "inv_preserving cancelDrag"
    by (rule inv_preserving_other) (simp add: cancelDrag_def)
qed

lemma commitDrag_steps_preserving:
  "commitDrag_steps s = Inr fs \<Longrightarrow> \<forall>f \<in> set fs. inv_preserving f"
  by (auto simp: commitDrag_steps_def Let_def inv_preserving_actions
           split: option.splits if_splits)

lemma inv_preserving_others:
  "inv_preserving (setResources rs)" "inv_preserving (addResource r)"
  "inv_preserving (deleteResource ri)" "inv_preserving (setOrders os)"
  "inv_preserving (setGroups gs)" "inv_preserving (on_viewport fv)"
  "inv_preserving (on_grouping fg)" "inv_preserving (selectTask tid m)"
  "inv_preserving (selectTasks tids m)" "inv_preserving clearSelection"
  "inv_preserving selectAllTasks" "inv_preserving (startDrag tid ty x y)"
  "inv_preserving (updateDrag x y)" "inv_preserving (setHoveredTask ht)"
  "inv_preserving (setSidebarWidth w)" "inv_preserving (setLoading b)"
  "inv_preserving (setError e)"
  by (rule inv_preserving_other,
      simp add: setResources_def addResource_def deleteResource_def setOrders_def setGroups_def
                on_viewport_def on_grouping_def selectTask_def selectTasks_def clearSelection_def
                selectAllTasks_def startDrag_def updateDrag_def setHoveredTask_def
                setSidebarWidth_def setLoading_def setError_def Let_def
           split: option.split)+

lemma store_steps_preserving:
  "store_steps a s = Inr fs \<Longrightarrow> \<forall>f \<in> set fs. inv_preserving f"
  by (cases a) (auto simp: inv_preserving_actions inv_preserving_others commitDrag_steps_preserving)

lemma fold_preserving:
  "\<forall>f \<in> set fs. inv_preserving f \<Longrightarrow> store_inv s \<Longrightarrow> store_inv (fold (\<lambda>f s. f s) fs s)"
  by (induction fs arbitrary: s) (auto simp: inv_preserving_def)

subsection \<open>Properties\<close>

lemma apply_update_start_resource:
  "task_consistent t \<Longrightarrow>
   apply_task_update (no_update\<lparr>upd_startTime := Some st, upd_resourceId := Some r\<rparr>) t =
   t\<lparr>startTime := st, resourceId := r, endTime := st + totalDuration t * 60 * 1000\<rparr>"
  by (simp add: apply_task_update_def assign_update_def no_update_def task_consistent_def Let_def)

lemma apply_update_start_phases:
  "apply_task_update (no_update\<lparr>upd_startTime := Some st, upd_phases := Some ps\<rparr>) t =
   t\<lparr>startTime := st, phases := ps, totalDuration := calculateTotalDuration ps,
     endTime := st + calculateTotalDuration ps * 60 * 1000\<rparr>"
  by (simp add: apply_task_update_def assign_update_def no_update_def Let_def)

text \<open>
  C17. Committing a move (or reassign) drag without dependency violations sets the task's startTime to the preview start snapped to the effective interval, its resource to the preview resource and its end time to the snapped start plus the unchanged duration, leaves the phases, and clears the drag.
\<close>

theorem commitDrag_move:
  assumes "drag s = Some d" "dependencyViolations d = []" "dtype d = Move \<or> dtype d = Reassign"
    and "obj_get (tasks s) (drag_taskId d) = Some t" "task_consistent t"
  shows "store_apply Commit_drag s =
         Inr (s\<lparr>tasks := obj_set (tasks s) (drag_taskId d)
                  (t\<lparr>startTime := snap_ms (getSnapIntervalMs (zoomLevel (viewport s)) (minResolution s))
                                         (previewStartTime d),
                     resourceId := previewResourceId d,
                     endTime := snap_ms (getSnapIntervalMs (zoomLevel (viewport s)) (minResolution s))
                                        (previewStartTime d) + totalDuration t * 60 * 1000\<rparr>),
                drag := None\<rparr>)"
  using assms
  by (auto simp: store_apply_def commitDrag_steps_def Let_def updateTask_def update_in_def
                 cancelDrag_def apply_update_start_resource)

text \<open>
  C18. Committing a resize drag of a task of non-zero duration snaps both preview edges, scales every phase by the ratio of the snapped duration to the old total (rounded per phase), recomputes the cached fields and clears the drag; the snapped duration is a whole number of snap intervals.
\<close>

theorem commitDrag_resize:
  assumes "drag s = Some d" "dependencyViolations d = []" "dtype d = Resize_start \<or> dtype d = Resize_end"
    and "obj_get (tasks s) (drag_taskId d) = Some t" "totalDuration t \<noteq> 0"
  shows "let i = getSnapIntervalMs (zoomLevel (viewport s)) (minResolution s);
             a = snap_ms i (previewStartTime d); b = snap_ms i (previewEndTime d);
             ps = scale_phases ((b - a) / (60 * 1000) / totalDuration t) (phases t)
         in store_apply Commit_drag s =
              Inr (s\<lparr>tasks := obj_set (tasks s) (drag_taskId d)
                       (t\<lparr>startTime := a, phases := ps, totalDuration := calculateTotalDuration ps,
                          endTime := a + calculateTotalDuration ps * 60 * 1000\<rparr>),
                     drag := None\<rparr>) \<and>
            (\<exists>k::int. b - a = of_int k * i)"
proof -
  let ?i = "getSnapIntervalMs (zoomLevel (viewport s)) (minResolution s)"
  obtain ka kb :: int where "snap_ms ?i (previewStartTime d) = of_int ka * ?i"
      "snap_ms ?i (previewEndTime d) = of_int kb * ?i"
    using snap_ms_multiple by metis
  then have "\<exists>k::int. snap_ms ?i (previewEndTime d) - snap_ms ?i (previewStartTime d) = of_int k * ?i"
    by (intro exI [of _ "kb - ka"]) (simp add: algebra_simps)
  moreover have "dtype d \<noteq> Move \<and> dtype d \<noteq> Reassign" using assms(3) by auto
  ultimately show ?thesis
    using assms
    by (simp add: store_apply_def commitDrag_steps_def Let_def updateTask_def update_in_def
                  cancelDrag_def apply_update_start_phases)
qed

text \<open>
  C19. Commit-blocked: a drag that recorded a dependency violation is discarded at release with no mutation of the data.
\<close>

theorem commitDrag_blocked:
  assumes "drag s = Some d" "dependencyViolations d \<noteq> []"
  shows "store_apply Commit_drag s = Inr (s\<lparr>drag := None\<rparr>)"
  using assms by (simp add: store_apply_def commitDrag_steps_def cancelDrag_def)

text \<open>
  C20. Invalid drag: a whole drag gesture (start, move, release) on a task whose constraints fix its time creates no drag state and changes nothing.
\<close>

theorem drag_fixed_task_refused:
  assumes "drag s = None" "obj_get (tasks s) tid = Some t" "is_fixed t"
  shows "store_run [Start_drag tid ty x y, Update_drag x' y', Commit_drag] s = Inr s"
  using assms
  by (simp add: store_apply_def startDrag_def updateDrag_def commitDrag_steps_def)

lemma snap_ms_fixed_iff:
  "0 < i \<Longrightarrow> snap_ms i ts = ts \<longleftrightarrow> (\<exists>k::int. ts = of_int k * i)"
  using snap_ms_multiple [of i ts] snap_ms_of_multiple [of i] by metis

text \<open>
  Zero-movement commit of a move drag: the phases and the resource are unchanged, the drag is cleared, and the start time is unchanged exactly when it already lies on the snap grid; an unaligned task is moved to the nearest grid line.
\<close>

theorem commitDrag_zero_move:
  assumes "drag s = None" "obj_get (tasks s) tid = Some t" "\<not> is_fixed t" "task_consistent t"
  shows "\<exists>s' t'. store_run [Start_drag tid Move x y, Update_drag x y', Commit_drag] s = Inr s' \<and>
           obj_get (tasks s') tid = Some t' \<and> phases t' = phases t \<and> resourceId t' = resourceId t \<and>
           drag s' = None \<and>
           (startTime t' = startTime t \<longleftrightarrow>
              (\<exists>k::int. startTime t = of_int k * getSnapIntervalMs (zoomLevel (viewport s)) (minResolution s)))"
proof -
  let ?i = "getSnapIntervalMs (zoomLevel (viewport s)) (minResolution s)"
  let ?d = "\<lparr>dtype = Move, drag_taskId = tid, originalTask = t,
             previewStartTime = startTime t, previewEndTime = endTime t,
             previewResourceId = resourceId t, collisions = [],
             dependencyViolations = [], startX = x, startY = y,
             currentX = x, currentY = y'\<rparr>"
  let ?s1 = "s\<lparr>drag := Some ?d\<rparr>"
  have run1: "store_run [Start_drag tid Move x y, Update_drag x y'] s = Inr ?s1"
    using assms by (simp add: store_apply_def startDrag_def updateDrag_def Let_def)
  have get1: "obj_get (tasks ?s1) tid = Some t" using assms by simp
  have commit: "store_apply Commit_drag ?s1 =
         Inr (?s1\<lparr>tasks := obj_set (tasks ?s1) tid
                  (t\<lparr>startTime := snap_ms ?i (startTime t), resourceId := resourceId t,
                     endTime := snap_ms ?i (startTime t) + totalDuration t * 60 * 1000\<rparr>),
                drag := None\<rparr>)"
    using assms
    by (simp add: store_apply_def commitDrag_steps_def Let_def updateTask_def update_in_def
                  cancelDrag_def apply_update_start_resource)
  have "store_run [Start_drag tid Move x y, Update_drag x y', Commit_drag] s =
        store_apply Commit_drag ?s1"
    using assms by (simp add: store_apply_def startDrag_def updateDrag_def Let_def split: sum.split)
  then show ?thesis
    using commit snap_ms_fixed_iff [OF getSnapIntervalMs_pos, of "zoomLevel (viewport s)" "minResolution s" "startTime t"]
    by (auto simp: obj_get_set)
qed

lemma int_mult_ne:
  fixes k :: int and c d :: real
  assumes "of_int k * c = d" "c = of_int ci" "d = of_int di" "di mod ci \<noteq> 0" "ci \<noteq> 0"
  shows False
proof -
  from assms(1-3) have "of_int (k * ci) = (of_int di :: real)" by simp
  then have "di = k * ci" by (simp only: of_int_eq_iff eq_commute)
  with assms(4) show False by simp
qed

text \<open>
  With the default minimum resolution (30 minutes), the snapped duration of a
  resize commit is a whole number of 30-, 60-, 360- or 1440-minute intervals, so no resize
  drag can commit a new total of 70 minutes, the total of the resize scenario of the
  specification.
\<close>

theorem resize_duration_70_unreachable:
  assumes "minResolution s = DEFAULT_MIN_RESOLUTION"
  shows "let i = getSnapIntervalMs (zoomLevel (viewport s)) (minResolution s)
         in snap_ms i pe - snap_ms i ps \<noteq> 70 * 60 * 1000"
proof -
  let ?i = "getSnapIntervalMs (zoomLevel (viewport s)) (minResolution s)"
  obtain ka kb :: int where k: "snap_ms ?i ps = of_int ka * ?i" "snap_ms ?i pe = of_int kb * ?i"
    using snap_ms_multiple by metis
  obtain ci :: int where ci: "?i = of_int ci" "4200000 mod ci \<noteq> 0" "ci \<noteq> 0"
  proof (cases "zoomLevel (viewport s)")
    case Hour then show ?thesis using assms that [of 1800000]
      by (simp add: getSnapIntervalMs_def DEFAULT_MIN_RESOLUTION_def)
  next
    case Day then show ?thesis using assms that [of 3600000]
      by (simp add: getSnapIntervalMs_def DEFAULT_MIN_RESOLUTION_def)
  next
    case Week then show ?thesis using assms that [of 21600000]
      by (simp add: getSnapIntervalMs_def DEFAULT_MIN_RESOLUTION_def)
  next
    case Month then show ?thesis using assms that [of 86400000]
      by (simp add: getSnapIntervalMs_def DEFAULT_MIN_RESOLUTION_def)
  qed
  show ?thesis
  proof (simp only: Let_def, rule notI)
    assume "snap_ms ?i pe - snap_ms ?i ps = 70 * 60 * 1000"
    then have "of_int (kb - ka) * ?i = of_int 4200000" using k by (simp add: algebra_simps)
    then show False using int_mult_ne ci by blast
  qed
qed

end
