(* ===== verification/History.thy ===== *)
theory History
  imports Store
begin

text \<open>
  The history middleware \<open>temporal\<close> of the \<open>zundo\<close> library, wrapped around the
  store by \<open>createGanttStore\<close> with \<open>limit: 50\<close> and an \<open>equality\<close> that compares
  \<open>tasks\<close> and \<open>dependencies\<close> and no \<open>partialize\<close>. The library is not part of
  the repository; it is modelled from its behaviour: every \<open>set\<close> of the store goes
  through \<open>handle_set\<close>, which records the whole state before the \<open>set\<close> when the
  equality fails (dropping the oldest entry at the limit, clearing the redo list);
  \<open>undo\<close> and \<open>redo\<close> move whole states between the two lists. Immer's structural
  sharing makes the code's reference comparison of \<open>tasks\<close> and \<open>dependencies\<close> fail
  exactly when an action writes a new value into them; it is modelled as value
  inequality.
\<close>

record 's history =
  pastStates :: "'s list"
  present :: 's
  futureStates :: "'s list"

definition HISTORY_LIMIT :: nat where
  "HISTORY_LIMIT = 50"

definition tracked_equal :: "store_state \<Rightarrow> store_state \<Rightarrow> bool" where
  "tracked_equal a b \<longleftrightarrow> tasks a = tasks b \<and> dependencies a = dependencies b"

definition push_bounded :: "nat \<Rightarrow> 'a list \<Rightarrow> 'a \<Rightarrow> 'a list" where
  "push_bounded cap xs x = (if 0 < cap \<and> cap \<le> length xs then tl xs else xs) @ [x]"

text \<open>The \<open>set\<close> handler of \<open>temporal\<close>, for the \<open>equality\<close> option \<open>eq\<close>.\<close>

definition temporal_set :: "('s \<Rightarrow> 's \<Rightarrow> bool) \<Rightarrow> ('s \<Rightarrow> 's) \<Rightarrow> 's history \<Rightarrow> 's history" where
  "temporal_set eq f h =
     (let cur = present h; nxt = f cur
      in if eq cur nxt then h\<lparr>present := nxt\<rparr>
         else \<lparr>pastStates = push_bounded HISTORY_LIMIT (pastStates h) cur, present = nxt,
               futureStates = []\<rparr>)"

abbreviation handle_set :: "(store_state \<Rightarrow> store_state) \<Rightarrow> store_state history \<Rightarrow> store_state history" where
  "handle_set \<equiv> temporal_set tracked_equal"

definition init_history :: "'s \<Rightarrow> 's history" where
  "init_history s = \<lparr>pastStates = [], present = s, futureStates = []\<rparr>"

text \<open>An action of the store, each of its \<open>set\<close> steps through the middleware.\<close>

definition dispatch :: "store_action \<Rightarrow> store_state history \<Rightarrow> store_err + store_state history" where
  "dispatch a h =
     (case store_steps a (present h) of Inl e \<Rightarrow> Inl e | Inr fs \<Rightarrow> Inr (fold handle_set fs h))"

definition undo :: "'s history \<Rightarrow> 's history" where
  "undo h =
     (if pastStates h = [] then h
      else \<lparr>pastStates = butlast (pastStates h), present = last (pastStates h),
            futureStates = futureStates h @ [present h]\<rparr>)"

definition redo :: "'s history \<Rightarrow> 's history" where
  "redo h =
     (if futureStates h = [] then h
      else \<lparr>pastStates = pastStates h @ [present h], present = last (futureStates h),
            futureStates = butlast (futureStates h)\<rparr>)"

text \<open>The actions that write neither \<open>tasks\<close> nor \<open>dependencies\<close>.\<close>

fun untracked_action :: "store_action \<Rightarrow> bool" where
  "untracked_action (Set_resources _) = True"
| "untracked_action (Add_resource _) = True"
| "untracked_action (Delete_resource _) = True"
| "untracked_action (Set_orders _) = True"
| "untracked_action (Set_groups _) = True"
| "untracked_action (Pan_viewport _ _) = True"
| "untracked_action (Zoom_viewport _ _) = True"
| "untracked_action (Set_zoom_level _) = True"
| "untracked_action (Scroll_to_time _) = True"
| "untracked_action (Scroll_to_row _) = True"
| "untracked_action (Select_task _ _) = True"
| "untracked_action (Select_tasks _ _) = True"
| "untracked_action Clear_selection = True"
| "untracked_action Select_all_tasks = True"
| "untracked_action (Set_grouping_mode _) = True"
| "untracked_action (Toggle_group _) = True"
| "untracked_action Expand_all_groups = True"
| "untracked_action Collapse_all_groups = True"
| "untracked_action (Start_drag _ _ _ _) = True"
| "untracked_action (Update_drag _ _) = True"
| "untracked_action Cancel_drag = True"
| "untracked_action (Set_hovered_task _) = True"
| "untracked_action (Set_sidebar_width _) = True"
| "untracked_action (Set_loading _) = True"
| "untracked_action (Set_error _) = True"
| "untracked_action _ = False"

text \<open>A session: actions and undo/redo requests interleaved.\<close>

datatype session_event = Act store_action | Undo | Redo

fun session_run :: "session_event list \<Rightarrow> store_state history \<Rightarrow> store_err + store_state history" where
  "session_run [] h = Inr h"
| "session_run (Act a # es) h = (case dispatch a h of Inl e \<Rightarrow> Inl e | Inr h' \<Rightarrow> session_run es h')"
| "session_run (Undo # es) h = session_run es (undo h)"
| "session_run (Redo # es) h = session_run es (redo h)"

definition hist_inv :: "store_state history \<Rightarrow> bool" where
  "hist_inv h \<longleftrightarrow> list_all store_inv (pastStates h) \<and> store_inv (present h) \<and>
                  list_all store_inv (futureStates h) \<and>
                  length (pastStates h) + length (futureStates h) \<le> HISTORY_LIMIT"

subsection \<open>Lemmas and properties\<close>

lemma push_bounded_set: "set (push_bounded cap xs x) \<subseteq> insert x (set xs)"
  by (cases xs) (auto simp: push_bounded_def)

lemma push_bounded_length: "0 < cap \<Longrightarrow> length xs \<le> cap \<Longrightarrow> length (push_bounded cap xs x) \<le> cap"
  by (auto simp: push_bounded_def)

lemma handle_set_inv: "inv_preserving f \<Longrightarrow> hist_inv h \<Longrightarrow> hist_inv (handle_set f h)"
  using push_bounded_set [of HISTORY_LIMIT "pastStates h" "present h"]
        push_bounded_length [of HISTORY_LIMIT "pastStates h" "present h"]
  by (auto simp: temporal_set_def hist_inv_def inv_preserving_def Let_def list_all_iff HISTORY_LIMIT_def)

lemma fold_handle_set_inv:
  "\<forall>f \<in> set fs. inv_preserving f \<Longrightarrow> hist_inv h \<Longrightarrow> hist_inv (fold handle_set fs h)"
  by (induction fs arbitrary: h) (auto intro: handle_set_inv)

text \<open>
  C16. History invariant: every stored state (past, present, future) keeps distinct keys and consistent cached task fields, and the past and future lists together hold at most 50 entries, across every action of the store, every undo and every redo.
\<close>

theorem history_inv:
  assumes "hist_inv h"
  shows "(dispatch a h = Inr h' \<longrightarrow> hist_inv h') \<and> hist_inv (undo h) \<and> hist_inv (redo h)"
proof (intro conjI impI)
  assume "dispatch a h = Inr h'"
  then obtain fs where "store_steps a (present h) = Inr fs" "h' = fold handle_set fs h"
    by (auto simp: dispatch_def split: sum.splits)
  then show "hist_inv h'" using assms store_steps_preserving fold_handle_set_inv by blast
next
  show "hist_inv (undo h)"
    using assms
    by (cases "pastStates h" rule: rev_cases)
       (auto simp: undo_def hist_inv_def list_all_iff)
next
  show "hist_inv (redo h)"
    using assms
    by (cases "futureStates h" rule: rev_cases)
       (auto simp: redo_def hist_inv_def list_all_iff)
qed

text \<open>A \<open>set\<close> that changes the state as the equality sees it pushes the previous
  state, and an undo right after it brings that state back.\<close>

lemma temporal_set_push:
  "\<not> eq (present h) (f (present h)) \<Longrightarrow>
   temporal_set eq f h = \<lparr>pastStates = push_bounded HISTORY_LIMIT (pastStates h) (present h),
                          present = f (present h), futureStates = []\<rparr>"
  by (simp add: temporal_set_def Let_def)

lemma undo_temporal_set:
  "\<not> eq (present h) (f (present h)) \<Longrightarrow> present (undo (temporal_set eq f h)) = present h"
  by (simp add: temporal_set_push undo_def push_bounded_def)

lemma handle_set_untracked:
  "tracked_equal (present h) (f (present h)) \<Longrightarrow> handle_set f h = h\<lparr>present := f (present h)\<rparr>"
  by (simp add: temporal_set_def)

lemma untracked_steps:
  "untracked_action a \<Longrightarrow> \<exists>f. store_steps a s = Inr [f] \<and> (\<forall>s. tracked_equal s (f s))"
  by (cases a)
     (auto simp: tracked_equal_def setResources_def addResource_def deleteResource_def setOrders_def
                 setGroups_def on_viewport_def on_grouping_def selectTask_def selectTasks_def
                 clearSelection_def selectAllTasks_def startDrag_def updateDrag_def cancelDrag_def
                 setHoveredTask_def setSidebarWidth_def setLoading_def setError_def Let_def
           split: option.split)

text \<open>
  Viewport, selection, grouping, drag-preview, resource and display actions write neither tasks nor dependencies, so they never push or clear a history entry.
\<close>

theorem untracked_no_history:
  assumes "untracked_action a"
  shows "\<exists>s'. store_apply a (present h) = Inr s' \<and> dispatch a h = Inr (h\<lparr>present := s'\<rparr>)"
proof -
  obtain f where f: "store_steps a (present h) = Inr [f]" "\<forall>s. tracked_equal s (f s)"
    using untracked_steps [OF assms] by blast
  then show ?thesis
    by (simp add: store_apply_def dispatch_def handle_set_untracked)
qed

lemma commitDrag_steps_shape:
  "commitDrag_steps s = Inr fs \<Longrightarrow>
   fs = [] \<or> fs = [cancelDrag] \<or> (\<exists>tid u. fs = [updateTask tid u, cancelDrag])"
  by (auto simp: commitDrag_steps_def Let_def split: option.splits if_splits)

lemma cancelDrag_tracked [simp]: "tracked_equal s (cancelDrag s)"
  by (simp add: tracked_equal_def cancelDrag_def)

text \<open>
  C25. Undo after a committed drag restores the whole state recorded before the commit's task update, including the live drag state of the finished gesture (and the viewport and selection of that moment): the history records full snapshots, not the task and dependency collections only.
\<close>

theorem undo_after_commit_restores_drag:
  assumes "drag (present h) = Some d" "dispatch Commit_drag h = Inr h'"
    and "tasks (present h') \<noteq> tasks (present h)"
  shows "present (undo h') = present h \<and> drag (present (undo h')) = Some d"
proof -
  obtain fs where fs: "commitDrag_steps (present h) = Inr fs" "h' = fold handle_set fs h"
    using assms(2) by (auto simp: dispatch_def split: sum.splits)
  consider "fs = []" | "fs = [cancelDrag]" | tid u where "fs = [updateTask tid u, cancelDrag]"
    using commitDrag_steps_shape [OF fs(1)] by blast
  then have "present (undo h') = present h"
  proof cases
    case 1 then show ?thesis using fs assms(3) by simp
  next
    case 2 then show ?thesis using fs assms(3)
      by (simp add: handle_set_untracked) (simp add: cancelDrag_def)
  next
    case (3 tid u)
    let ?s1 = "updateTask tid u (present h)"
    have ch: "\<not> tracked_equal (present h) ?s1"
      using fs 3 assms(3) by (auto simp: tracked_equal_def temporal_set_def Let_def cancelDrag_def)
    have "h' = handle_set cancelDrag (handle_set (updateTask tid u) h)" using fs 3 by simp
    then have "pastStates h' = push_bounded HISTORY_LIMIT (pastStates h) (present h)"
      using ch by (simp add: temporal_set_push handle_set_untracked)
    then show ?thesis by (simp add: undo_def push_bounded_def)
  qed
  then show ?thesis using assms(1) by simp
qed

end
