(* ===== verification/Interaction.thy ===== *)
theory Interaction
  imports Indexes History
begin

text \<open>
  The Interaction State Machine, \<open>hooks/useGanttInteractions.ts\<close>
  (\<open>src/unnamed/part_009\<close>). The hook keeps its own \<open>InteractionState\<close> (the record
  \<open>interaction_state\<close>) and calls store actions; every handler is a function of the
  event, the interaction state and the store state read at the start of the event (the
  \<open>drag\<close>, \<open>selection\<close> and \<open>tasks\<close> the handler's closure holds), returning the new
  interaction state and the store calls it makes, in order, as \<open>session_event\<close>s of
  theory \<open>History\<close> (store actions, \<open>undo\<close>, \<open>redo\<close>). \<open>ui_step\<close> composes a
  handler with the store and its history. The canvas's bounding rectangle is
  \<open>canvas_rect\<close> (\<open>None\<close> while the ref is unattached), the index manager singleton
  and the viewport manager are parameters of the environment. Cursor styling is not
  modelled.
\<close>

definition DRAG_THRESHOLD :: number where
  "DRAG_THRESHOLD = 5"

definition RESIZE_HANDLE_WIDTH :: number where
  "RESIZE_HANDLE_WIDTH = 8"

datatype hit_zone = Zone_body | Zone_resize_start | Zone_resize_end

record interaction_state =
  isMouseDown :: bool
  mouseDownX :: number
  mouseDownY :: number
  mouseDownTime :: number
  hitTaskId :: "task_id option"
  hitZone :: "hit_zone option"
  isDragging :: bool

definition idle_interaction :: interaction_state where
  "idle_interaction =
     \<lparr>isMouseDown = False, mouseDownX = 0, mouseDownY = 0, mouseDownTime = 0,
      hitTaskId = None, hitZone = None, isDragging = False\<rparr>"

record ui_env =
  canvas_rect :: "(number \<times> number) option"
  viewportManager :: "viewport_manager option"
  indexManager :: index_manager

text \<open>The truthiness of \<open>state.hitTaskId\<close>: \<open>null\<close> and the empty string are false.\<close>

definition truthy_id :: "task_id option \<Rightarrow> bool" where
  "truthy_id t \<longleftrightarrow> (case t of None \<Rightarrow> False | Some i \<Rightarrow> i \<noteq> [])"

text \<open>\<open>hitTest\<close>: the first task the spatial index returns at the cursor, and its zone.\<close>

definition hitTest ::
  "ui_env \<Rightarrow> (task_id, task) obj \<Rightarrow> number \<Rightarrow> number \<Rightarrow> task_id option \<times> hit_zone option" where
  "hitTest env ts cx cy =
     (case (canvas_rect env, viewportManager env) of
        (Some (rl, rt), Some vm) \<Rightarrow>
          (let x = cx - rl; y = cy - rt;
               v = vm_viewport vm;
               (t, vy) = viewportToData v x y;
               hits = queryPoint (spatialIndex (indexManager env)) t vy
           in if hits = [] then (None, None)
              else (let tid = hd hits
                    in case obj_get ts tid of
                         None \<Rightarrow> (None, None)
                       | Some task \<Rightarrow>
                           (let taskX = timeToX v (startTime task);
                                taskWidth = durationToWidth v (endTime task - startTime task)
                            in if x < taskX + RESIZE_HANDLE_WIDTH then (Some tid, Some Zone_resize_start)
                               else if x > taskX + taskWidth - RESIZE_HANDLE_WIDTH
                               then (Some tid, Some Zone_resize_end)
                               else (Some tid, Some Zone_body))))
      | _ \<Rightarrow> (None, None))"

datatype ui_event =
    Mouse_down nat number number number
  | Mouse_move number number
  | Mouse_up number number bool bool bool
  | Wheel number number number bool bool
  | Key_down string bool bool bool

definition handleMouseDown ::
  "ui_env \<Rightarrow> store_state \<Rightarrow> nat \<Rightarrow> number \<Rightarrow> number \<Rightarrow> number \<Rightarrow> interaction_state
   \<Rightarrow> interaction_state \<times> session_event list" where
  "handleMouseDown env s button cx cy now st =
     (if button \<noteq> 0 then (st, [])
      else (let (tid, zone) = hitTest env (tasks s) cx cy
            in (\<lparr>isMouseDown = True, mouseDownX = cx, mouseDownY = cy, mouseDownTime = now,
                 hitTaskId = tid, hitZone = zone, isDragging = False\<rparr>, [])))"

fun drag_type_of_zone :: "hit_zone \<Rightarrow> drag_type" where
  "drag_type_of_zone Zone_resize_start = Resize_start"
| "drag_type_of_zone Zone_resize_end = Resize_end"
| "drag_type_of_zone Zone_body = Move"

definition handleMouseMove ::
  "ui_env \<Rightarrow> store_state \<Rightarrow> number \<Rightarrow> number \<Rightarrow> interaction_state
   \<Rightarrow> interaction_state \<times> session_event list" where
  "handleMouseMove env s cx cy st =
     (if isMouseDown st then
        (let deltaX = cx - mouseDownX st; deltaY = cy - mouseDownY st;
             distance = sqrt (deltaX * deltaX + deltaY * deltaY);
             starts = (\<not> isDragging st \<and> distance > DRAG_THRESHOLD);
             st1 = (if starts then st\<lparr>isDragging := True\<rparr> else st);
             e1 = (if starts \<and> truthy_id (hitTaskId st) \<and> hitZone st \<noteq> None
                   then [Act (Start_drag (the (hitTaskId st)) (drag_type_of_zone (the (hitZone st)))
                                         (mouseDownX st) (mouseDownY st))]
                   else [])
         in if isDragging st1 \<and> drag s \<noteq> None then (st1, e1 @ [Act (Update_drag cx cy)])
            else if isDragging st1 \<and> \<not> truthy_id (hitTaskId st1)
            then (st1\<lparr>mouseDownX := cx, mouseDownY := cy\<rparr>, e1 @ [Act (Pan_viewport (- deltaX) (- deltaY))])
            else (st1, e1))
      else (st, [Act (Set_hovered_task (fst (hitTest env (tasks s) cx cy)))]))"

definition handleMouseUp ::
  "store_state \<Rightarrow> bool \<Rightarrow> bool \<Rightarrow> bool \<Rightarrow> interaction_state \<Rightarrow> interaction_state \<times> session_event list" where
  "handleMouseUp s ctrl meta shift st =
     (idle_interaction,
      if isDragging st then (if drag s \<noteq> None then [Act Commit_drag] else [])
      else if truthy_id (hitTaskId st) then
        [Act (Select_task (the (hitTaskId st))
               (if ctrl \<or> meta then Sel_toggle else if shift then Sel_add else Sel_replace))]
      else [Act Clear_selection])"

definition handleWheel ::
  "ui_env \<Rightarrow> number \<Rightarrow> number \<Rightarrow> number \<Rightarrow> bool \<Rightarrow> bool \<Rightarrow> session_event list" where
  "handleWheel env cx dx dy ctrl meta =
     (case canvas_rect env of
        None \<Rightarrow> []
      | Some (rl, rt) \<Rightarrow>
          (let x = cx - rl
           in if ctrl \<or> meta then [Act (Zoom_viewport (if dy > 0 then 9 / 10 else 11 / 10) x)]
              else [Act (Pan_viewport dx dy)]))"

text \<open>\<open>handleKeyDown\<close>: the five independent \<open>if\<close>s, in order.\<close>

definition handleKeyDown ::
  "store_state \<Rightarrow> string \<Rightarrow> bool \<Rightarrow> bool \<Rightarrow> bool \<Rightarrow> session_event list" where
  "handleKeyDown s key ctrl meta shift =
     (if key = ''Escape'' then [Act (if drag s \<noteq> None then Cancel_drag else Clear_selection)] else []) @
     (if key = ''Delete'' \<or> key = ''Backspace''
      then map (\<lambda>t. Act (Delete_task t)) (sel_taskIds (selection s)) @ [Act Clear_selection] else []) @
     (if (ctrl \<or> meta) \<and> key = ''a'' then [Act Select_all_tasks] else []) @
     (if (ctrl \<or> meta) \<and> key = ''z'' \<and> \<not> shift then [Undo] else []) @
     (if ((ctrl \<or> meta) \<and> shift \<and> key = ''z'') \<or> ((ctrl \<or> meta) \<and> key = ''y'') then [Redo] else [])"

definition handle_event ::
  "ui_env \<Rightarrow> store_state \<Rightarrow> ui_event \<Rightarrow> interaction_state \<Rightarrow> interaction_state \<times> session_event list" where
  "handle_event env s e st =
     (case e of
        Mouse_down b cx cy now \<Rightarrow> handleMouseDown env s b cx cy now st
      | Mouse_move cx cy \<Rightarrow> handleMouseMove env s cx cy st
      | Mouse_up cx cy ctrl meta shift \<Rightarrow> handleMouseUp s ctrl meta shift st
      | Wheel cx dx dy ctrl meta \<Rightarrow> (st, handleWheel env cx dx dy ctrl meta)
      | Key_down k ctrl meta shift \<Rightarrow> (st, handleKeyDown s k ctrl meta shift))"

text \<open>One event: the handler reads the present store state, then its calls run on the
  store with its history.\<close>

definition ui_step ::
  "ui_env \<Rightarrow> interaction_state \<times> store_state history \<Rightarrow> ui_event \<Rightarrow> store_err + interaction_state \<times> store_state history" where
  "ui_step env c e =
     (let (st, h) = c; (st', calls) = handle_event env (present h) e st
      in case session_run calls h of Inl err \<Rightarrow> Inl err | Inr h' \<Rightarrow> Inr (st', h'))"

fun ui_run ::
  "ui_env \<Rightarrow> ui_event list \<Rightarrow> interaction_state \<times> store_state history \<Rightarrow> store_err + interaction_state \<times> store_state history" where
  "ui_run env [] c = Inr c"
| "ui_run env (e # es) c = (case ui_step env c e of Inl err \<Rightarrow> Inl err | Inr c' \<Rightarrow> ui_run env es c')"




subsection \<open>Lemmas and properties\<close>

lemma sqrt_gt_threshold: "sqrt a > DRAG_THRESHOLD \<longleftrightarrow> a > 25"
proof -
  have "DRAG_THRESHOLD = sqrt 25" by (simp add: DRAG_THRESHOLD_def)
  then show ?thesis by (metis real_sqrt_less_iff)
qed


text \<open>
  Drag threshold: while the button is held and no drag has started, a pointer move within 5 pixels (Euclidean) of the press point changes nothing and calls nothing; the first move beyond it marks the gesture as dragging and, when a task was hit in a zone, starts a drag of the type of that zone (resize-start, resize-end, or move for the body) at the press point.
\<close>

theorem drag_threshold:
  assumes "isMouseDown st" "\<not> isDragging st"
  shows "((cx - mouseDownX st)\<^sup>2 + (cy - mouseDownY st)\<^sup>2 \<le> 25 \<longrightarrow>
            handleMouseMove env s cx cy st = (st, [])) \<and>
         ((cx - mouseDownX st)\<^sup>2 + (cy - mouseDownY st)\<^sup>2 > 25 \<and> hitTaskId st = Some tid \<and> tid \<noteq> [] \<and>
           hitZone st = Some z \<and> drag s = None \<longrightarrow>
            handleMouseMove env s cx cy st =
              (st\<lparr>isDragging := True\<rparr>,
               [Act (Start_drag tid (drag_type_of_zone z) (mouseDownX st) (mouseDownY st))]))"
  using assms
  by (auto simp: handleMouseMove_def Let_def sqrt_gt_threshold power2_eq_square truthy_id_def)






lemma dispatch_untracked:
  "untracked_action a \<Longrightarrow> \<exists>s'. store_apply a (present h) = Inr s' \<and> dispatch a h = Inr (h\<lparr>present := s'\<rparr>)"
proof -
  assume "untracked_action a"
  then obtain f where f: "store_steps a (present h) = Inr [f]" "\<forall>s. tracked_equal s (f s)"
    using untracked_steps by blast
  then show ?thesis by (simp add: store_apply_def dispatch_def handle_set_untracked)
qed


lemma session_run_untracked:
  "untracked_action a \<Longrightarrow> store_apply a (present h) = Inr s' \<Longrightarrow>
   session_run [Act a] h = Inr (h\<lparr>present := s'\<rparr>)"
  using dispatch_untracked [of a h] by auto


text \<open>
  A click (press and release without a drag) selects exactly the task under the press point, replacing the selection, or clears the selection when no task is there; tasks and history are unchanged and the interaction returns to idle.
\<close>

theorem click_selection:
  "\<exists>h'. ui_run env [Mouse_down 0 cx cy now, Mouse_up cx2 cy2 False False False] (st, h) = Inr (idle_interaction, h') \<and>
       tasks (present h') = tasks (present h) \<and> pastStates h' = pastStates h \<and>
       futureStates h' = futureStates h \<and>
       sel_taskIds (selection (present h')) =
         (case fst (hitTest env (tasks (present h)) cx cy) of None \<Rightarrow> [] | Some tid \<Rightarrow> if tid = [] then [] else [tid])"
proof -
  obtain t z where hit: "hitTest env (tasks (present h)) cx cy = (t, z)" by fastforce
  let ?st1 = "\<lparr>isMouseDown = True, mouseDownX = cx, mouseDownY = cy, mouseDownTime = now,
               hitTaskId = t, hitZone = z, isDragging = False\<rparr>"
  have step1: "ui_step env (st, h) (Mouse_down 0 cx cy now) = Inr (?st1, h)"
    by (simp add: ui_step_def handle_event_def handleMouseDown_def hit)
  show ?thesis
  proof (cases "truthy_id t")
    case True
    then obtain tid where t: "t = Some tid" "tid \<noteq> []" by (cases t) (auto simp: truthy_id_def)
    have "session_run [Act (Select_task tid Sel_replace)] h =
          Inr (h\<lparr>present := selectTask tid Sel_replace (present h)\<rparr>)"
      by (rule session_run_untracked) (simp_all add: store_apply_def)
    then show ?thesis
      using step1 t by (simp add: ui_step_def handle_event_def handleMouseUp_def truthy_id_def hit
                                  selectTask_def Let_def)
  next
    case False
    have "session_run [Act Clear_selection] h = Inr (h\<lparr>present := clearSelection (present h)\<rparr>)"
      by (rule session_run_untracked) (simp_all add: store_apply_def)
    moreover have "(case t of None \<Rightarrow> [] | Some tid \<Rightarrow> if tid = [] then [] else [tid]) = []"
      using False by (cases t) (auto simp: truthy_id_def)
    ultimately show ?thesis
      using step1 False by (simp add: ui_step_def handle_event_def handleMouseUp_def hit clearSelection_def)
  qed
qed


text \<open>
  The mouse-up handler listens on the window: a release with no press on the canvas (for example a click on a toolbar button) runs the click branch with no hit task and clears the selection.
\<close>

theorem mouseup_without_press_clears_selection:
  "ui_step env (idle_interaction, h) (Mouse_up x y ctrl meta shift) =
   Inr (idle_interaction, h\<lparr>present := clearSelection (present h)\<rparr>)"
proof -
  have "session_run [Act Clear_selection] h = Inr (h\<lparr>present := clearSelection (present h)\<rparr>)"
    by (rule session_run_untracked) (simp_all add: store_apply_def)
  then show ?thesis
    by (simp add: ui_step_def handle_event_def handleMouseUp_def idle_interaction_def truthy_id_def)
qed






lemma obj_get_delete_cases: "obj_get (obj_delete d k) j = None \<or> obj_get (obj_delete d k) j = obj_get d j"
  by (simp add: obj_get_delete)















end
