(* ===== verification/Canvas.thy ===== *)
theory Canvas
  imports Prelude "HOL-Library.Sublist"
begin

text \<open>
  The drawing helpers of \<open>utils/canvas-utils.ts\<close>. A \<open>CanvasRenderingContext2D\<close> is
  modelled by the sequence of calls a renderer makes on it: every helper returns its list
  of \<open>ctx_op\<close>s, in call order, and a renderer's output is the concatenation of the
  lists of the helpers it calls. Colors are the CSS strings the code passes.
  \<open>measureText\<close> depends on the font engine: it is the parameter \<open>mtext\<close> (the width
  of a string in the current font). \<open>drawArrow\<close>, \<open>createHorizontalGradient\<close>,
  \<open>lightenColor\<close>, \<open>darkenColor\<close> and \<open>hexToRgba\<close> are called nowhere and are not
  modelled.
\<close>

datatype ctx_op =
    Clear_rect number number number number
  | Fill_style string
  | Stroke_style string
  | Line_width number
  | Line_cap string
  | Line_join string
  | Begin_path
  | Move_to number number
  | Line_to number number
  | Arc_to number number number number number
  | Close_path
  | Fill
  | Stroke
  | Fill_rect number number number number
  | Stroke_rect number number number number
  | Set_line_dash "number list"
  | Font string
  | Text_baseline string
  | Fill_text string number number
  | Global_alpha number
  | Scale number number

text \<open>\<open>setupHighDPICanvas\<close>: the backing-store size and the scaling call; \<open>getContext\<close>
  returning \<open>null\<close> throws (\<open>has_ctx = False\<close>). \<open>devicePixelRatio || 1\<close> replaces
  0 (and \<open>undefined\<close>) by 1.\<close>

definition setupHighDPICanvas ::
  "number \<Rightarrow> number \<Rightarrow> number \<Rightarrow> bool \<Rightarrow> string + (int \<times> int \<times> ctx_op list)" where
  "setupHighDPICanvas w h dpr0 has_ctx =
     (let dpr = (if dpr0 = 0 then 1 else dpr0)
      in if \<not> has_ctx then Inl ''Failed to get 2D canvas context''
         else Inr (\<lfloor>w * dpr\<rfloor>, \<lfloor>h * dpr\<rfloor>, [Scale dpr dpr]))"

definition clearCanvas :: "number \<Rightarrow> number \<Rightarrow> ctx_op list" where
  "clearCanvas w h = [Clear_rect 0 0 w h]"

text \<open>\<open>drawRoundRect\<close>: the radius is clamped to half the width, then to half the height.\<close>

definition drawRoundRect :: "number \<Rightarrow> number \<Rightarrow> number \<Rightarrow> number \<Rightarrow> number \<Rightarrow> ctx_op list" where
  "drawRoundRect x y w h r0 =
     (let r1 = (if w < 2 * r0 then w / 2 else r0);
          r = (if h < 2 * r1 then h / 2 else r1)
      in [Begin_path, Move_to (x + r) y,
          Arc_to (x + w) y (x + w) (y + h) r,
          Arc_to (x + w) (y + h) x (y + h) r,
          Arc_to x (y + h) x y r,
          Arc_to x y (x + w) y r,
          Close_path])"

definition fillRoundRect ::
  "number \<Rightarrow> number \<Rightarrow> number \<Rightarrow> number \<Rightarrow> number \<Rightarrow> string \<Rightarrow> ctx_op list" where
  "fillRoundRect x y w h r c = [Fill_style c] @ drawRoundRect x y w h r @ [Fill]"

definition strokeRoundRect ::
  "number \<Rightarrow> number \<Rightarrow> number \<Rightarrow> number \<Rightarrow> number \<Rightarrow> string \<Rightarrow> number \<Rightarrow> ctx_op list" where
  "strokeRoundRect x y w h r c lw = [Stroke_style c, Line_width lw] @ drawRoundRect x y w h r @ [Stroke]"

text \<open>The \<open>while\<close> loop of \<open>truncateText\<close>: drop the last character until the rest and the
  ellipsis fit; it ends when the string is empty.\<close>

fun truncate_loop ::
  "(string \<Rightarrow> number) \<Rightarrow> number \<Rightarrow> number \<Rightarrow> string \<Rightarrow> string \<Rightarrow> string" where
  "truncate_loop mtext ew maxWidth ell [] = []"
| "truncate_loop mtext ew maxWidth ell (c # cs) =
     (let t = butlast (c # cs)
      in if mtext t + ew \<le> maxWidth then t @ ell else truncate_loop mtext ew maxWidth ell t)"

definition truncateText :: "(string \<Rightarrow> number) \<Rightarrow> string \<Rightarrow> number \<Rightarrow> string \<Rightarrow> string" where
  "truncateText mtext text maxWidth ell =
     (if mtext text \<le> maxWidth then text
      else (let ew = mtext ell
            in if ew \<ge> maxWidth then [] else truncate_loop mtext ew maxWidth ell text))"

text \<open>The reference of the loop: the longest proper prefix of the text that fits with the
  ellipsis, tried from the longest down, followed by the ellipsis; the empty string when
  none fits.\<close>

definition truncate_spec :: "(string \<Rightarrow> number) \<Rightarrow> number \<Rightarrow> number \<Rightarrow> string \<Rightarrow> string \<Rightarrow> string" where
  "truncate_spec mtext ew maxWidth ell text =
     (case find (\<lambda>p. mtext p + ew \<le> maxWidth) (map (\<lambda>k. take k text) (rev [0..<length text])) of
        None \<Rightarrow> [] | Some p \<Rightarrow> p @ ell)"

definition drawTruncatedText ::
  "(string \<Rightarrow> number) \<Rightarrow> string \<Rightarrow> number \<Rightarrow> number \<Rightarrow> number \<Rightarrow> string \<Rightarrow> string \<Rightarrow> ctx_op list" where
  "drawTruncatedText mtext text x y maxWidth c f =
     [Fill_style c, Font f, Text_baseline ''middle'', Fill_text (truncateText mtext text maxWidth ''...'') x y]"

text \<open>\<open>drawOrthogonalArrow\<close>: right 20 pixels, then vertically, then to the target, and a
  filled arrowhead pointing left at the target.\<close>

definition drawOrthogonalArrow ::
  "number \<Rightarrow> number \<Rightarrow> number \<Rightarrow> number \<Rightarrow> string \<Rightarrow> number \<Rightarrow> number \<Rightarrow> ctx_op list" where
  "drawOrthogonalArrow fromX fromY toX toY c lw arrowSize =
     (let midX = fromX + 20
      in [Stroke_style c, Fill_style c, Line_width lw, Line_cap ''round'', Line_join ''round'',
          Begin_path, Move_to fromX fromY, Line_to midX fromY, Line_to midX toY, Line_to toX toY, Stroke,
          Begin_path, Move_to toX toY, Line_to (toX + arrowSize) (toY - arrowSize / 2),
          Line_to (toX + arrowSize) (toY + arrowSize / 2), Close_path, Fill])"

definition drawDashedLine ::
  "number \<Rightarrow> number \<Rightarrow> number \<Rightarrow> number \<Rightarrow> string \<Rightarrow> number \<Rightarrow> number list \<Rightarrow> ctx_op list" where
  "drawDashedLine fromX fromY toX toY c lw dash =
     [Stroke_style c, Line_width lw, Set_line_dash dash, Begin_path, Move_to fromX fromY,
      Line_to toX toY, Stroke, Set_line_dash []]"

subsection \<open>Lemmas\<close>

text \<open>What \<open>truncateText\<close> returns: the text itself when it fits, otherwise a prefix of it
  followed by the ellipsis, or the empty string.\<close>

lemma truncate_loop_prefix:
  "truncate_loop mtext ew mw ell t = [] \<or>
   (\<exists>p. truncate_loop mtext ew mw ell t = p @ ell \<and> prefix p t \<and> length p < length t \<and>
        mtext p + ew \<le> mw)"
proof (induction mtext ew mw ell t rule: truncate_loop.induct)
  case (1 mtext ew maxWidth ell)
  then show ?case by simp
next
  case (2 mtext ew maxWidth ell c cs)
  let ?t = "butlast (c # cs)"
  have pre: "prefix ?t (c # cs)" by (metis append_butlast_last_id list.distinct(1) prefixI)
  have len: "length ?t < length (c # cs)" by simp
  show ?case
  proof (cases "mtext ?t + ew \<le> maxWidth")
    case True
    then show ?thesis using pre len by (auto simp: Let_def)
  next
    case False
    then have eq: "truncate_loop mtext ew maxWidth ell (c # cs) = truncate_loop mtext ew maxWidth ell ?t"
      by (simp add: Let_def)
    from "2.IH" [OF refl False] show ?thesis
    proof
      assume "truncate_loop mtext ew maxWidth ell ?t = []"
      then show ?thesis using eq by simp
    next
      assume "\<exists>p. truncate_loop mtext ew maxWidth ell ?t = p @ ell \<and> prefix p ?t \<and>
                  length p < length ?t \<and> mtext p + ew \<le> maxWidth"
      then obtain p where "truncate_loop mtext ew maxWidth ell ?t = p @ ell" "prefix p ?t"
          "length p < length ?t" "mtext p + ew \<le> maxWidth" by blast
      then show ?thesis using eq pre len
        by (metis prefix_order.order_trans order.strict_trans)
    qed
  qed
qed

lemma take_butlast_short: "k < length xs \<Longrightarrow> take k (butlast xs) = take k xs"
  by (auto simp: butlast_conv_take min_def)

text \<open>C40. The \<open>while\<close> loop of \<open>truncateText\<close> computes its reference: dropping the last
  character until the rest fits returns exactly the longest proper prefix that fits, with
  the ellipsis, or the empty string when not even the empty prefix fits.\<close>

theorem truncate_loop_spec:
  "truncate_loop mtext ew mw ell str = truncate_spec mtext ew mw ell str"
proof (induction mtext ew mw ell str rule: truncate_loop.induct)
  case (1 mtext ew maxWidth ell)
  then show ?case by (simp add: truncate_spec_def)
next
  case (2 mtext ew maxWidth ell c cs)
  let ?t = "butlast (c # cs)"
  have len: "length ?t = length cs" by simp
  have cands: "map (\<lambda>k. take k (c # cs)) (rev [0..<length (c # cs)]) =
                 ?t # map (\<lambda>k. take k ?t) (rev [0..<length ?t])"
  proof -
    have "map (\<lambda>k. take k (c # cs)) (rev [0..<length ?t]) = map (\<lambda>k. take k ?t) (rev [0..<length ?t])"
      by (rule map_cong) (auto simp: take_butlast_short simp del: butlast.simps)
    moreover have "take (length cs) (c # cs) = ?t" by (simp add: butlast_conv_take)
    ultimately show ?thesis using len by (simp del: butlast.simps)
  qed
  have spec: "truncate_spec mtext ew maxWidth ell (c # cs) =
      (if mtext ?t + ew \<le> maxWidth then ?t @ ell else truncate_spec mtext ew maxWidth ell ?t)"
    unfolding truncate_spec_def cands by (simp del: butlast.simps)
  show ?case
    using "2.IH" [OF refl] spec by (simp add: Let_def del: butlast.simps)
qed

end
