(* ===== verification/Renderers.thy ===== *)
theory Renderers
  imports Canvas Store Indexes "HOL-Library.Multiset"
begin

text \<open>
  The four layer renderers: \<open>GridRenderer\<close> (\<open>src/unnamed/part_007\<close>),
  \<open>TaskRenderer\<close> (\<open>utils/theme-colors.ts\<close>, lines 171 to 493),
  \<open>DependencyRenderer\<close> (\<open>src/unnamed/part_006\<close>) and \<open>InteractionRenderer\<close>
  (\<open>renderers/interaction-renderer.ts\<close>). A renderer's fields are the record
  \<open>renderer\<close> (\<open>ctx\<close> attached or not, and the pixel size); \<open>render\<close> returns the
  canvas calls it makes (theory \<open>Canvas\<close>), and nothing when no context is attached.
  The index manager singleton the renderers query is a parameter. The clock
  (\<open>Date.now()\<close>), the local time zone (a fixed offset \<open>tz\<close> in milliseconds; daylight
  saving time is not modelled), the theme colors read from CSS and the tooltip's date
  formatting are parameters too.
\<close>

record renderer =
  has_ctx :: bool
  r_width :: number
  r_height :: number

text \<open>\<open>setContext\<close>, the same in all four renderers.\<close>

definition setContext :: "renderer \<Rightarrow> number \<Rightarrow> number \<Rightarrow> renderer" where
  "setContext r w h = r\<lparr>has_ctx := True, r_width := w, r_height := h\<rparr>"

text \<open>The private \<open>timeToX\<close> and \<open>durationToWidth\<close> every renderer repeats.\<close>

definition r_timeToX :: "viewport_state \<Rightarrow> number \<Rightarrow> number" where
  "r_timeToX v ts = (ts - timeOrigin v) / 3600000 * pixelsPerHour v - scrollX v"

definition r_durationToWidth :: "viewport_state \<Rightarrow> number \<Rightarrow> number" where
  "r_durationToWidth v d = d / 3600000 * pixelsPerHour v"

text \<open>\<open>new Set(rows.filter(r => r.resourceId).map(r => r.resourceId))\<close>.\<close>

definition visible_resource_ids :: "virtual_row list \<Rightarrow> resource_id list" where
  "visible_resource_ids rows =
     fold (\<lambda>r acc. case row_resourceId r of None \<Rightarrow> acc
                   | Some rid \<Rightarrow> if rid = [] then acc else jsset_add rid acc) rows []"

subsection \<open>Dependency renderer\<close>

definition ARROW_COLOR :: string where "ARROW_COLOR = ''#94a3b8''"
definition ARROW_COLOR_SELECTED :: string where "ARROW_COLOR_SELECTED = ''#fbbf24''"
definition ARROW_COLOR_HIGHLIGHTED :: string where "ARROW_COLOR_HIGHLIGHTED = ''#60a5fa''"

text \<open>\<open>calculateArrowPositions\<close>: the endpoints by dependency type, at the vertical
  middle of each task's row.\<close>

definition calculateArrowPositions ::
  "task_dependency \<Rightarrow> task \<Rightarrow> task \<Rightarrow> virtual_row \<Rightarrow> virtual_row \<Rightarrow> viewport_state
   \<Rightarrow> number \<times> number \<times> number \<times> number" where
  "calculateArrowPositions dep p s pr sr v =
     (let predY = virtualY pr - scrollY v + row_height pr / 2;
          succY = virtualY sr - scrollY v + row_height sr / 2;
          (fromX, toX) = (case dep_type dep of
                            FS \<Rightarrow> (r_timeToX v (endTime p), r_timeToX v (startTime s))
                          | FF \<Rightarrow> (r_timeToX v (endTime p), r_timeToX v (endTime s))
                          | SS \<Rightarrow> (r_timeToX v (startTime p), r_timeToX v (startTime s))
                          | SF \<Rightarrow> (r_timeToX v (startTime p), r_timeToX v (endTime s)))
      in (fromX, predY, toX, succY))"

definition renderDependency ::
  "index_manager \<Rightarrow> viewport_state \<Rightarrow> task_dependency \<Rightarrow> task \<Rightarrow> task \<Rightarrow> bool \<Rightarrow> bool \<Rightarrow> ctx_op list" where
  "renderDependency im v dep p s isSelected isHighlighted =
     (case (getRowForResource im (resourceId p), getRowForResource im (resourceId s)) of
        (Some pr, Some sr) \<Rightarrow>
          (let (fromX, fromY, toX, toY) = calculateArrowPositions dep p s pr sr v;
               color = (if isHighlighted then ARROW_COLOR_HIGHLIGHTED
                        else if isSelected then ARROW_COLOR_SELECTED else ARROW_COLOR)
           in drawOrthogonalArrow fromX fromY toX toY color
                (if isSelected \<or> isHighlighted then 2 else 3 / 2) 6)
      | _ \<Rightarrow> [])"

definition dep_selected :: "task_id list \<Rightarrow> task_dependency \<Rightarrow> bool" where
  "dep_selected sel d \<longleftrightarrow> predecessorId d \<in> set sel \<or> successorId d \<in> set sel"

text \<open>The filter of \<open>render\<close>: both endpoint tasks exist, one of them meets the visible
  time range widened by two hours on each side, and one of them has a visible row.\<close>

definition dep_visible ::
  "renderer \<Rightarrow> viewport_state \<Rightarrow> (task_id, task) obj \<Rightarrow> resource_id list \<Rightarrow> task_dependency \<Rightarrow> bool" where
  "dep_visible r v ts visRes dep =
     (case (obj_get ts (predecessorId dep), obj_get ts (successorId dep)) of
        (Some p, Some s) \<Rightarrow>
          (let vs = timeOrigin v + (scrollX v / pixelsPerHour v - 2) * 3600000;
               ve = vs + (r_width r / pixelsPerHour v + 2 * 2) * 3600000;
               predVisible = (endTime p \<ge> vs \<and> startTime p \<le> ve);
               succVisible = (endTime s \<ge> vs \<and> startTime s \<le> ve)
           in (predVisible \<or> succVisible) \<and> (resourceId p \<in> set visRes \<or> resourceId s \<in> set visRes))
      | _ \<Rightarrow> False)"

text \<open>The comparator of the sort only compares "selected" (0, equal, 1 or -1), so the
  stable \<open>Array.prototype.sort\<close> is the stable sort on that key.\<close>

definition sort_dependencies :: "task_id list \<Rightarrow> task_dependency list \<Rightarrow> task_dependency list" where
  "sort_dependencies sel deps = sort_key (\<lambda>d. if dep_selected sel d then 1 else (0::nat)) deps"

text \<open>The body of the drawing loop of \<open>render\<close>.\<close>

definition draw_dependency ::
  "index_manager \<Rightarrow> viewport_state \<Rightarrow> (task_id, task) obj \<Rightarrow> task_id list \<Rightarrow> string list
   \<Rightarrow> task_dependency \<Rightarrow> ctx_op list" where
  "draw_dependency im v ts sel hl dep =
     (case (obj_get ts (predecessorId dep), obj_get ts (successorId dep)) of
        (Some p, Some s) \<Rightarrow> renderDependency im v dep p s (dep_selected sel dep) (dep_id dep \<in> set hl)
      | _ \<Rightarrow> [])"

definition renderDependencies ::
  "renderer \<Rightarrow> index_manager \<Rightarrow> viewport_state \<Rightarrow> (task_id, task) obj \<Rightarrow> task_dependency list
   \<Rightarrow> virtual_row list \<Rightarrow> task_id list \<Rightarrow> string list \<Rightarrow> ctx_op list" where
  "renderDependencies r im v ts deps rows sel hl =
     (if \<not> has_ctx r then []
      else (let visRes = visible_resource_ids rows;
                visible = filter (dep_visible r v ts visRes) deps;
                sorted = sort_dependencies sel visible
            in clearCanvas (r_width r) (r_height r) @ concat (map (draw_dependency im v ts sel hl) sorted)))"

subsection \<open>Task renderer\<close>

definition TASK_HEIGHT_RATIO :: number where "TASK_HEIGHT_RATIO = 7 / 10"
definition TASK_BORDER_RADIUS :: number where "TASK_BORDER_RADIUS = 4"
definition MIN_TASK_WIDTH_FOR_TEXT :: number where "MIN_TASK_WIDTH_FOR_TEXT = 40"
definition MIN_TASK_WIDTH_FOR_PHASES :: number where "MIN_TASK_WIDTH_FOR_PHASES = 60"
definition TASK_FONT :: string where "TASK_FONT = ''12px Inter, system-ui, sans-serif''"

fun PHASE_COLORS :: "phase_type \<Rightarrow> string" where
  "PHASE_COLORS Setup = ''#f59e0b''"
| "PHASE_COLORS Execution = ''#3b82f6''"
| "PHASE_COLORS Cleanup = ''#8b5cf6''"

text \<open>The segments of \<open>renderTaskWithPhases\<close>: for each phase range, its left edge
  (the running \<open>currentX\<close>), its width and its color.\<close>

fun phase_segments ::
  "number \<Rightarrow> number \<Rightarrow> number \<Rightarrow> (phase_type \<times> number \<times> number \<times> string option) list
   \<Rightarrow> (number \<times> number \<times> string) list" where
  "phase_segments cx taskDuration totalWidth [] = []"
| "phase_segments cx taskDuration totalWidth ((ty, st, en, c) # rs) =
     (let w = (en - st) / taskDuration * totalWidth
      in (cx, w, case c of None \<Rightarrow> PHASE_COLORS ty | Some col \<Rightarrow> col)
         # phase_segments (cx + w) taskDuration totalWidth rs)"

text \<open>One segment's path: rounded on the left for the first, on the right for the last,
  both for a single segment, square otherwise.\<close>

definition segment_ops :: "bool \<Rightarrow> bool \<Rightarrow> number \<Rightarrow> number \<Rightarrow> number \<Rightarrow> number \<Rightarrow> string \<Rightarrow> ctx_op list" where
  "segment_ops isFirst isLast cx y w h c =
     (let R = TASK_BORDER_RADIUS
      in if isFirst \<and> isLast then fillRoundRect cx y w h R c
         else if isFirst then
           [Fill_style c, Begin_path, Move_to (cx + R) y, Line_to (cx + w) y, Line_to (cx + w) (y + h),
            Line_to (cx + R) (y + h), Arc_to cx (y + h) cx y R, Line_to cx (y + R), Arc_to cx y (cx + R) y R, Fill]
         else if isLast then
           [Fill_style c, Begin_path, Move_to cx y, Line_to (cx + w - R) y, Arc_to (cx + w) y (cx + w) (y + R) R,
            Line_to (cx + w) (y + h - R), Arc_to (cx + w) (y + h) (cx + w - R) (y + h) R, Line_to cx (y + h),
            Close_path, Fill]
         else [Fill_style c, Fill_rect cx y w h])"

definition renderTaskWithPhases :: "task \<Rightarrow> number \<Rightarrow> number \<Rightarrow> number \<Rightarrow> number \<Rightarrow> ctx_op list" where
  "renderTaskWithPhases t sx y totalWidth h =
     (let segs = phase_segments sx (endTime t - startTime t) totalWidth (getPhaseRanges t);
          n = length segs
      in concat (map (\<lambda>(i, (cx, w, c)). segment_ops (i = 0) (i = n - 1) cx y w h c) (enumerate 0 segs)))"

definition renderSimpleTask :: "task \<Rightarrow> number \<Rightarrow> number \<Rightarrow> number \<Rightarrow> number \<Rightarrow> ctx_op list" where
  "renderSimpleTask t x y w h =
     fillRoundRect x y w h TASK_BORDER_RADIUS (case task_color t of None \<Rightarrow> ''#3b82f6'' | Some c \<Rightarrow> c)"

definition renderProgress :: "number \<Rightarrow> number \<Rightarrow> number \<Rightarrow> number \<Rightarrow> number \<Rightarrow> ctx_op list" where
  "renderProgress x y w h prog =
     (let progressHeight = 3; progressY = y + h - progressHeight - 2;
          progressWidth = (w - 4) * (prog / 100)
      in [Fill_style ''rgba(255, 255, 255, 0.3)''] @
         fillRoundRect (x + 2) progressY (w - 4) progressHeight 1 ''rgba(255, 255, 255, 0.3)'' @
         [Fill_style ''rgba(255, 255, 255, 0.5)''] @
         fillRoundRect (x + 2) progressY progressWidth progressHeight 1 ''rgba(255, 255, 255, 0.5)'')"

definition renderTaskLabel ::
  "(string \<Rightarrow> number) \<Rightarrow> string \<Rightarrow> number \<Rightarrow> number \<Rightarrow> number \<Rightarrow> number \<Rightarrow> ctx_op list" where
  "renderTaskLabel mtext name x y w h =
     (let padding = 6; maxWidth = w - padding * 2
      in if maxWidth \<le> 0 then []
         else drawTruncatedText mtext name (x + padding) (y + h / 2) maxWidth ''#ffffff'' TASK_FONT)"

definition renderResizeHandles :: "number \<Rightarrow> number \<Rightarrow> number \<Rightarrow> number \<Rightarrow> ctx_op list" where
  "renderResizeHandles x y w h =
     (let handleWidth = 4; handleHeight = h * (6 / 10); handleY = y + (h - handleHeight) / 2
      in [Fill_style ''rgba(255, 255, 255, 0.5)''] @
         fillRoundRect (x + 2) handleY handleWidth handleHeight 2 ''rgba(255, 255, 255, 0.5)'' @
         fillRoundRect (x + w - handleWidth - 2) handleY handleWidth handleHeight 2 ''rgba(255, 255, 255, 0.5)'')"

definition renderTask ::
  "(string \<Rightarrow> number) \<Rightarrow> viewport_state \<Rightarrow> task \<Rightarrow> virtual_row \<Rightarrow> bool \<Rightarrow> bool \<Rightarrow> ctx_op list" where
  "renderTask mtext v t row isSelected isHovered =
     (let x = r_timeToX v (startTime t);
          width = r_durationToWidth v (endTime t - startTime t);
          y = virtualY row - scrollY v;
          taskHeight = row_height row * TASK_HEIGHT_RATIO;
          taskY = y + (row_height row - taskHeight) / 2
      in if width < 2 then []
         else (if width \<ge> MIN_TASK_WIDTH_FOR_PHASES \<and> length (phases t) > 1
               then renderTaskWithPhases t x taskY width taskHeight
               else renderSimpleTask t x taskY width taskHeight) @
              (if isSelected then strokeRoundRect x taskY width taskHeight TASK_BORDER_RADIUS ''#fbbf24'' 2
               else if isHovered then strokeRoundRect x taskY width taskHeight TASK_BORDER_RADIUS ''#60a5fa'' 2
               else []) @
              (if progress t > 0 \<and> progress t < 100 then renderProgress x taskY width taskHeight (progress t) else []) @
              (if width \<ge> MIN_TASK_WIDTH_FOR_TEXT then renderTaskLabel mtext (task_name t) x taskY width taskHeight else []) @
              (if isHovered then renderResizeHandles x taskY width taskHeight else []))"

definition renderTasks ::
  "(string \<Rightarrow> number) \<Rightarrow> renderer \<Rightarrow> index_manager \<Rightarrow> viewport_state \<Rightarrow> (task_id, task) obj
   \<Rightarrow> virtual_row list \<Rightarrow> task_id list \<Rightarrow> task_id option \<Rightarrow> ctx_op list" where
  "renderTasks mtext r im v ts rows sel hovered =
     (if \<not> has_ctx r then []
      else (let vs = timeOrigin v + (scrollX v / pixelsPerHour v) * 3600000;
                ve = vs + (r_width r / pixelsPerHour v) * 3600000;
                visRes = visible_resource_ids rows;
                ids = queryTimeRange (spatialIndex im) vs ve
            in clearCanvas (r_width r) (r_height r) @
               concat (map (\<lambda>tid.
                 case obj_get ts tid of
                   None \<Rightarrow> []
                 | Some t \<Rightarrow>
                     if resourceId t \<notin> set visRes then []
                     else (case getRowForResource im (resourceId t) of
                             None \<Rightarrow> []
                           | Some row \<Rightarrow>
                               (let taskY = virtualY row - scrollY v
                                in if taskY + row_height row < 0 \<or> taskY > r_height r then []
                                   else renderTask mtext v t row (task_id t \<in> set sel) (hovered = Some (task_id t))))) ids)))"


subsection \<open>Grid renderer\<close>

text \<open>The theme colors \<open>getGridColors\<close> reads from CSS custom properties.\<close>

record grid_colors =
  gc_background :: string
  rowOdd :: string
  rowEven :: string
  rowHover :: string
  gridLine :: string
  gridLineMajor :: string
  todayLine :: string
  todayBackground :: string
  groupHeader :: string

text \<open>\<open>GRID_INTERVALS\<close>, in hours.\<close>

fun grid_minor :: "zoom_level \<Rightarrow> number" where
  "grid_minor Hour = 1"
| "grid_minor Day = 6"
| "grid_minor Week = 24"
| "grid_minor Month = 168"

fun grid_major :: "zoom_level \<Rightarrow> number" where
  "grid_major Hour = 6"
| "grid_major Day = 24"
| "grid_major Week = 168"
| "grid_major Month = 720"

definition renderRowBackgrounds ::
  "renderer \<Rightarrow> viewport_state \<Rightarrow> virtual_row list \<Rightarrow> string option \<Rightarrow> grid_colors \<Rightarrow> ctx_op list" where
  "renderRowBackgrounds r v rows hoveredRowId C =
     concat (map (\<lambda>(i, row).
       (let y = virtualY row - scrollY v
        in if y + row_height row < 0 \<or> y > r_height r then []
           else [Fill_style (if Some (row_id row) = hoveredRowId then rowHover C
                             else if isGroupHeader row then groupHeader C
                             else if even i then rowEven C else rowOdd C),
                 Fill_rect 0 y (r_width r) (row_height row)])) (enumerate 0 rows))"

text \<open>\<open>new Date(time).getHours()\<close> in a time zone at the fixed offset \<open>tz\<close> (ms), and
  JavaScript's \<open>%\<close> on numbers (the remainder of the quotient truncated towards 0).\<close>

definition local_hour :: "number \<Rightarrow> number \<Rightarrow> int" where
  "local_hour tz t = \<lfloor>(t + tz) / 3600000\<rfloor> mod 24"

definition js_rem :: "number \<Rightarrow> number \<Rightarrow> number" where
  "js_rem a b = a - b * of_int (if 0 \<le> a / b then \<lfloor>a / b\<rfloor> else \<lceil>a / b\<rceil>)"

definition grid_isMajor :: "zoom_level \<Rightarrow> number \<Rightarrow> number \<Rightarrow> bool" where
  "grid_isMajor z tz t =
     (js_rem (of_int (local_hour tz t)) (grid_major z / (if grid_minor z = 0 then 1 else grid_minor z)) = 0)"

text \<open>One iteration of the loop of \<open>renderTimeGrid\<close>: the line at \<open>time\<close>, or nothing when
  it is off the canvas (\<open>continue\<close>).\<close>

definition grid_line ::
  "grid_colors \<Rightarrow> number \<Rightarrow> viewport_state \<Rightarrow> number \<Rightarrow> number \<Rightarrow> number \<Rightarrow> ctx_op list" where
  "grid_line C tz v w h time =
     (let x = (time - timeOrigin v) / 3600000 * pixelsPerHour v - scrollX v;
          m = grid_isMajor (zoomLevel v) tz time
      in if x < 0 \<or> x > w then []
         else [Stroke_style (if m then gridLineMajor C else gridLine C), Line_width (if m then 1 else 1 / 2),
               Begin_path, Move_to x 0, Line_to x h, Stroke])"

text \<open>The \<open>for\<close> loop: from \<open>time\<close> while \<open>time \<le> visibleEndTime\<close>, one minor interval
  per step. Every interval is at least an hour, so the number of hours left bounds the
  number of iterations.\<close>

function time_grid_loop ::
  "grid_colors \<Rightarrow> number \<Rightarrow> viewport_state \<Rightarrow> number \<Rightarrow> number \<Rightarrow> number \<Rightarrow> number \<Rightarrow> ctx_op list" where
  "time_grid_loop C tz v w h endT time =
     (if time \<le> endT
      then grid_line C tz v w h time @ time_grid_loop C tz v w h endT (time + grid_minor (zoomLevel v) * 3600000)
      else [])"
  by pat_completeness auto
termination
proof (relation "measure (\<lambda>(C, tz, v, w, h, e, t). nat (\<lceil>(e - t) / 3600000\<rceil> + 1))")
  fix C :: grid_colors and tz w h e t :: number and v :: viewport_state
  assume le: "t \<le> e"
  let ?m = "grid_minor (zoomLevel v)"
  let ?x = "(e - t) / 3600000"
  have m: "1 \<le> ?m" by (cases "zoomLevel v") auto
  have "(e - (t + ?m * 3600000)) / 3600000 = ?x - ?m" by (simp add: field_simps)
  also have "\<dots> \<le> ?x - 1" using m by simp
  finally have "\<lceil>(e - (t + ?m * 3600000)) / 3600000\<rceil> \<le> \<lceil>?x\<rceil> - 1"
    by (metis ceiling_diff_one ceiling_mono)
  moreover have "0 \<le> \<lceil>?x\<rceil>" using le by simp
  ultimately show "((C, tz, v, w, h, e, t + ?m * 3600000), C, tz, v, w, h, e, t)
    \<in> measure (\<lambda>(C, tz, v, w, h, e, t). nat (\<lceil>(e - t) / 3600000\<rceil> + 1))" by simp
qed auto

definition renderTimeGrid :: "grid_colors \<Rightarrow> number \<Rightarrow> renderer \<Rightarrow> viewport_state \<Rightarrow> ctx_op list" where
  "renderTimeGrid C tz r v =
     (let vs = timeOrigin v + (scrollX v / pixelsPerHour v) * 3600000;
          ve = vs + (r_width r / pixelsPerHour v) * 3600000;
          startHour = \<lfloor>vs / 3600000\<rfloor>;
          st = of_int startHour * 3600000
      in [Stroke_style (gridLine C), Line_width (1 / 2)] @ time_grid_loop C tz v (r_width r) (r_height r) ve st)"

text \<open>\<open>startOfDay\<close> of date-fns, in the same time zone.\<close>

definition start_of_day :: "number \<Rightarrow> number \<Rightarrow> number" where
  "start_of_day tz t = t - ((t + tz) - 86400000 * of_int \<lfloor>(t + tz) / 86400000\<rfloor>)"

definition renderTodayMarker :: "grid_colors \<Rightarrow> number \<Rightarrow> number \<Rightarrow> renderer \<Rightarrow> viewport_state \<Rightarrow> ctx_op list" where
  "renderTodayMarker C tz now r v =
     (let x = (now - timeOrigin v) / 3600000 * pixelsPerHour v - scrollX v
      in if x < 0 \<or> x > r_width r then []
         else (let sod = start_of_day tz now; eod = sod + 24 * 3600000;
                   todayStartX = (sod - timeOrigin v) / 3600000 * pixelsPerHour v - scrollX v;
                   todayEndX = (eod - timeOrigin v) / 3600000 * pixelsPerHour v - scrollX v
               in [Fill_style (todayBackground C),
                   Fill_rect (max 0 todayStartX) 0 (min (r_width r) todayEndX - max 0 todayStartX) (r_height r),
                   Stroke_style (todayLine C), Line_width 2, Begin_path, Move_to x 0, Line_to x (r_height r), Stroke]))"

definition renderRowSeparators :: "grid_colors \<Rightarrow> renderer \<Rightarrow> viewport_state \<Rightarrow> virtual_row list \<Rightarrow> ctx_op list" where
  "renderRowSeparators C r v rows =
     [Stroke_style (gridLine C), Line_width (1 / 2)] @
     concat (map (\<lambda>row. (let y = virtualY row + row_height row - scrollY v
                         in if y < 0 \<or> y > r_height r then []
                            else [Begin_path, Move_to 0 y, Line_to (r_width r) y, Stroke])) rows)"

definition renderGrid ::
  "grid_colors \<Rightarrow> number \<Rightarrow> number \<Rightarrow> renderer \<Rightarrow> viewport_state \<Rightarrow> virtual_row list \<Rightarrow> string option \<Rightarrow> ctx_op list" where
  "renderGrid C tz now r v rows hoveredRowId =
     (if \<not> has_ctx r then []
      else clearCanvas (r_width r) (r_height r) @
           [Fill_style (gc_background C), Fill_rect 0 0 (r_width r) (r_height r)] @
           renderRowBackgrounds r v rows hoveredRowId C @
           renderTimeGrid C tz r v @
           renderTodayMarker C tz now r v @
           renderRowSeparators C r v rows)"

subsection \<open>Interaction renderer\<close>

record sel_box =
  box_startX :: number
  box_startY :: number
  box_endX :: number
  box_endY :: number

definition renderSelectionBox :: "sel_box \<Rightarrow> ctx_op list" where
  "renderSelectionBox b =
     (let x = min (box_startX b) (box_endX b); y = min (box_startY b) (box_endY b);
          w = \<bar>box_endX b - box_startX b\<bar>; h = \<bar>box_endY b - box_startY b\<bar>
      in [Fill_style ''rgba(59, 130, 246, 0.2)'', Fill_rect x y w h,
          Stroke_style ''#3b82f6'', Line_width 1, Set_line_dash [4, 4], Stroke_rect x y w h, Set_line_dash []])"

text \<open>The renderer's own snap table, by zoom level only (in ms).\<close>

fun ir_getSnapInterval :: "zoom_level \<Rightarrow> number" where
  "ir_getSnapInterval Hour = 15 * 60 * 1000"
| "ir_getSnapInterval Day = 60 * 60 * 1000"
| "ir_getSnapInterval Week = 6 * 60 * 60 * 1000"
| "ir_getSnapInterval Month = 24 * 60 * 60 * 1000"

definition SNAP_LINE :: string where "SNAP_LINE = ''#fbbf24''"

definition snap_guide :: "renderer \<Rightarrow> viewport_state \<Rightarrow> number \<Rightarrow> ctx_op list" where
  "snap_guide r v t = drawDashedLine (r_timeToX v t) 0 (r_timeToX v t) (r_height r) SNAP_LINE 1 [4, 4]"

definition renderSnapLines :: "renderer \<Rightarrow> drag_state \<Rightarrow> viewport_state \<Rightarrow> ctx_op list" where
  "renderSnapLines r d v =
     (let si = ir_getSnapInterval (zoomLevel v);
          snappedStart = js_round (previewStartTime d / si) * si;
          snappedEnd = js_round (previewEndTime d / si) * si
      in (if dtype d = Move \<or> dtype d = Resize_start then snap_guide r v snappedStart else []) @
         (if dtype d = Move \<or> dtype d = Resize_end then snap_guide r v snappedEnd else []))"

text \<open>\<open>formatTime (new Date(t))\<close> (local month, day, hours and minutes) is the parameter
  \<open>fmt\<close>.\<close>

definition renderTimeTooltip ::
  "(string \<Rightarrow> number) \<Rightarrow> (number \<Rightarrow> string) \<Rightarrow> renderer \<Rightarrow> drag_state \<Rightarrow> number \<Rightarrow> number \<Rightarrow> number \<Rightarrow> ctx_op list" where
  "renderTimeTooltip mtext fmt r d taskX taskY taskWidth =
     (let text = fmt (if dtype d = Resize_end then previewEndTime d else previewStartTime d);
          tooltipX = (if dtype d = Resize_end then taskX + taskWidth else taskX);
          tooltipY = taskY - 24;
          padding = 6;
          tooltipWidth = mtext text + padding * 2;
          tooltipHeight = 20;
          finalX = max 4 (min (r_width r - tooltipWidth - 4) (tooltipX - tooltipWidth / 2))
      in [Font ''11px Inter, system-ui, sans-serif'', Fill_style ''#1e293b''] @
         fillRoundRect finalX tooltipY tooltipWidth tooltipHeight 4 ''#1e293b'' @
         [Fill_style ''#f8fafc'', Text_baseline ''middle'', Fill_text text (finalX + padding) (tooltipY + tooltipHeight / 2)])"

definition renderDragPreview ::
  "(string \<Rightarrow> number) \<Rightarrow> (number \<Rightarrow> string) \<Rightarrow> renderer \<Rightarrow> index_manager \<Rightarrow> drag_state
   \<Rightarrow> viewport_state \<Rightarrow> (task_id, task) obj \<Rightarrow> ctx_op list" where
  "renderDragPreview mtext fmt r im d v ts =
     (let t = originalTask d;
          previewX = r_timeToX v (previewStartTime d);
          previewWidth = r_durationToWidth v (previewEndTime d - previewStartTime d)
      in case getRowForResource im (previewResourceId d) of
           None \<Rightarrow> []
         | Some row \<Rightarrow>
            (let previewY = virtualY row - scrollY v;
                 taskHeight = row_height row * TASK_HEIGHT_RATIO;
                 taskY = previewY + (row_height row - taskHeight) / 2
             in (if dtype d = Reassign \<or> dtype d = Move
                 then [Fill_style (if collisions d \<noteq> [] then ''rgba(239, 68, 68, 0.2)'' else ''rgba(34, 197, 94, 0.2)''),
                       Fill_rect 0 previewY (r_width r) (row_height row)]
                 else []) @
                concat (map (\<lambda>cid. case obj_get ts cid of
                                      None \<Rightarrow> []
                                    | Some ct \<Rightarrow>
                                        (case getRowForResource im (resourceId ct) of
                                           None \<Rightarrow> []
                                         | Some cr \<Rightarrow>
                                             (let colX = r_timeToX v (startTime ct);
                                                  colWidth = r_durationToWidth v (endTime ct - startTime ct);
                                                  colTaskY = virtualY cr - scrollY v + (row_height cr - taskHeight) / 2
                                              in [Fill_style ''rgba(239, 68, 68, 0.3)''] @
                                                 fillRoundRect colX colTaskY colWidth taskHeight TASK_BORDER_RADIUS ''rgba(239, 68, 68, 0.3)''))) (collisions d)) @
                (if dtype d = Move \<or> dtype d = Resize_start \<or> dtype d = Resize_end then renderSnapLines r d v else []) @
                [Global_alpha (7 / 10)] @
                fillRoundRect previewX taskY previewWidth taskHeight TASK_BORDER_RADIUS
                  (case task_color t of None \<Rightarrow> ''#3b82f6'' | Some c \<Rightarrow> c) @
                [Global_alpha 1] @
                strokeRoundRect previewX taskY previewWidth taskHeight TASK_BORDER_RADIUS ''#3b82f6'' 2 @
                (if previewStartTime d \<noteq> startTime t \<or> previewResourceId d \<noteq> resourceId t
                 then (case getRowForResource im (resourceId t) of
                         None \<Rightarrow> []
                       | Some orow \<Rightarrow>
                           [Set_line_dash [4, 4]] @
                           strokeRoundRect (r_timeToX v (startTime t))
                             (virtualY orow - scrollY v + (row_height orow - taskHeight) / 2)
                             (r_durationToWidth v (endTime t - startTime t)) taskHeight TASK_BORDER_RADIUS ''#64748b'' 1 @
                           [Set_line_dash []])
                 else []) @
                renderTimeTooltip mtext fmt r d previewX taskY previewWidth))"

definition renderInteraction ::
  "(string \<Rightarrow> number) \<Rightarrow> (number \<Rightarrow> string) \<Rightarrow> renderer \<Rightarrow> index_manager \<Rightarrow> viewport_state
   \<Rightarrow> drag_state option \<Rightarrow> sel_box option \<Rightarrow> (task_id, task) obj \<Rightarrow> ctx_op list" where
  "renderInteraction mtext fmt r im v dragOpt boxOpt ts =
     (if \<not> has_ctx r then []
      else clearCanvas (r_width r) (r_height r) @
           (case boxOpt of None \<Rightarrow> [] | Some b \<Rightarrow> renderSelectionBox b) @
           (case dragOpt of None \<Rightarrow> [] | Some d \<Rightarrow> renderDragPreview mtext fmt r im d v ts))"

subsection \<open>Lemmas\<close>

text \<open>A stable sort on a key with values 0 and 1 is the partition of the list, each part in
  its original order.\<close>

lemma sort_key_two_keys:
  fixes f :: "'a \<Rightarrow> nat"
  assumes "\<forall>x\<in>set xs. f x \<le> 1"
  shows "sort_key f xs = filter (\<lambda>x. f x = 0) xs @ filter (\<lambda>x. f x = 1) xs"
proof (rule properties_for_sort_key)
  show "mset (filter (\<lambda>x. f x = 0) xs @ filter (\<lambda>x. f x = 1) xs) = mset xs"
    using assms by (induction xs) auto
next
  fix k assume "k \<in> set (filter (\<lambda>x. f x = 0) xs @ filter (\<lambda>x. f x = 1) xs)"
  then have "f k = 0 \<or> f k = 1" by auto
  then show "filter (\<lambda>x. f k = f x) (filter (\<lambda>x. f x = 0) xs @ filter (\<lambda>x. f x = 1) xs) =
             filter (\<lambda>x. f k = f x) xs"
  proof
    assume k: "f k = 0"
    have "filter (\<lambda>x. f k = f x) (filter (\<lambda>x. f x = 1) xs) = []" using k by (auto simp: filter_empty_conv)
    moreover have "filter (\<lambda>x. f k = f x) (filter (\<lambda>x. f x = 0) xs) = filter (\<lambda>x. f k = f x) xs"
      using k by (auto simp: filter_filter intro: filter_cong)
    ultimately show ?thesis by simp
  next
    assume k: "f k = 1"
    have "filter (\<lambda>x. f k = f x) (filter (\<lambda>x. f x = 0) xs) = []" using k by (auto simp: filter_empty_conv)
    moreover have "filter (\<lambda>x. f k = f x) (filter (\<lambda>x. f x = 1) xs) = filter (\<lambda>x. f k = f x) xs"
      using k by (auto simp: filter_filter intro: filter_cong)
    ultimately show ?thesis by simp
  qed
next
  show "sorted (map f (filter (\<lambda>x. f x = 0) xs @ filter (\<lambda>x. f x = 1) xs))"
  proof -
    have "\<And>c. sorted_wrt (\<lambda>x y. f x \<le> f y) (filter (\<lambda>x. f x = c) xs)"
      by (induction xs) auto
    then show ?thesis by (auto simp: sorted_append sorted_wrt_map)
  qed
qed

text \<open>So the dependency sort keeps the non-selected arrows first and the selected ones last.\<close>

lemma sort_dependencies_split:
  "sort_dependencies sel deps = filter (\<lambda>d. \<not> dep_selected sel d) deps @ filter (dep_selected sel) deps"
  unfolding sort_dependencies_def
  by (subst sort_key_two_keys) (auto intro!: filter_cong)

text \<open>The renderers' private coordinate conversion is the viewport manager's.\<close>

lemma r_timeToX_end:
  "r_timeToX v e = r_timeToX v s + r_durationToWidth v (e - s)"
  unfolding r_timeToX_def r_durationToWidth_def by (simp add: field_simps)

lemma r_timeToX_eq: "r_timeToX = timeToX"
  by (simp add: fun_eq_iff r_timeToX_def timeToX_def MS_PER_HOUR_def)

text \<open>The arrow of a dependency starts at the right edge of the predecessor's bar (FS, FF) or its
  left edge (SS, SF) and ends at the left edge of the successor's bar (FS, SS) or its right edge
  (FF, SF), as \<open>renderTask\<close> draws the bars, each end at the vertical middle of its bar.\<close>

theorem dependency_arrow_edges:
  "calculateArrowPositions dep p s pr sr v =
     (let left = (\<lambda>t. r_timeToX v (startTime t));
          right = (\<lambda>t. r_timeToX v (startTime t) + r_durationToWidth v (endTime t - startTime t));
          mid = (\<lambda>row. (virtualY row - scrollY v) + (row_height row - row_height row * TASK_HEIGHT_RATIO) / 2
                       + row_height row * TASK_HEIGHT_RATIO / 2)
      in (if dep_type dep = FS \<or> dep_type dep = FF then right p else left p, mid pr,
          if dep_type dep = FS \<or> dep_type dep = SS then left s else right s, mid sr))"
  by (cases "dep_type dep")
     (simp_all add: calculateArrowPositions_def r_timeToX_end [symmetric] Let_def field_simps)

text \<open>C32. The dependency layer clears the canvas, then draws the visible arrows incident to no
  selected task, then those incident to a selected task, each group in list order; whether an
  arrow is highlighted plays no part in the order.\<close>

theorem renderDependencies_order:
  "renderDependencies r im v ts deps rows sel hl =
     (if \<not> has_ctx r then []
      else (let visible = filter (dep_visible r v ts (visible_resource_ids rows)) deps
            in clearCanvas (r_width r) (r_height r) @
               concat (map (draw_dependency im v ts sel hl) (filter (\<lambda>d. \<not> dep_selected sel d) visible)) @
               concat (map (draw_dependency im v ts sel hl) (filter (dep_selected sel) visible))))"
  by (simp add: renderDependencies_def sort_dependencies_split Let_def)

text \<open>When the minimum resolution does not exceed the zoom tier's snap minutes, the snap guides
  of the interaction layer stand at the start and end a commit would snap to (\<open>snap_ms\<close> with
  \<open>getSnapIntervalMs\<close>), for the edges the drag type moves.\<close>

theorem snap_guides_commit:
  assumes "minRes \<le> zoom_snap_minutes (zoomLevel v)"
  shows "renderSnapLines r d v =
     (let i = getSnapIntervalMs (zoomLevel v) minRes
      in (if dtype d = Move \<or> dtype d = Resize_start then snap_guide r v (snap_ms i (previewStartTime d)) else []) @
         (if dtype d = Move \<or> dtype d = Resize_end then snap_guide r v (snap_ms i (previewEndTime d)) else []))"
proof -
  have "ir_getSnapInterval (zoomLevel v) = getSnapIntervalMs (zoomLevel v) minRes"
    using assms by (cases "zoomLevel v") (simp_all add: getSnapIntervalMs_def max_def)
  then show ?thesis by (simp add: renderSnapLines_def snap_ms_def Let_def)
qed

text \<open>The hour of day repeats every 24 hours, so in week zoom (lines 24 hours apart) every line
  of the time grid is major or every line is minor.\<close>

lemma local_hour_next_day: "local_hour tz (t + 24 * 3600000) = local_hour tz t"
proof -
  have "(t + 24 * 3600000 + tz) / 3600000 = (t + tz) / 3600000 + of_int 24" by (simp add: field_simps)
  then have "\<lfloor>(t + 24 * 3600000 + tz) / 3600000\<rfloor> = \<lfloor>(t + tz) / 3600000\<rfloor> + 24"
    by (simp only: floor_add_int)
  then show ?thesis unfolding local_hour_def by simp
qed

lemma grid_week_uniform: "grid_isMajor Week tz (t + grid_minor Week * 3600000) = grid_isMajor Week tz t"
  using local_hour_next_day by (simp add: grid_isMajor_def)

text \<open>Each iteration of the time grid loop advances by at least one hour.\<close>

lemma grid_step_decreases:
  assumes "t \<le> e"
  shows "nat (\<lceil>(e - (t + grid_minor z * 3600000)) / 3600000\<rceil> + 1) < nat (\<lceil>(e - t) / 3600000\<rceil> + 1)"
proof -
  let ?m = "grid_minor z"
  let ?x = "(e - t) / 3600000"
  have m: "1 \<le> ?m" by (cases z) auto
  have "(e - (t + ?m * 3600000)) / 3600000 = ?x - ?m" by (simp add: field_simps)
  also have "\<dots> \<le> ?x - 1" using m by simp
  finally have "\<lceil>(e - (t + ?m * 3600000)) / 3600000\<rceil> \<le> \<lceil>?x\<rceil> - 1"
    by (metis ceiling_diff_one ceiling_mono)
  moreover have "0 \<le> \<lceil>?x\<rceil>" using assms by simp
  ultimately show ?thesis by simp
qed

lemma grid_line_length: "length (grid_line C tz v w h t) \<le> 6"
  by (simp add: grid_line_def Let_def)

text \<open>C26. The loop of \<open>renderTimeGrid\<close> ends: from \<open>time\<close> up to \<open>visibleEndTime\<close> it runs at
  most one iteration per started hour of the span plus one, each drawing at most one line of
  six canvas calls, whatever the zoom level.\<close>

theorem time_grid_loop_bound:
  "length (time_grid_loop C tz v w h e t) \<le> 6 * nat (\<lceil>(e - t) / 3600000\<rceil> + 1)"
proof (induction C tz v w h e t rule: time_grid_loop.induct)
  case (1 C tz v w h e t)
  show ?case
  proof (cases "t \<le> e")
    case True
    have rec: "time_grid_loop C tz v w h e t =
                 grid_line C tz v w h t @ time_grid_loop C tz v w h e (t + grid_minor (zoomLevel v) * 3600000)"
      using True by simp
    have "length (time_grid_loop C tz v w h e (t + grid_minor (zoomLevel v) * 3600000))
            \<le> 6 * nat (\<lceil>(e - (t + grid_minor (zoomLevel v) * 3600000)) / 3600000\<rceil> + 1)"
      using "1.IH" True by blast
    moreover have "nat (\<lceil>(e - (t + grid_minor (zoomLevel v) * 3600000)) / 3600000\<rceil> + 1) + 1
                     \<le> nat (\<lceil>(e - t) / 3600000\<rceil> + 1)"
      using grid_step_decreases [OF True, of "zoomLevel v"] by linarith
    ultimately show ?thesis using rec grid_line_length [of C tz v w h t] by simp
  next
    case False
    then show ?thesis by simp
  qed
qed

end
