(* ===== verification/LegacyStore.thy ===== *)
theory LegacyStore
  imports History
begin

text \<open>
  The two global stores the interaction hook \<open>useGanttInteractions\<close>
  (\<open>src/unnamed/part_009\<close>) and the toolbar read and write: the data store
  \<open>useGanttDataStore\<close> (\<open>store/data-store.ts\<close>: tasks, resources, dependencies, orders,
  groups, wrapped in the \<open>temporal\<close> history with limit 50 and an equality on tasks and
  dependencies) and the UI store \<open>useGanttUIStore\<close> (\<open>src/unnamed/part_004\<close>: viewport,
  selection, grouping, drag, hover, sidebar, without history). Their states are the
  records \<open>data_state\<close> and \<open>ui_state\<close>; every action is a function on one of them,
  reusing the shared bodies of theory \<open>Store\<close> (\<open>update_in\<close>, \<open>drop_if_incident\<close>,
  \<open>move_task\<close>) and the viewport and grouping functions. An action of the UI store
  that reads the data store (\<open>selectAllTasks\<close>, \<open>expandAllGroups\<close>, \<open>startDrag\<close>,
  \<open>commitDrag\<close>) takes the data state as an argument. \<open>commitDrag\<close> is its list of
  effects on the two stores (\<open>legacy_effect\<close>), in call order; a data-store effect goes
  through the history (\<open>temporal_set\<close> with \<open>data_equal\<close>), a UI effect does not.
  \<open>legacy_steps\<close> interprets the action interface \<open>store_action\<close> of theory
  \<open>Store\<close> on the pair of stores, so that the handlers of theory \<open>Interaction\<close> can be
  run against them.
\<close>

record data_state =
  d_tasks :: "(task_id, task) obj"
  d_resources :: "(resource_id, resource) obj"
  d_dependencies :: "(dependency_id, task_dependency) obj"
  d_orders :: "(order_id, order) obj"
  d_groups :: "(group_id, resource_group) obj"
  d_isLoading :: bool
  d_error :: "string option"

definition data_initialState :: data_state where
  "data_initialState =
     \<lparr>d_tasks = [], d_resources = [], d_dependencies = [], d_orders = [], d_groups = [],
      d_isLoading = False, d_error = None\<rparr>"

subsection \<open>Data store actions\<close>

definition data_setTasks :: "stored_task list \<Rightarrow> data_state \<Rightarrow> data_state" where
  "data_setTasks sts d = d\<lparr>d_tasks := fold (\<lambda>t ts. obj_set ts (task_id t) (hydrateTask t)) sts []\<rparr>"

definition data_addTask :: "stored_task \<Rightarrow> data_state \<Rightarrow> data_state" where
  "data_addTask st d = d\<lparr>d_tasks := obj_set (d_tasks d) (task_id st) (hydrateTask st)\<rparr>"

definition data_updateTask :: "task_id \<Rightarrow> task_update \<Rightarrow> data_state \<Rightarrow> data_state" where
  "data_updateTask tid u d = d\<lparr>d_tasks := update_in tid u (d_tasks d)\<rparr>"

definition data_deleteTask :: "task_id \<Rightarrow> data_state \<Rightarrow> data_state" where
  "data_deleteTask tid d =
     d\<lparr>d_tasks := obj_delete (d_tasks d) tid,
       d_dependencies := fold (drop_if_incident tid) (obj_keys (d_dependencies d)) (d_dependencies d)\<rparr>"

definition data_updateTasks :: "(task_id \<times> task_update) list \<Rightarrow> data_state \<Rightarrow> data_state" where
  "data_updateTasks us d = d\<lparr>d_tasks := fold (\<lambda>(tid, u) ts. update_in tid u ts) us (d_tasks d)\<rparr>"

definition data_moveTasks :: "task_id list \<Rightarrow> number \<Rightarrow> resource_id option \<Rightarrow> data_state \<Rightarrow> data_state" where
  "data_moveTasks tids delta nr d =
     d\<lparr>d_tasks := fold (\<lambda>tid ts. case obj_get ts tid of None \<Rightarrow> ts
                                 | Some t \<Rightarrow> if is_fixed t then ts else obj_set ts tid (move_task delta nr t))
                      tids (d_tasks d)\<rparr>"

definition data_setResources :: "resource list \<Rightarrow> data_state \<Rightarrow> data_state" where
  "data_setResources rs d = d\<lparr>d_resources := obj_of_list res_id rs\<rparr>"

definition data_addResource :: "resource \<Rightarrow> data_state \<Rightarrow> data_state" where
  "data_addResource r d = d\<lparr>d_resources := obj_set (d_resources d) (res_id r) r\<rparr>"

definition data_deleteResource :: "resource_id \<Rightarrow> data_state \<Rightarrow> data_state" where
  "data_deleteResource rid d = d\<lparr>d_resources := obj_delete (d_resources d) rid\<rparr>"

definition data_setDependencies :: "task_dependency list \<Rightarrow> data_state \<Rightarrow> data_state" where
  "data_setDependencies ds d = d\<lparr>d_dependencies := obj_of_list dep_id ds\<rparr>"

definition data_addDependency :: "task_dependency \<Rightarrow> data_state \<Rightarrow> data_state" where
  "data_addDependency dp d = d\<lparr>d_dependencies := obj_set (d_dependencies d) (dep_id dp) dp\<rparr>"

definition data_removeDependency :: "dependency_id \<Rightarrow> data_state \<Rightarrow> data_state" where
  "data_removeDependency i d = d\<lparr>d_dependencies := obj_delete (d_dependencies d) i\<rparr>"

definition data_setOrders :: "order list \<Rightarrow> data_state \<Rightarrow> data_state" where
  "data_setOrders os d = d\<lparr>d_orders := obj_of_list order_id os\<rparr>"

definition data_setGroups :: "resource_group list \<Rightarrow> data_state \<Rightarrow> data_state" where
  "data_setGroups gs d = d\<lparr>d_groups := obj_of_list group_id gs\<rparr>"

definition data_setLoading :: "bool \<Rightarrow> data_state \<Rightarrow> data_state" where
  "data_setLoading b d = d\<lparr>d_isLoading := b\<rparr>"

definition data_setError :: "string option \<Rightarrow> data_state \<Rightarrow> data_state" where
  "data_setError e d = d\<lparr>d_error := e\<rparr>"

definition data_initializeData :: "init_data \<Rightarrow> data_state \<Rightarrow> data_state" where
  "data_initializeData dt d =
     d\<lparr>d_tasks := fold (\<lambda>t ts. obj_set ts (task_id t) (hydrateTask t)) (init_tasks dt) [],
       d_resources := obj_of_list res_id (init_resources dt),
       d_dependencies := obj_of_list dep_id (case init_dependencies dt of None \<Rightarrow> [] | Some ds \<Rightarrow> ds),
       d_orders := obj_of_list order_id (case init_orders dt of None \<Rightarrow> [] | Some os \<Rightarrow> os),
       d_groups := obj_of_list group_id (case init_groups dt of None \<Rightarrow> [] | Some gs \<Rightarrow> gs),
       d_isLoading := False, d_error := None\<rparr>"

text \<open>The \<open>equality\<close> option of the data store's \<open>temporal\<close> middleware.\<close>

definition data_equal :: "data_state \<Rightarrow> data_state \<Rightarrow> bool" where
  "data_equal a b \<longleftrightarrow> d_tasks a = d_tasks b \<and> d_dependencies a = d_dependencies b"

subsection \<open>UI store\<close>

record ui_state =
  u_viewport :: viewport_state
  u_selection :: selection_state
  u_grouping :: grouping_state
  u_drag :: "drag_state option"
  u_hoveredTaskId :: "task_id option"
  u_sidebarWidth :: number

definition ui_initialState :: "number \<Rightarrow> ui_state" where
  "ui_initialState now =
     \<lparr>u_viewport = \<lparr>scrollX = 0, timeOrigin = now - 24 * 60 * 60 * 1000, pixelsPerHour = 10,
                    scrollY = 0, rowHeight = 40, vp_width = 0, vp_height = 0, zoomLevel = Day\<rparr>,
      u_selection = \<lparr>sel_taskIds = [], sel_resourceIds = [], lastSelectedTaskId = None\<rparr>,
      u_grouping = \<lparr>mode = Group_none, expandedGroups = []\<rparr>,
      u_drag = None, u_hoveredTaskId = None, u_sidebarWidth = 200\<rparr>"

text \<open>The viewport and grouping actions apply the functions of theories \<open>Viewport\<close> and
  \<open>RowLayout\<close> to their field.\<close>

definition ui_on_viewport :: "(viewport_state \<Rightarrow> viewport_state) \<Rightarrow> ui_state \<Rightarrow> ui_state" where
  "ui_on_viewport f u = u\<lparr>u_viewport := f (u_viewport u)\<rparr>"

definition ui_on_grouping :: "(grouping_state \<Rightarrow> grouping_state) \<Rightarrow> ui_state \<Rightarrow> ui_state" where
  "ui_on_grouping f u = u\<lparr>u_grouping := f (u_grouping u)\<rparr>"

definition ui_selectTask :: "task_id \<Rightarrow> select_mode \<Rightarrow> ui_state \<Rightarrow> ui_state" where
  "ui_selectTask tid m u =
     (let ids = sel_taskIds (u_selection u);
          ids' = (case m of Sel_replace \<Rightarrow> [tid]
                  | Sel_add \<Rightarrow> jsset_add tid ids
                  | Sel_toggle \<Rightarrow> if tid \<in> set ids then jsset_delete tid ids else jsset_add tid ids)
      in u\<lparr>u_selection := (u_selection u)\<lparr>sel_taskIds := ids', lastSelectedTaskId := Some tid\<rparr>\<rparr>)"

definition ui_selectTasks :: "task_id list \<Rightarrow> select_mode \<Rightarrow> ui_state \<Rightarrow> ui_state" where
  "ui_selectTasks tids m u =
     (let sel = u_selection u;
          ids' = (if m = Sel_replace then jsset_of_list tids else fold jsset_add tids (sel_taskIds sel));
          last' = (if tids \<noteq> [] then Some (last tids) else lastSelectedTaskId sel)
      in u\<lparr>u_selection := sel\<lparr>sel_taskIds := ids', lastSelectedTaskId := last'\<rparr>\<rparr>)"

definition ui_clearSelection :: "ui_state \<Rightarrow> ui_state" where
  "ui_clearSelection u =
     u\<lparr>u_selection := \<lparr>sel_taskIds = [], sel_resourceIds = [], lastSelectedTaskId = None\<rparr>\<rparr>"

definition ui_selectAllTasks :: "data_state \<Rightarrow> ui_state \<Rightarrow> ui_state" where
  "ui_selectAllTasks d u = u\<lparr>u_selection := (u_selection u)\<lparr>sel_taskIds := jsset_of_list (obj_keys (d_tasks d))\<rparr>\<rparr>"

definition ui_startDrag :: "data_state \<Rightarrow> task_id \<Rightarrow> drag_type \<Rightarrow> number \<Rightarrow> number \<Rightarrow> ui_state \<Rightarrow> ui_state" where
  "ui_startDrag d tid ty x y u =
     (case obj_get (d_tasks d) tid of
        None \<Rightarrow> u
      | Some t \<Rightarrow>
          if is_fixed t then u
          else u\<lparr>u_drag := Some \<lparr>dtype = ty, drag_taskId = tid, originalTask = t,
                                 previewStartTime = startTime t, previewEndTime = endTime t,
                                 previewResourceId = resourceId t, collisions = [],
                                 dependencyViolations = [], startX = x, startY = y,
                                 currentX = x, currentY = y\<rparr>\<rparr>)"

text \<open>\<open>updateDrag\<close>: the resize minimum is the constant 15 minutes.\<close>

definition ui_updateDrag :: "number \<Rightarrow> number \<Rightarrow> ui_state \<Rightarrow> ui_state" where
  "ui_updateDrag cx cy u =
     (case u_drag u of
        None \<Rightarrow> u
      | Some d \<Rightarrow>
          (let deltaX = cx - startX d;
               hoursPerPixel = 1 / pixelsPerHour (u_viewport u);
               deltaTimeMs = deltaX * hoursPerPixel * 60 * 60 * 1000;
               ot = originalTask d;
               d1 = d\<lparr>currentX := cx, currentY := cy\<rparr>;
               d2 = (case dtype d of
                       Move \<Rightarrow> d1\<lparr>previewStartTime := startTime ot + deltaTimeMs,
                                  previewEndTime := endTime ot + deltaTimeMs\<rparr>
                     | Reassign \<Rightarrow> d1\<lparr>previewStartTime := startTime ot + deltaTimeMs,
                                      previewEndTime := endTime ot + deltaTimeMs\<rparr>
                     | Resize_start \<Rightarrow>
                         d1\<lparr>previewStartTime := min (startTime ot + deltaTimeMs) (endTime ot - 15 * 60 * 1000)\<rparr>
                     | Resize_end \<Rightarrow>
                         d1\<lparr>previewEndTime := max (endTime ot + deltaTimeMs) (startTime ot + 15 * 60 * 1000)\<rparr>)
           in u\<lparr>u_drag := Some d2\<rparr>))"

definition ui_cancelDrag :: "ui_state \<Rightarrow> ui_state" where
  "ui_cancelDrag u = u\<lparr>u_drag := None\<rparr>"

definition ui_setHoveredTask :: "task_id option \<Rightarrow> ui_state \<Rightarrow> ui_state" where
  "ui_setHoveredTask t u = u\<lparr>u_hoveredTaskId := t\<rparr>"

definition ui_setSidebarWidth :: "number \<Rightarrow> ui_state \<Rightarrow> ui_state" where
  "ui_setSidebarWidth w u = u\<lparr>u_sidebarWidth := max 100 (min 400 w)\<rparr>"

definition ui_reset :: "number \<Rightarrow> ui_state \<Rightarrow> ui_state" where
  "ui_reset now u = ui_initialState now"

text \<open>An effect on one of the two stores.\<close>

datatype legacy_effect = Data_set "data_state \<Rightarrow> data_state" | Ui_set "ui_state \<Rightarrow> ui_state"

text \<open>\<open>commitDrag\<close> of the UI store: it neither snaps nor reads a minimum resolution; it
  writes the preview times through the data store's \<open>updateTask\<close>, then clears the drag.
  The task of a resize is read from the data store at the commit; a missing one makes
  \<open>originalTask._totalDuration\<close> throw, a total of 0 gives non-finite durations.\<close>

definition legacy_commitDrag :: "data_state \<Rightarrow> ui_state \<Rightarrow> store_err + legacy_effect list" where
  "legacy_commitDrag d u =
     (case u_drag u of
        None \<Rightarrow> Inr []
      | Some dr \<Rightarrow>
          if dependencyViolations dr \<noteq> [] then Inr [Ui_set ui_cancelDrag]
          else
            (let tid = drag_taskId dr
             in if dtype dr = Move \<or> dtype dr = Reassign then
                  Inr [Data_set (data_updateTask tid (no_update\<lparr>upd_startTime := Some (previewStartTime dr),
                                                                upd_resourceId := Some (previewResourceId dr)\<rparr>)),
                       Ui_set ui_cancelDrag]
                else
                  (case obj_get (d_tasks d) tid of
                     None \<Rightarrow> Inl (Missing_task tid)
                   | Some ot \<Rightarrow>
                       if totalDuration ot = 0 then Inl (NaN_durations tid)
                       else
                         (let newDurationMinutes = (previewEndTime dr - previewStartTime dr) / (60 * 1000);
                              scaleFactor = newDurationMinutes / totalDuration ot;
                              newPhases = scale_phases scaleFactor (phases ot)
                          in Inr [Data_set (data_updateTask tid (no_update\<lparr>upd_startTime := Some (previewStartTime dr),
                                                                           upd_phases := Some newPhases\<rparr>)),
                                  Ui_set ui_cancelDrag]))))"

subsection \<open>The two stores behind the action interface\<close>

fun legacy_steps :: "store_action \<Rightarrow> data_state \<Rightarrow> ui_state \<Rightarrow> store_err + legacy_effect list" where
  "legacy_steps (Set_tasks ts) d u = Inr [Data_set (data_setTasks ts)]"
| "legacy_steps (Add_task t) d u = Inr [Data_set (data_addTask t)]"
| "legacy_steps (Update_task tid up) d u = Inr [Data_set (data_updateTask tid up)]"
| "legacy_steps (Delete_task tid) d u = Inr [Data_set (data_deleteTask tid)]"
| "legacy_steps (Update_tasks us) d u = Inr [Data_set (data_updateTasks us)]"
| "legacy_steps (Move_tasks tids dt nr) d u = Inr [Data_set (data_moveTasks tids dt nr)]"
| "legacy_steps (Set_resources rs) d u = Inr [Data_set (data_setResources rs)]"
| "legacy_steps (Add_resource r) d u = Inr [Data_set (data_addResource r)]"
| "legacy_steps (Delete_resource r) d u = Inr [Data_set (data_deleteResource r)]"
| "legacy_steps (Set_dependencies ds) d u = Inr [Data_set (data_setDependencies ds)]"
| "legacy_steps (Add_dependency dp) d u = Inr [Data_set (data_addDependency dp)]"
| "legacy_steps (Remove_dependency i) d u = Inr [Data_set (data_removeDependency i)]"
| "legacy_steps (Set_orders os) d u = Inr [Data_set (data_setOrders os)]"
| "legacy_steps (Set_groups gs) d u = Inr [Data_set (data_setGroups gs)]"
| "legacy_steps (Initialize_data dt) d u = Inr [Data_set (data_initializeData dt)]"
| "legacy_steps (Pan_viewport dx dy) d u = Inr [Ui_set (ui_on_viewport (panViewport dx dy))]"
| "legacy_steps (Zoom_viewport f cx) d u = Inr [Ui_set (ui_on_viewport (zoomViewport f cx))]"
| "legacy_steps (Set_zoom_level l) d u = Inr [Ui_set (ui_on_viewport (setZoomLevel l))]"
| "legacy_steps (Scroll_to_time t) d u = Inr [Ui_set (ui_on_viewport (scrollToTime t))]"
| "legacy_steps (Scroll_to_row i) d u = Inr [Ui_set (ui_on_viewport (scrollToRow i))]"
| "legacy_steps (Select_task tid m) d u = Inr [Ui_set (ui_selectTask tid m)]"
| "legacy_steps (Select_tasks tids m) d u = Inr [Ui_set (ui_selectTasks tids m)]"
| "legacy_steps Clear_selection d u = Inr [Ui_set ui_clearSelection]"
| "legacy_steps Select_all_tasks d u = Inr [Ui_set (ui_selectAllTasks d)]"
| "legacy_steps (Set_grouping_mode m) d u = Inr [Ui_set (ui_on_grouping (setGroupingMode m))]"
| "legacy_steps (Toggle_group g) d u = Inr [Ui_set (ui_on_grouping (toggleGroup g))]"
| "legacy_steps Expand_all_groups d u = Inr [Ui_set (ui_on_grouping (expandAllGroups (d_groups d)))]"
| "legacy_steps Collapse_all_groups d u = Inr [Ui_set (ui_on_grouping collapseAllGroups)]"
| "legacy_steps (Start_drag tid ty x y) d u = Inr [Ui_set (ui_startDrag d tid ty x y)]"
| "legacy_steps (Update_drag x y) d u = Inr [Ui_set (ui_updateDrag x y)]"
| "legacy_steps Commit_drag d u = legacy_commitDrag d u"
| "legacy_steps Cancel_drag d u = Inr [Ui_set ui_cancelDrag]"
| "legacy_steps (Set_hovered_task t) d u = Inr [Ui_set (ui_setHoveredTask t)]"
| "legacy_steps (Set_sidebar_width w) d u = Inr [Ui_set (ui_setSidebarWidth w)]"
| "legacy_steps (Set_loading b) d u = Inr [Data_set (data_setLoading b)]"
| "legacy_steps (Set_error e) d u = Inr [Data_set (data_setError e)]"
| "legacy_steps (Reset now) d u = Inr [Ui_set (ui_reset now)]"

text \<open>The pair of stores: the data store with its history, and the UI store.\<close>

record legacy_state =
  l_data :: "data_state history"
  l_ui :: ui_state

definition legacy_effect_apply :: "legacy_effect \<Rightarrow> legacy_state \<Rightarrow> legacy_state" where
  "legacy_effect_apply e st =
     (case e of Data_set f \<Rightarrow> st\<lparr>l_data := temporal_set data_equal f (l_data st)\<rparr>
      | Ui_set g \<Rightarrow> st\<lparr>l_ui := g (l_ui st)\<rparr>)"

definition legacy_dispatch :: "store_action \<Rightarrow> legacy_state \<Rightarrow> store_err + legacy_state" where
  "legacy_dispatch a st =
     (case legacy_steps a (present (l_data st)) (l_ui st) of
        Inl e \<Rightarrow> Inl e
      | Inr es \<Rightarrow> Inr (fold legacy_effect_apply es st))"

text \<open>\<open>useGanttDataStore.temporal.getState().undo()\<close> and \<open>redo()\<close>: the data store only.\<close>

fun legacy_session_run :: "session_event list \<Rightarrow> legacy_state \<Rightarrow> store_err + legacy_state" where
  "legacy_session_run [] st = Inr st"
| "legacy_session_run (Act a # evs) st =
     (case legacy_dispatch a st of Inl e \<Rightarrow> Inl e | Inr st' \<Rightarrow> legacy_session_run evs st')"
| "legacy_session_run (Undo # evs) st = legacy_session_run evs (st\<lparr>l_data := undo (l_data st)\<rparr>)"
| "legacy_session_run (Redo # evs) st = legacy_session_run evs (st\<lparr>l_data := redo (l_data st)\<rparr>)"

text \<open>The view of the two stores as one state of the composable store (theory \<open>Store\<close>),
  as the hook sees them through their \<open>getState()\<close>: the fields of \<open>createGanttStore\<close>'s
  state that the stores lack are fixed, the minimum resolution at the 15 minutes the UI
  store's \<open>updateDrag\<close> uses.\<close>

definition merge :: "data_state \<Rightarrow> ui_state \<Rightarrow> store_state" where
  "merge d u =
     \<lparr>tasks = d_tasks d, resources = d_resources d, dependencies = d_dependencies d,
      orders = d_orders d, groups = d_groups d, viewport = u_viewport u, selection = u_selection u,
      grouping = u_grouping u, drag = u_drag u, hoveredTaskId = u_hoveredTaskId u,
      sidebarWidth = u_sidebarWidth u, minResolution = 15, isLoading = d_isLoading d,
      store_error = d_error d\<rparr>"

definition legacy_apply :: "store_action \<Rightarrow> data_state \<Rightarrow> ui_state \<Rightarrow> store_err + data_state \<times> ui_state" where
  "legacy_apply a d u =
     (case legacy_steps a d u of
        Inl e \<Rightarrow> Inl e
      | Inr es \<Rightarrow> Inr (fold (\<lambda>e (d, u). case e of Data_set f \<Rightarrow> (f d, u) | Ui_set g \<Rightarrow> (d, g u)) es (d, u)))"

subsection \<open>Lemmas\<close>

lemma apply_update_start_resource_fields:
  "startTime (apply_task_update (no_update\<lparr>upd_startTime := Some st, upd_resourceId := Some r\<rparr>) t) = st \<and>
   resourceId (apply_task_update (no_update\<lparr>upd_startTime := Some st, upd_resourceId := Some r\<rparr>) t) = r"
  by (simp add: apply_task_update_def assign_update_def no_update_def Let_def)

text \<open>C34. Seen through \<open>merge\<close>, the two legacy stores implement every action of the composable
  store but \<open>commitDrag\<close> and \<open>reset\<close>: running the action on the pair of stores and merging
  gives what the composable store computes on the merged state (with the 15-minute resize
  minimum of the UI store).\<close>

theorem legacy_refines_store:
  assumes "a \<noteq> Commit_drag" and "\<forall>now. a \<noteq> Reset now"
  shows "store_apply a (merge d u) =
           (case legacy_apply a d u of Inl e \<Rightarrow> Inl e | Inr (d', u') \<Rightarrow> Inr (merge d' u'))"
  using assms
  by (cases a)
     (simp_all add: store_apply_def legacy_apply_def merge_def
        setTasks_def data_setTasks_def addTask_def data_addTask_def updateTask_def data_updateTask_def
        deleteTask_def data_deleteTask_def updateTasks_def data_updateTasks_def moveTasks_def data_moveTasks_def
        setResources_def data_setResources_def addResource_def data_addResource_def
        deleteResource_def data_deleteResource_def setDependencies_def data_setDependencies_def
        addDependency_def data_addDependency_def removeDependency_def data_removeDependency_def
        setOrders_def data_setOrders_def setGroups_def data_setGroups_def
        initializeData_def data_initializeData_def on_viewport_def ui_on_viewport_def
        on_grouping_def ui_on_grouping_def selectTask_def ui_selectTask_def selectTasks_def ui_selectTasks_def
        clearSelection_def ui_clearSelection_def selectAllTasks_def ui_selectAllTasks_def
        startDrag_def ui_startDrag_def updateDrag_def ui_updateDrag_def cancelDrag_def ui_cancelDrag_def
        setHoveredTask_def ui_setHoveredTask_def setSidebarWidth_def ui_setSidebarWidth_def
        setLoading_def data_setLoading_def setError_def data_setError_def Let_def
        split: option.splits drag_type.splits)

text \<open>A committed move or reassign of the legacy stores writes the unsnapped preview start and
  resource into the data store and clears the drag in the UI store; an undo right after it
  restores the data store's state from before the commit and leaves the UI store alone
  (the drag stays cleared).\<close>

theorem legacy_commit_undo:
  assumes drag: "u_drag u = Some dr" and ok: "dependencyViolations dr = []"
    and ty: "dtype dr = Move \<or> dtype dr = Reassign"
    and t: "obj_get (d_tasks (present h)) (drag_taskId dr) = Some t"
    and moved: "previewStartTime dr \<noteq> startTime t"
  shows "\<exists>h1. legacy_session_run [Act Commit_drag, Undo] \<lparr>l_data = h, l_ui = u\<rparr> =
                Inr \<lparr>l_data = undo h1, l_ui = u\<lparr>u_drag := None\<rparr>\<rparr> \<and>
              (\<exists>t'. obj_get (d_tasks (present h1)) (drag_taskId dr) = Some t' \<and>
                    startTime t' = previewStartTime dr \<and> resourceId t' = previewResourceId dr) \<and>
              present (undo h1) = present h"
proof -
  let ?tid = "drag_taskId dr"
  let ?up = "no_update\<lparr>upd_startTime := Some (previewStartTime dr), upd_resourceId := Some (previewResourceId dr)\<rparr>"
  let ?f = "data_updateTask ?tid ?up"
  let ?t' = "apply_task_update ?up t"
  have get: "obj_get (d_tasks (?f (present h))) ?tid = Some ?t'"
    using t by (simp add: data_updateTask_def update_in_def obj_get_set)
  have fields: "startTime ?t' = previewStartTime dr" "resourceId ?t' = previewResourceId dr"
    using apply_update_start_resource_fields by simp_all
  have changed: "\<not> data_equal (present h) (?f (present h))"
    using t get fields(1) moved by (auto simp: data_equal_def)
  have run: "legacy_session_run [Act Commit_drag, Undo] \<lparr>l_data = h, l_ui = u\<rparr> =
               Inr \<lparr>l_data = undo (temporal_set data_equal ?f h), l_ui = u\<lparr>u_drag := None\<rparr>\<rparr>"
    using drag ok ty
    by (simp add: legacy_dispatch_def legacy_commitDrag_def legacy_effect_apply_def ui_cancelDrag_def)
  have pres: "present (temporal_set data_equal ?f h) = ?f (present h)"
    using changed by (simp add: temporal_set_push)
  show ?thesis
    using run get fields undo_temporal_set [where f = ?f and h = h and eq = data_equal, OF changed] pres by auto
qed

end
