(* ===== verification/Hook.thy ===== *)
theory Hook
  imports Interaction LegacyStore
begin

text \<open>
  The interaction hook as the repository wires it: \<open>useGanttInteractions\<close>
  (\<open>src/unnamed/part_009\<close>) reads \<open>useGanttUIStore.getState()\<close> and
  \<open>useGanttDataStore.getState()\<close> and calls their actions, and its undo and redo
  shortcuts call the data store's \<open>temporal\<close> history. \<open>hook_step\<close> runs the handlers
  of theory \<open>Interaction\<close> on the view \<open>merge\<close> of the two stores (theory
  \<open>LegacyStore\<close>) and their calls on the two stores with \<open>legacy_session_run\<close>.
\<close>

definition hook_step ::
  "ui_env \<Rightarrow> interaction_state \<times> legacy_state \<Rightarrow> ui_event \<Rightarrow> store_err + interaction_state \<times> legacy_state" where
  "hook_step env c e =
     (let (st, ls) = c; (st', calls) = handle_event env (merge (present (l_data ls)) (l_ui ls)) e st
      in case legacy_session_run calls ls of Inl err \<Rightarrow> Inl err | Inr ls' \<Rightarrow> Inr (st', ls'))"

fun hook_run ::
  "ui_env \<Rightarrow> ui_event list \<Rightarrow> interaction_state \<times> legacy_state \<Rightarrow> store_err + interaction_state \<times> legacy_state" where
  "hook_run env [] c = Inr c"
| "hook_run env (e # es) c = (case hook_step env c e of Inl err \<Rightarrow> Inl err | Inr c' \<Rightarrow> hook_run env es c')"

end
