(* ===== verification/CanvasWiring.thy ===== *)
theory CanvasWiring
  imports Scheduler Renderers
begin

text \<open>
  The canvas component \<open>GanttCanvas\<close> of \<open>src/unnamed/part_010\<close> (lines 221 to 371),
  which wires the store to the render scheduler, the index manager and the four
  renderers. Its inputs (props and store selections) are the record
  \<open>canvas_props\<close>; the singletons it drives (scheduler, index manager, renderers) and
  the props the registered callbacks close over are the record \<open>canvas_state\<close>.
  React runs, after a render, the cleanup and then the body of every effect whose
  dependency list changed, in declaration order (all of them at mount);
  \<open>canvas_effects\<close> lists what those effects do, as \<open>canvas_action\<close>s. Dependencies
  are compared by value (immer gives a new reference exactly when a value changes).
  The effects that only touch the viewport manager or the store (\<open>setCanvasRect\<close>,
  \<open>setViewport\<close>) are not part of this model. A registered callback draws with the
  props it captured and the renderers' and index manager's state when the frame fires:
  \<open>layer_draw\<close>. The clock, the time zone, the theme colors, \<open>measureText\<close> and the
  date format are the environment \<open>canvas_env\<close>. The composable variant
  (\<open>components/composable/GanttCanvas.tsx\<close>), with a layer filter and a mark of all
  layers on every registration, is \<open>comp_effects\<close>.
\<close>

record canvas_props =
  cp_viewport :: viewport_state
  cp_visibleRows :: "virtual_row list"
  cp_virtualRows :: "virtual_row list"
  cp_tasks :: "(task_id, task) obj"
  cp_dependencies :: "(dependency_id, task_dependency) obj"
  cp_selection :: "task_id list"
  cp_hovered :: "task_id option"
  cp_drag :: "drag_state option"
  cp_width :: number
  cp_height :: number

record canvas_state =
  cs_scheduler :: scheduler
  cs_index :: index_manager
  cs_gridR :: renderer
  cs_tasksR :: renderer
  cs_depsR :: renderer
  cs_interR :: renderer
  cs_captured :: "canvas_props option"

record canvas_env =
  ce_colors :: grid_colors
  ce_tz :: number
  ce_now :: number
  ce_mtext :: "string \<Rightarrow> number"
  ce_fmt :: "number \<Rightarrow> string"

fun layer_name :: "render_layer \<Rightarrow> string" where
  "layer_name Grid = ''grid''"
| "layer_name Tasks = ''tasks''"
| "layer_name Dependencies = ''dependencies''"
| "layer_name Interaction = ''interaction''"

text \<open>The callbacks registered for the layers; the renderers do not throw.\<close>

definition layer_cb :: "render_layer \<Rightarrow> render_callback" where
  "layer_cb l = \<lparr>cb_name = layer_name l, cb_throws = False\<rparr>"

datatype canvas_action =
    Call sched_call
  | Set_contexts number number
  | Set_context render_layer number number
  | Build_indexes canvas_props
  | Capture canvas_props

fun canvas_act :: "canvas_action \<Rightarrow> canvas_state \<Rightarrow> canvas_state \<times> sched_effect list" where
  "canvas_act (Call c) cs = (let (s', es) = sched_apply (cs_scheduler cs) c in (cs\<lparr>cs_scheduler := s'\<rparr>, es))"
| "canvas_act (Set_contexts w h) cs =
     (cs\<lparr>cs_gridR := setContext (cs_gridR cs) w h, cs_tasksR := setContext (cs_tasksR cs) w h,
         cs_depsR := setContext (cs_depsR cs) w h, cs_interR := setContext (cs_interR cs) w h\<rparr>, [])"
| "canvas_act (Set_context l w h) cs =
     ((case l of
         Grid \<Rightarrow> cs\<lparr>cs_gridR := setContext (cs_gridR cs) w h\<rparr>
       | Tasks \<Rightarrow> cs\<lparr>cs_tasksR := setContext (cs_tasksR cs) w h\<rparr>
       | Dependencies \<Rightarrow> cs\<lparr>cs_depsR := setContext (cs_depsR cs) w h\<rparr>
       | Interaction \<Rightarrow> cs\<lparr>cs_interR := setContext (cs_interR cs) w h\<rparr>), [])"
| "canvas_act (Build_indexes p) cs =
     (cs\<lparr>cs_index := buildIndexes (obj_values (cp_tasks p)) (obj_values (cp_dependencies p))
                                  (cp_virtualRows p) (cs_index cs)\<rparr>, [])"
| "canvas_act (Capture p) cs = (cs\<lparr>cs_captured := Some p\<rparr>, [])"

fun canvas_run :: "canvas_action list \<Rightarrow> canvas_state \<Rightarrow> canvas_state \<times> sched_effect list" where
  "canvas_run [] cs = (cs, [])"
| "canvas_run (a # as) cs =
     (let (cs1, e1) = canvas_act a cs; (cs2, e2) = canvas_run as cs1 in (cs2, e1 @ e2))"

text \<open>The dependency lists of the effects.\<close>

definition register_deps ::
  "canvas_props \<Rightarrow> viewport_state \<times> virtual_row list \<times> (task_id, task) obj \<times>
                   (dependency_id, task_dependency) obj \<times> task_id list \<times> task_id option \<times> drag_state option" where
  "register_deps p = (cp_viewport p, cp_visibleRows p, cp_tasks p, cp_dependencies p, cp_selection p,
                      cp_hovered p, cp_drag p)"

definition canvas_changed :: "'p option \<Rightarrow> 'p \<Rightarrow> ('p \<Rightarrow> 'a) \<Rightarrow> bool" where
  "canvas_changed old p f = (case old of None \<Rightarrow> True | Some q \<Rightarrow> f q \<noteq> f p)"

text \<open>The effects after a render with props \<open>p\<close>, the previous props being \<open>old\<close>
  (\<open>None\<close> at mount): the cleanup of the registration effect, then the canvas setup,
  the index build, the registration and the four \<open>markDirty\<close> effects.\<close>

definition canvas_effects :: "canvas_props option \<Rightarrow> canvas_props \<Rightarrow> canvas_action list" where
  "canvas_effects old p =
     ((if old \<noteq> None \<and> canvas_changed old p register_deps then map (\<lambda>l. Call (Unregister l)) layer_order else []) @
      (if canvas_changed old p (\<lambda>q. (cp_width q, cp_height q)) \<and> 0 < cp_width p \<and> 0 < cp_height p
          then [Set_contexts (cp_width p) (cp_height p), Call Mark_all_dirty] else []) @
      (if canvas_changed old p (\<lambda>q. (cp_tasks q, cp_dependencies q, cp_virtualRows q))
          then [Build_indexes p, Call (Mark_dirty_many [Tasks, Dependencies])] else []) @
      (if canvas_changed old p register_deps
          then Capture p # map (\<lambda>l. Call (Register l (layer_cb l))) layer_order else []) @
      (if canvas_changed old p (\<lambda>q. (scrollX (cp_viewport q), scrollY (cp_viewport q), pixelsPerHour (cp_viewport q),
                      cp_visibleRows q))
          then [Call (Mark_dirty Grid)] else []) @
      (if canvas_changed old p (\<lambda>q. (cp_viewport q, cp_tasks q, cp_selection q, cp_hovered q, cp_visibleRows q))
          then [Call (Mark_dirty Tasks)] else []) @
      (if canvas_changed old p (\<lambda>q. (cp_viewport q, cp_dependencies q, cp_selection q, cp_visibleRows q))
          then [Call (Mark_dirty Dependencies)] else []) @
      (if canvas_changed old p cp_drag then [Call (Mark_dirty Interaction)] else []))"

definition canvas_update :: "canvas_props option \<Rightarrow> canvas_props \<Rightarrow> canvas_state \<Rightarrow> canvas_state \<times> sched_effect list" where
  "canvas_update old p cs = canvas_run (canvas_effects old p) cs"

text \<open>What the callback registered for a layer draws when the frame fires: the renderer
  called with the captured props (\<open>hoveredRowId\<close> and the selection box \<open>null\<close>, no
  highlighted dependency).\<close>

definition layer_draw :: "canvas_env \<Rightarrow> canvas_state \<Rightarrow> render_layer \<Rightarrow> ctx_op list" where
  "layer_draw env cs l =
     (case cs_captured cs of
        None \<Rightarrow> []
      | Some p \<Rightarrow>
          (case l of
             Grid \<Rightarrow> renderGrid (ce_colors env) (ce_tz env) (ce_now env) (cs_gridR cs) (cp_viewport p)
                       (cp_visibleRows p) None
           | Tasks \<Rightarrow> renderTasks (ce_mtext env) (cs_tasksR cs) (cs_index cs) (cp_viewport p) (cp_tasks p)
                        (cp_visibleRows p) (cp_selection p) (cp_hovered p)
           | Dependencies \<Rightarrow> renderDependencies (cs_depsR cs) (cs_index cs) (cp_viewport p) (cp_tasks p)
                               (obj_values (cp_dependencies p)) (cp_visibleRows p) (cp_selection p) []
           | Interaction \<Rightarrow> renderInteraction (ce_mtext env) (ce_fmt env) (cs_interR cs) (cs_index cs)
                              (cp_viewport p) (cp_drag p) None (cp_tasks p)))"

subsection \<open>The composable canvas\<close>

text \<open>\<open>GanttCanvas\<close> of \<open>components/composable/GanttCanvas.tsx\<close> (lines 49 to 201)
  takes the layers to draw as a prop (\<open>cc_layers\<close>) and the minimum resolution from the
  context. Its setup effect gives a context only to the included layers; its
  registration effect registers the included layers and marks every layer dirty, and its
  cleanup unregisters the layers the previous props included.\<close>

record comp_props =
  cc_props :: canvas_props
  cc_layers :: "render_layer list"
  cc_minResolution :: number

definition comp_register_deps ::
  "comp_props \<Rightarrow> (viewport_state \<times> virtual_row list \<times> (task_id, task) obj \<times>
                  (dependency_id, task_dependency) obj \<times> task_id list \<times> task_id option \<times> drag_state option) \<times>
                 render_layer list \<times> number" where
  "comp_register_deps p = (register_deps (cc_props p), cc_layers p, cc_minResolution p)"

definition included_layers :: "comp_props \<Rightarrow> render_layer list" where
  "included_layers p = filter (\<lambda>l. l \<in> set (cc_layers p)) layer_order"

definition comp_effects :: "comp_props option \<Rightarrow> comp_props \<Rightarrow> canvas_action list" where
  "comp_effects old p =
     ((case old of
         Some q \<Rightarrow> if canvas_changed old p comp_register_deps
                   then map (\<lambda>l. Call (Unregister l)) (included_layers q) else []
       | None \<Rightarrow> []) @
      (if canvas_changed old p (\<lambda>q. (cp_width (cc_props q), cp_height (cc_props q), cc_layers q)) \<and>
          0 < cp_width (cc_props p) \<and> 0 < cp_height (cc_props p)
       then map (\<lambda>l. Set_context l (cp_width (cc_props p)) (cp_height (cc_props p))) (included_layers p) @
            [Call Mark_all_dirty]
       else []) @
      (if canvas_changed old p (\<lambda>q. (cp_tasks (cc_props q), cp_dependencies (cc_props q), cp_virtualRows (cc_props q)))
       then [Build_indexes (cc_props p), Call (Mark_dirty_many [Tasks, Dependencies])] else []) @
      (if canvas_changed old p comp_register_deps
       then Capture (cc_props p) # map (\<lambda>l. Call (Register l (layer_cb l))) (included_layers p) @
            [Call Mark_all_dirty]
       else []))"

definition comp_update :: "comp_props option \<Rightarrow> comp_props \<Rightarrow> canvas_state \<Rightarrow> canvas_state \<times> sched_effect list" where
  "comp_update old p cs = canvas_run (comp_effects old p) cs"

text \<open>Proof vocabulary: the layers an action marks dirty, whether it may clear the dirty
  set, and whether it changes the renderers or the index manager.\<close>

fun marks :: "canvas_action \<Rightarrow> render_layer set" where
  "marks (Call (Mark_dirty l)) = {l}"
| "marks (Call (Mark_dirty_many ls)) = set ls"
| "marks (Call Mark_all_dirty) = UNIV"
| "marks _ = {}"

fun keeps_dirty :: "canvas_action \<Rightarrow> bool" where
  "keeps_dirty (Call Force_render) = False"
| "keeps_dirty (Call Dispose) = False"
| "keeps_dirty _ = True"

fun touches_singletons :: "canvas_action \<Rightarrow> bool" where
  "touches_singletons (Set_contexts w h) = True"
| "touches_singletons (Set_context l w h) = True"
| "touches_singletons (Build_indexes p) = True"
| "touches_singletons _ = False"

subsection \<open>Lemmas\<close>

lemma canvas_act_dirty:
  assumes "keeps_dirty a" and "\<not> isDestroyed (cs_scheduler cs)" and "canvas_act a cs = (cs', es)"
  shows "set (dirtyLayers (cs_scheduler cs)) \<union> marks a \<subseteq> set (dirtyLayers (cs_scheduler cs')) \<and>
         \<not> isDestroyed (cs_scheduler cs')"
proof (cases a)
  case (Call c)
  then show ?thesis
    using assms
    by (cases c) (auto simp: registerRenderer_def unregisterRenderer_def markDirty_def markDirtyMany_def
        markAllDirty_def jsset_simps fold_jsset_add scheduleRender_def split: if_splits)
qed (use assms in \<open>auto split: render_layer.splits\<close>)

lemma canvas_run_dirty:
  assumes "\<forall>a \<in> set as. keeps_dirty a" and "\<not> isDestroyed (cs_scheduler cs)" and "canvas_run as cs = (cs', es)"
  shows "set (dirtyLayers (cs_scheduler cs)) \<union> \<Union> (marks ` set as) \<subseteq> set (dirtyLayers (cs_scheduler cs'))"
  using assms
proof (induction as arbitrary: cs es cs')
  case Nil
  then show ?case by simp
next
  case (Cons a as)
  obtain cs1 e1 where a: "canvas_act a cs = (cs1, e1)" by fastforce
  obtain cs2 e2 where r: "canvas_run as cs1 = (cs2, e2)" by fastforce
  have step: "set (dirtyLayers (cs_scheduler cs)) \<union> marks a \<subseteq> set (dirtyLayers (cs_scheduler cs1))"
    and live: "\<not> isDestroyed (cs_scheduler cs1)"
    using canvas_act_dirty [OF _ Cons.prems(2) a] Cons.prems(1) by auto
  have "set (dirtyLayers (cs_scheduler cs1)) \<union> \<Union> (marks ` set as) \<subseteq> set (dirtyLayers (cs_scheduler cs2))"
    using Cons.IH [OF _ live r] Cons.prems(1) by auto
  moreover have "cs' = cs2" using Cons.prems(3) a r by simp
  ultimately show ?case using step by auto
qed

lemma canvas_run_frame:
  assumes "\<forall>a \<in> set as. \<not> touches_singletons a" and "canvas_run as cs = (cs', es)"
  shows "cs_index cs' = cs_index cs \<and> cs_gridR cs' = cs_gridR cs \<and> cs_tasksR cs' = cs_tasksR cs \<and>
         cs_depsR cs' = cs_depsR cs \<and> cs_interR cs' = cs_interR cs \<and>
         (cs_captured cs' = cs_captured cs \<or> (\<exists>p. Capture p \<in> set as \<and> cs_captured cs' = Some p))"
  using assms
proof (induction as arbitrary: cs es cs')
  case Nil
  then show ?case by simp
next
  case (Cons a as)
  obtain cs1 e1 where a: "canvas_act a cs = (cs1, e1)" by fastforce
  obtain cs2 e2 where r: "canvas_run as cs1 = (cs2, e2)" by fastforce
  have fr: "cs_index cs1 = cs_index cs \<and> cs_gridR cs1 = cs_gridR cs \<and> cs_tasksR cs1 = cs_tasksR cs \<and>
            cs_depsR cs1 = cs_depsR cs \<and> cs_interR cs1 = cs_interR cs \<and>
            (cs_captured cs1 = cs_captured cs \<or> (\<exists>p. a = Capture p \<and> cs_captured cs1 = Some p))"
    using a Cons.prems(1) by (cases a) (auto simp: case_prod_unfold Let_def)
  have "cs' = cs2" using Cons.prems(2) a r by simp
  then show ?case using Cons.IH [where cs=cs1 and es=e2 and cs'=cs2] Cons.prems(1) r fr by auto
qed


lemma canvas_effects_keep_dirty: "\<forall>a \<in> set (canvas_effects old p). keeps_dirty a"
  by (auto simp: canvas_effects_def layer_order_def)

text \<open>The effects that rebuild the renderers or the indexes come with a mark of the
  task and dependency layers.\<close>

lemma canvas_effects_touch:
  assumes "a \<in> set (canvas_effects old p)" and "touches_singletons a"
  shows "\<exists>b \<in> set (canvas_effects old p). {Tasks, Dependencies} \<subseteq> marks b"
proof (cases a)
  case (Set_contexts w h)
  then show ?thesis
    using assms by (auto simp: canvas_effects_def split: if_splits intro!: bexI [of _ "Call Mark_all_dirty"])
next
  case (Build_indexes q)
  then show ?thesis
    using assms by (auto simp: canvas_effects_def layer_order_def split: if_splits
        intro!: bexI [of _ "Call (Mark_dirty_many [Tasks, Dependencies])"])
qed (use assms in \<open>auto simp: canvas_effects_def layer_order_def split: if_splits\<close>)

lemma canvas_update_unmarked:
  assumes "\<not> isDestroyed (cs_scheduler cs)" and "canvas_update old p cs = (cs', es)"
    and "a \<in> set (canvas_effects old p)" and "l \<notin> set (dirtyLayers (cs_scheduler cs'))"
  shows "l \<notin> marks a"
  using canvas_run_dirty [OF _ assms(1)] canvas_effects_keep_dirty assms(2-4)
  unfolding canvas_update_def by blast

text \<open>
  C22. Freshness of the task and dependency layers: after the effects of a render of
  \<open>GanttCanvas\<close>, a task or dependency layer that the scheduler does not hold dirty draws,
  when its callback next runs, exactly what it drew before the render. So every change of
  the props, the indexes or the canvas size that changes these layers' drawing marks
  them for the next frame.
\<close>

theorem clean_layer_fresh:
  assumes live: "\<not> isDestroyed (cs_scheduler cs)" and cap: "cs_captured cs = Some q"
    and upd: "canvas_update (Some q) p cs = (cs', es)"
    and l: "l \<in> {Tasks, Dependencies}" and clean: "l \<notin> set (dirtyLayers (cs_scheduler cs'))"
  shows "layer_draw env cs' l = layer_draw env cs l"
proof -
  note unm = canvas_update_unmarked [OF live upd _ clean]
  have "\<forall>a \<in> set (canvas_effects (Some q) p). \<not> touches_singletons a"
    using unm canvas_effects_touch l by blast
  then have fr: "cs_index cs' = cs_index cs \<and> cs_tasksR cs' = cs_tasksR cs \<and> cs_depsR cs' = cs_depsR cs \<and>
                 (cs_captured cs' = Some q \<or> (\<exists>p'. Capture p' \<in> set (canvas_effects (Some q) p) \<and> cs_captured cs' = Some p'))"
    using canvas_run_frame [of "canvas_effects (Some q) p" cs] upd cap unfolding canvas_update_def by auto
  have idx: "(cp_tasks q, cp_dependencies q, cp_virtualRows q) = (cp_tasks p, cp_dependencies p, cp_virtualRows p)"
    using unm [of "Call (Mark_dirty_many [Tasks, Dependencies])"] l
    by (auto simp: canvas_effects_def canvas_changed_def)
  show ?thesis
  proof (cases l)
    case Tasks
    then have "(cp_viewport q, cp_tasks q, cp_selection q, cp_hovered q, cp_visibleRows q) =
               (cp_viewport p, cp_tasks p, cp_selection p, cp_hovered p, cp_visibleRows p)"
      using unm [of "Call (Mark_dirty Tasks)"] by (auto simp: canvas_effects_def canvas_changed_def)
    then show ?thesis
      using fr cap Tasks by (auto simp: layer_draw_def canvas_effects_def split: if_splits)
  next
    case Dependencies
    then have "(cp_viewport q, cp_dependencies q, cp_selection q, cp_visibleRows q) =
               (cp_viewport p, cp_dependencies p, cp_selection p, cp_visibleRows p)"
      using unm [of "Call (Mark_dirty Dependencies)"] by (auto simp: canvas_effects_def canvas_changed_def)
    then show ?thesis
      using fr cap idx Dependencies by (auto simp: layer_draw_def canvas_effects_def split: if_splits)
  qed (use l in auto)
qed

text \<open>The layers an update marks, effect by effect.\<close>

lemma canvas_effects_marks:
  "\<Union> (marks ` set (canvas_effects old p)) =
     (if canvas_changed old p (\<lambda>q. (cp_width q, cp_height q)) \<and> 0 < cp_width p \<and> 0 < cp_height p then UNIV else {}) \<union>
     (if canvas_changed old p (\<lambda>q. (cp_tasks q, cp_dependencies q, cp_virtualRows q)) then {Tasks, Dependencies} else {}) \<union>
     (if canvas_changed old p (\<lambda>q. (scrollX (cp_viewport q), scrollY (cp_viewport q), pixelsPerHour (cp_viewport q),
                      cp_visibleRows q)) then {Grid} else {}) \<union>
     (if canvas_changed old p (\<lambda>q. (cp_viewport q, cp_tasks q, cp_selection q, cp_hovered q, cp_visibleRows q))
      then {Tasks} else {}) \<union>
     (if canvas_changed old p (\<lambda>q. (cp_viewport q, cp_dependencies q, cp_selection q, cp_visibleRows q))
      then {Dependencies} else {}) \<union>
     (if canvas_changed old p cp_drag then {Interaction} else {})"
proof -
  have c: "\<And>c xs. \<Union> (marks ` set (if c then xs else [])) = (if c then \<Union> (marks ` set xs) else {})"
    by simp
  have u: "\<Union> (marks ` set (map (\<lambda>l. Call (Unregister l)) layer_order)) = {}"
    and r: "\<Union> (marks ` set (Capture p # map (\<lambda>l. Call (Register l (layer_cb l))) layer_order)) = {}"
    and m: "\<And>w h. \<Union> (marks ` set [Set_contexts w h, Call Mark_all_dirty]) = UNIV"
    and b: "\<Union> (marks ` set [Build_indexes p, Call (Mark_dirty_many [Tasks, Dependencies])]) = {Tasks, Dependencies}"
    and d: "\<And>l. \<Union> (marks ` set [Call (Mark_dirty l)]) = {l}"
    by (auto simp: layer_order_def)
  show ?thesis
    unfolding canvas_effects_def
    by (simp only: set_append image_Un Union_Un_distrib c u r m b d if_cancel Un_empty_left Un_assoc)
qed

text \<open>The interaction layer is marked dirty by an update only through the canvas setup or
  a change of the drag: a scroll or a zoom during a drag leaves it clean.\<close>

lemma interaction_marked_iff:
  "(Interaction \<in> \<Union> (marks ` set (canvas_effects (Some q) p))) \<longleftrightarrow>
     ((cp_width q, cp_height q) \<noteq> (cp_width p, cp_height p) \<and> 0 < cp_width p \<and> 0 < cp_height p) \<or>
     cp_drag q \<noteq> cp_drag p"
  unfolding canvas_effects_marks by (simp add: canvas_changed_def)


text \<open>Yet the drag preview it draws moves with the vertical scroll.\<close>

lemma interaction_draw_depends_on_scroll:
  assumes "dtype d = Move" and "getRowForResource im (previewResourceId d) = Some row"
    and "has_ctx r" and "scrollY v \<noteq> scrollY v'"
  shows "renderInteraction mtext fmt r im v (Some d) None ts \<noteq> renderInteraction mtext fmt r im v' (Some d) None ts"
  using assms by (simp add: renderInteraction_def renderDragPreview_def Let_def)

lemma comp_effects_keep_dirty: "\<forall>a \<in> set (comp_effects old p). keeps_dirty a"
  by (auto simp: comp_effects_def included_layers_def split: option.splits)

text \<open>In the composable canvas, a grid, task or dependency layer left clean by a render
  draws what it drew before: every change that alters its drawing marks all layers or,
  for the indexes, the task and dependency layers.\<close>

lemma comp_clean_layer_fresh:
  assumes live: "\<not> isDestroyed (cs_scheduler cs)" and cap: "cs_captured cs = Some (cc_props q)"
    and upd: "comp_update (Some q) p cs = (cs', es)"
    and l: "l \<noteq> Interaction" and clean: "l \<notin> set (dirtyLayers (cs_scheduler cs'))"
  shows "layer_draw env cs' l = layer_draw env cs l"
proof -
  have unm: "l \<notin> marks a" if "a \<in> set (comp_effects (Some q) p)" for a
    using canvas_run_dirty [OF _ live] comp_effects_keep_dirty upd that clean
    unfolding comp_update_def by blast
  have "Call Mark_all_dirty \<notin> set (comp_effects (Some q) p)" using unm by force
  then have reg: "\<not> canvas_changed (Some q) p comp_register_deps"
    and su: "\<not> (canvas_changed (Some q) p (\<lambda>q. (cp_width (cc_props q), cp_height (cc_props q), cc_layers q)) \<and>
                   0 < cp_width (cc_props p) \<and> 0 < cp_height (cc_props p))"
    by (auto simp: comp_effects_def)
  define idx where "idx = canvas_changed (Some q) p
                      (\<lambda>q. (cp_tasks (cc_props q), cp_dependencies (cc_props q), cp_virtualRows (cc_props q)))"
  have eff: "comp_effects (Some q) p =
               (if idx then [Build_indexes (cc_props p), Call (Mark_dirty_many [Tasks, Dependencies])] else [])"
    using reg su by (simp add: comp_effects_def idx_def)
  have cs': "cs' = fst (canvas_run (comp_effects (Some q) p) cs)" using upd by (simp add: comp_update_def)
  have same: "cs_captured cs' = cs_captured cs \<and> cs_gridR cs' = cs_gridR cs \<and> cs_tasksR cs' = cs_tasksR cs \<and>
              cs_depsR cs' = cs_depsR cs"
    unfolding cs' eff by (simp add: case_prod_unfold Let_def)
  have idx_same: "cs_index cs' = cs_index cs" if "l \<in> {Tasks, Dependencies}"
  proof -
    have "\<not> idx" using unm [of "Call (Mark_dirty_many [Tasks, Dependencies])"] that eff by auto
    then show ?thesis unfolding cs' using eff by simp
  qed
  show ?thesis
  proof (cases l)
    case Grid
    then show ?thesis using same cap by (simp add: layer_draw_def)
  next
    case Tasks
    then show ?thesis using same cap idx_same by (simp add: layer_draw_def)
  next
    case Dependencies
    then show ?thesis using same cap idx_same by (simp add: layer_draw_def)
  qed (use l in simp)
qed

end
