(* ===== verification/LegacyRows.thy ===== *)
theory LegacyRows
  imports RowLayout LegacyStore
begin

text \<open>
  The row layout hooks over the global stores, \<open>useVirtualRows\<close> and
  \<open>useVisibleRows\<close> of \<open>src/unnamed/part_008\<close>, translated as the code runs them: the
  loops push rows onto \<open>virtualRows\<close> and advance \<open>currentY\<close>, an accumulator of type
  \<open>row_acc\<close> threaded through \<open>fold\<close>; \<open>byType\<close> is the \<open>Map\<close> of resource lists
  keyed by type. The lemmas show that the accumulator loops compute the recursive
  emitters of \<open>RowLayout\<close>, so the legacy hook lays out exactly the rows of
  \<open>useComposableVirtualRows\<close>, while the legacy visible-rows buffer uses the
  constant \<open>ROW_HEIGHT\<close> instead of the viewport's row height.
\<close>

type_synonym row_acc = "virtual_row list \<times> number"

definition ROW_HEIGHT :: number where
  "ROW_HEIGHT = 40"

text \<open>\<open>virtualRows.push({... resource row ...}); currentY += rowHeight\<close>.\<close>

definition push_resource :: "number \<Rightarrow> string option \<Rightarrow> string \<Rightarrow> resource \<Rightarrow> row_acc \<Rightarrow> row_acc" where
  "push_resource h g rid r acc = (fst acc @ [resource_row rid r (snd acc) h g], snd acc + h)"

text \<open>\<open>virtualRows.push({... group header ...}); currentY += GROUP_HEADER_HEIGHT\<close>.\<close>

definition push_header :: "string \<Rightarrow> string \<Rightarrow> bool \<Rightarrow> row_acc \<Rightarrow> row_acc" where
  "push_header gid name expanded acc =
     (fst acc @ [header_row gid name (snd acc) expanded], snd acc + GROUP_HEADER_HEIGHT)"

text \<open>\<open>for (const resource of rs) push a resource row\<close>, with the row id of the
  ungrouped, type and unassigned loops.\<close>

definition push_resources :: "number \<Rightarrow> string option \<Rightarrow> resource list \<Rightarrow> row_acc \<Rightarrow> row_acc" where
  "push_resources h g rs acc = fold (\<lambda>r. push_resource h g (''resource-'' @ res_id r) r) rs acc"

text \<open>The \<open>byType\<close> map: \<open>if (!byType.has(type)) byType.set(type, []);
  byType.get(type)!.push(resource)\<close>.\<close>

definition byType :: "resource list \<Rightarrow> (resource_type, resource list) obj" where
  "byType rs =
     fold (\<lambda>r m. obj_set m (res_type r) ((case obj_get m (res_type r) of None \<Rightarrow> [] | Some l \<Rightarrow> l) @ [r])) rs []"

text \<open>The body of \<open>for (const [type, typeResources] of byType)\<close>.\<close>

definition type_group_step ::
  "string list \<Rightarrow> number \<Rightarrow> resource_type \<times> resource list \<Rightarrow> row_acc \<Rightarrow> row_acc" where
  "type_group_step expanded h e acc =
     (let gid = ''type-'' @ resource_type_str (fst e);
          isExpanded = gid \<in> set expanded;
          acc1 = push_header gid (resource_type_label (fst e)) isExpanded acc
      in if isExpanded then push_resources h (Some gid) (snd e) acc1 else acc1)"

text \<open>The inner loop of the order mode: \<open>if (!resource) continue\<close>.\<close>

definition order_resource_step ::
  "(resource_id, resource) obj \<Rightarrow> order_id \<Rightarrow> number \<Rightarrow> string \<Rightarrow> resource_id \<Rightarrow> row_acc \<Rightarrow> row_acc" where
  "order_resource_step res oid h gid rid acc =
     (case obj_get res rid of
        None \<Rightarrow> acc
      | Some r \<Rightarrow> push_resource h (Some gid) (''resource-'' @ res_id r @ ''-'' @ oid) r acc)"

text \<open>The body of \<open>for (const order of sortedOrders)\<close>: \<open>if (!resourceIds ||
  resourceIds.size === 0) continue\<close>.\<close>

definition order_group_step ::
  "string list \<Rightarrow> number \<Rightarrow> (resource_id, resource) obj \<Rightarrow> (order_id, resource_id list) obj
   \<Rightarrow> order \<Rightarrow> row_acc \<Rightarrow> row_acc" where
  "order_group_step expanded h res orr od acc =
     (case obj_get orr (order_id od) of
        None \<Rightarrow> acc
      | Some rids \<Rightarrow>
          (if rids = [] then acc
           else
             (let gid = ''order-'' @ order_id od;
                  isExpanded = gid \<in> set expanded;
                  acc1 = push_header gid (order_name od) isExpanded acc
              in if isExpanded then fold (order_resource_step res (order_id od) h gid) rids acc1 else acc1)))"

text \<open>The unassigned group at the end of the order mode.\<close>

definition unassigned_step :: "string list \<Rightarrow> number \<Rightarrow> resource list \<Rightarrow> row_acc \<Rightarrow> row_acc" where
  "unassigned_step expanded h un acc =
     (if length un > 0 then
        (let isExpanded = ''unassigned'' \<in> set expanded;
             acc1 = push_header ''unassigned'' ''Unassigned'' isExpanded acc
         in if isExpanded then push_resources h (Some ''unassigned'') un acc1 else acc1)
      else acc)"

definition useVirtualRows :: "data_state \<Rightarrow> ui_state \<Rightarrow> virtual_row list" where
  "useVirtualRows ds us =
     (let resources = d_resources ds;
          groupingMode = mode (u_grouping us);
          expanded = expandedGroups (u_grouping us);
          rh = rowHeight (u_viewport us);
          resourceList = obj_values resources
      in fst (case groupingMode of
                Group_none \<Rightarrow> push_resources rh None resourceList ([], 0)
              | Group_resource_type \<Rightarrow> fold (type_group_step expanded rh) (byType resourceList) ([], 0)
              | Group_order \<Rightarrow>
                  (let orr = orderResources (obj_values (d_tasks ds));
                       assigned = assignedResources orr;
                       acc = fold (order_group_step expanded rh resources orr) (sortedOrders (d_orders ds)) ([], 0);
                       un = filter (\<lambda>r. res_id r \<notin> set assigned) resourceList
                   in unassigned_step expanded rh un acc)))"

text \<open>\<open>useVisibleRows\<close>: the buffer is three times the constant \<open>ROW_HEIGHT\<close>.\<close>

definition useVisibleRows :: "virtual_row list \<Rightarrow> ui_state \<Rightarrow> virtual_row list" where
  "useVisibleRows rows us =
     (let sy = scrollY (u_viewport us); height = vp_height (u_viewport us)
      in if length rows = 0 \<or> height = 0 then []
         else filter (\<lambda>r. virtualY r + row_height r \<ge> sy - 3 * ROW_HEIGHT \<and>
                          virtualY r \<le> sy + height + 3 * ROW_HEIGHT) rows)"

subsection \<open>Lemmas\<close>

lemma obj_upd_map_keys:
  "obj_upd k v (map (\<lambda>j. (j, g j)) ks) = map (\<lambda>j. (j, if j = k then v else g j)) ks"
  by (induction ks) auto

lemma obj_get_map_keys:
  "obj_get (map (\<lambda>j. (j, g j)) ks) k = (if k \<in> set ks then Some (g k) else None)"
  by (induction ks) (auto simp: obj_get_def)

text \<open>Grouping into a \<open>Map\<close> of arrays, pushing each element under its key, gives the
  keys in order of first occurrence, each with its elements in order.\<close>

lemma group_by_step:
  assumes "set K = set (map key xs)"
  shows "obj_set (map (\<lambda>k. (k, filter (\<lambda>y. key y = k) xs)) K) (key x)
           ((case obj_get (map (\<lambda>k. (k, filter (\<lambda>y. key y = k) xs)) K) (key x) of None \<Rightarrow> [] | Some l \<Rightarrow> l) @ [x]) =
         map (\<lambda>k. (k, filter (\<lambda>y. key y = k) (xs @ [x]))) (jsset_add (key x) K)"
proof (cases "key x \<in> set K")
  case True
  have "key x \<in> set (map fst (map (\<lambda>k. (k, filter (\<lambda>y. key y = k) xs)) K))"
    using True by (simp add: comp_def)
  then show ?thesis
    using True by (simp add: obj_set_def obj_get_map_keys obj_upd_map_keys jsset_add_def)
next
  case False
  then have "filter (\<lambda>y. key y = key x) xs = []"
    using assms by (auto simp: filter_empty_conv) (metis image_eqI)
  moreover have "key x \<notin> set (map fst (map (\<lambda>k. (k, filter (\<lambda>y. key y = k) xs)) K))"
    using False by (simp add: comp_def)
  ultimately show ?thesis
    using False by (auto simp: obj_set_def obj_get_map_keys jsset_add_def)
qed

text \<open>Grouping into a \<open>Map\<close> of arrays, pushing each element under its key, gives the
  keys in order of first occurrence, each with its elements in order.\<close>

lemma fold_group_by:
  "fold (\<lambda>x m. obj_set m (key x) ((case obj_get m (key x) of None \<Rightarrow> [] | Some l \<Rightarrow> l) @ [x])) xs [] =
     map (\<lambda>k. (k, filter (\<lambda>x. key x = k) xs)) (jsset_of_list (map key xs))"
proof (induction xs rule: rev_induct)
  case Nil
  then show ?case by (simp add: jsset_of_list_def)
next
  case (snoc x xs)
  have K: "jsset_of_list (map key (xs @ [x])) = jsset_add (key x) (jsset_of_list (map key xs))"
    by (simp add: jsset_of_list_def)
  show ?case
    unfolding fold_append comp_def fold_Cons fold_Nil id_def snoc.IH K
    by (rule group_by_step) (simp add: jsset_simps)
qed

lemma byType_groups:
  "byType rs = map (\<lambda>t. (t, filter (\<lambda>r. res_type r = t) rs)) (jsset_of_list (map res_type rs))"
  unfolding byType_def by (rule fold_group_by)

text \<open>Each accumulator loop appends what the corresponding emitter returns and ends at the
  emitter's offset.\<close>

lemma push_resources_emit:
  "push_resources h g rs (vr, y) = (vr @ fst (emit_resource_rows y h g rs), snd (emit_resource_rows y h g rs))"
  unfolding push_resources_def
  by (induction rs arbitrary: vr y) (simp_all add: push_resource_def case_prod_unfold Let_def)

lemma order_resources_emit:
  "fold (order_resource_step res oid h gid) rids (vr, y) =
     (vr @ fst (emit_order_rows res oid y h gid rids), snd (emit_order_rows res oid y h gid rids))"
  by (induction rids arbitrary: vr y)
     (simp_all add: order_resource_step_def push_resource_def case_prod_unfold Let_def split: option.splits)

lemma type_group_step_emit:
  "type_group_step expanded h (t, filter (\<lambda>r. res_type r = t) rs) (vr, y) =
     (let gid = ''type-'' @ resource_type_str t;
          e = emit_group gid (resource_type_label t) (gid \<in> set expanded) y
                (\<lambda>y. emit_resource_rows y h (Some gid) (filter (\<lambda>r. res_type r = t) rs))
      in (vr @ fst e, snd e))"
  by (simp add: type_group_step_def emit_group_def push_header_def push_resources_emit Let_def case_prod_unfold)

lemma type_groups_emit:
  "fold (type_group_step expanded h) (map (\<lambda>t. (t, filter (\<lambda>r. res_type r = t) rs)) ts) (vr, y) =
     (vr @ fst (emit_type_groups (\<lambda>g. g \<in> set expanded) h rs y ts),
      snd (emit_type_groups (\<lambda>g. g \<in> set expanded) h rs y ts))"
  by (induction ts arbitrary: vr y) (simp_all add: type_group_step_emit Let_def case_prod_unfold)

lemma order_group_step_emit:
  "order_group_step expanded h res orr od (vr, y) =
     (case obj_get orr (order_id od) of
        None \<Rightarrow> (vr, y)
      | Some rids \<Rightarrow>
          (if rids = [] then (vr, y)
           else
             (let gid = ''order-'' @ order_id od;
                  e = emit_group gid (order_name od) (gid \<in> set expanded) y
                        (\<lambda>y. emit_order_rows res (order_id od) y h gid rids)
              in (vr @ fst e, snd e))))"
  by (simp add: order_group_step_def emit_group_def push_header_def order_resources_emit Let_def
      case_prod_unfold split: option.split)

lemma order_groups_emit:
  "fold (order_group_step expanded h res orr) os (vr, y) =
     (vr @ fst (emit_order_groups (\<lambda>g. g \<in> set expanded) h res orr y os),
      snd (emit_order_groups (\<lambda>g. g \<in> set expanded) h res orr y os))"
  by (induction os arbitrary: vr y) (simp_all add: order_group_step_emit Let_def case_prod_unfold split: option.split)

lemma unassigned_emit:
  "unassigned_step expanded h un acc =
     (fst acc @ fst (emit_unassigned (\<lambda>g. g \<in> set expanded) h un (snd acc)),
      snd (emit_unassigned (\<lambda>g. g \<in> set expanded) h un (snd acc)))"
  by (simp add: unassigned_step_def emit_unassigned_def emit_group_def push_header_def push_resources_emit
      Let_def case_prod_unfold)

text \<open>
  C11. The legacy layout hook \<open>useVirtualRows\<close> over the global data and UI stores,
  with its push-and-advance loops, returns exactly the rows of
  \<open>useComposableVirtualRows\<close> for the same resources, tasks, orders, grouping and row
  height, in every grouping mode.
\<close>

theorem useVirtualRows_eq:
  "useVirtualRows ds us =
     virtualRows (d_resources ds) (d_tasks ds) (d_orders ds) (mode (u_grouping us))
                 (expandedGroups (u_grouping us)) (rowHeight (u_viewport us))"
  by (cases "mode (u_grouping us)")
     (simp_all add: useVirtualRows_def virtualRows_def push_resources_emit byType_groups type_groups_emit
        order_groups_emit unassigned_emit Let_def case_prod_unfold)

text \<open>The legacy visible rows agree with the composable ones when the row height is the
  constant \<open>ROW_HEIGHT\<close>; otherwise the buffer differs: with 20-pixel rows, a row
  100 pixels above the viewport is kept by the legacy hook and dropped by the composable
  one.\<close>

lemma useVisibleRows_eq:
  "useVisibleRows rows us = visibleRows rows (scrollY (u_viewport us)) (vp_height (u_viewport us)) ROW_HEIGHT"
  by (simp add: useVisibleRows_def visibleRows_def Let_def)

lemma useVisibleRows_buffer_diverges:
  assumes "rowHeight (u_viewport us) = 20" and "scrollY (u_viewport us) = 200" and "vp_height (u_viewport us) = 400"
    and "virtualY r = 80" and "row_height r = 20"
  shows "useVisibleRows [r] us = [r] \<and> visibleRows [r] (scrollY (u_viewport us)) (vp_height (u_viewport us))
                                         (rowHeight (u_viewport us)) = []"
  using assms by (simp add: useVisibleRows_def visibleRows_def ROW_HEIGHT_def)

end
