(* ===== verification/TimelineHeader.thy ===== *)
theory TimelineHeader
  imports Renderers
begin

text \<open>
  The time axis above the canvas, \<open>TimelineHeader\<close> of
  \<open>components/TimelineHeader.tsx\<close>: the tick markers (\<open>markers\<close>) and, in hour and
  day zoom, the day headers (\<open>dayHeaders\<close>). Both \<open>for\<close>/\<open>while\<close> loops are functions
  that terminate by the number of hours (days) left. Date formatting is the parameter
  \<open>fmt\<close> (a date-fns format string and a time), the time zone the fixed offset \<open>tz\<close>
  of the renderers (\<open>local_hour\<close>, \<open>start_of_day\<close>); \<open>addDays\<close> adds 24 hours.
\<close>

record time_marker =
  tm_time :: number
  tm_label :: string
  tm_isMajor :: bool
  tm_x :: number

record day_header =
  dh_date :: number
  dh_x :: number
  dh_width :: number

text \<open>The \<open>switch (zoomLevel)\<close>: \<open>intervalHours\<close>, \<open>majorIntervalHours\<close>, \<open>labelFormat\<close>.\<close>

fun header_intervalHours :: "zoom_level \<Rightarrow> number" where
  "header_intervalHours Hour = 1"
| "header_intervalHours Day = 6"
| "header_intervalHours Week = 24"
| "header_intervalHours Month = 24 * 7"

fun header_majorIntervalHours :: "zoom_level \<Rightarrow> number" where
  "header_majorIntervalHours Hour = 6"
| "header_majorIntervalHours Day = 24"
| "header_majorIntervalHours Week = 24 * 7"
| "header_majorIntervalHours Month = 24 * 30"

fun header_labelFormat :: "zoom_level \<Rightarrow> string" where
  "header_labelFormat Hour = ''HH:mm''"
| "header_labelFormat Day = ''HH:mm''"
| "header_labelFormat Week = ''EEE d''"
| "header_labelFormat Month = ''MMM d''"

text \<open>One marker at \<open>time\<close>: its \<open>isMajor\<close> and \<open>label\<close>.\<close>

definition header_marker :: "(string \<Rightarrow> number \<Rightarrow> string) \<Rightarrow> number \<Rightarrow> viewport_state \<Rightarrow> number \<Rightarrow> number \<Rightarrow> time_marker" where
  "header_marker fmt tz v time x =
     (let z = zoomLevel v;
          isMajor = (js_rem time (header_majorIntervalHours z * 3600000) = 0 \<or> (z = Day \<and> local_hour tz time = 0));
          label = (if (z = Hour \<or> z = Day) \<and> local_hour tz time = 0 then fmt ''MMM d'' time
                   else fmt (header_labelFormat z) time)
      in \<lparr>tm_time = time, tm_label = label, tm_isMajor = isMajor, tm_x = x\<rparr>)"

text \<open>\<open>for (let time = startTime; time <= visibleEndTime; time += intervalMs)\<close>, with
  \<open>if (x < -100 || x > width + 100) continue\<close>.\<close>

function marker_loop ::
  "(string \<Rightarrow> number \<Rightarrow> string) \<Rightarrow> number \<Rightarrow> viewport_state \<Rightarrow> number \<Rightarrow> number \<Rightarrow> number \<Rightarrow> time_marker list" where
  "marker_loop fmt tz v width endT time =
     (if time \<le> endT then
        (let x = ((time - timeOrigin v) / 3600000) * pixelsPerHour v - scrollX v;
             rest = marker_loop fmt tz v width endT (time + header_intervalHours (zoomLevel v) * 3600000)
         in if x < -100 \<or> x > width + 100 then rest else header_marker fmt tz v time x # rest)
      else [])"
  by pat_completeness auto
termination
proof (relation "measure (\<lambda>(fmt, tz, v, w, e, t). nat (\<lceil>(e - t) / 3600000\<rceil> + 1))")
  fix fmt :: "string \<Rightarrow> number \<Rightarrow> string" and tz w e t :: number and v :: viewport_state
  assume le: "t \<le> e"
  let ?m = "header_intervalHours (zoomLevel v)"
  let ?x = "(e - t) / 3600000"
  have m: "1 \<le> ?m" by (cases "zoomLevel v") auto
  have "(e - (t + ?m * 3600000)) / 3600000 = ?x - ?m" by (simp add: field_simps)
  also have "\<dots> \<le> ?x - 1" using m by simp
  finally have "\<lceil>(e - (t + ?m * 3600000)) / 3600000\<rceil> \<le> \<lceil>?x\<rceil> - 1"
    by (metis ceiling_diff_one ceiling_mono)
  moreover have "0 \<le> \<lceil>?x\<rceil>" using le by simp
  ultimately show "((fmt, tz, v, w, e, t + ?m * 3600000), fmt, tz, v, w, e, t)
    \<in> measure (\<lambda>(fmt, tz, v, w, e, t). nat (\<lceil>(e - t) / 3600000\<rceil> + 1))" by simp
qed auto

text \<open>The visible time range of the header.\<close>

definition visibleStartTime :: "viewport_state \<Rightarrow> number" where
  "visibleStartTime v = timeOrigin v + (scrollX v / pixelsPerHour v) * 3600000"

definition visibleEndTime :: "viewport_state \<Rightarrow> number \<Rightarrow> number" where
  "visibleEndTime v width = visibleStartTime v + (width / pixelsPerHour v) * 3600000"

definition markers :: "(string \<Rightarrow> number \<Rightarrow> string) \<Rightarrow> number \<Rightarrow> viewport_state \<Rightarrow> number \<Rightarrow> time_marker list" where
  "markers fmt tz v width =
     (let intervalMs = header_intervalHours (zoomLevel v) * 3600000;
          startTime = of_int \<lfloor>visibleStartTime v / intervalMs\<rfloor> * intervalMs
      in marker_loop fmt tz v width (visibleEndTime v width) startTime)"

text \<open>\<open>while (currentDay < endDay)\<close>: one header per day meeting the header's width.\<close>

function day_loop :: "viewport_state \<Rightarrow> number \<Rightarrow> number \<Rightarrow> number \<Rightarrow> day_header list" where
  "day_loop v width endDay currentDay =
     (if currentDay < endDay then
        (let dayStart = currentDay;
             x = ((dayStart - timeOrigin v) / 3600000) * pixelsPerHour v - scrollX v;
             dayWidth = 24 * pixelsPerHour v;
             rest = day_loop v width endDay (currentDay + 24 * 3600000)
         in if x + dayWidth > 0 \<and> x < width
            then \<lparr>dh_date = currentDay, dh_x = max 0 x,
                  dh_width = min (min dayWidth (width - x)) (if x < 0 then dayWidth + x else dayWidth)\<rparr> # rest
            else rest)
      else [])"
  by pat_completeness auto
termination
proof (relation "measure (\<lambda>(v, w, e, t). nat \<lceil>(e - t) / 86400000\<rceil>)")
  fix v :: viewport_state and w e t :: number
  assume lt: "t < e"
  let ?x = "(e - t) / 86400000"
  have "(e - (t + 24 * 3600000)) / 86400000 = ?x - 1" by (simp add: field_simps)
  then have "\<lceil>(e - (t + 24 * 3600000)) / 86400000\<rceil> = \<lceil>?x\<rceil> - 1"
    by (metis ceiling_diff_one)
  moreover have "0 < \<lceil>?x\<rceil>" using lt by simp
  ultimately show "((v, w, e, t + 24 * 3600000), v, w, e, t) \<in> measure (\<lambda>(v, w, e, t). nat \<lceil>(e - t) / 86400000\<rceil>)"
    by simp
qed auto

definition dayHeaders :: "number \<Rightarrow> viewport_state \<Rightarrow> number \<Rightarrow> day_header list" where
  "dayHeaders tz v width =
     (if zoomLevel v \<noteq> Hour \<and> zoomLevel v \<noteq> Day then []
      else day_loop v width (start_of_day tz (visibleEndTime v width + 24 * 3600000))
                            (start_of_day tz (visibleStartTime v)))"

text \<open>The composable \<open>GanttTimeline\<close> (\<open>components/composable/GanttTimeline.tsx\<close>)
  computes the same markers and day headers over the context's viewport, and a current
  time indicator: \<open>currentTimeX\<close>, shown only inside the header.\<close>

definition currentTimeX :: "bool \<Rightarrow> number \<Rightarrow> viewport_state \<Rightarrow> number \<Rightarrow> number option" where
  "currentTimeX showCurrentTime now v width =
     (if \<not> showCurrentTime then None
      else (let x = ((now - timeOrigin v) / 3600000) * pixelsPerHour v - scrollX v
            in if x < 0 \<or> x > width then None else Some x))"

definition ganttTimeline ::
  "(string \<Rightarrow> number \<Rightarrow> string) \<Rightarrow> number \<Rightarrow> number \<Rightarrow> bool \<Rightarrow> viewport_state \<Rightarrow> number
   \<Rightarrow> day_header list \<times> time_marker list \<times> number option" where
  "ganttTimeline fmt tz now showCurrentTime v width =
     (dayHeaders tz v width, markers fmt tz v width, currentTimeX showCurrentTime now v width)"

declare marker_loop.simps [simp del] day_loop.simps [simp del]

subsection \<open>Lemmas\<close>

lemma header_intervalHours_ge1: "1 \<le> header_intervalHours z"
  by (cases z) auto

lemma marker_loop_sound:
  "m \<in> set (marker_loop fmt tz v w e t) \<Longrightarrow>
     tm_x m = timeToX v (tm_time m) \<and> -100 \<le> tm_x m \<and> tm_x m \<le> w + 100 \<and> t \<le> tm_time m \<and> tm_time m \<le> e \<and>
     (\<exists>k::nat. tm_time m = t + of_nat k * (header_intervalHours (zoomLevel v) * 3600000))"
proof (induction fmt tz v w e t rule: marker_loop.induct)
  case (1 fmt tz v w e t)
  let ?I = "header_intervalHours (zoomLevel v) * 3600000"
  have I: "0 < ?I" using header_intervalHours_ge1 [of "zoomLevel v"] by simp
  have le: "t \<le> e" using "1.prems" by (subst (asm) marker_loop.simps) (simp split: if_split_asm)
  let ?x = "((t - timeOrigin v) / 3600000) * pixelsPerHour v - scrollX v"
  let ?rest = "marker_loop fmt tz v w e (t + ?I)"
  have IH: "m \<in> set ?rest \<Longrightarrow> tm_x m = timeToX v (tm_time m) \<and> -100 \<le> tm_x m \<and> tm_x m \<le> w + 100 \<and>
              t + ?I \<le> tm_time m \<and> tm_time m \<le> e \<and> (\<exists>k::nat. tm_time m = t + ?I + of_nat k * ?I)"
    using "1.IH" [OF le refl] by blast
  have "m = header_marker fmt tz v t ?x \<and> \<not> (?x < -100 \<or> ?x > w + 100) \<or> m \<in> set ?rest"
    using "1.prems" le by (subst (asm) marker_loop.simps) (simp add: Let_def split: if_split_asm)
  then show ?case
  proof
    assume "m = header_marker fmt tz v t ?x \<and> \<not> (?x < -100 \<or> ?x > w + 100)"
    then show ?thesis
      using le by (auto simp: header_marker_def Let_def timeToX_def MS_PER_HOUR_def intro: exI [of _ 0])
  next
    assume r: "m \<in> set ?rest"
    then obtain k :: nat where "tm_time m = t + ?I + of_nat k * ?I" using IH by blast
    then have "tm_time m = t + of_nat (Suc k) * ?I" by (simp add: algebra_simps)
    then show ?thesis using IH [OF r] I by (auto intro: exI [of _ "Suc k"])
  qed
qed

lemma marker_loop_complete:
  assumes "I = header_intervalHours (zoomLevel v) * 3600000"
  shows "s = t + of_nat k * I \<Longrightarrow> s \<le> e \<Longrightarrow> -100 \<le> timeToX v s \<Longrightarrow> timeToX v s \<le> w + 100 \<Longrightarrow>
         \<exists>m \<in> set (marker_loop fmt tz v w e t). tm_time m = s"
proof (induction k arbitrary: t)
  case 0
  then have x: "\<not> (timeToX v t < -100 \<or> timeToX v t > w + 100)" by simp
  show ?case
    using 0 x by (subst marker_loop.simps)
      (auto simp: Let_def header_marker_def timeToX_def MS_PER_HOUR_def)
next
  case (Suc k)
  have I: "0 < I" using header_intervalHours_ge1 [of "zoomLevel v"] assms by simp
  have s: "s = (t + I) + of_nat k * I" using Suc.prems(1) by (simp add: algebra_simps)
  have "t \<le> e" using Suc.prems(1,2) I by (simp add: algebra_simps) (smt (verit) of_nat_0_le_iff mult_nonneg_nonneg)
  moreover obtain m where "m \<in> set (marker_loop fmt tz v w e (t + I))" "tm_time m = s"
    using Suc.IH [OF s Suc.prems(2-4)] by blast
  ultimately show ?case
    using assms by (subst marker_loop.simps) (auto simp: Let_def)
qed

text \<open>
  The tick markers of the timeline header stand where the canvas draws: each marker's
  \<open>x\<close> is the viewport manager's \<open>timeToX\<close> of its time; and a time carries a marker
  exactly when it is a multiple of the zoom level's interval, not before the interval
  containing the visible start, not after the visible end, and within 100 pixels of the
  header on either side.
\<close>

theorem markers_exact:
  "(\<forall>m \<in> set (markers fmt tz v w). tm_x m = timeToX v (tm_time m)) \<and>
   ((\<exists>m \<in> set (markers fmt tz v w). tm_time m = s) \<longleftrightarrow>
      (\<exists>j::int. s = of_int j * (header_intervalHours (zoomLevel v) * 3600000) \<and>
                \<lfloor>visibleStartTime v / (header_intervalHours (zoomLevel v) * 3600000)\<rfloor> \<le> j) \<and>
      s \<le> visibleEndTime v w \<and> -100 \<le> timeToX v s \<and> timeToX v s \<le> w + 100)"
proof -
  define I where "I = header_intervalHours (zoomLevel v) * 3600000"
  define fl where "fl = \<lfloor>visibleStartTime v / I\<rfloor>"
  have mk: "markers fmt tz v w = marker_loop fmt tz v w (visibleEndTime v w) (of_int fl * I)"
    by (simp add: markers_def I_def fl_def Let_def)
  have I: "0 < I" using header_intervalHours_ge1 [of "zoomLevel v"] by (simp add: I_def)
  have sound: "\<And>m. m \<in> set (markers fmt tz v w) \<Longrightarrow>
      tm_x m = timeToX v (tm_time m) \<and> -100 \<le> tm_x m \<and> tm_x m \<le> w + 100 \<and> tm_time m \<le> visibleEndTime v w \<and>
      (\<exists>k::nat. tm_time m = of_int fl * I + of_nat k * I)"
    unfolding mk I_def using marker_loop_sound by blast
  have fwd: "(\<exists>j::int. s = of_int j * I \<and> fl \<le> j) \<and> s \<le> visibleEndTime v w \<and> -100 \<le> timeToX v s \<and> timeToX v s \<le> w + 100"
    if mm: "m \<in> set (markers fmt tz v w)" and ms: "tm_time m = s" for m
  proof -
    obtain k :: nat where k: "s = of_int fl * I + of_nat k * I" using sound [OF mm] ms by blast
    have "s = of_int (fl + int k) * I" using k by (simp add: algebra_simps)
    moreover have "fl \<le> fl + int k" by simp
    ultimately have "\<exists>j::int. s = of_int j * I \<and> fl \<le> j" by blast
    then show ?thesis using sound [OF mm] ms by auto
  qed
  have bwd: "\<exists>m \<in> set (markers fmt tz v w). tm_time m = s"
    if sj: "s = of_int j * I" and jf: "fl \<le> j" and rest: "s \<le> visibleEndTime v w" "-100 \<le> timeToX v s" "timeToX v s \<le> w + 100" for j
  proof -
    have "s = of_int fl * I + of_nat (nat (j - fl)) * I"
    proof -
      have "(of_nat (nat (j - fl)) :: real) = of_int j - of_int fl" using jf by simp
      then show ?thesis using sj by (simp add: algebra_simps)
    qed
    then show ?thesis
      unfolding mk using marker_loop_complete [OF I_def] rest by blast
  qed
  show ?thesis
    using sound fwd bwd unfolding I_def [symmetric] fl_def [symmetric] by blast
qed

text \<open>Every day header starts inside the header and has a positive width; one that starts
  at or after the left edge ends inside it.\<close>

lemma day_header_box:
  fixes x dw w :: real
  assumes "0 < dw" and "x + dw > 0" and "x < w" and "0 < w"
  shows "0 \<le> max 0 x \<and> max 0 x < w \<and> 0 < min (min dw (w - x)) (if x < 0 then dw + x else dw) \<and>
         (0 < max 0 x \<longrightarrow> max 0 x + min (min dw (w - x)) (if x < 0 then dw + x else dw) \<le> w)"
  using assms by (auto simp: max_def min_def)

lemma day_loop_bounds:
  shows "0 < pixelsPerHour v \<Longrightarrow> 0 < w \<Longrightarrow> h \<in> set (day_loop v w e d) \<Longrightarrow>
           0 \<le> dh_x h \<and> dh_x h < w \<and> 0 < dh_width h \<and> (0 < dh_x h \<longrightarrow> dh_x h + dh_width h \<le> w)"
proof (induction v w e d rule: day_loop.induct)
  case (1 v w e d)
  note assms = "1.prems"(1,2)
  have lt: "d < e" using "1.prems"(3) by (subst (asm) day_loop.simps) (simp split: if_split_asm)
  let ?x = "((d - timeOrigin v) / 3600000) * pixelsPerHour v - scrollX v"
  have "h \<in> set (day_loop v w e (d + 24 * 3600000)) \<or>
        (?x + 24 * pixelsPerHour v > 0 \<and> ?x < w \<and>
         h = \<lparr>dh_date = d, dh_x = max 0 ?x,
              dh_width = min (min (24 * pixelsPerHour v) (w - ?x)) (if ?x < 0 then 24 * pixelsPerHour v + ?x else 24 * pixelsPerHour v)\<rparr>)"
    using "1.prems"(3) lt by (subst (asm) day_loop.simps) (auto simp: Let_def split: if_split_asm)
  then show ?case
  proof
    assume "h \<in> set (day_loop v w e (d + 24 * 3600000))"
    then show ?thesis using "1.IH" [OF lt refl refl refl] assms by blast
  next
    assume a: "?x + 24 * pixelsPerHour v > 0 \<and> ?x < w \<and>
         h = \<lparr>dh_date = d, dh_x = max 0 ?x,
              dh_width = min (min (24 * pixelsPerHour v) (w - ?x)) (if ?x < 0 then 24 * pixelsPerHour v + ?x else 24 * pixelsPerHour v)\<rparr>"
    have box: "0 \<le> max 0 ?x \<and> max 0 ?x < w \<and>
        0 < min (min (24 * pixelsPerHour v) (w - ?x)) (if ?x < 0 then 24 * pixelsPerHour v + ?x else 24 * pixelsPerHour v) \<and>
        (0 < max 0 ?x \<longrightarrow> max 0 ?x + min (min (24 * pixelsPerHour v) (w - ?x))
            (if ?x < 0 then 24 * pixelsPerHour v + ?x else 24 * pixelsPerHour v) \<le> w)"
      by (rule day_header_box) (use a assms in auto)
    from a have h: "h = \<lparr>dh_date = d, dh_x = max 0 ?x,
              dh_width = min (min (24 * pixelsPerHour v) (w - ?x)) (if ?x < 0 then 24 * pixelsPerHour v + ?x else 24 * pixelsPerHour v)\<rparr>"
      by blast
    show ?thesis unfolding h day_header.select_convs using box by blast
  qed
qed

text \<open>A day that starts left of the header gets the width \<open>width - x\<close> past the
  header's right edge: at 60 pixels per hour, scrolled 300 pixels into the day, the
  first day header of an 800-pixel header is 1100 pixels wide, and its label, centred
  in it, stands 150 pixels right of the visible centre.\<close>

lemma day_header_overflows:
  "day_loop \<lparr>scrollX = 300, timeOrigin = 0, pixelsPerHour = 60, scrollY = 0, rowHeight = 40,
             vp_width = 800, vp_height = 600, zoomLevel = Hour\<rparr> 800 86400000 0 =
     [\<lparr>dh_date = 0, dh_x = 0, dh_width = 1100\<rparr>]"
  by (simp add: day_loop.simps)

text \<open>In day zoom a marker is major at UTC midnight (\<open>time % 24h === 0\<close>) and at local
  midnight (\<open>getHours() === 0\<close>): six hours behind UTC, both the marker at 00:00 UTC
  (18:00 local) and the one at 06:00 UTC (local midnight) are major.\<close>

lemma day_markers_two_majors:
  assumes "zoomLevel v = Day"
  shows "tm_isMajor (header_marker fmt (- 21600000) v 0 x) \<and> tm_isMajor (header_marker fmt (- 21600000) v 21600000 x') \<and>
         local_hour (- 21600000) 0 = 18"
  using assms by (simp add: header_marker_def js_rem_def local_hour_def)

text \<open>The timeline's current time indicator and the grid renderer's today line agree: on a
  canvas as wide as the timeline, the indicator is shown at \<open>x\<close> exactly when the grid
  draws its today line at \<open>x\<close>, and the grid draws no today marker when it is hidden.\<close>

lemma currentTimeX_today_marker:
  assumes "r_width r = width"
  shows "(currentTimeX True now v width = Some x \<longrightarrow> Move_to x 0 \<in> set (renderTodayMarker C tz now r v)) \<and>
         (currentTimeX True now v width = None \<longleftrightarrow> renderTodayMarker C tz now r v = [])"
  using assms by (auto simp: currentTimeX_def renderTodayMarker_def Let_def)

end
