(* ===== verification/Provider.thy ===== *)
theory Provider
  imports History
begin

text \<open>
  The context provider \<open>GanttProvider\<close> of \<open>src/unnamed/part_000\<close> around the
  composable store with its history. It loads the data it is given and reports changes
  through three optional callbacks, each a \<open>subscribe\<close> with a selector: the store
  calls a listener after every \<open>set\<close> whose selected value changed (immer keeps the
  references of unchanged values, so a reference change is a value change), and undo and
  redo set the store too. \<open>provider_set\<close> is one \<open>set\<close> with the callbacks it triggers
  (\<open>provider_event\<close>s, in subscription order); \<open>provider_step\<close> is an action, undo or
  redo called through \<open>useGanttActions\<close>. The selector hooks
  \<open>useGanttSelectedTasks\<close>, \<open>useGanttCanUndo\<close> and \<open>useGanttCanRedo\<close> are
  functions of the state.
\<close>

datatype provider_event =
    Task_changed task_id task
  | Selection_changed "task_id list"
  | Viewport_changed viewport_state

text \<open>Which of \<open>onTaskChange\<close>, \<open>onSelectionChange\<close>, \<open>onViewportChange\<close> are given.\<close>

record provider_callbacks =
  has_onTaskChange :: bool
  has_onSelectionChange :: bool
  has_onViewportChange :: bool

record provider_props =
  pp_tasks :: "stored_task list option"
  pp_resources :: "resource list option"
  pp_dependencies :: "task_dependency list option"
  pp_orders :: "order list option"
  pp_groups :: "resource_group list option"

text \<open>The task listener: \<open>for (const taskId of Object.keys(tasks)) if (tasks[taskId] !==
  prevTasks[taskId]) onTaskChange(taskId, tasks[taskId])\<close>.\<close>

definition task_changes :: "(task_id, task) obj \<Rightarrow> (task_id, task) obj \<Rightarrow> provider_event list" where
  "task_changes prevTasks ts =
     concat (map (\<lambda>tid. case obj_get ts tid of
                          None \<Rightarrow> []
                        | Some t \<Rightarrow> if obj_get prevTasks tid = Some t then [] else [Task_changed tid t])
                 (obj_keys ts))"

text \<open>The listeners run after a \<open>set\<close> from \<open>old\<close> to \<open>new\<close>, in subscription order.\<close>

definition provider_notify :: "provider_callbacks \<Rightarrow> store_state \<Rightarrow> store_state \<Rightarrow> provider_event list" where
  "provider_notify cbs old new =
     (if has_onTaskChange cbs \<and> tasks new \<noteq> tasks old then task_changes (tasks old) (tasks new) else []) @
     (if has_onSelectionChange cbs \<and> sel_taskIds (selection new) \<noteq> sel_taskIds (selection old)
      then [Selection_changed (sel_taskIds (selection new))] else []) @
     (if has_onViewportChange cbs \<and> viewport new \<noteq> viewport old
      then [Viewport_changed (viewport new)] else [])"

definition provider_set ::
  "provider_callbacks \<Rightarrow> (store_state \<Rightarrow> store_state) \<Rightarrow> store_state history \<times> provider_event list
   \<Rightarrow> store_state history \<times> provider_event list" where
  "provider_set cbs f c =
     (let h' = handle_set f (fst c) in (h', snd c @ provider_notify cbs (present (fst c)) (present h')))"

definition provider_dispatch ::
  "provider_callbacks \<Rightarrow> store_action \<Rightarrow> store_state history \<Rightarrow> store_err + store_state history \<times> provider_event list" where
  "provider_dispatch cbs a h =
     (case store_steps a (present h) of
        Inl e \<Rightarrow> Inl e
      | Inr fs \<Rightarrow> Inr (fold (provider_set cbs) fs (h, [])))"

text \<open>\<open>useGanttActions\<close>: the store's actions, and \<open>undo\<close>/\<open>redo\<close> of its history.\<close>

fun provider_step ::
  "provider_callbacks \<Rightarrow> session_event \<Rightarrow> store_state history \<Rightarrow> store_err + store_state history \<times> provider_event list" where
  "provider_step cbs (Act a) h = provider_dispatch cbs a h"
| "provider_step cbs Undo h = Inr (undo h, provider_notify cbs (present h) (present (undo h)))"
| "provider_step cbs Redo h = Inr (redo h, provider_notify cbs (present h) (present (redo h)))"

text \<open>The data effect: \<open>if (tasks && resources) initializeData({...})\<close>.\<close>

definition provider_init ::
  "provider_callbacks \<Rightarrow> provider_props \<Rightarrow> store_state history \<Rightarrow> store_err + store_state history \<times> provider_event list" where
  "provider_init cbs pp h =
     (case (pp_tasks pp, pp_resources pp) of
        (Some ts, Some rs) \<Rightarrow>
          provider_dispatch cbs
            (Initialize_data \<lparr>init_tasks = ts, init_resources = rs, init_dependencies = pp_dependencies pp,
                              init_orders = pp_orders pp, init_groups = pp_groups pp\<rparr>) h
      | _ \<Rightarrow> Inr (h, []))"

definition useGanttSelectedTaskIds :: "store_state \<Rightarrow> task_id list" where
  "useGanttSelectedTaskIds s = sel_taskIds (selection s)"

definition useGanttSelectedTasks :: "store_state \<Rightarrow> task list" where
  "useGanttSelectedTasks s =
     concat (map (\<lambda>tid. case obj_get (tasks s) tid of None \<Rightarrow> [] | Some t \<Rightarrow> [t]) (sel_taskIds (selection s)))"

definition useGanttCanUndo :: "store_state history \<Rightarrow> bool" where
  "useGanttCanUndo h \<longleftrightarrow> length (pastStates h) > 0"

definition useGanttCanRedo :: "store_state history \<Rightarrow> bool" where
  "useGanttCanRedo h \<longleftrightarrow> length (futureStates h) > 0"

subsection \<open>Lemmas\<close>

lemma provider_fold_fst:
  "fst (fold (provider_set cbs) fs (h, evs)) = fold handle_set fs h"
  by (induction fs arbitrary: h evs) (simp_all add: provider_set_def Let_def)

text \<open>The provider changes nothing in the store: an action, undo or redo called through
  \<open>useGanttActions\<close> leaves the store and its history exactly as the store alone does
  (the same error when the action throws); the callbacks only observe.\<close>

theorem provider_step_refines:
  "map_sum id fst (provider_step cbs e h) = session_run [e] h"
  by (cases e) (simp_all add: provider_dispatch_def dispatch_def provider_fold_fst split: sum.split)

text \<open>The task listener reports exactly the tasks whose value differs from the one
  under the same id before, new tasks included.\<close>

lemma task_changes_iff:
  "Task_changed tid t \<in> set (task_changes prev ts) \<longleftrightarrow> obj_get ts tid = Some t \<and> obj_get prev tid \<noteq> Some t"
proof -
  have "tid \<in> set (obj_keys ts) \<longleftrightarrow> obj_get ts tid \<noteq> None" by (auto simp: obj_keys_dom)
  then show ?thesis by (force simp: task_changes_def split: option.splits if_splits)
qed

lemma task_changes_delete:
  "Task_changed x t \<notin> set (task_changes ts (obj_delete ts tid))"
  by (auto simp: task_changes_def obj_get_delete split: option.splits if_splits)

text \<open>
  C35. A deleted task is never reported: \<open>deleteTask\<close> through the provider removes the
  task from the store, yet the task listener, which only looks at the keys of the new
  task record, calls \<open>onTaskChange\<close> for no task at all.
\<close>

theorem deleteTask_unreported:
  assumes "obj_get (tasks (present h)) tid = Some t"
  shows "\<exists>h' evs. provider_dispatch cbs (Delete_task tid) h = Inr (h', evs) \<and>
                  obj_get (tasks (present h')) tid = None \<and> (\<forall>x t'. Task_changed x t' \<notin> set evs)"
proof -
  let ?new = "deleteTask tid (present h)"
  have "provider_dispatch cbs (Delete_task tid) h =
          Inr (handle_set (deleteTask tid) h, provider_notify cbs (present h) (present (handle_set (deleteTask tid) h)))"
    by (simp add: provider_dispatch_def provider_set_def Let_def)
  moreover have "present (handle_set (deleteTask tid) h) = ?new"
    by (simp add: temporal_set_def Let_def)
  moreover have "obj_get (tasks ?new) tid = None" by (simp add: deleteTask_def obj_get_delete)
  moreover have "Task_changed x t' \<notin> set (provider_notify cbs (present h) ?new)" for x t'
    by (simp add: provider_notify_def deleteTask_def task_changes_delete)
  ultimately show ?thesis by auto
qed

end
