(* ===== verification/Sidebar.thy ===== *)
theory Sidebar
  imports Store
begin

text \<open>
  The resource sidebar, \<open>GanttSidebar\<close> of
  \<open>components/composable/GanttSidebar.tsx\<close>: the rows it lists beside the canvas, the
  expand animation of new resource rows, the collapse button and the resize handle.
  The animation state (\<open>prevRowIdsRef\<close>, \<open>newRowIds\<close>, the pending \<open>setTimeout\<close>) is
  the record \<open>sidebar_state\<close>; its effect on a change of \<open>virtualRows\<close> and the timer
  firing are \<open>sidebar_step\<close>. React runs the cleanup of the previous effect, which clears
  its timer, before the next one. Each listed row is a \<open>sidebar_item\<close>; the clicks
  return the store actions they call.
\<close>

record sidebar_state =
  sb_prevRowIds :: "string list"
  sb_newRowIds :: "string list"
  sb_timeout :: bool
  sb_isCollapsed :: bool

definition sidebar_initial :: sidebar_state where
  "sidebar_initial = \<lparr>sb_prevRowIds = [], sb_newRowIds = [], sb_timeout = False, sb_isCollapsed = False\<rparr>"

text \<open>\<open>for (const id of currentIds) if (!prevIds.has(id)) { const row =
  virtualRows.find(r => r.id === id); if (row && !row.isGroupHeader) newIds.add(id) }\<close>.\<close>

definition sidebar_newIds :: "virtual_row list \<Rightarrow> string list \<Rightarrow> string list" where
  "sidebar_newIds rows prevIds =
     fold (\<lambda>i acc. if i \<in> set prevIds then acc
                   else (case find (\<lambda>r. row_id r = i) rows of
                           None \<Rightarrow> acc
                         | Some r \<Rightarrow> if isGroupHeader r then acc else jsset_add i acc))
          (jsset_of_list (map row_id rows)) []"

text \<open>The effect on \<open>[virtualRows]\<close>: with new rows it sets \<open>newRowIds\<close> and a 300 ms
  timer and returns early, without recording the current ids; otherwise it records them.\<close>

definition sidebar_effect :: "virtual_row list \<Rightarrow> sidebar_state \<Rightarrow> sidebar_state" where
  "sidebar_effect rows st =
     (let currentIds = jsset_of_list (map row_id rows);
          newIds = sidebar_newIds rows (sb_prevRowIds st);
          st0 = st\<lparr>sb_timeout := False\<rparr>
      in if length newIds > 0 then st0\<lparr>sb_newRowIds := newIds, sb_timeout := True\<rparr>
         else st0\<lparr>sb_prevRowIds := currentIds\<rparr>)"

definition sidebar_timeout :: "sidebar_state \<Rightarrow> sidebar_state" where
  "sidebar_timeout st = (if sb_timeout st then st\<lparr>sb_newRowIds := [], sb_timeout := False\<rparr> else st)"

datatype sidebar_event = Rows_changed "virtual_row list" | Timeout_fired | Collapse_clicked | Expand_clicked

fun sidebar_step :: "sidebar_event \<Rightarrow> sidebar_state \<Rightarrow> sidebar_state" where
  "sidebar_step (Rows_changed rows) st = sidebar_effect rows st"
| "sidebar_step Timeout_fired st = sidebar_timeout st"
| "sidebar_step Collapse_clicked st = st\<lparr>sb_isCollapsed := True\<rparr>"
| "sidebar_step Expand_clicked st = st\<lparr>sb_isCollapsed := False\<rparr>"

definition sidebar_run :: "sidebar_event list \<Rightarrow> sidebar_state \<Rightarrow> sidebar_state" where
  "sidebar_run es st = fold sidebar_step es st"

text \<open>\<open>sidebarWidth = (propWidth ?? viewport.width > 0) ? 200 : 200\<close>: the operator
  \<open>??\<close> binds looser than \<open>>\<close>, and both branches are 200.\<close>

definition sidebarWidth :: "number option \<Rightarrow> number \<Rightarrow> number" where
  "sidebarWidth propWidth vw =
     (if (case propWidth of Some w \<Rightarrow> w \<noteq> 0 | None \<Rightarrow> 0 < vw) then 200 else 200)"

definition totalHeight :: "virtual_row list \<Rightarrow> number" where
  "totalHeight rows = (if length rows > 0 then virtualY (last rows) + row_height (last rows) else 0)"

definition staggerDelay :: "nat \<Rightarrow> number" where
  "staggerDelay i = min (of_nat i * 20) 150"

datatype sidebar_item =
    Group_header_item "string option" "bool option" number number
  | Resource_item string string bool number number number

text \<open>\<open>virtualRows.map((row, index) => ...)\<close>: a header, or a resource row with its
  name and type (\<open>"Unknown"\<close> and \<open>"generic"\<close> when the resource is missing), whether it
  is new, and the transition delay of a new row.\<close>

definition sidebar_item_of ::
  "(resource_id, resource) obj \<Rightarrow> string list \<Rightarrow> nat \<Rightarrow> virtual_row \<Rightarrow> sidebar_item" where
  "sidebar_item_of rs newRowIds index row =
     (if isGroupHeader row then Group_header_item (groupName row) (isCollapsed row) (virtualY row) (row_height row)
      else (let resource = (case row_resourceId row of None \<Rightarrow> None | Some rid \<Rightarrow> obj_get rs rid);
                isNew = row_id row \<in> set newRowIds
            in Resource_item
                 (case resource of None \<Rightarrow> ''Unknown'' | Some r \<Rightarrow> res_name r)
                 (case resource of None \<Rightarrow> ''generic'' | Some r \<Rightarrow> resource_type_str (res_type r))
                 isNew (if isNew then staggerDelay index else 0) (virtualY row) (row_height row)))"

definition sidebar_items :: "(resource_id, resource) obj \<Rightarrow> sidebar_state \<Rightarrow> virtual_row list \<Rightarrow> sidebar_item list" where
  "sidebar_items rs st rows =
     map (\<lambda>(i, row). sidebar_item_of rs (sb_newRowIds st) i row) (zip [0..<length rows] rows)"

text \<open>A click on a group header: \<open>row.groupId && toggleGroup(row.groupId)\<close>.\<close>

definition header_click :: "virtual_row \<Rightarrow> store_action option" where
  "header_click row = (case row_groupId row of None \<Rightarrow> None | Some g \<Rightarrow> if g = [] then None else Some (Toggle_group g))"

text \<open>A mouse move of the resize handle: \<open>setSidebarWidth(sidebarWidth + delta)\<close>, the
  delta measured from the press point towards the canvas.\<close>

datatype sidebar_position = Pos_left | Pos_right

definition resize_move :: "sidebar_position \<Rightarrow> number option \<Rightarrow> number \<Rightarrow> number \<Rightarrow> number \<Rightarrow> store_action" where
  "resize_move pos propWidth vw x0 clientX =
     (let delta = (if pos = Pos_left then clientX - x0 else x0 - clientX)
      in Set_sidebar_width (sidebarWidth propWidth vw + delta))"

subsection \<open>Lemmas\<close>

lemma set_fold_jsset_add_filter:
  "set (fold (\<lambda>i acc. if P i then jsset_add i acc else acc) xs acc0) = set acc0 \<union> {i \<in> set xs. P i}"
  by (induction xs arbitrary: acc0) (auto simp: jsset_simps)

lemma sidebar_newIds_iff:
  "i \<in> set (sidebar_newIds rows prevIds) \<longleftrightarrow>
     i \<notin> set prevIds \<and> (\<exists>r. find (\<lambda>r. row_id r = i) rows = Some r \<and> \<not> isGroupHeader r)"
proof -
  let ?P = "\<lambda>i. i \<notin> set prevIds \<and> (case find (\<lambda>r. row_id r = i) rows of None \<Rightarrow> False | Some r \<Rightarrow> \<not> isGroupHeader r)"
  have body: "(\<lambda>i acc. if i \<in> set prevIds then acc
                   else (case find (\<lambda>r. row_id r = i) rows of
                           None \<Rightarrow> acc
                         | Some r \<Rightarrow> if isGroupHeader r then acc else jsset_add i acc)) =
              (\<lambda>i acc. if ?P i then jsset_add i acc else acc)"
    by (auto simp: fun_eq_iff split: option.split)
  have found: "find (\<lambda>r. row_id r = i) rows = Some r \<Longrightarrow> i \<in> set (map row_id rows)" for r
    by (auto simp: find_Some_iff)
  show ?thesis
    unfolding sidebar_newIds_def body set_fold_jsset_add_filter
    using found by (auto simp: jsset_simps split: option.splits)
qed

text \<open>
  C28. The expand animation replays: a resource row that is new to the sidebar is flagged
  new by the effect, and because that run returns before recording the current row ids,
  the same row is flagged new again by the next change of the rows after the timer,
  although it has been on screen all along.
\<close>

theorem sidebar_reanimates:
  assumes "find (\<lambda>r. row_id r = i) rowsA = Some ra" and "\<not> isGroupHeader ra"
    and "find (\<lambda>r. row_id r = i) rowsB = Some rb" and "\<not> isGroupHeader rb"
    and "i \<notin> set (sb_prevRowIds st)"
  shows "i \<in> set (sb_newRowIds (sidebar_run [Rows_changed rowsA] st)) \<and>
         i \<in> set (sb_newRowIds (sidebar_run [Rows_changed rowsA, Timeout_fired, Rows_changed rowsB] st))"
proof -
  have n1: "i \<in> set (sidebar_newIds rowsA (sb_prevRowIds st))"
    using assms(1,2,5) by (auto simp: sidebar_newIds_iff)
  then have ne: "length (sidebar_newIds rowsA (sb_prevRowIds st)) > 0" by (cases "sidebar_newIds rowsA (sb_prevRowIds st)") auto
  let ?st1 = "sidebar_effect rowsA st"
  have st1: "sb_prevRowIds ?st1 = sb_prevRowIds st" "sb_newRowIds ?st1 = sidebar_newIds rowsA (sb_prevRowIds st)"
    using ne by (simp_all add: sidebar_effect_def Let_def)
  have "sb_prevRowIds (sidebar_timeout ?st1) = sb_prevRowIds st" using st1 by (simp add: sidebar_timeout_def)
  then have n2: "i \<in> set (sidebar_newIds rowsB (sb_prevRowIds (sidebar_timeout ?st1)))"
    using assms(3-5) by (auto simp: sidebar_newIds_iff)
  then have "length (sidebar_newIds rowsB (sb_prevRowIds (sidebar_timeout ?st1))) > 0"
    by (cases "sidebar_newIds rowsB (sb_prevRowIds (sidebar_timeout ?st1))") auto
  then show ?thesis
    using n1 n2 st1 by (simp add: sidebar_run_def sidebar_effect_def Let_def)
qed

text \<open>The sidebar's content height is the sum of the row heights of the layout.\<close>

lemma totalHeight_virtualRows:
  "totalHeight (virtualRows res ts os m ex h) = rows_height (virtualRows res ts os m ex h)"
  using contiguous_last [OF virtualRows_contiguous_from] by (simp add: totalHeight_def rows_height_def)

lemma staggerDelay_bounds: "0 \<le> staggerDelay i \<and> staggerDelay i \<le> 150 \<and> (i \<le> 7 \<longrightarrow> staggerDelay i = 20 * of_nat i)"
  by (simp add: staggerDelay_def)

text \<open>The resize handle ignores the width the store holds: a move sets the width to 200
  plus the distance from the press point, clamped to [100, 400], whatever it was.\<close>

lemma resize_from_200:
  "store_apply (resize_move Pos_left pw vw x0 x) s = Inr (s\<lparr>sidebarWidth := max 100 (min 400 (200 + (x - x0)))\<rparr>)"
  by (simp add: resize_move_def sidebarWidth_def store_apply_def setSidebarWidth_def)

end
