(* ===== verification/Toolbar.thy ===== *)
theory Toolbar
  imports LegacyStore Provider
begin

text \<open>
  The chart controls: the toolbar over the global stores (\<open>GanttToolbar\<close> of
  \<open>components/GanttToolbar.tsx\<close>) and the composable controls (\<open>ZoomButtons\<close>,
  \<open>ZoomSelect\<close>, \<open>UndoRedo\<close>, \<open>TodayButton\<close> under
  \<open>components/composable/controls/\<close>, and the \<open>TimeNavigator\<close> of the minimal route).
  A button is a \<open>toolbar_button\<close>; \<open>toolbar_events\<close> is what its handler calls, read off
  the viewport it sees. The legacy toolbar runs them on the data and UI stores
  (\<open>legacy_toolbar_run\<close>); the composable controls run them through the provider, and an
  undo or redo button is disabled while the history has nothing to undo or redo
  (\<open>control_click\<close>).
\<close>

datatype toolbar_button =
    Zoom_in_btn | Zoom_out_btn | Zoom_select zoom_level | Grouping_select grouping_mode
  | Undo_btn | Redo_btn | Today_btn number | Pan_left_btn | Pan_right_btn

text \<open>\<open>handleZoomIn\<close>: \<open>zoomViewport(1.25, viewport.width / 2)\<close>; \<open>handleZoomOut\<close>:
  \<open>zoomViewport(0.8, ...)\<close>; the selects call \<open>setZoomLevel\<close> and \<open>setGroupingMode\<close>;
  Today is \<open>scrollToTime(Date.now())\<close>; the navigator pans by half the width.\<close>

fun toolbar_events :: "viewport_state \<Rightarrow> toolbar_button \<Rightarrow> session_event list" where
  "toolbar_events v Zoom_in_btn = [Act (Zoom_viewport (5 / 4) (vp_width v / 2))]"
| "toolbar_events v Zoom_out_btn = [Act (Zoom_viewport (4 / 5) (vp_width v / 2))]"
| "toolbar_events v (Zoom_select z) = [Act (Set_zoom_level z)]"
| "toolbar_events v (Grouping_select m) = [Act (Set_grouping_mode m)]"
| "toolbar_events v Undo_btn = [Undo]"
| "toolbar_events v Redo_btn = [Redo]"
| "toolbar_events v (Today_btn now) = [Act (Scroll_to_time now)]"
| "toolbar_events v Pan_left_btn = [Act (Pan_viewport (- (vp_width v / 2)) 0)]"
| "toolbar_events v Pan_right_btn = [Act (Pan_viewport (vp_width v / 2) 0)]"


text \<open>The composable controls: \<open>disabled={!canUndo}\<close> and \<open>disabled={!canRedo}\<close>.\<close>

fun control_enabled :: "store_state history \<Rightarrow> toolbar_button \<Rightarrow> bool" where
  "control_enabled h Undo_btn = useGanttCanUndo h"
| "control_enabled h Redo_btn = useGanttCanRedo h"
| "control_enabled h _ = True"

fun provider_run ::
  "provider_callbacks \<Rightarrow> session_event list \<Rightarrow> store_state history \<Rightarrow> store_err + store_state history \<times> provider_event list" where
  "provider_run cbs [] h = Inr (h, [])"
| "provider_run cbs (e # es) h =
     (case provider_step cbs e h of
        Inl err \<Rightarrow> Inl err
      | Inr (h', evs) \<Rightarrow> (case provider_run cbs es h' of Inl err \<Rightarrow> Inl err | Inr (h'', evs') \<Rightarrow> Inr (h'', evs @ evs')))"

definition control_click ::
  "provider_callbacks \<Rightarrow> toolbar_button \<Rightarrow> store_state history \<Rightarrow> store_err + store_state history \<times> provider_event list" where
  "control_click cbs b h =
     (if control_enabled h b then provider_run cbs (toolbar_events (viewport (present h)) b) h else Inr (h, []))"

subsection \<open>Zoom and grouping controls\<close>

text \<open>The string values of \<open>ZoomLevel\<close> and \<open>GroupingMode\<close> (\<open>types/index.ts\<close>).\<close>

fun zoom_level_value :: "zoom_level \<Rightarrow> string" where
  "zoom_level_value Hour = ''hour''"
| "zoom_level_value Day = ''day''"
| "zoom_level_value Week = ''week''"
| "zoom_level_value Month = ''month''"

fun grouping_mode_value :: "grouping_mode \<Rightarrow> string" where
  "grouping_mode_value Group_none = ''none''"
| "grouping_mode_value Group_resource_type = ''resource_type''"
| "grouping_mode_value Group_order = ''order''"

text \<open>The options of \<open>ZoomSelect\<close> and \<open>GroupingSelect\<close>: value and label.\<close>

definition zoomLevels :: "(zoom_level \<times> string) list" where
  "zoomLevels = [(Hour, ''Hour''), (Day, ''Day''), (Week, ''Week''), (Month, ''Month'')]"

definition groupingModes :: "(grouping_mode \<times> string) list" where
  "groupingModes = [(Group_none, ''No Grouping''), (Group_resource_type, ''By Type''), (Group_order, ''By Order'')]"

text \<open>A \<open>change\<close> event of a select carries the value of the chosen option;
  \<open>e.target.value as ZoomLevel\<close> reads it back.\<close>

definition select_option :: "('a \<Rightarrow> string) \<Rightarrow> ('a \<times> string) list \<Rightarrow> string \<Rightarrow> 'a option" where
  "select_option val opts s = map_option fst (find (\<lambda>(v, _). val v = s) opts)"

definition zoom_select_change :: "string \<Rightarrow> toolbar_button option" where
  "zoom_select_change s = map_option Zoom_select (select_option zoom_level_value zoomLevels s)"

definition grouping_select_change :: "string \<Rightarrow> toolbar_button option" where
  "grouping_select_change s = map_option Grouping_select (select_option grouping_mode_value groupingModes s)"

text \<open>\<open>ZoomControls\<close>: zoom out, the select when \<open>showSelect\<close>, zoom in.\<close>

definition zoom_controls :: "bool \<Rightarrow> toolbar_button set" where
  "zoom_controls showSelect = {Zoom_out_btn, Zoom_in_btn} \<union> (if showSelect then range Zoom_select else {})"

subsection \<open>The composable toolbar\<close>

text \<open>\<open>GanttToolbar\<close> of the composable components (\<open>src/unnamed/part_012\<close>): the
  \<open>items\<close> prop chooses the controls; the children are the zoom controls, a divider,
  the today button, a divider, the grouping select, a spacer and the undo/redo pair,
  each shown by its guard.\<close>

datatype toolbar_item = Item_zoom | Item_today | Item_grouping | Item_undo

datatype toolbar_element = El_zoom | El_divider | El_today | El_grouping | El_spacer | El_undo

definition toolbar_default_items :: "toolbar_item list" where
  "toolbar_default_items = [Item_zoom, Item_today, Item_grouping, Item_undo]"

definition toolbar_layout :: "toolbar_item list \<Rightarrow> toolbar_element list" where
  "toolbar_layout items =
     (let showZoom = Item_zoom \<in> set items; showToday = Item_today \<in> set items;
          showGrouping = Item_grouping \<in> set items; showUndo = Item_undo \<in> set items
      in (if showZoom then [El_zoom] else []) @
         (if showZoom \<and> (showToday \<or> showGrouping) then [El_divider] else []) @
         (if showToday then [El_today] else []) @
         (if showToday \<and> showGrouping then [El_divider] else []) @
         (if showGrouping then [El_grouping] else []) @
         [El_spacer] @
         (if showUndo then [El_undo] else []))"

text \<open>The buttons of a shown control: \<open>ZoomControls\<close> (the zoom buttons and select),
  \<open>TodayButton\<close> (\<open>scrollToTime(Date.now())\<close>), \<open>GroupingSelect\<close> and \<open>UndoRedo\<close>.\<close>

fun element_buttons :: "number \<Rightarrow> toolbar_element \<Rightarrow> toolbar_button set" where
  "element_buttons now El_zoom = zoom_controls True"
| "element_buttons now El_today = {Today_btn now}"
| "element_buttons now El_grouping = range Grouping_select"
| "element_buttons now El_undo = {Undo_btn, Redo_btn}"
| "element_buttons now _ = {}"

subsection \<open>Lemmas\<close>






text \<open>At the top of the zoom range the two clicks do not cancel: from 100 pixels per hour,
  zoom in is clamped at 120 and zoom out lands on 96.\<close>

lemma zoom_in_out_clamped:
  "pixelsPerHour (zoomViewport (4 / 5) c (zoomViewport (5 / 4) c v)) = 96" if "pixelsPerHour v = 100"
  using that by (simp add: zoomViewport_def Let_def)

text \<open>The undo and redo buttons of the composable controls are enabled exactly when a click
  changes the history.\<close>

lemma control_undo_enabled: "control_enabled h Undo_btn \<longleftrightarrow> undo h \<noteq> h"
proof
  assume "control_enabled h Undo_btn"
  then have "pastStates h \<noteq> []" by (simp add: useGanttCanUndo_def)
  then have "length (pastStates (undo h)) < length (pastStates h)" by (simp add: undo_def)
  then show "undo h \<noteq> h" by auto
qed (auto simp: useGanttCanUndo_def undo_def)

lemma control_redo_enabled: "control_enabled h Redo_btn \<longleftrightarrow> redo h \<noteq> h"
proof
  assume "control_enabled h Redo_btn"
  then have "futureStates h \<noteq> []" by (simp add: useGanttCanRedo_def)
  then have "length (futureStates (redo h)) < length (futureStates h)" by (simp add: redo_def)
  then show "redo h \<noteq> h" by auto
qed (auto simp: useGanttCanRedo_def redo_def)

text \<open>The dividers of the composable toolbar stand between two controls: never first,
  never twice in a row, always followed by the today button or the grouping select and
  preceded by a control; the layout depends on the set of items only.\<close>

lemma toolbar_layout_dividers:
  assumes "toolbar_layout items ! i = El_divider" and "i < length (toolbar_layout items)"
  shows "0 < i \<and> toolbar_layout items ! (i - 1) \<in> {El_zoom, El_today} \<and>
         toolbar_layout items ! (i + 1) \<in> {El_today, El_grouping}"
  using assms
  by (cases "Item_zoom \<in> set items"; cases "Item_today \<in> set items"; cases "Item_grouping \<in> set items";
      cases "Item_undo \<in> set items")
     (auto simp: toolbar_layout_def nth_Cons' nth_append split: if_splits)

lemma toolbar_layout_set_eq: "set items = set items' \<Longrightarrow> toolbar_layout items = toolbar_layout items'"
  by (simp add: toolbar_layout_def)

lemma toolbar_default_layout:
  "toolbar_layout toolbar_default_items = [El_zoom, El_divider, El_today, El_divider, El_grouping, El_spacer, El_undo]"
  by (simp add: toolbar_layout_def toolbar_default_items_def)

lemma toolbar_default_controls:
  "(\<Union>e \<in> set (toolbar_layout toolbar_default_items). element_buttons now e) =
     {b. \<not> (\<exists>d. b = Today_btn d \<and> d \<noteq> now) \<and> b \<notin> {Pan_left_btn, Pan_right_btn}}"
proof -
  have "b \<in> {Zoom_in_btn, Zoom_out_btn} \<union> range Zoom_select \<union> {Today_btn now} \<union> range Grouping_select \<union> {Undo_btn, Redo_btn}
        \<longleftrightarrow> \<not> (\<exists>d. b = Today_btn d \<and> d \<noteq> now) \<and> b \<notin> {Pan_left_btn, Pan_right_btn}" for b
    by (cases b) auto
  then show ?thesis by (auto simp: toolbar_default_layout zoom_controls_def)
qed

text \<open>Every option of the zoom and grouping selects is read back as itself, and a zoom
  level chosen in the select is the level the zoom buttons later report: the new zoom
  lies in the band of that level.\<close>

lemma zoom_select_roundtrip: "zoom_select_change (zoom_level_value z) = Some (Zoom_select z)"
  by (cases z) (simp_all add: zoom_select_change_def select_option_def zoomLevels_def)

lemma grouping_select_roundtrip: "grouping_select_change (grouping_mode_value m) = Some (Grouping_select m)"
  by (cases m) (simp_all add: grouping_select_change_def select_option_def groupingModes_def)

lemma setZoomLevel_band: "getZoomLevel (pixelsPerHour (setZoomLevel z v)) = z"
  by (cases z) (simp_all add: setZoomLevel_def getZoomLevel_def)

end
