(* ===== verification/RouteViews.thy ===== *)
theory RouteViews
  imports Provider
begin

text \<open>
  The view logic of the demo routes under \<open>routes/\<close> that use the composable chart:
  the layout arithmetic of \<open>GanttBottomToolbar\<close> and of the \<open>MainContent\<close> of
  \<open>GanttSidebarRight\<close>, the selection bar (\<open>SelectionInfoBar\<close>), the task detail panel (\<open>TaskDetailPanel\<close>,
  \<open>SingleTaskDetails\<close>, \<open>MultiTaskSummary\<close>, \<open>StatusBadge\<close>) and the selection
  indicator of the minimal route (\<open>SelectionIndicator\<close>). Each component is a function
  of the store state returning what it shows; JSX and styling are not modelled.
\<close>

text \<open>\<open>GanttBottomToolbar\<close>: the canvas takes the container minus the 200-pixel sidebar,
  the 50-pixel timeline, the 48-pixel toolbar and the 60-pixel header.\<close>

definition bottomToolbar_canvas :: "number \<Rightarrow> number \<Rightarrow> number \<times> number" where
  "bottomToolbar_canvas w h = (max 0 (w - 200), max 0 (h - 50 - 48 - 60))"

text \<open>\<open>MainContent\<close> of the right-sidebar route: a 320-pixel detail panel opens while a task is selected.\<close>

definition mainContent_canvas :: "store_state \<Rightarrow> number \<Rightarrow> number \<Rightarrow> number \<Rightarrow> number \<times> number" where
  "mainContent_canvas s w h timelineHeight =
     (let detailPanelWidth = (if length (useGanttSelectedTasks s) > 0 then 320 else 0)
      in (max 0 (w - detailPanelWidth), max 0 (h - timelineHeight)))"

text \<open>\<open>StatusBadge\<close>: \<open>status.replace("_", " ")\<close>.\<close>

fun status_label :: "task_status \<Rightarrow> string" where
  "status_label Scheduled = ''scheduled''"
| "status_label In_progress = ''in progress''"
| "status_label Completed = ''completed''"
| "status_label Blocked = ''blocked''"

datatype selection_info =
    Select_hint
  | Selected_count nat string "(string \<times> task_status \<times> number) option"

definition selectionInfoBar :: "store_state \<Rightarrow> selection_info" where
  "selectionInfoBar s =
     (let selectedTasks = useGanttSelectedTasks s
      in if length selectedTasks = 0 then Select_hint
         else Selected_count (length selectedTasks) (if length selectedTasks > 1 then ''s'' else [])
                (if length selectedTasks = 1
                 then Some (task_name (hd selectedTasks), status (hd selectedTasks), progress (hd selectedTasks))
                 else None))"

text \<open>\<open>["Lowest", "Low", "Medium", "High", "Highest"][task.priority - 1]\<close>: undefined, so
  nothing shown, unless the priority is one of 1 to 5.\<close>

definition priority_label :: "number \<Rightarrow> string option" where
  "priority_label p =
     (if p \<in> set [1, 2, 3, 4, 5] then Some ([''Lowest'', ''Low'', ''Medium'', ''High'', ''Highest''] ! nat \<lfloor>p - 1\<rfloor>)
      else None)"

datatype detail_panel =
    No_panel
  | Single_details string string number number number "string option" "(phase_type \<times> number) list"
  | Multi_summary nat number number "(string \<times> string) list"

text \<open>\<open>MultiTaskSummary\<close>: the total of \<open>_totalDuration\<close> and the rounded mean progress.\<close>

definition multi_totalDuration :: "task list \<Rightarrow> number" where
  "multi_totalDuration ts = fold (\<lambda>t s. s + totalDuration t) ts 0"

definition multi_avgProgress :: "task list \<Rightarrow> number" where
  "multi_avgProgress ts = js_round (fold (\<lambda>t s. s + progress t) ts 0 / of_nat (length ts))"

definition taskDetailPanel :: "store_state \<Rightarrow> detail_panel" where
  "taskDetailPanel s =
     (let selectedTasks = useGanttSelectedTasks s
      in if length selectedTasks = 0 then No_panel
         else if length selectedTasks > 1
         then Multi_summary (length selectedTasks) (multi_totalDuration selectedTasks) (multi_avgProgress selectedTasks)
                (map (\<lambda>t. (task_name t, status_label (status t))) selectedTasks)
         else (let t = hd selectedTasks
               in Single_details (task_name t) (status_label (status t)) (startTime t) (totalDuration t) (progress t)
                    (priority_label (priority t)) (map (\<lambda>ph. (phase_type ph, duration ph)) (phases t))))"

text \<open>\<open>SelectionIndicator\<close> of the minimal route counts the selected ids.\<close>

definition selectionIndicator :: "store_state \<Rightarrow> nat option" where
  "selectionIndicator s =
     (let ids = useGanttSelectedTaskIds s in if length ids = 0 then None else Some (length ids))"

subsection \<open>Lemmas\<close>

lemma length_concat_options:
  "length (concat (map (\<lambda>x. case f x of None \<Rightarrow> [] | Some t \<Rightarrow> [t]) xs)) = length (filter (\<lambda>x. f x \<noteq> None) xs)"
  by (induction xs) (auto split: option.split)

lemma length_selected_tasks:
  "length (useGanttSelectedTasks s) = length (filter (\<lambda>tid. obj_get (tasks s) tid \<noteq> None) (useGanttSelectedTaskIds s))"
  unfolding useGanttSelectedTasks_def useGanttSelectedTaskIds_def by (rule length_concat_options)

text \<open>
  C36. A task deleted through the actions stays selected: \<open>deleteTask\<close> removes the task
  but not its id from the selection, so the minimal route's \<open>SelectionIndicator\<close>, which
  counts the selected ids, still counts it, while the selection bar and the detail panel,
  which list the selected tasks that exist, show fewer.
\<close>

theorem deleteTask_stale_selection:
  assumes "tid \<in> set (sel_taskIds (selection (present h)))"
  shows "\<exists>h' evs. provider_dispatch cbs (Delete_task tid) h = Inr (h', evs) \<and>
           selectionIndicator (present h') = Some (length (sel_taskIds (selection (present h)))) \<and>
           length (useGanttSelectedTasks (present h')) < length (sel_taskIds (selection (present h)))"
proof -
  let ?h' = "handle_set (deleteTask tid) h"
  have d: "provider_dispatch cbs (Delete_task tid) h =
             Inr (?h', provider_notify cbs (present h) (present ?h'))"
    by (simp add: provider_dispatch_def provider_set_def Let_def)
  have p: "present ?h' = deleteTask tid (present h)" by (simp add: temporal_set_def Let_def)
  have sel: "useGanttSelectedTaskIds (present ?h') = sel_taskIds (selection (present h))"
    by (simp add: p deleteTask_def useGanttSelectedTaskIds_def)
  have gone: "obj_get (tasks (present ?h')) tid = None" by (simp add: p deleteTask_def obj_get_delete)
  have "length (filter (\<lambda>x. obj_get (tasks (present ?h')) x \<noteq> None) (sel_taskIds (selection (present h))))
          < length (sel_taskIds (selection (present h)))"
    using assms gone by (intro length_filter_less) auto
  then have "length (useGanttSelectedTasks (present ?h')) < length (sel_taskIds (selection (present h)))"
    by (simp add: length_selected_tasks sel)
  moreover have "selectionIndicator (present ?h') = Some (length (sel_taskIds (selection (present h))))"
    using assms by (auto simp: selectionIndicator_def sel Let_def)
  ultimately show ?thesis using d by blast
qed

text \<open>The mean progress shown for a multiple selection stays within 0 to 100 when every
  progress does.\<close>

lemma fold_sum_progress: "fold (\<lambda>t s. s + progress t) ts a = a + sum_list (map progress ts)"
  by (induction ts arbitrary: a) (simp_all add: algebra_simps)

lemma multi_avgProgress_bounds:
  assumes "ts \<noteq> []" and "\<forall>t \<in> set ts. 0 \<le> progress t \<and> progress t \<le> 100"
  shows "0 \<le> multi_avgProgress ts \<and> multi_avgProgress ts \<le> 100"
proof -
  let ?S = "sum_list (map progress ts)" and ?n = "real (length ts)"
  have n: "0 < ?n" using assms(1) by simp
  have "0 \<le> ?S" using assms(2) by (induction ts) auto
  moreover have "?S \<le> 100 * ?n" using assms(2) by (induction ts) (auto simp: algebra_simps)
  ultimately have "0 \<le> ?S / ?n \<and> ?S / ?n \<le> 100" using n by (simp add: field_simps)
  then show ?thesis
    by (simp add: multi_avgProgress_def fold_sum_progress js_round_def floor_le_iff le_floor_iff)
qed

end
