(* ===== verification/ThemeColors.thy ===== *)
theory ThemeColors
  imports Renderers "HOL-Library.State_Monad"
begin

text \<open>
  The theme colors of the canvas (\<open>utils/theme-colors.ts\<close>, lines 1 to 136) and the
  \<open>ThemeProvider\<close> that switches the theme (\<open>src/unnamed/part_016\<close>). The module
  keeps two globals, \<open>colorCache\<close> and \<open>lastTheme\<close>: the record \<open>theme_cache\<close>. Every
  getter threads them, so the getters are computations of the state monad
  \<open>'a themed\<close>. The document is a parameter \<open>dom_env option\<close> (\<open>None\<close> when
  \<open>typeof document === "undefined"\<close>): whether the root element has the class
  \<open>dark\<close>, and, for each value of that class, the trimmed value of each CSS custom
  property and the color a temporary element computes for a CSS value. The stylesheets
  are fixed, so a theme switch only changes the class.
\<close>

record dom_env =
  dark_class :: bool
  css_rules :: "bool \<Rightarrow> string \<Rightarrow> string"
  computed_color :: "bool \<Rightarrow> string \<Rightarrow> string"

record theme_cache =
  colorCache :: "(string, string) obj"
  lastTheme :: "string option"

type_synonym 'a themed = "(theme_cache, 'a) state"

definition theme_cache_initial :: theme_cache where
  "theme_cache_initial = \<lparr>colorCache = [], lastTheme = None\<rparr>"

definition getCSSColor :: "dom_env option \<Rightarrow> string \<Rightarrow> string \<Rightarrow> string" where
  "getCSSColor doc varName fallback =
     (case doc of
        None \<Rightarrow> fallback
      | Some d \<Rightarrow> (let value = css_rules d (dark_class d) varName in if value = [] then fallback else value))"

text \<open>\<open>resolveColor\<close>: a value already in \<open>#\<close>, \<open>rgb\<close> or \<open>hsl\<close> form is kept; any
  other is converted by the browser through a temporary element (appended, read and
  removed, so the document is unchanged), falling back to the value itself.\<close>

definition resolveColor :: "dom_env option \<Rightarrow> string \<Rightarrow> string" where
  "resolveColor doc cssValue =
     (case doc of
        None \<Rightarrow> cssValue
      | Some d \<Rightarrow>
          if prefix ''#'' cssValue \<or> prefix ''rgb'' cssValue \<or> prefix ''hsl'' cssValue then cssValue
          else (let computed = computed_color d (dark_class d) cssValue
                in if computed = [] then cssValue else computed))"

definition theme_name :: "bool \<Rightarrow> string" where
  "theme_name isDark = (if isDark then ''dark'' else ''light'')"

text \<open>\<open>checkThemeChange\<close>: without a document nothing; otherwise the cache is emptied
  when the class \<open>dark\<close> of the root no longer matches \<open>lastTheme\<close>.\<close>

definition theme_check :: "dom_env option \<Rightarrow> theme_cache \<Rightarrow> theme_cache" where
  "theme_check doc c =
     (case doc of
        None \<Rightarrow> c
      | Some d \<Rightarrow>
          (let currentTheme = theme_name (dark_class d)
           in if lastTheme c \<noteq> Some currentTheme then c\<lparr>colorCache := [], lastTheme := Some currentTheme\<rparr> else c))"

definition checkThemeChange :: "dom_env option \<Rightarrow> unit themed" where
  "checkThemeChange doc = State_Monad.update (theme_check doc)"

text \<open>\<open>if (colorCache[cacheKey])\<close>: a hit is a cached value that is truthy, a non-empty
  string.\<close>

definition cache_hit :: "theme_cache \<Rightarrow> string \<Rightarrow> string option" where
  "cache_hit c cacheKey =
     (case obj_get (colorCache c) cacheKey of None \<Rightarrow> None | Some v \<Rightarrow> if v = [] then None else Some v)"

text \<open>\<open>getThemeColor\<close>: a hit is returned; otherwise the value is read, resolved and
  cached under the variable name alone, whatever the fallback.\<close>

definition getThemeColor :: "dom_env option \<Rightarrow> string \<Rightarrow> string \<Rightarrow> string themed" where
  "getThemeColor doc varName fallback = do {
     _ \<leftarrow> checkThemeChange doc;
     c \<leftarrow> State_Monad.get;
     (case cache_hit c varName of
        Some v \<Rightarrow> State_Monad.return v
      | None \<Rightarrow>
          (let resolved = resolveColor doc (getCSSColor doc varName fallback)
           in do { _ \<leftarrow> State_Monad.update (\<lambda>c. c\<lparr>colorCache := obj_set (colorCache c) varName resolved\<rparr>);
                   State_Monad.return resolved })) }"

definition clearColorCache :: "unit themed" where
  "clearColorCache = State_Monad.set theme_cache_initial"

text \<open>\<open>getGridColors\<close> returns the colors the grid renderer reads (the record
  \<open>grid_colors\<close> of theory \<open>Renderers\<close>) and two more; the object literal evaluates its
  properties in order.\<close>

record grid_theme = grid_colors +
  weekendBackground :: string
  headerText :: string

definition getGridColors :: "dom_env option \<Rightarrow> grid_theme themed" where
  "getGridColors doc = do {
     bg \<leftarrow> getThemeColor doc ''--background'' ''#f8fafc'';
     odd_row \<leftarrow> getThemeColor doc ''--card'' ''#ffffff'';
     even_row \<leftarrow> getThemeColor doc ''--background'' ''#f8fafc'';
     hover \<leftarrow> getThemeColor doc ''--accent'' ''#f1f5f9'';
     line \<leftarrow> getThemeColor doc ''--border'' ''#e2e8f0'';
     line_major \<leftarrow> getThemeColor doc ''--border'' ''#cbd5e1'';
     today \<leftarrow> getThemeColor doc ''--destructive'' ''#ef4444'';
     header_text \<leftarrow> getThemeColor doc ''--muted-foreground'' ''#64748b'';
     group \<leftarrow> getThemeColor doc ''--secondary'' ''#f1f5f9'';
     State_Monad.return
       \<lparr>gc_background = bg, rowOdd = odd_row, rowEven = even_row, rowHover = hover, gridLine = line,
        gridLineMajor = line_major, todayLine = today, todayBackground = ''rgba(239, 68, 68, 0.1)'',
        groupHeader = group, weekendBackground = ''rgba(100, 116, 139, 0.08)'', headerText = header_text\<rparr> }"

record task_colors =
  tc_taskDefault :: string
  tc_taskText :: string
  tc_taskTextDark :: string
  tc_selectedBorder :: string
  tc_hoveredBorder :: string
  tc_progressBackground :: string
  tc_progressForeground :: string

definition getTaskColors :: "dom_env option \<Rightarrow> task_colors themed" where
  "getTaskColors doc = do {
     primary \<leftarrow> getThemeColor doc ''--primary'' ''#3b82f6'';
     text_dark \<leftarrow> getThemeColor doc ''--foreground'' ''#1e293b'';
     hovered \<leftarrow> getThemeColor doc ''--primary'' ''#3b82f6'';
     State_Monad.return
       \<lparr>tc_taskDefault = primary, tc_taskText = ''#ffffff'', tc_taskTextDark = text_dark,
        tc_selectedBorder = ''#fbbf24'', tc_hoveredBorder = hovered,
        tc_progressBackground = ''rgba(255, 255, 255, 0.3)'', tc_progressForeground = ''rgba(255, 255, 255, 0.5)''\<rparr> }"

record interaction_colors =
  ic_dragPreview :: string
  ic_dragPreviewBorder :: string
  ic_dropZoneValid :: string
  ic_dropZoneInvalid :: string
  ic_selectionBox :: string
  ic_selectionBoxBorder :: string
  ic_snapLine :: string
  ic_conflictHighlight :: string
  ic_tooltipBackground :: string
  ic_tooltipText :: string

definition getInteractionColors :: "dom_env option \<Rightarrow> interaction_colors themed" where
  "getInteractionColors doc = do {
     preview_border \<leftarrow> getThemeColor doc ''--primary'' ''#3b82f6'';
     box_border \<leftarrow> getThemeColor doc ''--primary'' ''#3b82f6'';
     tip_bg \<leftarrow> getThemeColor doc ''--popover'' ''#1e293b'';
     tip_text \<leftarrow> getThemeColor doc ''--popover-foreground'' ''#f8fafc'';
     State_Monad.return
       \<lparr>ic_dragPreview = ''rgba(59, 130, 246, 0.5)'', ic_dragPreviewBorder = preview_border,
        ic_dropZoneValid = ''rgba(34, 197, 94, 0.2)'', ic_dropZoneInvalid = ''rgba(239, 68, 68, 0.2)'',
        ic_selectionBox = ''rgba(59, 130, 246, 0.2)'', ic_selectionBoxBorder = box_border,
        ic_snapLine = ''#fbbf24'', ic_conflictHighlight = ''rgba(239, 68, 68, 0.3)'',
        ic_tooltipBackground = tip_bg, ic_tooltipText = tip_text\<rparr> }"

text \<open>\<open>GridRenderer.render\<close> (\<open>src/unnamed/part_007\<close>): without a context it returns
  before reading the colors; otherwise it reads them, then draws.\<close>

definition gridRender ::
  "dom_env option \<Rightarrow> number \<Rightarrow> number \<Rightarrow> renderer \<Rightarrow> viewport_state \<Rightarrow> virtual_row list \<Rightarrow> string option
   \<Rightarrow> ctx_op list themed" where
  "gridRender doc tz now r v rows hoveredRowId =
     (if \<not> has_ctx r then State_Monad.return []
      else do { C \<leftarrow> getGridColors doc;
                State_Monad.return (renderGrid (grid_colors.truncate C) tz now r v rows hoveredRowId) })"

subsection \<open>The theme provider\<close>

text \<open>\<open>ThemeProvider\<close>: the theme is React state, initialised from \<open>localStorage\<close>
  (\<open>None\<close> when \<open>window\<close> is undefined); the effect on \<open>[theme]\<close> sets the class
  \<open>dark\<close> of the root, stores the theme and clears the color cache. \<open>setTheme\<close> and
  \<open>toggleTheme\<close> set the state; React re-renders, and runs the effect, only when the
  theme changes.\<close>

datatype theme = Theme_light | Theme_dark

definition theme_str :: "theme \<Rightarrow> string" where
  "theme_str t = (case t of Theme_light \<Rightarrow> ''light'' | Theme_dark \<Rightarrow> ''dark'')"

definition STORAGE_KEY :: string where
  "STORAGE_KEY = ''gantt-theme''"

definition getInitialTheme :: "(string, string) obj option \<Rightarrow> theme" where
  "getInitialTheme storage =
     (case storage of
        None \<Rightarrow> Theme_light
      | Some st \<Rightarrow>
          (let stored = obj_get st STORAGE_KEY
           in if stored = Some ''light'' then Theme_light else if stored = Some ''dark'' then Theme_dark else Theme_light))"

record theme_app =
  ta_theme :: theme
  ta_dom :: dom_env
  ta_storage :: "(string, string) obj"
  ta_cache :: theme_cache

definition theme_effect :: "theme_app \<Rightarrow> theme_app" where
  "theme_effect app =
     app\<lparr>ta_dom := (ta_dom app)\<lparr>dark_class := (ta_theme app = Theme_dark)\<rparr>,
         ta_storage := obj_set (ta_storage app) STORAGE_KEY (theme_str (ta_theme app)),
         ta_cache := snd (run_state clearColorCache (ta_cache app))\<rparr>"

definition themeProvider_mount :: "dom_env \<Rightarrow> (string, string) obj \<Rightarrow> theme_cache \<Rightarrow> theme_app" where
  "themeProvider_mount d st c =
     theme_effect \<lparr>ta_theme = getInitialTheme (Some st), ta_dom = d, ta_storage = st, ta_cache = c\<rparr>"

datatype theme_event = Set_theme theme | Toggle_theme

fun theme_next :: "theme_event \<Rightarrow> theme \<Rightarrow> theme" where
  "theme_next (Set_theme t) prev = t"
| "theme_next Toggle_theme prev = (if prev = Theme_light then Theme_dark else Theme_light)"

definition theme_step :: "theme_event \<Rightarrow> theme_app \<Rightarrow> theme_app" where
  "theme_step e app =
     (let t = theme_next e (ta_theme app) in if t = ta_theme app then app else theme_effect (app\<lparr>ta_theme := t\<rparr>))"

text \<open>A session interleaves theme events with frames of the grid layer, each reading the
  colors through the cache; it returns what each frame draws.\<close>

datatype theme_session_event =
    Theme_event theme_event
  | Grid_frame renderer viewport_state "virtual_row list" "string option"

fun theme_session ::
  "number \<Rightarrow> number \<Rightarrow> theme_session_event list \<Rightarrow> theme_app \<Rightarrow> ctx_op list list \<times> theme_app" where
  "theme_session tz now [] app = ([], app)"
| "theme_session tz now (Theme_event e # es) app = theme_session tz now es (theme_step e app)"
| "theme_session tz now (Grid_frame r v rows hov # es) app =
     (let (ops, c') = run_state (gridRender (Some (ta_dom app)) tz now r v rows hov) (ta_cache app);
          (outs, app') = theme_session tz now es (app\<lparr>ta_cache := c'\<rparr>)
      in (ops # outs, app'))"

text \<open>The colors \<open>getGridColors\<close> means, each read with its own fallback and no cache,
  and the session that draws with them.\<close>

definition grid_colors_ref :: "dom_env option \<Rightarrow> grid_theme" where
  "grid_colors_ref doc =
     \<lparr>gc_background = resolveColor doc (getCSSColor doc ''--background'' ''#f8fafc''),
      rowOdd = resolveColor doc (getCSSColor doc ''--card'' ''#ffffff''),
      rowEven = resolveColor doc (getCSSColor doc ''--background'' ''#f8fafc''),
      rowHover = resolveColor doc (getCSSColor doc ''--accent'' ''#f1f5f9''),
      gridLine = resolveColor doc (getCSSColor doc ''--border'' ''#e2e8f0''),
      gridLineMajor = resolveColor doc (getCSSColor doc ''--border'' ''#cbd5e1''),
      todayLine = resolveColor doc (getCSSColor doc ''--destructive'' ''#ef4444''),
      todayBackground = ''rgba(239, 68, 68, 0.1)'',
      groupHeader = resolveColor doc (getCSSColor doc ''--secondary'' ''#f1f5f9''),
      weekendBackground = ''rgba(100, 116, 139, 0.08)'',
      headerText = resolveColor doc (getCSSColor doc ''--muted-foreground'' ''#64748b'')\<rparr>"

fun theme_session_ref ::
  "number \<Rightarrow> number \<Rightarrow> theme_session_event list \<Rightarrow> theme_app \<Rightarrow> ctx_op list list" where
  "theme_session_ref tz now [] app = []"
| "theme_session_ref tz now (Theme_event e # es) app = theme_session_ref tz now es (theme_step e app)"
| "theme_session_ref tz now (Grid_frame r v rows hov # es) app =
     renderGrid (grid_colors.truncate (grid_colors_ref (Some (ta_dom app)))) tz now r v rows hov #
     theme_session_ref tz now es app"

text \<open>The fallback each variable is read with by \<open>getGridColors\<close> (the first one, for
  \<open>--border\<close>).\<close>

definition grid_fb :: "string \<Rightarrow> string" where
  "grid_fb k =
     (if k = ''--background'' then ''#f8fafc'' else if k = ''--card'' then ''#ffffff''
      else if k = ''--accent'' then ''#f1f5f9'' else if k = ''--border'' then ''#e2e8f0''
      else if k = ''--destructive'' then ''#ef4444'' else if k = ''--muted-foreground'' then ''#64748b''
      else if k = ''--secondary'' then ''#f1f5f9'' else [])"

text \<open>What a miss computes: the property's value, or the fallback, resolved.\<close>

abbreviation fresh_color :: "dom_env option \<Rightarrow> string \<Rightarrow> string \<Rightarrow> string" where
  "fresh_color doc k fb \<equiv> resolveColor doc (getCSSColor doc k fb)"

text \<open>The cache agrees with the stylesheets: while \<open>lastTheme\<close> names a theme, every
  truthy entry is what a miss computes in that theme, with the fallback \<open>fb\<close> of its key.\<close>

definition cache_coherent :: "dom_env \<Rightarrow> (string \<Rightarrow> string) \<Rightarrow> theme_cache \<Rightarrow> bool" where
  "cache_coherent d fb c \<longleftrightarrow>
     (\<forall>b \<in> {False, True}. lastTheme c = Some (theme_name b) \<longrightarrow>
        list_all (\<lambda>(k, v). v = [] \<or> v = fresh_color (Some (d\<lparr>dark_class := b\<rparr>)) k (fb k)) (colorCache c))"

text \<open>A computation that, from every coherent cache, returns \<open>v\<close> and leaves the cache
  coherent.\<close>

definition coherent_run :: "dom_env \<Rightarrow> (string \<Rightarrow> string) \<Rightarrow> 'a themed \<Rightarrow> 'a \<Rightarrow> bool" where
  "coherent_run d fb m v \<longleftrightarrow>
     (\<forall>c. cache_coherent d fb c \<longrightarrow> fst (run_state m c) = v \<and> cache_coherent d fb (snd (run_state m c)))"


subsection \<open>Lemmas\<close>

lemma run_getThemeColor:
  "run_state (getThemeColor doc k fb) c =
     (case cache_hit (theme_check doc c) k of
        Some v \<Rightarrow> (v, theme_check doc c)
      | None \<Rightarrow> (fresh_color doc k fb,
                 (theme_check doc c)\<lparr>colorCache := obj_set (colorCache (theme_check doc c)) k (fresh_color doc k fb)\<rparr>))"
  by (simp add: getThemeColor_def checkThemeChange_def State_Monad.update_def Let_def split: option.split)

lemma fresh_color_nonempty: "fb \<noteq> [] \<Longrightarrow> fresh_color doc k fb \<noteq> []"
  by (auto simp: resolveColor_def getCSSColor_def Let_def split: option.split)

lemma cache_hit_nonempty: "cache_hit c k = Some v \<Longrightarrow> v \<noteq> []"
  by (simp add: cache_hit_def split: option.splits if_splits)

lemma getThemeColor_nonempty:
  "fb \<noteq> [] \<Longrightarrow> fst (run_state (getThemeColor doc k fb) c) \<noteq> []"
  by (cases "cache_hit (theme_check doc c) k") (simp_all add: run_getThemeColor fresh_color_nonempty cache_hit_nonempty)

lemma theme_check_idem: "theme_check doc (theme_check doc c) = theme_check doc c"
  by (simp add: theme_check_def Let_def split: option.split)

lemma theme_check_fixed:
  "theme_check doc c = c \<longleftrightarrow> (\<forall>d. doc = Some d \<longrightarrow> lastTheme c = Some (theme_name (dark_class d)))"
proof (cases doc)
  case (Some d)
  have last: "lastTheme (theme_check doc c) = Some (theme_name (dark_class d))"
    using Some by (simp add: theme_check_def Let_def)
  have "lastTheme c = Some (theme_name (dark_class d)) \<Longrightarrow> theme_check doc c = c"
    using Some by (simp add: theme_check_def Let_def)
  then show ?thesis using Some last by force
qed (simp add: theme_check_def)

lemma theme_check_cache_update:
  "theme_check doc c = c \<Longrightarrow> theme_check doc (c\<lparr>colorCache := x\<rparr>) = c\<lparr>colorCache := x\<rparr>"
  by (simp add: theme_check_fixed)

lemma getThemeColor_again:
  assumes "run_state (getThemeColor doc k fb) c = (v, c')" and "fb \<noteq> []"
  shows "run_state (getThemeColor doc k fb') c' = (v, c')"
proof -
  have hit: "cache_hit c' k = Some v" and chk: "theme_check doc c' = c'"
    using assms fresh_color_nonempty [OF assms(2)]
    by (auto simp: run_getThemeColor cache_hit_def obj_simps theme_check_idem theme_check_cache_update
             split: option.splits if_splits)
  show ?thesis by (simp add: run_getThemeColor hit chk)
qed

text \<open>A second read of a variable right after a first one with a non-empty fallback
  returns the first value, whatever its own fallback.\<close>

lemma getThemeColor_twice:
  "fb \<noteq> [] \<Longrightarrow>
   State_Monad.bind (getThemeColor doc k fb) (\<lambda>a. State_Monad.bind (getThemeColor doc k fb') (f a)) =
   State_Monad.bind (getThemeColor doc k fb) (\<lambda>a. f a a)"
  by (rule state_ext) (auto simp: getThemeColor_again split: prod.split)

lemma pred_bind_all: "(\<And>x. pred_state P (f x)) \<Longrightarrow> pred_state P (State_Monad.bind m f)"
  by (rule bind_predI) (auto intro: pred_stateI)

lemma pred_return: "P x \<Longrightarrow> pred_state P (State_Monad.return x)"
  by (rule pred_stateI) simp


text \<open>
  The major grid lines are never drawn in their own color: \<open>getGridColors\<close> reads
  \<open>gridLine\<close> and \<open>gridLineMajor\<close> from the same variable \<open>--border\<close>, and the cache,
  keyed by the variable alone, hands the second read the value of the first, so from
  every cache state and document the two colors are equal; the fallback
  \<open>#cbd5e1\<close> of the major lines is never used.
\<close>

theorem gridLineMajor_is_gridLine:
  "gridLineMajor (fst (run_state (getGridColors doc) c)) = gridLine (fst (run_state (getGridColors doc) c))"
proof -
  have "pred_state (\<lambda>C. gridLineMajor C = gridLine C) (getGridColors doc)"
    unfolding getGridColors_def getThemeColor_twice [of "''#e2e8f0''", simplified]
    by (intro pred_bind_all pred_return) simp
  then show ?thesis by (rule pred_state_run_state)
qed


lemma theme_name_inj [simp]: "theme_name a = theme_name b \<longleftrightarrow> a = b"
  by (simp add: theme_name_def)

lemma theme_check_coherent:
  assumes "cache_coherent d fb c"
  shows "lastTheme (theme_check (Some (d\<lparr>dark_class := b\<rparr>)) c) = Some (theme_name b) \<and>
         list_all (\<lambda>(k, v). v = [] \<or> v = fresh_color (Some (d\<lparr>dark_class := b\<rparr>)) k (fb k))
           (colorCache (theme_check (Some (d\<lparr>dark_class := b\<rparr>)) c))"
proof (cases "lastTheme c = Some (theme_name b)")
  case True
  then have "theme_check (Some (d\<lparr>dark_class := b\<rparr>)) c = c" by (simp add: theme_check_fixed)
  moreover have "list_all (\<lambda>(k, v). v = [] \<or> v = fresh_color (Some (d\<lparr>dark_class := b\<rparr>)) k (fb k)) (colorCache c)"
    using assms True by (cases b) (simp_all add: cache_coherent_def)
  ultimately show ?thesis using True by simp
qed (simp add: theme_check_def Let_def)

lemma getThemeColor_coherent:
  assumes "cache_coherent d fb c"
    and "fresh_color (Some (d\<lparr>dark_class := b\<rparr>)) k x = fresh_color (Some (d\<lparr>dark_class := b\<rparr>)) k (fb k)"
  shows "fst (run_state (getThemeColor (Some (d\<lparr>dark_class := b\<rparr>)) k x) c) = fresh_color (Some (d\<lparr>dark_class := b\<rparr>)) k (fb k) \<and>
         cache_coherent d fb (snd (run_state (getThemeColor (Some (d\<lparr>dark_class := b\<rparr>)) k x) c))"
proof -
  let ?D = "Some (d\<lparr>dark_class := b\<rparr>)"
  let ?c1 = "theme_check ?D c"
  let ?f = "fresh_color ?D k (fb k)"
  have last: "lastTheme ?c1 = Some (theme_name b)"
    and ok: "list_all (\<lambda>(k, v). v = [] \<or> v = fresh_color ?D k (fb k)) (colorCache ?c1)"
    using theme_check_coherent [OF assms(1)] by auto
  have coh: "cache_coherent d fb c'" if "lastTheme c' = Some (theme_name b)"
    and "list_all (\<lambda>(k, v). v = [] \<or> v = fresh_color ?D k (fb k)) (colorCache c')" for c'
    using that by (auto simp: cache_coherent_def)
  show ?thesis
  proof (cases "cache_hit ?c1 k")
    case None
    have "list_all (\<lambda>(k, v). v = [] \<or> v = fresh_color ?D k (fb k)) (obj_set (colorCache ?c1) k ?f)"
      using ok set_obj_set [of "colorCache ?c1" k ?f] by (auto simp: list_all_iff)
    moreover have "run_state (getThemeColor ?D k x) c = (?f, ?c1\<lparr>colorCache := obj_set (colorCache ?c1) k ?f\<rparr>)"
      using None assms(2) by (simp add: run_getThemeColor)
    ultimately show ?thesis using last coh [of "?c1\<lparr>colorCache := obj_set (colorCache ?c1) k ?f\<rparr>"] by simp
  next
    case (Some v)
    then have "obj_get (colorCache ?c1) k = Some v" "v \<noteq> []"
      by (simp_all add: cache_hit_def split: option.splits if_splits)
    then have "v = ?f" using ok obj_get_mem by (fastforce simp: list_all_iff)
    moreover have "run_state (getThemeColor ?D k x) c = (v, ?c1)"
      using Some by (simp add: run_getThemeColor)
    ultimately show ?thesis using last ok coh [of ?c1] by simp
  qed
qed

text \<open>From a coherent cache, any sequence of reads, each variable with one fallback,
  across any switches of the class \<open>dark\<close>, returns what uncached reads return.\<close>

lemma getThemeColor_transparent:
  assumes "cache_coherent d fb c"
  shows "fst (run_state (traverse_list (\<lambda>(b, k). getThemeColor (Some (d\<lparr>dark_class := b\<rparr>)) k (fb k)) calls) c) =
         map (\<lambda>(b, k). fresh_color (Some (d\<lparr>dark_class := b\<rparr>)) k (fb k)) calls"
  using assms
proof (induction calls arbitrary: c)
  case (Cons bk calls)
  obtain b k where bk: "bk = (b, k)" by (cases bk)
  obtain v c' where run: "run_state (getThemeColor (Some (d\<lparr>dark_class := b\<rparr>)) k (fb k)) c = (v, c')"
    by (cases "run_state (getThemeColor (Some (d\<lparr>dark_class := b\<rparr>)) k (fb k)) c")
  have "v = fresh_color (Some (d\<lparr>dark_class := b\<rparr>)) k (fb k)" "cache_coherent d fb c'"
    using getThemeColor_coherent [OF Cons.prems refl, of b k] run by simp_all
  then show ?case using Cons.IH [of c'] bk run
    by (cases "run_state (traverse_list (\<lambda>(b, k). getThemeColor (Some (d\<lparr>dark_class := b\<rparr>)) k (fb k)) calls) c'") simp
qed simp


text \<open>A small calculus for \<open>coherent_run\<close>, which carries the getters' proofs.\<close>

lemma coherent_run_return: "v' = v \<Longrightarrow> coherent_run d fb (State_Monad.return v') v"
  by (simp add: coherent_run_def)

lemma coherent_run_bind:
  "coherent_run d fb m a \<Longrightarrow> coherent_run d fb (f a) v \<Longrightarrow> coherent_run d fb (State_Monad.bind m f) v"
  by (auto simp: coherent_run_def split: prod.split)

lemma coherent_run_getThemeColor:
  "fresh_color (Some (d\<lparr>dark_class := b\<rparr>)) k x = fresh_color (Some (d\<lparr>dark_class := b\<rparr>)) k (fb k) \<Longrightarrow>
   coherent_run d fb (getThemeColor (Some (d\<lparr>dark_class := b\<rparr>)) k x) (fresh_color (Some (d\<lparr>dark_class := b\<rparr>)) k (fb k))"
  using getThemeColor_coherent by (simp add: coherent_run_def)

lemma getGridColors_coherent:
  assumes "css_rules d b ''--border'' \<noteq> []"
  shows "coherent_run d grid_fb (getGridColors (Some (d\<lparr>dark_class := b\<rparr>))) (grid_colors_ref (Some (d\<lparr>dark_class := b\<rparr>)))"
proof -
  have border: "fresh_color (Some (d\<lparr>dark_class := b\<rparr>)) ''--border'' ''#cbd5e1'' =
                fresh_color (Some (d\<lparr>dark_class := b\<rparr>)) ''--border'' ''#e2e8f0''"
    using assms by (simp add: getCSSColor_def grid_fb_def)
  show ?thesis
    unfolding getGridColors_def
    by (rule coherent_run_bind coherent_run_getThemeColor coherent_run_return
        | simp add: grid_fb_def grid_colors_ref_def border)+
qed


lemma cache_coherent_initial: "cache_coherent d fb theme_cache_initial"
  by (simp add: cache_coherent_def theme_cache_initial_def)

lemma cache_coherent_dark [simp]: "cache_coherent (d\<lparr>dark_class := x\<rparr>) fb c = cache_coherent d fb c"
  by (simp add: cache_coherent_def)

lemma theme_effect_cache: "ta_cache (theme_effect app) = theme_cache_initial"
  by (simp add: theme_effect_def clearColorCache_def)

lemma theme_step_inv:
  assumes "cache_coherent (ta_dom app) fb (ta_cache app)"
  shows "cache_coherent (ta_dom (theme_step e app)) fb (ta_cache (theme_step e app)) \<and>
         css_rules (ta_dom (theme_step e app)) = css_rules (ta_dom app)"
  using assms cache_coherent_initial
  by (auto simp: theme_step_def Let_def theme_effect_cache) (simp_all add: theme_effect_def)

lemma theme_step_proj:
  "ta_theme a = ta_theme b \<Longrightarrow> ta_dom a = ta_dom b \<Longrightarrow>
   ta_theme (theme_step e a) = ta_theme (theme_step e b) \<and> ta_dom (theme_step e a) = ta_dom (theme_step e b)"
  by (simp add: theme_step_def theme_effect_def Let_def)

lemma theme_session_ref_proj:
  "ta_theme a = ta_theme b \<Longrightarrow> ta_dom a = ta_dom b \<Longrightarrow> theme_session_ref tz now es a = theme_session_ref tz now es b"
proof (induction tz now es a arbitrary: b rule: theme_session_ref.induct)
  case (2 tz now e es app)
  then show ?case using theme_step_proj [OF "2.prems", of e] by simp
qed simp_all

lemma gridRender_coherent:
  assumes "css_rules d (dark_class d) ''--border'' \<noteq> []"
  shows "coherent_run d grid_fb (gridRender (Some d) tz now r v rows hov)
           (renderGrid (grid_colors.truncate (grid_colors_ref (Some d))) tz now r v rows hov)"
proof (cases "has_ctx r")
  case True
  have "coherent_run d grid_fb (getGridColors (Some d)) (grid_colors_ref (Some d))"
    using getGridColors_coherent [OF assms] by simp
  then show ?thesis using True
    by (simp add: gridRender_def coherent_run_bind coherent_run_return)
qed (simp add: gridRender_def renderGrid_def coherent_run_return)

lemma theme_session_equiv_gen:
  assumes "\<forall>b. css_rules (ta_dom app) b ''--border'' \<noteq> []"
    and "cache_coherent (ta_dom app) grid_fb (ta_cache app)"
  shows "fst (theme_session tz now es app) = theme_session_ref tz now es app"
  using assms
proof (induction tz now es app rule: theme_session.induct)
  case (2 tz now e es app)
  then show ?case using theme_step_inv [OF "2.prems"(2), of e] by simp
next
  case (3 tz now r v rows hov es app)
  let ?m = "gridRender (Some (ta_dom app)) tz now r v rows hov"
  obtain ops c' where run: "run_state ?m (ta_cache app) = (ops, c')" by (cases "run_state ?m (ta_cache app)")
  have "coherent_run (ta_dom app) grid_fb ?m
          (renderGrid (grid_colors.truncate (grid_colors_ref (Some (ta_dom app)))) tz now r v rows hov)"
    using gridRender_coherent "3.prems"(1) by blast
  then have ops: "ops = renderGrid (grid_colors.truncate (grid_colors_ref (Some (ta_dom app)))) tz now r v rows hov"
    and coh: "cache_coherent (ta_dom app) grid_fb c'"
    using "3.prems"(2) run by (auto simp: coherent_run_def)
  have "fst (theme_session tz now es (app\<lparr>ta_cache := c'\<rparr>)) = theme_session_ref tz now es (app\<lparr>ta_cache := c'\<rparr>)"
    using "3.IH" [OF run [symmetric] refl] "3.prems"(1) coh by (simp add: prod.case_eq_if)
  also have "\<dots> = theme_session_ref tz now es app" by (rule theme_session_ref_proj) simp_all
  finally show ?case using run ops by (simp add: prod.case_eq_if)
qed simp

text \<open>
  C23. The color cache is transparent to the grid layer: from the mount of the
  \<open>ThemeProvider\<close>, through any interleaving of theme switches and grid frames, every
  frame draws exactly what it draws with the colors read afresh from the stylesheets of
  the current theme, each with its own fallback; provided the stylesheets define
  \<open>--border\<close>, the one variable read with two fallbacks.
\<close>

theorem themed_grid_session_equiv:
  assumes "\<forall>b. css_rules d b ''--border'' \<noteq> []"
  shows "fst (theme_session tz now es (themeProvider_mount d st c)) = theme_session_ref tz now es (themeProvider_mount d st c)"
proof (rule theme_session_equiv_gen)
  show "\<forall>b. css_rules (ta_dom (themeProvider_mount d st c)) b ''--border'' \<noteq> []"
    using assms by (simp add: themeProvider_mount_def theme_effect_def)
  show "cache_coherent (ta_dom (themeProvider_mount d st c)) grid_fb (ta_cache (themeProvider_mount d st c))"
    by (simp add: themeProvider_mount_def theme_effect_cache cache_coherent_initial)
qed

text \<open>The theme survives a reload: after any theme events from the mount, the stored
  value read back by \<open>getInitialTheme\<close> is the current theme.\<close>

lemma theme_persisted:
  "getInitialTheme (Some (ta_storage (fold theme_step es (themeProvider_mount d st c)))) =
   ta_theme (fold theme_step es (themeProvider_mount d st c))"
proof -
  have eff: "getInitialTheme (Some (ta_storage (theme_effect a))) = ta_theme (theme_effect a)" for a
    by (cases "ta_theme a") (simp_all add: theme_effect_def getInitialTheme_def obj_simps STORAGE_KEY_def theme_str_def)
  have "getInitialTheme (Some (ta_storage a)) = ta_theme a \<Longrightarrow>
        getInitialTheme (Some (ta_storage (fold theme_step es a))) = ta_theme (fold theme_step es a)" for a
  proof (induction es arbitrary: a)
    case (Cons e es)
    have "getInitialTheme (Some (ta_storage (theme_step e a))) = ta_theme (theme_step e a)"
      using Cons.prems eff by (simp add: theme_step_def Let_def)
    then show ?case using Cons.IH by simp
  qed simp
  then show ?thesis using eff by (simp add: themeProvider_mount_def)
qed

end
