(* ===== verification/Colors.thy ===== *)
theory Colors
  imports Prelude "HOL-Library.Word"
begin

text \<open>
  The hexadecimal color helpers of \<open>utils/canvas-utils.ts\<close> (lines 268 to 299):
  \<open>lightenColor\<close>, \<open>darkenColor\<close> and \<open>hexToRgba\<close>. \<open>lightenColor\<close> and
  \<open>darkenColor\<close> read the color with \<open>parseInt(hex.replace("#", ""), 16)\<close> and take
  it apart and put it together with the 32-bit operators \<open>>>\<close>, \<open>&\<close>, \<open><<\<close> and
  \<open>|\<close>: their operands are converted by ToInt32, a value of type \<open>32 word\<close> here,
  and their result is the signed value \<open>sint\<close> of it. \<open>parseInt\<close> with radix 16 is
  \<open>parseInt16\<close> (\<open>None\<close> is \<open>NaN\<close>, which ToInt32 maps to 0); \<open>toString(16)\<close> of an
  integer is \<open>js_toString16\<close>. The strings are byte strings: of the white space
  \<open>parseInt\<close> skips, only the characters of one byte are modelled.
\<close>

unbundle bit_operations_syntax

subsection \<open>Strings and numbers\<close>

definition hex_digit_val :: "char \<Rightarrow> nat option" where
  "hex_digit_val c =
     (let n = of_char c :: nat
      in if 48 \<le> n \<and> n \<le> 57 then Some (n - 48)
         else if 97 \<le> n \<and> n \<le> 102 then Some (n - 87)
         else if 65 \<le> n \<and> n \<le> 70 then Some (n - 55) else None)"

text \<open>The digits \<open>toString(16)\<close> writes: lower case.\<close>

definition hex_digit :: "nat \<Rightarrow> char" where
  "hex_digit d = ''0123456789abcdef'' ! d"

text \<open>\<open>String.prototype.replace\<close> with a string pattern replaces the first occurrence.\<close>

fun replace_first :: "char \<Rightarrow> string \<Rightarrow> string" where
  "replace_first c [] = []"
| "replace_first c (x # xs) = (if x = c then xs else x # replace_first c xs)"

definition js_whitespace :: "char \<Rightarrow> bool" where
  "js_whitespace c \<longleftrightarrow> (of_char c :: nat) \<in> {9, 10, 11, 12, 13, 32, 160}"

fun hex_digits_prefix :: "string \<Rightarrow> nat list" where
  "hex_digits_prefix [] = []"
| "hex_digits_prefix (c # cs) = (case hex_digit_val c of None \<Rightarrow> [] | Some d \<Rightarrow> d # hex_digits_prefix cs)"

definition digits_val :: "nat list \<Rightarrow> nat" where
  "digits_val ds = fold (\<lambda>d acc. acc * 16 + d) ds 0"

text \<open>\<open>parseInt(s, 16)\<close>: leading white space, a sign, an optional \<open>0x\<close> or \<open>0X\<close>, then
  the longest prefix of hexadecimal digits; none is \<open>NaN\<close>.\<close>

definition parseInt16 :: "string \<Rightarrow> int option" where
  "parseInt16 s =
     (let s1 = dropWhile js_whitespace s;
          neg = (s1 \<noteq> [] \<and> hd s1 = CHR ''-'');
          s2 = (if s1 \<noteq> [] \<and> (hd s1 = CHR ''-'' \<or> hd s1 = CHR ''+'') then tl s1 else s1);
          s3 = (if take 2 s2 = ''0x'' \<or> take 2 s2 = ''0X'' then drop 2 s2 else s2);
          ds = hex_digits_prefix s3
      in if ds = [] then None else Some ((if neg then -1 else 1) * int (digits_val ds)))"

function hex_str :: "nat \<Rightarrow> string" where
  "hex_str n = (if n < 16 then [hex_digit n] else hex_str (n div 16) @ [hex_digit (n mod 16)])"
  by auto
termination by (relation "measure id") auto

declare hex_str.simps [simp del]

definition js_toString16 :: "int \<Rightarrow> string" where
  "js_toString16 n = (if n < 0 then CHR ''-'' # hex_str (nat (- n)) else hex_str (nat n))"

text \<open>ToInt32 of a number: truncated towards zero, then taken modulo \<open>2^32\<close>.\<close>

definition toInt32 :: "real \<Rightarrow> 32 word" where
  "toInt32 x = word_of_int (if 0 \<le> x then \<lfloor>x\<rfloor> else - \<lfloor>- x\<rfloor>)"

definition num_of_parse :: "int option \<Rightarrow> 32 word" where
  "num_of_parse p = (case p of None \<Rightarrow> 0 | Some n \<Rightarrow> word_of_int n)"

subsection \<open>The helpers\<close>

text \<open>The three channels of the parsed color: \<open>num >> 16\<close>, \<open>(num >> 8) & 0x00ff\<close> and
  \<open>num & 0x0000ff\<close>, as numbers.\<close>

definition chan_R :: "32 word \<Rightarrow> int" where "chan_R num = sint (signed_drop_bit 16 num)"
definition chan_G :: "32 word \<Rightarrow> int" where "chan_G num = sint (signed_drop_bit 8 num AND 255)"
definition chan_B :: "32 word \<Rightarrow> int" where "chan_B num = sint (num AND 255)"

text \<open>\<open>`#${((1 << 24) | (R << 16) | (G << 8) | B).toString(16).slice(1)}`\<close>.\<close>

definition pack_color :: "real \<Rightarrow> real \<Rightarrow> real \<Rightarrow> string" where
  "pack_color R G B =
     CHR ''#'' # drop 1 (js_toString16 (sint (push_bit 24 1 OR push_bit 16 (toInt32 R) OR push_bit 8 (toInt32 G) OR toInt32 B)))"

definition lightenColor :: "string \<Rightarrow> real \<Rightarrow> string" where
  "lightenColor hex percent =
     (let num = num_of_parse (parseInt16 (replace_first CHR ''#'' hex));
          amt = js_round (255 / 100 * percent);
          R = min 255 (of_int (chan_R num) + amt);
          G = min 255 (of_int (chan_G num) + amt);
          B = min 255 (of_int (chan_B num) + amt)
      in pack_color R G B)"

definition darkenColor :: "string \<Rightarrow> real \<Rightarrow> string" where
  "darkenColor hex percent =
     (let num = num_of_parse (parseInt16 (replace_first CHR ''#'' hex));
          amt = js_round (255 / 100 * percent);
          R = max 0 (of_int (chan_R num) - amt);
          G = max 0 (of_int (chan_G num) - amt);
          B = max 0 (of_int (chan_B num) - amt)
      in pack_color R G B)"

text \<open>\<open>/^#?([a-f\d]{2})([a-f\d]{2})([a-f\d]{2})$/i\<close>: an optional \<open>#\<close> and exactly six
  hexadecimal digits, of either case; the three pairs as numbers.\<close>

definition rgb_match :: "string \<Rightarrow> (nat \<times> nat \<times> nat) option" where
  "rgb_match hex =
     (let s = (if hex \<noteq> [] \<and> hd hex = CHR ''#'' then tl hex else hex)
      in if length s = 6 \<and> list_all (\<lambda>c. hex_digit_val c \<noteq> None) s
         then Some (digits_val (hex_digits_prefix (take 2 s)), digits_val (hex_digits_prefix (take 2 (drop 2 s))),
                    digits_val (hex_digits_prefix (drop 4 s)))
         else None)"

text \<open>\<open>hexToRgba\<close>; \<open>num_str\<close> is the conversion of a number to a string in a template.\<close>

definition hexToRgba :: "(real \<Rightarrow> string) \<Rightarrow> string \<Rightarrow> real \<Rightarrow> string" where
  "hexToRgba num_str hex alpha =
     (case rgb_match hex of
        None \<Rightarrow> ''rgba(0,0,0,'' @ num_str alpha @ '')''
      | Some (r, g, b) \<Rightarrow>
          ''rgba('' @ num_str (of_nat r) @ '','' @ num_str (of_nat g) @ '','' @ num_str (of_nat b) @ '','' @
          num_str alpha @ '')'')"

text \<open>\<open>k\<close> lower-case hexadecimal digits of \<open>x\<close>, with leading zeros: the form of a
  channel in \<open>#rrggbb\<close>.\<close>

fun hex_pad :: "nat \<Rightarrow> nat \<Rightarrow> string" where
  "hex_pad 0 x = []"
| "hex_pad (Suc k) x = hex_pad k (x div 16) @ [hex_digit (x mod 16)]"


subsection \<open>Lemmas\<close>

text \<open>The 32-bit words of the helpers, read as integers.\<close>

lemma sint_word_of_int_small: "0 \<le> n \<Longrightarrow> n < 2 ^ 31 \<Longrightarrow> sint (word_of_int n :: 32 word) = n"
  by (simp add: sint_sbintrunc' signed_take_bit_int_eq_self)

lemma or_push_bit_add: "0 \<le> a \<Longrightarrow> a < 2 ^ n \<Longrightarrow> a OR push_bit n b = a + push_bit n (b :: int)"
  using concat_bit_eq [of n a b] by (simp add: concat_bit_def take_bit_int_eq_self)

lemma word_and_255: "(w :: 32 word) AND 255 = word_of_int (take_bit 8 (uint w))"
  using and_mask_bintr [of w 8] by (simp add: mask_eq_exp_minus_1)

lemma chan_R_eq: "0 \<le> n \<Longrightarrow> n < 2 ^ 31 \<Longrightarrow> chan_R (word_of_int n) = n div 65536"
  by (simp add: chan_R_def sint_signed_drop_bit_eq sint_word_of_int_small drop_bit_eq_div)

lemma chan_B_eq: "0 \<le> n \<Longrightarrow> n < 2 ^ 31 \<Longrightarrow> chan_B (word_of_int n) = n mod 256"
proof -
  assume "0 \<le> n" "n < 2 ^ 31"
  then have "uint (word_of_int n :: 32 word) = n" by (simp add: uint_word_of_int)
  then show ?thesis
    by (simp add: chan_B_def word_and_255 take_bit_eq_mod sint_word_of_int_small)
qed

lemma signed_drop_bit_small:
  "0 \<le> n \<Longrightarrow> n < 2 ^ 31 \<Longrightarrow> signed_drop_bit k (word_of_int n :: 32 word) = word_of_int (n div 2 ^ k)"
proof -
  assume a: "0 \<le> n" "n < 2 ^ 31"
  have "sint (signed_drop_bit k (word_of_int n :: 32 word)) = n div 2 ^ k"
    using a by (simp add: sint_signed_drop_bit_eq sint_word_of_int_small drop_bit_eq_div)
  then show ?thesis by (metis of_int_sint scast_id)
qed

lemma chan_G_eq: "0 \<le> n \<Longrightarrow> n < 2 ^ 31 \<Longrightarrow> chan_G (word_of_int n) = n div 256 mod 256"
proof -
  assume a: "0 \<le> n" "n < 2 ^ 31"
  then have "0 \<le> n div 256" "n div 256 < 2 ^ 31" by simp_all
  then have "chan_B (word_of_int (n div 256)) = n div 256 mod 256" by (rule chan_B_eq)
  then show ?thesis using a by (simp add: chan_G_def chan_B_def signed_drop_bit_small)
qed


lemma pack_int:
  fixes r g b :: int
  assumes "0 \<le> r" "r < 256" "0 \<le> g" "g < 256" "0 \<le> b" "b < 256"
  shows "push_bit 24 1 OR push_bit 16 r OR push_bit 8 g OR b = 2 ^ 24 + r * 65536 + g * 256 + b"
proof -
  have "push_bit 24 1 OR push_bit 16 r OR push_bit 8 g OR b = b OR push_bit 8 (g OR push_bit 8 (r OR push_bit 8 1))"
    by (simp add: push_bit_or push_bit_push_bit ac_simps)
  also have "r OR push_bit 8 1 = r + 256" using assms(1,2) or_push_bit_add [of r 8 1] by simp
  also have "g OR push_bit 8 (r + 256) = g + push_bit 8 (r + 256)" using assms(3,4) by (simp add: or_push_bit_add)
  also have "b OR push_bit 8 (g + push_bit 8 (r + 256)) = b + push_bit 8 (g + push_bit 8 (r + 256))"
    using assms(5,6) by (simp add: or_push_bit_add)
  finally show ?thesis by (simp add: push_bit_eq_mult algebra_simps)
qed

lemma pack_word:
  fixes r g b :: int
  assumes "0 \<le> r" "r < 256" "0 \<le> g" "g < 256" "0 \<le> b" "b < 256"
  shows "sint (push_bit 24 1 OR push_bit 16 (word_of_int r) OR push_bit 8 (word_of_int g) OR (word_of_int b :: 32 word)) =
         2 ^ 24 + r * 65536 + g * 256 + b"
proof -
  have "(push_bit 24 1 OR push_bit 16 (word_of_int r) OR push_bit 8 (word_of_int g) OR (word_of_int b :: 32 word)) =
        word_of_int (push_bit 24 1 OR push_bit 16 r OR push_bit 8 g OR b)"
    by (simp add: of_int_or_eq push_bit_of_int)
  moreover have "0 \<le> push_bit 24 1 OR push_bit 16 r OR push_bit 8 g OR b" "push_bit 24 1 OR push_bit 16 r OR push_bit 8 g OR b < 2 ^ 31"
    using pack_int [OF assms] assms by simp_all
  ultimately show ?thesis using pack_int [OF assms] by (simp only: sint_word_of_int_small)
qed


text \<open>\<open>toString(16)\<close> of a number with a leading digit in front of \<open>k\<close> digits.\<close>

lemma hex_str_lt: "n < 16 \<Longrightarrow> hex_str n = [hex_digit n]"
  by (simp add: hex_str.simps)

lemma hex_str_ge: "16 \<le> n \<Longrightarrow> hex_str n = hex_str (n div 16) @ [hex_digit (n mod 16)]"
  by (subst hex_str.simps) simp

lemma hex_str_shift: "0 < a \<Longrightarrow> b < 16 ^ k \<Longrightarrow> hex_str (a * 16 ^ k + b) = hex_str a @ hex_pad k b"
proof (induction k arbitrary: b)
  case (Suc k)
  let ?N = "a * 16 ^ Suc k + b"
  have "16 \<le> ?N" using Suc.prems(1) by (simp add: trans_le_add1)
  moreover have "?N div 16 = a * 16 ^ k + b div 16" "?N mod 16 = b mod 16"
    using div_mult_self1 [of 16 b "a * 16 ^ k"] mod_mult_self1 [of b "a * 16 ^ k" 16] by (simp_all add: ac_simps)
  moreover have "b div 16 < 16 ^ k" using Suc.prems(2) by (simp add: less_mult_imp_div_less mult.commute)
  ultimately show ?case using Suc.IH Suc.prems(1) by (simp add: hex_str_ge)
qed simp

lemma hex_pad_add: "b < 16 ^ m \<Longrightarrow> hex_pad (k + m) (a * 16 ^ m + b) = hex_pad k a @ hex_pad m b"
proof (induction m arbitrary: b)
  case (Suc m)
  have "(a * 16 ^ Suc m + b) div 16 = a * 16 ^ m + b div 16" "(a * 16 ^ Suc m + b) mod 16 = b mod 16"
    using div_mult_self1 [of 16 b "a * 16 ^ m"] mod_mult_self1 [of b "a * 16 ^ m" 16] by (simp_all add: ac_simps)
  moreover have "b div 16 < 16 ^ m" using Suc.prems by (simp add: less_mult_imp_div_less mult.commute)
  ultimately show ?case using Suc.IH by simp
qed simp

lemma toInt32_of_int [simp]: "toInt32 (of_int r) = word_of_int r"
  by (simp add: toInt32_def)

lemma pack_color_channels:
  fixes r g b :: int
  assumes "0 \<le> r" "r < 256" "0 \<le> g" "g < 256" "0 \<le> b" "b < 256"
  shows "pack_color (of_int r) (of_int g) (of_int b) = CHR ''#'' # hex_pad 2 (nat r) @ hex_pad 2 (nat g) @ hex_pad 2 (nat b)"
proof -
  let ?V = "nat r * 16 ^ 4 + (nat g * 16 ^ 2 + nat b)"
  have v: "nat (2 ^ 24 + r * 65536 + g * 256 + b) = 1 * 16 ^ 6 + ?V" using assms by (simp add: nat_add_distrib nat_mult_distrib)
  have lt: "?V < 16 ^ 6" "nat g * 16 ^ 2 + nat b < 16 ^ 4" "nat b < 16 ^ 2" using assms by simp_all
  have "hex_str (1 * 16 ^ 6 + ?V) = ''1'' @ hex_pad 6 ?V"
    using hex_str_shift [OF _ lt(1), of 1] by (simp add: hex_str_lt hex_digit_def)
  moreover have "hex_pad 6 ?V = hex_pad 2 (nat r) @ hex_pad 2 (nat g) @ hex_pad 2 (nat b)"
    using hex_pad_add [OF lt(2), of 2 "nat r"] hex_pad_add [OF lt(3), of 2 "nat g"] by simp
  ultimately show ?thesis
    using assms v pack_word [OF assms, simplified] by (simp add: pack_color_def js_toString16_def)
qed

text \<open>Both helpers on any string \<open>parseInt\<close> reads as a value below \<open>2^24\<close>, with a
  non-negative percentage: each channel is moved by the rounded percentage of 255 and
  clamped, and the result is \<open>#\<close> and six digits. A shorthand \<open>#fff\<close> is read as
  \<open>0x000fff\<close>, so it is not white to these helpers.\<close>

lemma lighten_channel:
  fixes c a :: int
  assumes "0 \<le> c" "c < 256" "0 \<le> a"
  shows "min 255 (of_int c + of_int a) = (of_int (min 255 (c + a)) :: real)" "0 \<le> min 255 (c + a)" "min 255 (c + a) < 256"
  using assms by (simp_all add: min_def)

lemma darken_channel:
  fixes c a :: int
  assumes "0 \<le> c" "c < 256" "0 \<le> a"
  shows "max 0 (of_int c - of_int a) = (of_int (max 0 (c - a)) :: real)" "0 \<le> max 0 (c - a)" "max 0 (c - a) < 256"
  using assms by (simp_all add: max_def)

lemma parsed_channels:
  assumes "0 \<le> n" "n < 2 ^ 24"
  shows "chan_R (word_of_int n) = n div 65536" "chan_G (word_of_int n) = n div 256 mod 256" "chan_B (word_of_int n) = n mod 256"
    "0 \<le> n div 65536" "n div 65536 < 256"
  using assms chan_R_eq chan_G_eq chan_B_eq by simp_all

theorem lightenColor_channels:
  assumes "parseInt16 (replace_first CHR ''#'' hex) = Some n" and "0 \<le> n" and "n < 2 ^ 24" and "0 \<le> percent"
  shows "lightenColor hex percent =
           (let a = \<lfloor>255 / 100 * percent + 1 / 2\<rfloor>
            in CHR ''#'' # hex_pad 2 (nat (min 255 (n div 65536 + a))) @ hex_pad 2 (nat (min 255 (n div 256 mod 256 + a))) @
               hex_pad 2 (nat (min 255 (n mod 256 + a))))"
proof -
  let ?a = "\<lfloor>255 / 100 * percent + 1 / 2\<rfloor>"
  have a: "0 \<le> ?a" using assms(4) by simp
  have c: "0 \<le> n div 65536" "n div 65536 < 256" "0 \<le> n div 256 mod 256" "n div 256 mod 256 < 256" "0 \<le> n mod 256" "n mod 256 < 256"
    using assms(2,3) by simp_all
  show ?thesis
    unfolding lightenColor_def Let_def assms(1) num_of_parse_def option.case parsed_channels [OF assms(2,3)] js_round_def
      lighten_channel(1) [OF c(1,2) a] lighten_channel(1) [OF c(3,4) a] lighten_channel(1) [OF c(5,6) a]
    by (rule pack_color_channels [OF lighten_channel(2,3) [OF c(1,2) a] lighten_channel(2,3) [OF c(3,4) a] lighten_channel(2,3) [OF c(5,6) a]])
qed

theorem darkenColor_channels:
  assumes "parseInt16 (replace_first CHR ''#'' hex) = Some n" and "0 \<le> n" and "n < 2 ^ 24" and "0 \<le> percent"
  shows "darkenColor hex percent =
           (let a = \<lfloor>255 / 100 * percent + 1 / 2\<rfloor>
            in CHR ''#'' # hex_pad 2 (nat (max 0 (n div 65536 - a))) @ hex_pad 2 (nat (max 0 (n div 256 mod 256 - a))) @
               hex_pad 2 (nat (max 0 (n mod 256 - a))))"
proof -
  let ?a = "\<lfloor>255 / 100 * percent + 1 / 2\<rfloor>"
  have a: "0 \<le> ?a" using assms(4) by simp
  have c: "0 \<le> n div 65536" "n div 65536 < 256" "0 \<le> n div 256 mod 256" "n div 256 mod 256 < 256" "0 \<le> n mod 256" "n mod 256 < 256"
    using assms(2,3) by simp_all
  show ?thesis
    unfolding darkenColor_def Let_def assms(1) num_of_parse_def option.case parsed_channels [OF assms(2,3)] js_round_def
      darken_channel(1) [OF c(1,2) a] darken_channel(1) [OF c(3,4) a] darken_channel(1) [OF c(5,6) a]
    by (rule pack_color_channels [OF darken_channel(2,3) [OF c(1,2) a] darken_channel(2,3) [OF c(3,4) a] darken_channel(2,3) [OF c(5,6) a]])
qed


text \<open>Print and parse of the digits.\<close>

lemma hex_digit_facts:
  assumes "d < 16"
  shows "hex_digit_val (hex_digit d) = Some d" "\<not> js_whitespace (hex_digit d)"
    "hex_digit d \<notin> {CHR ''-'', CHR ''+'', CHR ''x'', CHR ''X'', CHR ''#''}"
proof -
  have "list_all (\<lambda>d. hex_digit_val (hex_digit d) = Some d \<and> \<not> js_whitespace (hex_digit d) \<and>
                      hex_digit d \<notin> {CHR ''-'', CHR ''+'', CHR ''x'', CHR ''X'', CHR ''#''}) [0..<16]"
    by code_simp
  then show "hex_digit_val (hex_digit d) = Some d" "\<not> js_whitespace (hex_digit d)"
    "hex_digit d \<notin> {CHR ''-'', CHR ''+'', CHR ''x'', CHR ''X'', CHR ''#''}"
    using assms by (simp_all add: list_all_iff)
qed

lemma set_hex_pad: "c \<in> set (hex_pad k x) \<Longrightarrow> \<exists>d < 16. c = hex_digit d"
proof (induction k arbitrary: x)
  case (Suc k)
  then have "c \<in> set (hex_pad k (x div 16)) \<or> c = hex_digit (x mod 16)" by auto
  then show ?case using Suc.IH by (metis mod_less_divisor zero_less_numeral)
qed simp

lemma hex_digits_prefix_all:
  "list_all (\<lambda>c. hex_digit_val c \<noteq> None) s \<Longrightarrow> hex_digits_prefix s = map (the \<circ> hex_digit_val) s"
  by (induction s) auto

lemma digits_val_snoc: "digits_val (ds @ [d]) = digits_val ds * 16 + d"
  by (simp add: digits_val_def)

lemma digits_val_hex_pad: "digits_val (map (the \<circ> hex_digit_val) (hex_pad k x)) = x mod 16 ^ k"
proof (induction k arbitrary: x)
  case (Suc k)
  have "x mod 16 ^ Suc k = 16 * (x div 16 mod 16 ^ k) + x mod 16"
    using mod_mult2_eq [of x 16 "16 ^ k"] by simp
  then show ?case using Suc.IH [of "x div 16"] by (simp add: digits_val_snoc hex_digit_facts(1))
qed (simp add: digits_val_def)

lemma hex_pad_digits: "list_all (\<lambda>c. hex_digit_val c \<noteq> None) (hex_pad k x)"
  using set_hex_pad hex_digit_facts(1) by (fastforce simp: list_all_iff)

lemma length_hex_pad [simp]: "length (hex_pad k x) = k"
  by (induction k arbitrary: x) auto

lemma hex_pad_Cons: "0 < k \<Longrightarrow> \<exists>c cs. hex_pad k x = c # cs \<and> (\<exists>d < 16. c = hex_digit d)"
proof (cases "hex_pad k x")
  case Nil
  then show "0 < k \<Longrightarrow> ?thesis" using length_hex_pad [of k x] by simp
next
  case (Cons c cs)
  then show ?thesis using set_hex_pad [of c k x] by auto
qed

text \<open>The print and the parse of a channel string agree: \<open>parseInt\<close> reads back the
  value of \<open>k\<close> hexadecimal digits.\<close>

lemma parseInt16_hex_pad: "0 < k \<Longrightarrow> parseInt16 (hex_pad k x) = Some (int (x mod 16 ^ k))"
proof -
  assume k: "0 < k"
  obtain c cs d where hp: "hex_pad k x = c # cs" and d: "d < 16" "c = hex_digit d"
    using hex_pad_Cons [OF k] by blast
  have ws: "dropWhile js_whitespace (hex_pad k x) = hex_pad k x" using hp d hex_digit_facts(2) by simp
  have x: "take 2 (hex_pad k x) \<noteq> ''0x'' \<and> take 2 (hex_pad k x) \<noteq> ''0X''"
  proof (cases cs)
    case (Cons c' cs')
    then have "c' \<in> set (hex_pad k x)" using hp by simp
    then obtain d' where "d' < 16" "c' = hex_digit d'" using set_hex_pad by blast
    then show ?thesis using hp Cons hex_digit_facts(3) [of d'] by auto
  qed (simp add: hp)
  have sign: "\<not> (hex_pad k x \<noteq> [] \<and> hd (hex_pad k x) = CHR ''-'')"
    "\<not> (hex_pad k x \<noteq> [] \<and> (hd (hex_pad k x) = CHR ''-'' \<or> hd (hex_pad k x) = CHR ''+''))"
    using hp d hex_digit_facts(3) [of d] by auto
  have pre: "hex_digits_prefix (hex_pad k x) = map (the \<circ> hex_digit_val) (hex_pad k x)"
    by (rule hex_digits_prefix_all [OF hex_pad_digits])
  have ne: "map (the \<circ> hex_digit_val) (hex_pad k x) \<noteq> []" using k by (simp flip: length_greater_0_conv)
  show ?thesis
    using sign x ne by (simp add: parseInt16_def Let_def ws pre digits_val_hex_pad zmod_int of_nat_power)
qed


lemma hex_pad_two: "hex_pad 2 x = [hex_digit (x div 16 mod 16), hex_digit (x mod 16)]"
  by (simp add: numeral_2_eq_2)

lemma nat_min_chan: "0 \<le> a \<Longrightarrow> nat (min 255 (int c + a)) = min 255 (c + nat a)"
proof -
  assume "0 \<le> a"
  then obtain k where "a = int k" using nonneg_int_cases by blast
  then show ?thesis by (simp add: min_def nat_int_add)
qed

lemma parseInt16_rgb:
  assumes "r < 256" "g < 256" "b < 256"
  shows "parseInt16 (replace_first CHR ''#'' (CHR ''#'' # hex_pad 2 r @ hex_pad 2 g @ hex_pad 2 b)) =
         Some (int (r * 65536 + g * 256 + b))"
proof -
  have "hex_pad 2 r @ hex_pad 2 g @ hex_pad 2 b = hex_pad 6 (r * 16 ^ 4 + (g * 16 ^ 2 + b))"
    using hex_pad_add [of "g * 16 ^ 2 + b" 4 2 r] hex_pad_add [of b 2 2 g] assms by simp
  moreover have "r * 16 ^ 4 + (g * 16 ^ 2 + b) < 16 ^ 6" using assms by simp
  ultimately show ?thesis by (simp add: parseInt16_hex_pad)
qed

text \<open>On a color \<open>#rrggbb\<close>, \<open>lightenColor\<close> adds the rounded percentage of 255 to each
  channel and clamps it at 255.\<close>

lemma lightenColor_rgb:
  assumes "r < 256" "g < 256" "b < 256" "0 \<le> percent"
  shows "lightenColor (CHR ''#'' # hex_pad 2 r @ hex_pad 2 g @ hex_pad 2 b) percent =
           (let a = nat \<lfloor>255 / 100 * percent + 1 / 2\<rfloor>
            in CHR ''#'' # hex_pad 2 (min 255 (r + a)) @ hex_pad 2 (min 255 (g + a)) @ hex_pad 2 (min 255 (b + a)))"
proof -
  let ?n = "int (r * 65536 + g * 256 + b)"
  have e: "?n = int b + 256 * (int g + 256 * int r)" by simp
  have dm: "(int c + 256 * X) div 256 = X" "(int c + 256 * X) mod 256 = int c" if "c < 256" for c X
    using that by simp_all
  have d1: "?n div 256 = int g + 256 * int r" and m1: "?n mod 256 = int b"
    using dm assms(3) unfolding e by blast+
  have d2: "(int g + 256 * int r) div 256 = int r" and m2: "(int g + 256 * int r) mod 256 = int g"
    using dm assms(2) by blast+
  have "?n div 65536 = ?n div 256 div 256" using zdiv_zmult2_eq [of 256 ?n 256] by simp
  then have n: "?n div 65536 = int r" "?n div 256 mod 256 = int g" "?n mod 256 = int b" "?n < 2 ^ 24"
    using assms d1 d2 m1 m2 by (simp_all only:) simp
  have a: "0 \<le> \<lfloor>255 / 100 * percent + 1 / 2\<rfloor>" using assms(4) by simp
  show ?thesis
    unfolding lightenColor_channels [OF parseInt16_rgb [OF assms(1-3)] of_nat_0_le_iff n(4) assms(4)] Let_def n(1-3)
      nat_min_chan [OF a] ..
qed

lemma rgb_match_rgb:
  assumes "r < 256" "g < 256" "b < 256"
  shows "rgb_match (CHR ''#'' # hex_pad 2 r @ hex_pad 2 g @ hex_pad 2 b) = Some (r, g, b)"
proof -
  have "list_all (\<lambda>c. hex_digit_val c \<noteq> None) (hex_pad 2 r @ hex_pad 2 g @ hex_pad 2 b)"
    using hex_pad_digits by simp
  moreover have "digits_val (hex_digits_prefix (hex_pad 2 x)) = x mod 16 ^ 2" for x
    using hex_digits_prefix_all [OF hex_pad_digits] digits_val_hex_pad by simp
  ultimately show ?thesis using assms by (simp add: rgb_match_def Let_def)
qed

lemma hexToRgba_rgb:
  "r < 256 \<Longrightarrow> g < 256 \<Longrightarrow> b < 256 \<Longrightarrow>
   hexToRgba num_str (CHR ''#'' # hex_pad 2 r @ hex_pad 2 g @ hex_pad 2 b) alpha =
   ''rgba('' @ num_str (of_nat r) @ '','' @ num_str (of_nat g) @ '','' @ num_str (of_nat b) @ '','' @ num_str alpha @ '')''"
  by (simp add: hexToRgba_def rgb_match_rgb)

text \<open>Inputs outside those bounds: the shorthand \<open>#fff\<close> is lightened as
  \<open>#000fff\<close>, and \<open>hexToRgba\<close> turns it into black; a negative percentage makes
  \<open>darkenColor\<close> push a channel above 255, and its carry spills into the next channel
  under \<open>|\<close>: pure blue darkened by -10 percent is a gray.\<close>

lemma shorthand_misread:
  "lightenColor ''#fff'' 10 = ''#1a29ff''" "hexToRgba num_str ''#fff'' alpha = ''rgba(0,0,0,'' @ num_str alpha @ '')''"
proof -
  have p: "parseInt16 (replace_first CHR ''#'' ''#fff'') = Some 4095"
    by (simp add: parseInt16_def js_whitespace_def hex_digit_val_def digits_val_def)
  show "lightenColor ''#fff'' 10 = ''#1a29ff''"
    using lightenColor_channels [OF p, where percent = 10] by (simp add: hex_pad_two hex_digit_def)
  show "hexToRgba num_str ''#fff'' alpha = ''rgba(0,0,0,'' @ num_str alpha @ '')''"
    by (simp add: hexToRgba_def rgb_match_def)
qed

lemma darken_negative_mixes_channels: "darkenColor ''#0000ff'' (-10) = ''#191918''"
proof -
  have p: "num_of_parse (parseInt16 (replace_first CHR ''#'' ''#0000ff'')) = word_of_int 255"
    by (simp add: parseInt16_def js_whitespace_def hex_digit_val_def digits_val_def num_of_parse_def)
  have c: "chan_R (word_of_int 255) = 0" "chan_G (word_of_int 255) = 0" "chan_B (word_of_int 255) = 255"
    using parsed_channels [of 255] by simp_all
  have r: "js_round (255 / 100 * -10) = -25" by (simp add: js_round_def)
  show ?thesis
    unfolding darkenColor_def Let_def p c r
    by (simp add: pack_color_def toInt32_def js_toString16_def hex_str_lt hex_str_ge hex_digit_def)
qed

end
