(* ===== verification/DemoData.thy ===== *)
theory DemoData
  imports Task "HOL-Library.State_Monad" "HOL-Library.Stream" "HOL-Library.Product_Lexorder"
begin

text \<open>
  The demo data generator \<open>generateDemoData\<close> and \<open>generateLargeDataset\<close> of
  \<open>utils/demo-data.ts\<close>. Each call of \<open>Math.random()\<close> draws the next number of an
  infinite stream (\<open>random\<close>), so the random parts of the generator are computations
  of the state monad \<open>'a rand\<close> over the unused stream, in the order the code calls
  \<open>Math.random\<close>. The clock \<open>Date.now()\<close> is the parameter \<open>now\<close>, read once (the
  generator runs within a millisecond). The counts are natural numbers, as every caller
  passes. The fields the model of the entities omits (descriptions, order colors and due
  dates, group colors) are not generated. Reading a field of \<open>undefined\<close> throws a
  \<open>TypeError\<close>: the value \<open>Demo_type_error\<close> of the result.
\<close>

type_synonym 'a rand = "(real stream, 'a) state"

definition random :: "real rand" where
  "random = State (\<lambda>s. (shd s, stl s))"

datatype demo_error = Demo_type_error

text \<open>A template \<open>`${n}`\<close> of a natural number: its decimal digits.\<close>

function nat_str :: "nat \<Rightarrow> string" where
  "nat_str n = (if n < 10 then [''0123456789'' ! n] else nat_str (n div 10) @ [''0123456789'' ! (n mod 10)])"
  by auto
termination by (relation "measure id") auto

declare nat_str.simps [simp del]

record demo_options =
  opt_taskCount :: "nat option"
  opt_resourceCount :: "nat option"
  opt_orderCount :: "nat option"
  opt_dependencyRatio :: "real option"

record demo_data =
  dd_tasks :: "stored_task list"
  dd_resources :: "resource list"
  dd_dependencies :: "task_dependency list"
  dd_orders :: "order list"
  dd_groups :: "resource_group list"

subsection \<open>Groups, resources and orders\<close>

definition demo_groups :: "resource_group list" where
  "demo_groups =
     [\<lparr>group_id = ''operators'', group_name = ''Operators'', group_type = Operator\<rparr>,
      \<lparr>group_id = ''machines'', group_name = ''Machines'', group_type = Machine\<rparr>]"

text \<open>\<open>Math.floor(resourceCount * 0.4)\<close> operators, then the other resources as machines,
  named \<open>Machine A\<close> to \<open>Machine Z\<close>, then \<open>Machine A1\<close> and so on
  (\<open>Math.floor(i / 26) || ""\<close> drops a 0).\<close>

definition demo_operator :: "nat \<Rightarrow> resource" where
  "demo_operator i =
     \<lparr>res_id = ''op-'' @ nat_str i, res_name = ''Operator '' @ nat_str (i + 1), res_type = Operator,
      capacity = 1, res_groupId = Some ''operators''\<rparr>"

definition demo_machine :: "nat \<Rightarrow> resource" where
  "demo_machine i =
     \<lparr>res_id = ''machine-'' @ nat_str i,
      res_name = ''Machine '' @ [char_of (65 + i mod 26)] @ (if i div 26 = 0 then [] else nat_str (i div 26)),
      res_type = Machine, capacity = 1, res_groupId = Some ''machines''\<rparr>"

definition demo_resources :: "nat \<Rightarrow> resource list" where
  "demo_resources resourceCount =
     (let operatorCount = nat \<lfloor>of_nat resourceCount * (2 / 5 :: real)\<rfloor>;
          machineCount = resourceCount - operatorCount
      in map demo_operator [0..<operatorCount] @ map demo_machine [0..<machineCount])"

definition demo_orders :: "nat \<Rightarrow> order list" where
  "demo_orders orderCount =
     map (\<lambda>i. \<lparr>order_id = ''order-'' @ nat_str i, order_name = ''Order #'' @ nat_str (1000 + i),
               order_priority = of_nat (i + 1)\<rparr>) [0..<orderCount]"

definition taskColors :: "string list" where
  "taskColors = [''#3b82f6'', ''#10b981'', ''#f59e0b'', ''#ef4444'', ''#8b5cf6'', ''#ec4899'', ''#06b6d4'']"

subsection \<open>Tasks\<close>

text \<open>The phases: \<open>hasSetup = Math.random() > 0.3\<close> and
  \<open>hasCleanup = Math.random() > 0.5\<close> are drawn first, then the durations in order.\<close>

definition demo_phases :: "task_phase list rand" where
  "demo_phases = do {
     r_setup \<leftarrow> random;
     r_cleanup \<leftarrow> random;
     setup \<leftarrow> (if r_setup > 3 / 10
               then do { r \<leftarrow> random;
                         State_Monad.return [\<lparr>phase_type = Setup, duration = 15 + of_int \<lfloor>r * 30\<rfloor>, phase_color = None\<rparr>] }
               else State_Monad.return []);
     r_exec \<leftarrow> random;
     cleanup \<leftarrow> (if r_cleanup > 1 / 2
                 then do { r \<leftarrow> random;
                           State_Monad.return [\<lparr>phase_type = Cleanup, duration = 10 + of_int \<lfloor>r * 20\<rfloor>, phase_color = None\<rparr>] }
                 else State_Monad.return []);
     State_Monad.return (setup @ [\<lparr>phase_type = Execution, duration = 30 + of_int \<lfloor>r_exec * 180\<rfloor>, phase_color = None\<rparr>] @ cleanup) }"

text \<open>\<open>Math.ceil(taskCount / orderCount)\<close>.\<close>

definition tasks_per_order :: "nat \<Rightarrow> nat \<Rightarrow> nat" where
  "tasks_per_order taskCount orderCount = nat \<lceil>of_nat taskCount / (of_nat orderCount :: real)\<rceil>"

text \<open>One iteration of the task loop. With no resource, \<open>i % resources.length\<close> is
  \<open>NaN\<close> and \<open>resource\<close> is \<open>undefined\<close>; with no order, \<open>orderIndex\<close> is \<open>NaN\<close>
  (\<open>i / Infinity\<close> is 0, and \<open>0 % 0\<close> is \<open>NaN\<close>). The object literal then throws
  at \<open>resource.id\<close> or \<open>orders[orderIndex].id\<close>, after the draws of the phases and
  before those of priority, status and progress.\<close>

definition demo_task ::
  "nat \<Rightarrow> nat \<Rightarrow> resource list \<Rightarrow> order list \<Rightarrow> number \<Rightarrow> nat \<Rightarrow> (demo_error + stored_task) rand" where
  "demo_task taskCount orderCount resources orders now i = do {
     r_offset \<leftarrow> random;
     phases \<leftarrow> demo_phases;
     (if resources = [] \<or> orderCount = 0 then State_Monad.return (Inl Demo_type_error)
      else
        (let resource = resources ! (i mod length resources);
             orderIndex = i div tasks_per_order taskCount orderCount mod orderCount;
             startOffset = of_nat (i div length resources) * 4 * 3600000;
             startTime = now - 2 * 86400000 + startOffset + r_offset * 8 * 3600000
         in do {
           r_priority \<leftarrow> random;
           r_status \<leftarrow> random;
           r_progress \<leftarrow> random;
           progress \<leftarrow> (if r_progress > 7 / 10
                        then do { r \<leftarrow> random; State_Monad.return (of_int \<lfloor>r * 100\<rfloor>) }
                        else State_Monad.return 0);
           State_Monad.return (Inr
             \<lparr>task_id = ''task-'' @ nat_str i, startTime = startTime, phases = phases,
              resourceId = res_id resource, orderId = order_id (orders ! orderIndex),
              task_name = ''Task '' @ nat_str (i + 1), task_color = Some (taskColors ! (orderIndex mod 7)),
              priority = of_int \<lceil>r_priority * 5\<rceil>,
              status = (if r_status > 8 / 10 then Completed else Scheduled),
              progress = progress, task_constraints = None\<rparr>) })) }"

fun demo_tasks ::
  "nat \<Rightarrow> nat \<Rightarrow> resource list \<Rightarrow> order list \<Rightarrow> number \<Rightarrow> nat list \<Rightarrow> (demo_error + stored_task list) rand" where
  "demo_tasks taskCount orderCount resources orders now [] = State_Monad.return (Inr [])"
| "demo_tasks taskCount orderCount resources orders now (i # ixs) = do {
     r \<leftarrow> demo_task taskCount orderCount resources orders now i;
     (case r of
        Inl e \<Rightarrow> State_Monad.return (Inl e)
      | Inr t \<Rightarrow> do {
          rest \<leftarrow> demo_tasks taskCount orderCount resources orders now ixs;
          State_Monad.return (map_sum id (Cons t) rest) }) }"

subsection \<open>Dependencies\<close>

text \<open>\<open>tasksByOrder\<close>: a \<open>Map\<close> from each order id to its tasks in list order.\<close>

definition tasksByOrder :: "stored_task list \<Rightarrow> (order_id, stored_task list) obj" where
  "tasksByOrder ts =
     fold (\<lambda>t m. obj_set m (orderId t) ((case obj_get m (orderId t) of None \<Rightarrow> [] | Some l \<Rightarrow> l) @ [t])) ts []"

text \<open>The inner loop over the tasks of one order, sorted by start time (a stable sort):
  for \<open>i\<close> from 1, with probability \<open>dependencyRatio\<close> a finish-to-start dependency
  from a task drawn among the earlier ones. \<open>depIndex\<close> counts the dependencies made
  so far, in all orders.\<close>

fun order_deps ::
  "real \<Rightarrow> stored_task list \<Rightarrow> nat list \<Rightarrow> task_dependency list \<Rightarrow> task_dependency list rand" where
  "order_deps ratio orderSorted [] deps = State_Monad.return deps"
| "order_deps ratio orderSorted (i # ixs) deps = do {
     r \<leftarrow> random;
     (if r < ratio
      then do {
        p \<leftarrow> random;
        let predecessorIndex = nat \<lfloor>p * of_nat i\<rfloor>;
        order_deps ratio orderSorted ixs
          (deps @ [\<lparr>dep_id = ''dep-'' @ nat_str (length deps), predecessorId = task_id (orderSorted ! predecessorIndex),
                    successorId = task_id (orderSorted ! i), dep_type = FS, lag = 0\<rparr>]) }
      else order_deps ratio orderSorted ixs deps) }"

fun demo_dependencies ::
  "real \<Rightarrow> (order_id \<times> stored_task list) list \<Rightarrow> task_dependency list \<Rightarrow> task_dependency list rand" where
  "demo_dependencies ratio [] deps = State_Monad.return deps"
| "demo_dependencies ratio ((oid, orderTasks) # groups) deps = do {
     let orderSorted = sort_key startTime orderTasks;
     deps' \<leftarrow> order_deps ratio orderSorted [1..<length orderSorted] deps;
     demo_dependencies ratio groups deps' }"

subsection \<open>The generators\<close>

definition generateDemoData :: "demo_options \<Rightarrow> number \<Rightarrow> (demo_error + demo_data) rand" where
  "generateDemoData options now = do {
     let taskCount = (case opt_taskCount options of None \<Rightarrow> 100 | Some n \<Rightarrow> n);
     let resourceCount = (case opt_resourceCount options of None \<Rightarrow> 20 | Some n \<Rightarrow> n);
     let orderCount = (case opt_orderCount options of None \<Rightarrow> 5 | Some n \<Rightarrow> n);
     let dependencyRatio = (case opt_dependencyRatio options of None \<Rightarrow> 3 / 10 | Some r \<Rightarrow> r);
     let resources = demo_resources resourceCount;
     let orders = demo_orders orderCount;
     r \<leftarrow> demo_tasks taskCount orderCount resources orders now [0..<taskCount];
     (case r of
        Inl e \<Rightarrow> State_Monad.return (Inl e)
      | Inr tasks \<Rightarrow> do {
          dependencies \<leftarrow> demo_dependencies dependencyRatio (tasksByOrder tasks) [];
          State_Monad.return (Inr \<lparr>dd_tasks = tasks, dd_resources = resources, dd_dependencies = dependencies,
                                   dd_orders = orders, dd_groups = demo_groups\<rparr>) }) }"

definition generateLargeDataset :: "nat \<Rightarrow> number \<Rightarrow> (demo_error + demo_data) rand" where
  "generateLargeDataset taskCount now =
     (let resourceCount = min 100 (max 20 (taskCount div 50));
          orderCount = min 20 (max 5 (taskCount div 200))
      in generateDemoData \<lparr>opt_taskCount = Some taskCount, opt_resourceCount = Some resourceCount,
                           opt_orderCount = Some orderCount, opt_dependencyRatio = Some (1 / 5)\<rparr> now)"


text \<open>A computation that only consumes draws: the stream it leaves is a part of the one it
  was given, so every later draw is a value \<open>Math.random\<close> could return.\<close>

definition keeps_draws :: "'a rand \<Rightarrow> bool" where
  "keeps_draws m \<longleftrightarrow> (\<forall>s. sset (snd (run_state m s)) \<subseteq> sset s)"

text \<open>The decimal value of a string of digits, to read \<open>nat_str\<close> back.\<close>

text \<open>A property of the value a computation returns, whatever draws in \<open>[0, 1)\<close> it reads.\<close>

definition draws_post :: "'a rand \<Rightarrow> ('a \<Rightarrow> bool) \<Rightarrow> bool" where
  "draws_post m P \<longleftrightarrow> (\<forall>s. sset s \<subseteq> {0..<1} \<longrightarrow> P (fst (run_state m s)))"

definition index_edges :: "stored_task list \<Rightarrow> nat set \<Rightarrow> task_dependency set" where
  "index_edges srt I = {x. \<exists>a i. i \<in> I \<and> a < i \<and> predecessorId x = task_id (srt ! a) \<and> successorId x = task_id (srt ! i)}"

definition group_edges :: "(order_id \<times> stored_task list) list \<Rightarrow> task_dependency set" where
  "group_edges gs = (\<Union>(oid, l) \<in> set gs. index_edges (sort_key startTime l) {1..<length l})"

definition dec_val :: "string \<Rightarrow> nat" where
  "dec_val cs = fold (\<lambda>c acc. acc * 10 + (of_char c - 48)) cs 0"

section \<open>Properties of the demo data generator\<close>


subsection \<open>Draws: every computation consumes a part of the stream\<close>

lemma run_random [simp]: "run_state random s = (shd s, stl s)"
  by (simp add: random_def)

lemma keeps_return [intro]: "keeps_draws (State_Monad.return x)"
  by (simp add: keeps_draws_def)

lemma keeps_random [intro]: "keeps_draws random"
  by (auto simp: keeps_draws_def stl_sset)

lemma keeps_bind [intro]: "keeps_draws m \<Longrightarrow> (\<And>x. keeps_draws (f x)) \<Longrightarrow> keeps_draws (State_Monad.bind m f)"
  unfolding keeps_draws_def by (auto split: prod.split) (metis snd_conv subsetD)

lemma keeps_if [intro]: "keeps_draws a \<Longrightarrow> keeps_draws b \<Longrightarrow> keeps_draws (if c then a else b)"
  by simp

lemma keeps_let [intro]: "keeps_draws (f x) \<Longrightarrow> keeps_draws (Let x f)"
  by simp

lemma keeps_sum [intro]: "(\<And>e. keeps_draws (f e)) \<Longrightarrow> (\<And>x. keeps_draws (g x)) \<Longrightarrow> keeps_draws (case_sum f g r)"
  by (cases r) simp_all

lemma keeps_demo_phases: "keeps_draws demo_phases"
  unfolding demo_phases_def by blast

lemma keeps_demo_task: "keeps_draws (demo_task tc oc rs os now i)"
  unfolding demo_task_def using keeps_demo_phases by blast

lemma keeps_demo_tasks: "keeps_draws (demo_tasks tc oc rs os now ixs)"
  by (induction ixs) (auto intro!: keeps_demo_task)

lemma keeps_order_deps: "keeps_draws (order_deps r srt ixs deps)"
proof (induction ixs arbitrary: deps)
  case (Cons i ixs)
  show ?case by (simp only: order_deps.simps) (intro keeps_bind keeps_random keeps_if keeps_let keeps_return Cons.IH)
qed auto

lemma keeps_demo_dependencies: "keeps_draws (demo_dependencies r gs deps)"
  by (induction r gs deps rule: demo_dependencies.induct) (auto intro!: keeps_order_deps)

subsection \<open>Decimal ids: \<open>nat_str\<close> is injective, read back by \<open>dec_val\<close>\<close>

lemma nat_str_lt: "n < 10 \<Longrightarrow> nat_str n = [''0123456789'' ! n]"
  by (simp add: nat_str.simps)

lemma nat_str_ge: "10 \<le> n \<Longrightarrow> nat_str n = nat_str (n div 10) @ [''0123456789'' ! (n mod 10)]"
  by (subst nat_str.simps) simp

lemma dec_digit: "d < 10 \<Longrightarrow> of_char (''0123456789'' ! d) - 48 = (d :: nat)"
proof -
  have "list_all (\<lambda>d. of_char (''0123456789'' ! d) - 48 = (d :: nat)) [0..<10]" by code_simp
  then show "d < 10 \<Longrightarrow> ?thesis" by (simp add: list_all_iff)
qed

lemma dec_val_snoc: "dec_val (cs @ [c]) = dec_val cs * 10 + (of_char c - 48)"
  by (simp add: dec_val_def)

lemma dec_val_nat_str: "dec_val (nat_str n) = n"
proof (induction n rule: nat_str.induct)
  case (1 n)
  show ?case
  proof (cases "n < 10")
    case True
    then show ?thesis by (simp add: nat_str_lt dec_val_def dec_digit)
  next
    case False
    then show ?thesis using 1 by (simp add: nat_str_ge dec_val_snoc dec_digit)
  qed
qed

lemma nat_str_inj: "nat_str m = nat_str n \<longleftrightarrow> m = n"
  by (metis dec_val_nat_str)


subsection \<open>Dependencies join a task to an earlier one of its order\<close>

lemma draw_index_lt:
  assumes "0 \<le> p" "p < 1" "0 < i"
  shows "nat \<lfloor>p * real i\<rfloor> < i"
proof -
  have "p * real i < real i" using assms by simp
  then have "\<lfloor>p * real i\<rfloor> < int i" by linarith
  moreover have "0 \<le> \<lfloor>p * real i\<rfloor>" using assms by simp
  ultimately show ?thesis by (simp add: nat_less_iff)
qed

lemma index_edges_mono: "I \<subseteq> J \<Longrightarrow> index_edges srt I \<subseteq> index_edges srt J"
  unfolding index_edges_def by blast

lemma group_edges_Cons [simp]:
  "group_edges ((oid, l) # gs) = index_edges (sort_key startTime l) {1..<length l} \<union> group_edges gs"
  by (simp add: group_edges_def)

lemma group_edges_Nil [simp]: "group_edges [] = {}"
  by (simp add: group_edges_def)

lemma order_deps_edges:
  assumes "sset s \<subseteq> {0..<1}" and "\<forall>i \<in> set ixs. 0 < i"
  shows "set (fst (run_state (order_deps r srt ixs deps) s)) \<subseteq> set deps \<union> index_edges srt (set ixs)"
  using assms
proof (induction ixs arbitrary: deps s)
  case (Cons i ixs)
  have sub: "index_edges srt (set ixs) \<subseteq> index_edges srt (set (i # ixs))"
    by (rule index_edges_mono) auto
  have s1: "sset (stl s) \<subseteq> {0..<1}" and s2: "sset (stl (stl s)) \<subseteq> {0..<1}"
    using Cons.prems(1) by (auto dest: stl_sset)
  have p: "0 \<le> shd (stl s)" "shd (stl s) < 1" using Cons.prems(1) shd_sset [of "stl s"] stl_sset by fastforce+
  have pos: "\<forall>i \<in> set ixs. 0 < i" using Cons.prems(2) by simp
  show ?case
  proof (cases "shd s < r")
    case True
    define pi where "pi = nat \<lfloor>shd (stl s) * real i\<rfloor>"
    define X where "X = \<lparr>dep_id = ''dep-'' @ nat_str (length deps), predecessorId = task_id (srt ! pi),
                         successorId = task_id (srt ! i), dep_type = FS, lag = 0\<rparr>"
    have lt: "pi < i" unfolding pi_def using draw_index_lt [OF p] Cons.prems(2) by simp
    have run: "run_state (order_deps r srt (i # ixs) deps) s = run_state (order_deps r srt ixs (deps @ [X])) (stl (stl s))"
      using True by (simp add: X_def pi_def Let_def)
    have X: "X \<in> index_edges srt (set (i # ixs))" using lt unfolding X_def index_edges_def by auto
    have "set (fst (run_state (order_deps r srt ixs (deps @ [X])) (stl (stl s)))) \<subseteq> set (deps @ [X]) \<union> index_edges srt (set ixs)"
      by (rule Cons.IH [OF s2 pos])
    then have "set (fst (run_state (order_deps r srt ixs (deps @ [X])) (stl (stl s)))) \<subseteq> insert X (set deps) \<union> index_edges srt (set ixs)"
      by simp
    then show ?thesis using X sub unfolding run by blast
  next
    case False
    then have run: "run_state (order_deps r srt (i # ixs) deps) s = run_state (order_deps r srt ixs deps) (stl s)"
      by simp
    have "set (fst (run_state (order_deps r srt ixs deps) (stl s))) \<subseteq> set deps \<union> index_edges srt (set ixs)"
      by (rule Cons.IH [OF s1 pos])
    then show ?thesis using sub unfolding run by blast
  qed
qed simp

lemma demo_dependencies_edges:
  assumes "sset s \<subseteq> {0..<1}"
  shows "set (fst (run_state (demo_dependencies r gs deps) s)) \<subseteq> set deps \<union> group_edges gs"
  using assms
proof (induction r gs deps arbitrary: s rule: demo_dependencies.induct)
  case (2 r oid orderTasks groups deps)
  let ?srt = "sort_key startTime orderTasks"
  obtain deps' s' where run: "run_state (order_deps r ?srt [1..<length ?srt] deps) s = (deps', s')"
    by (cases "run_state (order_deps r ?srt [1..<length ?srt] deps) s")
  have "sset s' \<subseteq> sset s"
    using keeps_order_deps [of r ?srt "[1..<length ?srt]" deps] run unfolding keeps_draws_def by (metis snd_conv)
  then have s': "sset s' \<subseteq> {0..<1}" using "2.prems" by blast
  have "set deps' \<subseteq> set deps \<union> index_edges ?srt (set [1..<length ?srt])"
    using order_deps_edges [OF "2.prems", of "[1..<length ?srt]" r ?srt deps] run by simp
  then have d': "set deps' \<subseteq> set deps \<union> index_edges ?srt {1..<length orderTasks}"
    by simp
  have "set (fst (run_state (demo_dependencies r groups deps') s')) \<subseteq> set deps' \<union> group_edges groups"
    by (rule "2.IH" [OF refl s'])
  moreover have "set (fst (run_state (demo_dependencies r ((oid, orderTasks) # groups) deps) s)) =
                 set (fst (run_state (demo_dependencies r groups deps') s'))"
    using run by simp
  ultimately show ?case using d' by (simp only: group_edges_Cons) blast
qed simp

lemma tasksByOrder_get:
  "obj_get (tasksByOrder ts) k = (if filter (\<lambda>t. orderId t = k) ts = [] then None else Some (filter (\<lambda>t. orderId t = k) ts))"
  unfolding tasksByOrder_def
proof (induction ts arbitrary: k rule: rev_induct)
  case (snoc x xs)
  let ?m = "fold (\<lambda>t m. obj_set m (orderId t) ((case obj_get m (orderId t) of None \<Rightarrow> [] | Some l \<Rightarrow> l) @ [t])) xs []"
  have prev: "(case obj_get ?m (orderId x) of None \<Rightarrow> [] | Some l \<Rightarrow> l) = filter (\<lambda>t. orderId t = orderId x) xs"
    using snoc.IH [of "orderId x"] by simp
  show ?case
  proof (cases "k = orderId x")
    case True
    then show ?thesis by (simp only: fold_append fold_simps o_apply prev obj_get_set) simp
  next
    case False
    then show ?thesis using snoc.IH [of k] by (simp only: fold_append fold_simps o_apply prev obj_get_set) simp
  qed
qed (simp add: obj_get_empty)

lemma tasksByOrder_wf: "obj_wf (tasksByOrder ts)"
  unfolding tasksByOrder_def by (induction ts rule: rev_induct) (simp_all add: obj_simps)

lemma tasksByOrder_mem: "(k, l) \<in> set (tasksByOrder ts) \<Longrightarrow> l = filter (\<lambda>t. orderId t = k) ts"
  using tasksByOrder_wf [of ts] tasksByOrder_get [of ts k]
  by (auto simp: obj_wf_def obj_get_def split: if_splits)


subsection \<open>Properties of the returned value\<close>

lemma run_bind_state: "run_state (State_Monad.bind m f) s = run_state (f (fst (run_state m s))) (snd (run_state m s))"
  by (simp add: State_Monad.bind_def split: prod.split)

lemma draws_post_return [intro]: "P x \<Longrightarrow> draws_post (State_Monad.return x) P"
  by (simp add: draws_post_def)

lemma draws_post_bind:
  assumes "keeps_draws m" "draws_post m Q" "\<And>x. Q x \<Longrightarrow> draws_post (f x) P"
  shows "draws_post (State_Monad.bind m f) P"
  unfolding draws_post_def
proof (intro allI impI)
  fix s :: "real stream"
  assume s: "sset s \<subseteq> {0..<1}"
  then have "sset (snd (run_state m s)) \<subseteq> {0..<1}" using assms(1) unfolding keeps_draws_def by blast
  moreover have "Q (fst (run_state m s))" using assms(2) s unfolding draws_post_def by blast
  ultimately show "P (fst (run_state (State_Monad.bind m f) s))"
    using assms(3) unfolding draws_post_def run_bind_state by blast
qed

lemma draws_post_bind_any [intro]:
  "keeps_draws m \<Longrightarrow> (\<And>x. draws_post (f x) P) \<Longrightarrow> draws_post (State_Monad.bind m f) P"
  by (rule draws_post_bind [where Q = "\<lambda>_. True"]) (auto simp: draws_post_def)

lemma draws_post_bind_random [intro]:
  "(\<And>x. 0 \<le> x \<Longrightarrow> x < 1 \<Longrightarrow> draws_post (f x) P) \<Longrightarrow> draws_post (State_Monad.bind random f) P"
proof (rule draws_post_bind [where Q = "\<lambda>x. 0 \<le> x \<and> x < 1"])
  show "draws_post random (\<lambda>x. 0 \<le> x \<and> x < 1)"
    unfolding draws_post_def using shd_sset by fastforce
qed auto

lemma draws_post_if [intro]: "(c \<Longrightarrow> draws_post a P) \<Longrightarrow> (\<not> c \<Longrightarrow> draws_post b P) \<Longrightarrow> draws_post (if c then a else b) P"
  by simp

lemma draws_post_let [intro]: "draws_post (f x) P \<Longrightarrow> draws_post (Let x f) P"
  by simp

lemma draws_post_sum [intro]:
  "(\<And>e. r = Inl e \<Longrightarrow> draws_post (f e) P) \<Longrightarrow> (\<And>x. r = Inr x \<Longrightarrow> draws_post (g x) P) \<Longrightarrow> draws_post (case_sum f g r) P"
  by (cases r) simp_all

lemma demo_task_post:
  "draws_post (demo_task tc oc rs os now i)
     (\<lambda>r. \<forall>t. r = Inr t \<longrightarrow> task_id t = ''task-'' @ nat_str i \<and> 0 \<le> priority t \<and> priority t \<le> 5)"
  unfolding demo_task_def
  by (intro draws_post_bind_random draws_post_bind_any draws_post_if draws_post_let draws_post_return
        keeps_demo_phases keeps_if keeps_bind keeps_random keeps_return; simp; linarith)


lemma map_sum_Cons_Inr: "map_sum id (Cons t) x = Inr ts \<longleftrightarrow> (\<exists>rest. x = Inr rest \<and> ts = t # rest)"
  by (cases x) auto

lemma demo_tasks_post:
  "draws_post (demo_tasks tc oc rs os now ixs)
     (\<lambda>r. \<forall>ts. r = Inr ts \<longrightarrow> map task_id ts = map (\<lambda>i. ''task-'' @ nat_str i) ixs \<and>
                 (\<forall>t \<in> set ts. 0 \<le> priority t \<and> priority t \<le> 5))"
proof (induction ixs)
  case (Cons i ixs)
  show ?case
    unfolding demo_tasks.simps
  proof (rule draws_post_bind [OF keeps_demo_task demo_task_post])
    fix r :: "demo_error + stored_task"
    assume t: "\<forall>t. r = Inr t \<longrightarrow> task_id t = ''task-'' @ nat_str i \<and> 0 \<le> priority t \<and> priority t \<le> 5"
    show "draws_post (case r of Inl e \<Rightarrow> State_Monad.return (Inl e)
            | Inr t \<Rightarrow> State_Monad.bind (demo_tasks tc oc rs os now ixs) (\<lambda>rest. State_Monad.return (map_sum id (Cons t) rest)))
          (\<lambda>r. \<forall>ts. r = Inr ts \<longrightarrow> map task_id ts = map (\<lambda>i. ''task-'' @ nat_str i) (i # ixs) \<and>
                 (\<forall>t \<in> set ts. 0 \<le> priority t \<and> priority t \<le> 5))"
    proof (rule draws_post_sum)
      fix t assume "r = Inr t"
      then show "draws_post (State_Monad.bind (demo_tasks tc oc rs os now ixs) (\<lambda>rest. State_Monad.return (map_sum id (Cons t) rest)))
          (\<lambda>r. \<forall>ts. r = Inr ts \<longrightarrow> map task_id ts = map (\<lambda>i. ''task-'' @ nat_str i) (i # ixs) \<and>
                 (\<forall>t \<in> set ts. 0 \<le> priority t \<and> priority t \<le> 5))"
        using t by (intro draws_post_bind [OF keeps_demo_tasks Cons.IH] draws_post_return) (auto simp: map_sum_Cons_Inr)
    qed auto
  qed
qed auto

subsection \<open>Stability of the sort and acyclicity\<close>

lemma sorted_wrt_insort_key_lex:
  "sorted_wrt (\<lambda>x y. (f x, g x) < (f y, g y)) ys \<Longrightarrow> \<forall>y \<in> set ys. g x < g y \<Longrightarrow>
   sorted_wrt (\<lambda>x y. (f x, g x) < (f y, g y)) (insort_key f x ys)"
proof (induction ys)
  case (Cons y ys)
  then show ?case
    by (auto simp: less_prod_def set_insort_key)
qed simp

lemma sort_key_lex:
  "sorted_wrt (\<lambda>x y. g x < g y) xs \<Longrightarrow> sorted_wrt (\<lambda>x y. (f x, g x) < (f y, g y)) (sort_key f xs)"
proof (induction xs)
  case (Cons a xs)
  then show ?case using sorted_wrt_insort_key_lex [of f g "sort_key f xs" a] by simp
qed simp

lemma acyclic_rank:
  fixes rk :: "'a \<Rightarrow> 'b :: order"
  assumes "r \<subseteq> {(a, b). rk a < rk b}"
  shows "acyclic r"
proof -
  have t: "trans {(a, b). rk a < rk b :: bool}"
    by (auto intro: transI dest: order.strict_trans)
  have "r\<^sup>+ \<subseteq> {(a, b). rk a < rk b}\<^sup>+" using assms by (auto intro: trancl_mono)
  then have "r\<^sup>+ \<subseteq> {(a, b). rk a < rk b}" using trancl_id [OF t] by simp
  then show ?thesis unfolding acyclic_def by blast
qed


lemma tasksByOrder_edges:
  assumes "sorted_wrt (\<lambda>x y. g x < g y) ts" and "e \<in> group_edges (tasksByOrder ts)"
  shows "\<exists>u v. u \<in> set ts \<and> v \<in> set ts \<and> predecessorId e = task_id u \<and> successorId e = task_id v \<and>
               orderId u = orderId v \<and> (startTime u, g u) < (startTime v, g v)"
proof -
  from assms(2) obtain k l where kl: "(k, l) \<in> set (tasksByOrder ts)"
    and e: "e \<in> index_edges (sort_key startTime l) {1..<length l}"
    unfolding group_edges_def by blast
  have l: "l = filter (\<lambda>t. orderId t = k) ts" by (rule tasksByOrder_mem [OF kl])
  let ?srt = "sort_key startTime l"
  from e obtain a i where ai: "i < length l" "a < i"
    and pe: "predecessorId e = task_id (?srt ! a)" and se: "successorId e = task_id (?srt ! i)"
    unfolding index_edges_def by auto
  have sw: "sorted_wrt (\<lambda>x y. (startTime x, g x) < (startTime y, g y)) ?srt"
    by (rule sort_key_lex) (simp add: l sorted_wrt_filter assms(1))
  have lt: "(startTime (?srt ! a), g (?srt ! a)) < (startTime (?srt ! i), g (?srt ! i))"
    using sorted_wrt_nth_less [OF sw, of a i] ai by simp
  have mem: "?srt ! a \<in> set l" "?srt ! i \<in> set l"
    using ai nth_mem [of _ ?srt] by (simp_all add: set_sort)
  then have "?srt ! a \<in> set ts" "?srt ! i \<in> set ts" "orderId (?srt ! a) = orderId (?srt ! i)"
    unfolding l by simp_all
  then show ?thesis using pe se lt by blast
qed

lemma deps_acyclic:
  fixes g :: "stored_task \<Rightarrow> nat"
  assumes "distinct (map task_id ts)" and "sorted_wrt (\<lambda>x y. g x < g y) ts"
    and "set deps \<subseteq> group_edges (tasksByOrder ts)"
  shows "acyclic {(predecessorId e, successorId e) | e. e \<in> set deps}"
proof (rule acyclic_rank)
  let ?rk = "\<lambda>i. case map_of (map (\<lambda>t. (task_id t, t)) ts) i of None \<Rightarrow> (0, 0) | Some t \<Rightarrow> (startTime t, g t)"
  have rk: "?rk (task_id u) = (startTime u, g u)" if "u \<in> set ts" for u
  proof -
    have "distinct (map fst (map (\<lambda>t. (task_id t, t)) ts))" using assms(1) by (simp add: o_def)
    then have "map_of (map (\<lambda>t. (task_id t, t)) ts) (task_id u) = Some u"
      using that by (simp add: map_of_eq_Some_iff)
    then show ?thesis by simp
  qed
  show "{(predecessorId e, successorId e) | e. e \<in> set deps} \<subseteq> {(a, b). ?rk a < ?rk b}"
  proof clarify
    fix e assume "e \<in> set deps"
    then obtain u v where "u \<in> set ts" "v \<in> set ts" "predecessorId e = task_id u" "successorId e = task_id v"
      "(startTime u, g u) < (startTime v, g v)"
      using tasksByOrder_edges [OF assms(2)] assms(3) by blast
    then show "?rk (predecessorId e) < ?rk (successorId e)" using rk by simp
  qed
qed


lemma demo_ids_rank:
  assumes "map task_id ts = map (\<lambda>i. ''task-'' @ nat_str i) [0..<n]"
  shows "distinct (map task_id ts)"
    and "sorted_wrt (\<lambda>x y. dec_val (drop 5 (task_id x)) < dec_val (drop 5 (task_id y))) ts"
proof -
  have "map (\<lambda>t. dec_val (drop 5 (task_id t))) ts = map (\<lambda>i. dec_val (drop 5 i)) (map task_id ts)"
    by simp
  also have "\<dots> = [0..<n]" unfolding assms by (simp add: dec_val_nat_str o_def)
  finally have m: "map (\<lambda>t. dec_val (drop 5 (task_id t))) ts = [0..<n]" .
  then have "distinct (map (\<lambda>i. dec_val (drop 5 i)) (map task_id ts))" by (simp add: o_def)
  then show "distinct (map task_id ts)" by (simp only: distinct_map)
  have "sorted_wrt (<) (map (\<lambda>t. dec_val (drop 5 (task_id t))) ts)" unfolding m by simp
  then show "sorted_wrt (\<lambda>x y. dec_val (drop 5 (task_id x)) < dec_val (drop 5 (task_id y))) ts"
    by (simp add: sorted_wrt_map)
qed

lemma demo_dependencies_post:
  "draws_post (demo_dependencies r gs deps) (\<lambda>ds. set ds \<subseteq> set deps \<union> group_edges gs)"
  unfolding draws_post_def using demo_dependencies_edges by blast

lemma generateDemoData_post:
  "draws_post (generateDemoData opts now)
     (\<lambda>r. \<forall>d. r = Inr d \<longrightarrow> acyclic {(predecessorId e, successorId e) | e. e \<in> set (dd_dependencies d)} \<and>
                (\<forall>t \<in> set (dd_tasks d). 0 \<le> priority t \<and> priority t \<le> 5) \<and>
                map task_id (dd_tasks d) = map (\<lambda>i. ''task-'' @ nat_str i) [0..<case opt_taskCount opts of None \<Rightarrow> 100 | Some n \<Rightarrow> n])"
  unfolding generateDemoData_def Let_def
proof (rule draws_post_bind [OF keeps_demo_tasks demo_tasks_post], rule draws_post_sum)
  fix r :: "demo_error + stored_task list" and tasks :: "stored_task list"
  assume r: "\<forall>ts. r = Inr ts \<longrightarrow> map task_id ts = map (\<lambda>i. ''task-'' @ nat_str i) [0..<case opt_taskCount opts of None \<Rightarrow> 100 | Some n \<Rightarrow> n] \<and>
                 (\<forall>t \<in> set ts. 0 \<le> priority t \<and> priority t \<le> 5)" and rt: "r = Inr tasks"
  then have ids: "map task_id tasks = map (\<lambda>i. ''task-'' @ nat_str i) [0..<case opt_taskCount opts of None \<Rightarrow> 100 | Some n \<Rightarrow> n]"
    and pr: "\<forall>t \<in> set tasks. 0 \<le> priority t \<and> priority t \<le> 5" by simp_all
  show "draws_post (State_Monad.bind (demo_dependencies (case opt_dependencyRatio opts of None \<Rightarrow> 3 / 10 | Some r \<Rightarrow> r) (tasksByOrder tasks) [])
          (\<lambda>dependencies. State_Monad.return (Inr \<lparr>dd_tasks = tasks, dd_resources = demo_resources (case opt_resourceCount opts of None \<Rightarrow> 20 | Some n \<Rightarrow> n),
             dd_dependencies = dependencies, dd_orders = demo_orders (case opt_orderCount opts of None \<Rightarrow> 5 | Some n \<Rightarrow> n), dd_groups = demo_groups\<rparr>)))
     (\<lambda>r. \<forall>d. r = Inr d \<longrightarrow> acyclic {(predecessorId e, successorId e) | e. e \<in> set (dd_dependencies d)} \<and>
                (\<forall>t \<in> set (dd_tasks d). 0 \<le> priority t \<and> priority t \<le> 5) \<and>
                map task_id (dd_tasks d) = map (\<lambda>i. ''task-'' @ nat_str i) [0..<case opt_taskCount opts of None \<Rightarrow> 100 | Some n \<Rightarrow> n])"
  proof (rule draws_post_bind [OF keeps_demo_dependencies demo_dependencies_post], rule draws_post_return)
    fix ds :: "task_dependency list"
    assume "set ds \<subseteq> set [] \<union> group_edges (tasksByOrder tasks)"
    then have "acyclic {(predecessorId e, successorId e) | e. e \<in> set ds}"
      using deps_acyclic [OF demo_ids_rank [OF ids]] by simp
    then show "\<forall>d. Inr \<lparr>dd_tasks = tasks, dd_resources = demo_resources (case opt_resourceCount opts of None \<Rightarrow> 20 | Some n \<Rightarrow> n),
             dd_dependencies = ds, dd_orders = demo_orders (case opt_orderCount opts of None \<Rightarrow> 5 | Some n \<Rightarrow> n), dd_groups = demo_groups\<rparr> = Inr d \<longrightarrow>
          acyclic {(predecessorId e, successorId e) | e. e \<in> set (dd_dependencies d)} \<and>
                (\<forall>t \<in> set (dd_tasks d). 0 \<le> priority t \<and> priority t \<le> 5) \<and>
                map task_id (dd_tasks d) = map (\<lambda>i. ''task-'' @ nat_str i) [0..<case opt_taskCount opts of None \<Rightarrow> 100 | Some n \<Rightarrow> n]"
      using pr ids by auto
  qed
qed auto


subsection \<open>Error and success\<close>

lemma demo_task_type_error:
  "rs = [] \<or> oc = 0 \<Longrightarrow> fst (run_state (demo_task tc oc rs os now i) s) = Inl Demo_type_error"
  by (simp add: demo_task_def run_bind_state split: prod.split)

lemma demo_tasks_type_error:
  "rs = [] \<or> oc = 0 \<Longrightarrow> fst (run_state (demo_tasks tc oc rs os now (i # ixs)) s) = Inl Demo_type_error"
  by (simp only: demo_tasks.simps run_bind_state demo_task_type_error sum.case) simp

lemma demo_resources_length: "length (demo_resources n) = n"
proof -
  have "\<lfloor>real n * (2 / 5)\<rfloor> \<le> \<lfloor>real n\<rfloor>" by (rule floor_mono) simp
  then have "nat \<lfloor>real n * (2 / 5)\<rfloor> \<le> n" by simp
  then show ?thesis by (simp add: demo_resources_def Let_def)
qed

lemma demo_task_ok:
  "rs \<noteq> [] \<Longrightarrow> 0 < oc \<Longrightarrow> draws_post (demo_task tc oc rs os now i) (\<lambda>r. \<exists>t. r = Inr t)"
  unfolding demo_task_def
  by (intro draws_post_bind_random draws_post_bind_any draws_post_if draws_post_let draws_post_return
        keeps_demo_phases keeps_if keeps_bind keeps_random keeps_return; simp)

lemma demo_tasks_ok:
  "rs \<noteq> [] \<Longrightarrow> 0 < oc \<Longrightarrow> draws_post (demo_tasks tc oc rs os now ixs) (\<lambda>r. \<exists>ts. r = Inr ts)"
proof (induction ixs)
  case (Cons i ixs)
  show ?case unfolding demo_tasks.simps
    by (rule draws_post_bind [OF keeps_demo_task demo_task_ok [OF Cons.prems]])
       (auto intro!: draws_post_bind [OF keeps_demo_tasks Cons.IH [OF Cons.prems]] draws_post_return)
qed auto


lemma draws_post_conj: "draws_post m P \<Longrightarrow> draws_post m Q \<Longrightarrow> draws_post m (\<lambda>x. P x \<and> Q x)"
  by (simp add: draws_post_def)

lemma generateDemoData_ok:
  assumes "0 < resourceCount" and "0 < orderCount"
  shows "draws_post (generateDemoData \<lparr>opt_taskCount = Some taskCount, opt_resourceCount = Some resourceCount,
                                       opt_orderCount = Some orderCount, opt_dependencyRatio = Some ratio\<rparr> now)
           (\<lambda>r. \<exists>d. r = Inr d \<and> length (dd_tasks d) = taskCount \<and> dd_resources d = demo_resources resourceCount \<and>
                     dd_orders d = demo_orders orderCount)"
proof -
  have rs: "demo_resources resourceCount \<noteq> []"
    using assms(1) demo_resources_length [of resourceCount] by auto
  show ?thesis
    unfolding generateDemoData_def Let_def demo_options.simps option.case
  proof (rule draws_post_bind [OF keeps_demo_tasks draws_post_conj [OF demo_tasks_ok [OF rs assms(2)] demo_tasks_post]])
    fix r :: "demo_error + stored_task list"
    assume "(\<exists>ts. r = Inr ts) \<and> (\<forall>ts. r = Inr ts \<longrightarrow> map task_id ts = map (\<lambda>i. ''task-'' @ nat_str i) [0..<taskCount] \<and>
                 (\<forall>t \<in> set ts. 0 \<le> priority t \<and> priority t \<le> 5))"
    then obtain ts where r: "r = Inr ts" and "map task_id ts = map (\<lambda>i. ''task-'' @ nat_str i) [0..<taskCount]"
      by blast
    then have len: "length ts = taskCount" by (metis length_map length_upt minus_nat.diff_0)
    show "draws_post (case r of Inl e \<Rightarrow> State_Monad.return (Inl e)
            | Inr tasks \<Rightarrow> State_Monad.bind (demo_dependencies ratio (tasksByOrder tasks) [])
                (\<lambda>dependencies. State_Monad.return (Inr \<lparr>dd_tasks = tasks, dd_resources = demo_resources resourceCount,
                   dd_dependencies = dependencies, dd_orders = demo_orders orderCount, dd_groups = demo_groups\<rparr>)))
          (\<lambda>r. \<exists>d. r = Inr d \<and> length (dd_tasks d) = taskCount \<and> dd_resources d = demo_resources resourceCount \<and>
                     dd_orders d = demo_orders orderCount)"
      unfolding r sum.case using len by (intro draws_post_bind_any keeps_demo_dependencies draws_post_return) simp
  qed
qed

lemma generateLargeDataset_counts:
  "draws_post (generateLargeDataset n now)
     (\<lambda>r. \<exists>d. r = Inr d \<and> length (dd_tasks d) = n \<and> dd_resources d = demo_resources (min 100 (max 20 (n div 50))) \<and>
               dd_orders d = demo_orders (min 20 (max 5 (n div 200))))"
  unfolding generateLargeDataset_def Let_def by (rule generateDemoData_ok) simp_all

lemma generateLargeDataset_post:
  "draws_post (generateLargeDataset n now)
     (\<lambda>r. \<forall>d. r = Inr d \<longrightarrow> acyclic {(predecessorId e, successorId e) | e. e \<in> set (dd_dependencies d)} \<and>
                (\<forall>t \<in> set (dd_tasks d). 0 \<le> priority t \<and> priority t \<le> 5) \<and>
                map task_id (dd_tasks d) = map (\<lambda>i. ''task-'' @ nat_str i) [0..<n])"
  using generateDemoData_post [where opts = "\<lparr>opt_taskCount = Some n, opt_resourceCount = Some (min 100 (max 20 (n div 50))),
          opt_orderCount = Some (min 20 (max 5 (n div 200))), opt_dependencyRatio = Some (1 / 5)\<rparr>" and now = now]
  unfolding generateLargeDataset_def Let_def by simp

lemma acyclic_dep_subset:
  "set ds' \<subseteq> set ds \<Longrightarrow> acyclic {(predecessorId e, successorId e) | e. e \<in> set ds} \<Longrightarrow>
   acyclic {(predecessorId e, successorId e) | e. e \<in> set ds'}"
  by (rule acyclic_subset) auto

text \<open>What a load of the generated data into a store needs: the tasks keyed by their
  ids in order (the ids are distinct), and an acyclic graph for every part of the
  dependencies, such as the entries a dictionary keeps of them.\<close>

lemma generateLargeDataset_loads:
  assumes "sset s \<subseteq> {0..<1}"
  obtains d where "fst (run_state (generateLargeDataset n now) s) = Inr d"
    and "\<And>f. fold (\<lambda>t m. obj_set m (task_id t) (f t)) (dd_tasks d) [] = map (\<lambda>t. (task_id t, f t)) (dd_tasks d)"
    and "\<And>f. obj_keys (map (\<lambda>t. (task_id t, f t)) (dd_tasks d)) = map (\<lambda>i. ''task-'' @ nat_str i) [0..<n]"
    and "acyclic {(predecessorId e, successorId e) | e. e \<in> set (obj_values (obj_of_list dep_id (dd_dependencies d)))}"
proof -
  obtain d where d: "fst (run_state (generateLargeDataset n now) s) = Inr d"
    using generateLargeDataset_counts [of n now] assms unfolding draws_post_def by blast
  have post: "acyclic {(predecessorId e, successorId e) | e. e \<in> set (dd_dependencies d)}"
    "map task_id (dd_tasks d) = map (\<lambda>i. ''task-'' @ nat_str i) [0..<n]"
    using generateLargeDataset_post [of n now] assms d unfolding draws_post_def by blast+
  have dist: "distinct (map task_id (dd_tasks d))" by (rule demo_ids_rank(1) [OF post(2)])
  have "set (obj_values (obj_of_list dep_id (dd_dependencies d))) \<subseteq> set (dd_dependencies d)"
    using fold_obj_set_values [of dep_id "\<lambda>x. x" "dd_dependencies d" "[]"]
    by (simp add: obj_of_list_def obj_values_def)
  then have acyc: "acyclic {(predecessorId e, successorId e) | e. e \<in> set (obj_values (obj_of_list dep_id (dd_dependencies d)))}"
    using acyclic_dep_subset post(1) by blast
  have keys: "obj_keys (map (\<lambda>t. (task_id t, f t)) (dd_tasks d)) = map (\<lambda>i. ''task-'' @ nat_str i) [0..<n]" for f
    using post(2) by (simp add: obj_keys_def o_def)
  have fold: "fold (\<lambda>t m. obj_set m (task_id t) (f t)) (dd_tasks d) [] = map (\<lambda>t. (task_id t, f t)) (dd_tasks d)" for f
    using fold_obj_set_fresh [OF dist, of "[]" f] by simp
  show thesis by (rule that [OF d fold keys acyc])
qed

subsection \<open>The generator's contract\<close>

text \<open>C24. Every dependency graph the generator returns is acyclic: each dependency goes from
  a task to one of the same order sorted before it by (start time, index), so following
  the dependencies from a task never comes back to it.\<close>

theorem generateDemoData_acyclic:
  assumes "sset s \<subseteq> {0..<1}" and "fst (run_state (generateDemoData options now) s) = Inr d"
  shows "acyclic {(predecessorId e, successorId e) | e. e \<in> set (dd_dependencies d)}"
  using generateDemoData_post assms unfolding draws_post_def by blast


text \<open>C38. With at least one task and no resource or no order, the generator throws a
  \<open>TypeError\<close> at the first task, whatever the draws.\<close>

theorem generateDemoData_type_error:
  assumes "0 < taskCount" and "resourceCount = 0 \<or> orderCount = 0"
  shows "fst (run_state (generateDemoData \<lparr>opt_taskCount = Some taskCount, opt_resourceCount = Some resourceCount,
                                           opt_orderCount = Some orderCount, opt_dependencyRatio = ratio\<rparr> now) s)
           = Inl Demo_type_error"
proof -
  have "demo_resources resourceCount = [] \<or> orderCount = 0"
    using assms(2) demo_resources_length [of resourceCount] by auto
  moreover have "[0..<taskCount] = 0 # [1..<taskCount]" using assms(1) by (simp add: upt_conv_Cons)
  ultimately show ?thesis
    by (simp only: generateDemoData_def Let_def demo_options.simps option.case run_bind_state
                   demo_tasks_type_error sum.case) simp
qed

text \<open>C37. \<open>generateLargeDataset n\<close> always returns data: \<open>n\<close> tasks,
  \<open>min(100, max(20, n / 50))\<close> resources and \<open>min(20, max(5, n / 200))\<close> orders.\<close>

theorem generateLargeDataset_ok:
  assumes "sset s \<subseteq> {0..<1}"
  shows "\<exists>d. fst (run_state (generateLargeDataset n now) s) = Inr d \<and> length (dd_tasks d) = n \<and>
             length (dd_resources d) = min 100 (max 20 (n div 50)) \<and> length (dd_orders d) = min 20 (max 5 (n div 200))"
  using generateLargeDataset_counts [of n now] assms unfolding draws_post_def
  by (auto simp: demo_resources_length demo_orders_def)

end
