(* ===== verification/LegacySidebar.thy ===== *)
theory LegacySidebar
  imports Sidebar LegacyStore
begin

text \<open>
  The two legacy resource sidebars over the global stores, both named \<open>GanttSidebar\<close>
  and concatenated in \<open>components/GanttToolbar.tsx\<close> after the toolbar: the animated
  one (lines 146--336), which repeats the expand animation of the composable sidebar
  without its collapse button, and the plain one (lines 337--450). Both read the UI
  store's \<open>scrollY\<close> and the data store's resources, list one item per virtual row and
  toggle a group on a header click. The animation state is \<open>legacy_sidebar_state\<close>;
  what a sidebar shows is a \<open>sidebar_view\<close>: the offset of its content, its height and
  its items.
\<close>

record legacy_sidebar_state =
  lsb_prevRowIds :: "string list"
  lsb_newRowIds :: "string list"
  lsb_timeout :: bool

definition legacy_sidebar_initial :: legacy_sidebar_state where
  "legacy_sidebar_initial = \<lparr>lsb_prevRowIds = [], lsb_newRowIds = [], lsb_timeout = False\<rparr>"

text \<open>The effect on \<open>[virtualRows]\<close>, as in the composable sidebar: React first runs the
  cleanup of the previous run (\<open>clearTimeout\<close>); with new resource rows the effect sets
  \<open>newRowIds\<close> and a 300 ms timer and returns before \<open>prevRowIdsRef.current =
  currentIds\<close>.\<close>

definition legacy_sidebar_effect :: "virtual_row list \<Rightarrow> legacy_sidebar_state \<Rightarrow> legacy_sidebar_state" where
  "legacy_sidebar_effect rows st =
     (let currentIds = jsset_of_list (map row_id rows);
          newIds = sidebar_newIds rows (lsb_prevRowIds st);
          st0 = st\<lparr>lsb_timeout := False\<rparr>
      in if length newIds > 0 then st0\<lparr>lsb_newRowIds := newIds, lsb_timeout := True\<rparr>
         else st0\<lparr>lsb_prevRowIds := currentIds\<rparr>)"

definition legacy_sidebar_timeout :: "legacy_sidebar_state \<Rightarrow> legacy_sidebar_state" where
  "legacy_sidebar_timeout st = (if lsb_timeout st then st\<lparr>lsb_newRowIds := [], lsb_timeout := False\<rparr> else st)"

datatype legacy_sidebar_event = L_rows_changed "virtual_row list" | L_timeout_fired

fun legacy_sidebar_step :: "legacy_sidebar_event \<Rightarrow> legacy_sidebar_state \<Rightarrow> legacy_sidebar_state" where
  "legacy_sidebar_step (L_rows_changed rows) st = legacy_sidebar_effect rows st"
| "legacy_sidebar_step L_timeout_fired st = legacy_sidebar_timeout st"

definition legacy_sidebar_run :: "legacy_sidebar_event list \<Rightarrow> legacy_sidebar_state \<Rightarrow> legacy_sidebar_state" where
  "legacy_sidebar_run es st = fold legacy_sidebar_step es st"

text \<open>\<open>virtualRows.map((row, index) => ...)\<close> with \<open>staggerIndex = index\<close>: the same
  items as the composable sidebar's.\<close>

definition legacy_sidebar_items ::
  "(resource_id, resource) obj \<Rightarrow> legacy_sidebar_state \<Rightarrow> virtual_row list \<Rightarrow> sidebar_item list" where
  "legacy_sidebar_items rs st rows =
     map (\<lambda>(i, row). sidebar_item_of rs (lsb_newRowIds st) i row) (zip [0..<length rows] rows)"

record sidebar_view =
  sv_offsetY :: number
  sv_height :: number
  sv_items :: "sidebar_item list"

text \<open>The content is translated by \<open>-scrollY\<close> of the UI store, with the height of
  the rows.\<close>

definition legacy_sidebar_view :: "legacy_state \<Rightarrow> legacy_sidebar_state \<Rightarrow> virtual_row list \<Rightarrow> sidebar_view" where
  "legacy_sidebar_view ls st rows =
     \<lparr>sv_offsetY = - scrollY (u_viewport (l_ui ls)), sv_height = totalHeight rows,
      sv_items = legacy_sidebar_items (d_resources (present (l_data ls))) st rows\<rparr>"

text \<open>A header button: a click, or the key Enter or Space (\<open>handleKeyDown\<close>), runs
  \<open>row.groupId && toggleGroup(row.groupId)\<close> on the UI store.\<close>

definition header_key :: "string \<Rightarrow> virtual_row \<Rightarrow> store_action option" where
  "header_key key row = (if key = ''Enter'' \<or> key = '' '' then header_click row else None)"

definition legacy_header_activate :: "store_action option \<Rightarrow> legacy_state \<Rightarrow> store_err + legacy_state" where
  "legacy_header_activate a ls = (case a of None \<Rightarrow> Inr ls | Some act \<Rightarrow> legacy_dispatch act ls)"

text \<open>\<open>ResourceRow\<close>: \<open>mounted\<close> starts as \<open>!isNew\<close> and the effect on \<open>[isNew]\<close> sets
  it on the next animation frame; the style is the opacity, the horizontal offset in
  pixels and the transition delay in milliseconds.\<close>

definition resource_row_mounted :: "bool \<Rightarrow> bool \<Rightarrow> bool" where
  "resource_row_mounted isNew frame_fired = (\<not> isNew \<or> frame_fired)"

definition resource_row_style :: "bool \<Rightarrow> bool \<Rightarrow> nat \<Rightarrow> number \<times> number \<times> number" where
  "resource_row_style isNew mounted staggerIndex =
     ((if mounted then 1 else 0), (if mounted then 0 else -10), (if isNew then staggerDelay staggerIndex else 0))"

subsection \<open>The plain legacy sidebar\<close>

text \<open>Lines 337--450: the same list without animation: a header with its chevron and
  name (a \<open>div\<close> with a click handler only), or a resource row with its name and type.\<close>

definition plain_sidebar_item_of :: "(resource_id, resource) obj \<Rightarrow> virtual_row \<Rightarrow> sidebar_item" where
  "plain_sidebar_item_of rs row =
     (if isGroupHeader row then Group_header_item (groupName row) (isCollapsed row) (virtualY row) (row_height row)
      else (let resource = (case row_resourceId row of None \<Rightarrow> None | Some rid \<Rightarrow> obj_get rs rid)
            in Resource_item
                 (case resource of None \<Rightarrow> ''Unknown'' | Some r \<Rightarrow> res_name r)
                 (case resource of None \<Rightarrow> ''generic'' | Some r \<Rightarrow> resource_type_str (res_type r))
                 False 0 (virtualY row) (row_height row)))"

definition plain_sidebar_view :: "legacy_state \<Rightarrow> virtual_row list \<Rightarrow> sidebar_view" where
  "plain_sidebar_view ls rows =
     \<lparr>sv_offsetY = - scrollY (u_viewport (l_ui ls)), sv_height = totalHeight rows,
      sv_items = map (plain_sidebar_item_of (d_resources (present (l_data ls)))) rows\<rparr>"

text \<open>The animation state of the composable sidebar without its collapse flag, and its
  events without the collapse button.\<close>

definition sidebar_abs :: "sidebar_state \<Rightarrow> legacy_sidebar_state" where
  "sidebar_abs st = \<lparr>lsb_prevRowIds = sb_prevRowIds st, lsb_newRowIds = sb_newRowIds st, lsb_timeout = sb_timeout st\<rparr>"

fun sidebar_event_of :: "legacy_sidebar_event \<Rightarrow> sidebar_event" where
  "sidebar_event_of (L_rows_changed rows) = Rows_changed rows"
| "sidebar_event_of L_timeout_fired = Timeout_fired"


subsection \<open>Lemmas\<close>

lemma legacy_sidebar_step_abs:
  "legacy_sidebar_step e (sidebar_abs st) = sidebar_abs (sidebar_step (sidebar_event_of e) st)"
  by (cases e) (simp_all add: sidebar_abs_def legacy_sidebar_effect_def sidebar_effect_def Let_def
                             legacy_sidebar_timeout_def sidebar_timeout_def)

lemma legacy_sidebar_run_abs:
  "legacy_sidebar_run es (sidebar_abs st) = sidebar_abs (sidebar_run (map sidebar_event_of es) st)"
  by (induction es arbitrary: st) (simp_all add: legacy_sidebar_run_def sidebar_run_def legacy_sidebar_step_abs)

lemma sidebar_abs_collapse:
  "sidebar_abs (sidebar_step Collapse_clicked st) = sidebar_abs st"
  "sidebar_abs (sidebar_step Expand_clicked st) = sidebar_abs st"
  by (simp_all add: sidebar_abs_def)

lemma legacy_sidebar_items_abs:
  "legacy_sidebar_items rs (sidebar_abs st) rows = sidebar_items rs st rows"
  by (simp add: legacy_sidebar_items_def sidebar_items_def sidebar_abs_def)

text \<open>The animated legacy sidebar lists the same items as the composable sidebar after
  the same changes of the rows and timer events; the collapse clicks of the composable one
  leave its animation state as it is (\<open>sidebar_abs_collapse\<close>).\<close>

theorem legacy_sidebar_refines:
  "legacy_sidebar_items rs (legacy_sidebar_run es (sidebar_abs st)) rows =
     sidebar_items rs (sidebar_run (map sidebar_event_of es) st) rows"
  by (simp add: legacy_sidebar_run_abs legacy_sidebar_items_abs)

lemma sidebar_item_of_not_new:
  "row_id row \<notin> set ids \<Longrightarrow> sidebar_item_of rs ids i row = plain_sidebar_item_of rs row"
  by (simp add: sidebar_item_of_def plain_sidebar_item_of_def Let_def)

lemma map_zip_upt_snd:
  "(\<And>i x. x \<in> set xs \<Longrightarrow> f i x = g x) \<Longrightarrow> map (\<lambda>(i, x). f i x) (zip [0..<length xs] xs) = map g xs"
proof -
  assume fg: "\<And>i x. x \<in> set xs \<Longrightarrow> f i x = g x"
  have "map (\<lambda>(i, x). f i x) (zip [0..<length xs] xs) = map (\<lambda>p. g (snd p)) (zip [0..<length xs] xs)"
    by (rule map_cong [OF refl]) (auto dest: set_zip_rightD simp: fg)
  also have "\<dots> = map g (map snd (zip [0..<length xs] xs))" by (simp only: map_map o_def)
  also have "map snd (zip [0..<length xs] xs) = xs" by (rule map_snd_zip) simp
  finally show ?thesis .
qed

text \<open>When no listed row is new, the animated sidebar shows what the plain one shows.\<close>

theorem plain_sidebar_is_animated:
  assumes "\<forall>row \<in> set rows. row_id row \<notin> set (lsb_newRowIds st)"
  shows "plain_sidebar_view ls rows = legacy_sidebar_view ls st rows"
proof -
  let ?rs = "d_resources (present (l_data ls))"
  have "legacy_sidebar_items ?rs st rows = map (plain_sidebar_item_of ?rs) rows"
    unfolding legacy_sidebar_items_def
    by (rule map_zip_upt_snd) (use assms sidebar_item_of_not_new in blast)
  then show ?thesis by (simp add: plain_sidebar_view_def legacy_sidebar_view_def)
qed

lemma header_key_activate:
  assumes "row_groupId row = Some g" and "g \<noteq> []"
  shows "legacy_header_activate (header_key key row) ls =
           (if key = ''Enter'' \<or> key = '' '' then Inr (ls\<lparr>l_ui := ui_on_grouping (toggleGroup g) (l_ui ls)\<rparr>) else Inr ls)"
  using assms
  by (simp add: legacy_header_activate_def header_key_def header_click_def legacy_dispatch_def legacy_effect_apply_def)

end
