(* ===== verification/DemoRoute.thy ===== *)
theory DemoRoute
  imports DemoData LegacySidebar LegacyRows
begin

text \<open>
  The chart over the global stores, \<open>GanttChart\<close> (\<open>src/unnamed/part_014\<close>), and the
  demo page that feeds it, \<open>GanttDemo\<close> of \<open>routes/gantt.tsx\<close>. The chart loads its
  props into the legacy data store by an effect (\<open>chart_init_effect\<close>), computes the
  virtual and visible rows from the stores and splits its container between the
  toolbar, the time axis, the sidebar and the canvas (\<open>chart_layout\<close>). The page
  keeps a task count and a loading flag (\<open>demo_route_state\<close>); a count button sets the
  flag and a 10 ms timer sets the count; the data is \<open>generateLargeDataset\<close> of the
  count, recomputed when the count changes (\<open>useMemo\<close>).
\<close>

subsection \<open>\<open>GanttChart\<close>\<close>

record chart_props =
  gc_tasks :: "stored_task list option"
  gc_resources :: "resource list option"
  gc_dependencies :: "task_dependency list option"
  gc_orders :: "order list option"
  gc_groups :: "resource_group list option"
  gc_showToolbar :: bool

text \<open>The effect on the data props: \<open>if (tasks && resources) initializeData({...})\<close>.
  An array is truthy even when empty.\<close>

definition chart_init_effect :: "chart_props \<Rightarrow> legacy_state \<Rightarrow> store_err + legacy_state" where
  "chart_init_effect p ls =
     (case (gc_tasks p, gc_resources p) of
        (Some ts, Some rs) \<Rightarrow>
          legacy_dispatch (Initialize_data \<lparr>init_tasks = ts, init_resources = rs, init_dependencies = gc_dependencies p,
                                            init_orders = gc_orders p, init_groups = gc_groups p\<rparr>) ls
      | _ \<Rightarrow> Inr ls)"

record chart_layout =
  cl_toolbarHeight :: number
  cl_timelineHeight :: number
  cl_canvasWidth :: number
  cl_canvasHeight :: number

text \<open>The container size comes from the resize observer (\<open>dimensions\<close>).\<close>

definition chart_layout :: "bool \<Rightarrow> number \<Rightarrow> number \<Rightarrow> number \<Rightarrow> chart_layout" where
  "chart_layout showToolbar width height sbWidth =
     (let toolbarHeight = (if showToolbar then 44 else 0);
          timelineHeight = 50
      in \<lparr>cl_toolbarHeight = toolbarHeight, cl_timelineHeight = timelineHeight,
          cl_canvasWidth = max 0 (width - sbWidth),
          cl_canvasHeight = max 0 (height - toolbarHeight - timelineHeight)\<rparr>)"

record chart_view =
  cv_showToolbar :: bool
  cv_layout :: chart_layout
  cv_sidebarWidth :: number
  cv_virtualRows :: "virtual_row list"
  cv_visibleRows :: "virtual_row list"

text \<open>A render: the rows of \<open>useVirtualRows\<close> and \<open>useVisibleRows\<close> over the stores,
  passed to the sidebar and the canvas, and the layout with the store's
  \<open>sidebarWidth\<close>.\<close>

definition chart_view :: "chart_props \<Rightarrow> number \<Rightarrow> number \<Rightarrow> legacy_state \<Rightarrow> chart_view" where
  "chart_view p width height ls =
     (let virtualRows = useVirtualRows (present (l_data ls)) (l_ui ls);
          visibleRows = useVisibleRows virtualRows (l_ui ls)
      in \<lparr>cv_showToolbar = gc_showToolbar p,
          cv_layout = chart_layout (gc_showToolbar p) width height (u_sidebarWidth (l_ui ls)),
          cv_sidebarWidth = u_sidebarWidth (l_ui ls),
          cv_virtualRows = virtualRows, cv_visibleRows = visibleRows\<rparr>)"

subsection \<open>The demo page \<open>GanttDemo\<close>\<close>

record demo_route_state =
  dr_taskCount :: nat
  dr_isLoading :: bool
  dr_timer :: "nat option"

definition demo_route_initial :: demo_route_state where
  "demo_route_initial = \<lparr>dr_taskCount = 500, dr_isLoading = False, dr_timer = None\<rparr>"

definition demo_counts :: "nat list" where
  "demo_counts = [100, 500, 1000, 2500, 5000, 10000]"

text \<open>A count button is \<open>disabled={isLoading}\<close>; its handler sets \<open>isLoading\<close> and
  schedules \<open>setTaskCount(count); setIsLoading(false)\<close> after 10 ms.\<close>

datatype demo_route_event = Count_clicked nat | Timer_fired

fun demo_route_step :: "demo_route_event \<Rightarrow> demo_route_state \<Rightarrow> demo_route_state" where
  "demo_route_step (Count_clicked c) st =
     (if dr_isLoading st then st else st\<lparr>dr_isLoading := True, dr_timer := Some c\<rparr>)"
| "demo_route_step Timer_fired st =
     (case dr_timer st of None \<Rightarrow> st
      | Some c \<Rightarrow> st\<lparr>dr_taskCount := c, dr_isLoading := False, dr_timer := None\<rparr>)"

definition demo_route_run :: "demo_route_event list \<Rightarrow> demo_route_state \<Rightarrow> demo_route_state" where
  "demo_route_run es st = fold demo_route_step es st"

text \<open>The label \<open>count >= 1000 ? `${count / 1000}k` : count\<close>: JavaScript prints
  \<open>count / 1000\<close> with its decimal digits, the trailing zeros dropped.\<close>

fun drop_trailing_zeros :: "string \<Rightarrow> string" where
  "drop_trailing_zeros [] = []"
| "drop_trailing_zeros (c # cs) =
     (let r = drop_trailing_zeros cs in if r = [] \<and> c = CHR ''0'' then [] else c # r)"

definition count_label :: "nat \<Rightarrow> string" where
  "count_label count =
     (if 1000 \<le> count
      then (let frac = drop_trailing_zeros (drop 1 (nat_str (1000 + count mod 1000)))
            in nat_str (count div 1000) @ (if frac = [] then [] else CHR ''.'' # frac) @ ''k'')
      else nat_str count)"

text \<open>\<open>useMemo(() => generateLargeDataset(taskCount), [taskCount])\<close>, drawing from the
  stream \<open>s\<close> of \<open>Math.random\<close> at the time it runs.\<close>

definition demo_route_data :: "demo_route_state \<Rightarrow> number \<Rightarrow> real stream \<Rightarrow> demo_error + demo_data" where
  "demo_route_data st now s = fst (run_state (generateLargeDataset (dr_taskCount st) now) s)"

text \<open>The stats bar: the numbers of tasks, resources, dependencies and orders.\<close>

definition demo_stats :: "demo_data \<Rightarrow> nat \<times> nat \<times> nat \<times> nat" where
  "demo_stats d = (length (dd_tasks d), length (dd_resources d), length (dd_dependencies d), length (dd_orders d))"

text \<open>The chart area: \<open>Loading...\<close> while loading, else \<open>GanttChart\<close> with the data and
  \<open>showToolbar={true}\<close>.\<close>

definition chart_props_of :: "demo_data \<Rightarrow> chart_props" where
  "chart_props_of d =
     \<lparr>gc_tasks = Some (dd_tasks d), gc_resources = Some (dd_resources d),
      gc_dependencies = Some (dd_dependencies d), gc_orders = Some (dd_orders d),
      gc_groups = Some (dd_groups d), gc_showToolbar = True\<rparr>"

definition demo_route_chart :: "demo_route_state \<Rightarrow> demo_data \<Rightarrow> chart_props option" where
  "demo_route_chart st d = (if dr_isLoading st then None else Some (chart_props_of d))"

text \<open>The page's first render and the chart's effect: the data of the count, then the
  chart loads it into the data store.\<close>

definition demo_route_mount ::
  "demo_route_state \<Rightarrow> number \<Rightarrow> real stream \<Rightarrow> legacy_state \<Rightarrow> (demo_error + store_err) + legacy_state" where
  "demo_route_mount st now s ls =
     (case demo_route_data st now s of
        Inl e \<Rightarrow> Inl (Inl e)
      | Inr d \<Rightarrow> (case demo_route_chart st d of
                   None \<Rightarrow> Inr ls
                 | Some p \<Rightarrow> (case chart_init_effect p ls of Inl e \<Rightarrow> Inl (Inr e) | Inr ls' \<Rightarrow> Inr ls')))"


subsection \<open>Lemmas\<close>

lemma present_temporal_set [simp]: "present (temporal_set eq f h) = f (present h)"
  by (simp add: temporal_set_def Let_def)

lemma legacy_dispatch_initialize:
  "legacy_dispatch (Initialize_data dt) ls = Inr (ls\<lparr>l_data := temporal_set data_equal (data_initializeData dt) (l_data ls)\<rparr>)"
  by (simp add: legacy_dispatch_def legacy_effect_apply_def)

lemma chart_init_effect_loads:
  "chart_init_effect (chart_props_of d) ls =
     Inr (ls\<lparr>l_data := temporal_set data_equal
            (data_initializeData \<lparr>init_tasks = dd_tasks d, init_resources = dd_resources d,
               init_dependencies = Some (dd_dependencies d), init_orders = Some (dd_orders d),
               init_groups = Some (dd_groups d)\<rparr>) (l_data ls)\<rparr>)"
  by (simp add: chart_init_effect_def chart_props_of_def legacy_dispatch_initialize)

text \<open>C33. The demo page loads the generated data into the store: from its first render
  at a count \<open>n\<close> (not loading), the chart's effect leaves in the legacy data store the
  \<open>n\<close> generated tasks, hydrated, under the ids \<open>task-0\<close> to \<open>task-(n-1)\<close> in order, and
  a dependency collection whose graph is acyclic.\<close>

theorem demo_route_loads:
  assumes "sset s \<subseteq> {0..<1}" and "\<not> dr_isLoading st"
  shows "\<exists>d ls'. demo_route_data st now s = Inr d \<and> demo_route_mount st now s ls = Inr ls' \<and>
           d_tasks (present (l_data ls')) = map (\<lambda>t. (task_id t, hydrateTask t)) (dd_tasks d) \<and>
           obj_keys (d_tasks (present (l_data ls'))) = map (\<lambda>i. ''task-'' @ nat_str i) [0..<dr_taskCount st] \<and>
           acyclic {(predecessorId e, successorId e) | e. e \<in> set (obj_values (d_dependencies (present (l_data ls'))))}"
proof -
  obtain d where run: "fst (run_state (generateLargeDataset (dr_taskCount st) now) s) = Inr d"
    and fold: "\<And>f :: stored_task \<Rightarrow> task. fold (\<lambda>t m. obj_set m (task_id t) (f t)) (dd_tasks d) [] = map (\<lambda>t. (task_id t, f t)) (dd_tasks d)"
    and ids: "\<And>f :: stored_task \<Rightarrow> task. obj_keys (map (\<lambda>t. (task_id t, f t)) (dd_tasks d)) = map (\<lambda>i. ''task-'' @ nat_str i) [0..<dr_taskCount st]"
    and deps: "acyclic {(predecessorId e, successorId e) | e. e \<in> set (obj_values (obj_of_list dep_id (dd_dependencies d)))}"
    by (rule generateLargeDataset_loads [OF assms(1), where n = "dr_taskCount st" and now = now]) blast
  have d: "demo_route_data st now s = Inr d" using run by (simp add: demo_route_data_def)
  define ls' where "ls' = ls\<lparr>l_data := temporal_set data_equal
            (data_initializeData \<lparr>init_tasks = dd_tasks d, init_resources = dd_resources d,
               init_dependencies = Some (dd_dependencies d), init_orders = Some (dd_orders d),
               init_groups = Some (dd_groups d)\<rparr>) (l_data ls)\<rparr>"
  have mount: "demo_route_mount st now s ls = Inr ls'"
    using d assms(2) by (simp add: demo_route_mount_def demo_route_chart_def chart_init_effect_loads ls'_def)
  have tasks: "d_tasks (present (l_data ls')) = map (\<lambda>t. (task_id t, hydrateTask t)) (dd_tasks d)"
    using fold [of hydrateTask] by (simp add: ls'_def data_initializeData_def)
  have dep: "d_dependencies (present (l_data ls')) = obj_of_list dep_id (dd_dependencies d)"
    by (simp add: ls'_def data_initializeData_def)
  show ?thesis
  proof (intro exI conjI)
    show "demo_route_data st now s = Inr d" by (rule d)
    show "demo_route_mount st now s ls = Inr ls'" by (rule mount)
    show "d_tasks (present (l_data ls')) = map (\<lambda>t. (task_id t, hydrateTask t)) (dd_tasks d)" by (rule tasks)
    show "obj_keys (d_tasks (present (l_data ls'))) = map (\<lambda>i. ''task-'' @ nat_str i) [0..<dr_taskCount st]"
      unfolding tasks by (rule ids)
    show "acyclic {(predecessorId e, successorId e) | e. e \<in> set (obj_values (d_dependencies (present (l_data ls'))))}"
      unfolding dep by (rule deps)
  qed
qed

text \<open>A count button clicked while idle, then its timer: the page shows the new count;
  a second click before the timer is ignored, since the buttons are disabled while
  loading.\<close>

lemma demo_route_click_timer:
  "\<not> dr_isLoading st \<Longrightarrow>
   demo_route_run [Count_clicked c, Timer_fired] st = st\<lparr>dr_taskCount := c, dr_isLoading := False, dr_timer := None\<rparr>"
  by (simp add: demo_route_run_def)

lemma demo_route_second_click_ignored:
  "\<not> dr_isLoading st \<Longrightarrow>
   demo_route_run [Count_clicked c, Count_clicked c', Timer_fired] st = demo_route_run [Count_clicked c, Timer_fired] st"
  by (simp add: demo_route_run_def)

text \<open>In every state reached from the initial one, the page is loading exactly when a
  timer is pending.\<close>

lemma demo_route_loading_timer:
  "(dr_isLoading st \<longleftrightarrow> dr_timer st \<noteq> None) \<Longrightarrow>
   (dr_isLoading (demo_route_run es st) \<longleftrightarrow> dr_timer (demo_route_run es st) \<noteq> None)"
proof (induction es arbitrary: st)
  case (Cons e es)
  have "dr_isLoading (demo_route_step e st) \<longleftrightarrow> dr_timer (demo_route_step e st) \<noteq> None"
    using Cons.prems by (cases e) (auto split: option.split)
  then show ?case using Cons.IH by (simp add: demo_route_run_def)
qed (simp add: demo_route_run_def)

lemma count_labels:
  "map count_label demo_counts = [''100'', ''500'', ''1k'', ''2.5k'', ''5k'', ''10k'']"
  by (simp add: demo_counts_def count_label_def Let_def nat_str_lt nat_str_ge)

text \<open>The stats bar at a count \<open>n\<close>: \<open>n\<close> tasks and the resource and order counts of
  \<open>generateLargeDataset\<close>.\<close>

lemma demo_route_stats:
  assumes "sset s \<subseteq> {0..<1}"
  shows "\<exists>d. demo_route_data st now s = Inr d \<and>
           demo_stats d = (dr_taskCount st, min 100 (max 20 (dr_taskCount st div 50)), length (dd_dependencies d),
                           min 20 (max 5 (dr_taskCount st div 200)))"
  using generateLargeDataset_counts [of "dr_taskCount st" now] assms
  by (auto simp: demo_route_data_def demo_stats_def draws_post_def demo_resources_length demo_orders_def)

end
