(* ===== verification/LegacyChart.thy ===== *)
theory LegacyChart
  imports DemoRoute CanvasWiring
begin

text \<open>
  The canvas of the chart over the global stores, \<open>GanttCanvas\<close> of
  \<open>src/unnamed/part_011\<close>, as \<open>GanttChart\<close> renders it. Its effects are those of the
  composable canvas (\<open>comp_effects\<close> of theory \<open>CanvasWiring\<close>) with all four layers
  and the constant \<open>minResolution\<close> 30: the props come from the legacy UI and data
  stores and from the rows and canvas size \<open>GanttChart\<close> passes.
\<close>

text \<open>The store selections of the component (\<open>viewport\<close>, \<open>selection\<close>, \<open>drag\<close>,
  \<open>hoveredTaskId\<close>, \<open>tasks\<close>, \<open>dependencies\<close>), the props, and the interaction
  renderer's \<open>minResolution\<close> of 30 minutes.\<close>

definition legacy_canvas_props ::
  "legacy_state \<Rightarrow> virtual_row list \<Rightarrow> virtual_row list \<Rightarrow> number \<Rightarrow> number \<Rightarrow> comp_props" where
  "legacy_canvas_props ls vRows visRows width height =
     (let ui = l_ui ls; data = present (l_data ls)
      in \<lparr>cc_props = \<lparr>cp_viewport = u_viewport ui, cp_visibleRows = visRows, cp_virtualRows = vRows,
                       cp_tasks = d_tasks data, cp_dependencies = d_dependencies data,
                       cp_selection = sel_taskIds (u_selection ui), cp_hovered = u_hoveredTaskId ui,
                       cp_drag = u_drag ui, cp_width = width, cp_height = height\<rparr>,
          cc_layers = layer_order, cc_minResolution = 30\<rparr>)"

text \<open>\<open>GanttChart\<close> passes its virtual and visible rows and the canvas size of its layout.\<close>

definition chart_canvas :: "chart_props \<Rightarrow> number \<Rightarrow> number \<Rightarrow> legacy_state \<Rightarrow> comp_props" where
  "chart_canvas p width height ls =
     (let v = chart_view p width height ls
      in legacy_canvas_props ls (cv_virtualRows v) (cv_visibleRows v)
           (cl_canvasWidth (cv_layout v)) (cl_canvasHeight (cv_layout v)))"

text \<open>A commit of the chart after the stores changed from \<open>ls0\<close> to \<open>ls1\<close>: the canvas
  runs its effects with the props of both renders.\<close>

definition chart_canvas_update ::
  "chart_props \<Rightarrow> number \<Rightarrow> number \<Rightarrow> legacy_state \<Rightarrow> legacy_state \<Rightarrow> canvas_state \<Rightarrow> canvas_state \<times> sched_effect list" where
  "chart_canvas_update p width height ls0 ls1 cs =
     comp_update (Some (chart_canvas p width height ls0)) (chart_canvas p width height ls1) cs"

subsection \<open>Lemmas\<close>

lemma included_all_layers: "included_layers (legacy_canvas_props ls vr vis w h) = layer_order"
  by (simp add: included_layers_def legacy_canvas_props_def Let_def layer_order_def)

text \<open>Across two renders of the chart, from stores \<open>ls0\<close> to \<open>ls1\<close>, a grid, task or dependency layer
  of the canvas that the scheduler leaves clean draws what it drew before.\<close>

lemma chart_canvas_clean_fresh:
  assumes "\<not> isDestroyed (cs_scheduler cs)" and "cs_captured cs = Some (cc_props (chart_canvas p w h ls0))"
    and "chart_canvas_update p w h ls0 ls1 cs = (cs', es)"
    and "l \<noteq> Interaction" and "l \<notin> set (dirtyLayers (cs_scheduler cs'))"
  shows "layer_draw env cs' l = layer_draw env cs l"
  using comp_clean_layer_fresh [OF assms(1,2) _ assms(4,5)] assms(3) unfolding chart_canvas_update_def by blast

text \<open>The first commit of the chart at a positive canvas size sets the context of the
  four layers, builds the indexes and registers the four callbacks, and marks every
  layer dirty.\<close>

lemma chart_canvas_mount:
  assumes "0 < cl_canvasWidth (cv_layout (chart_view p w h ls))" and "0 < cl_canvasHeight (cv_layout (chart_view p w h ls))"
  shows "comp_effects None (chart_canvas p w h ls) =
           map (\<lambda>l. Set_context l (cl_canvasWidth (cv_layout (chart_view p w h ls))) (cl_canvasHeight (cv_layout (chart_view p w h ls)))) layer_order @
           [Call Mark_all_dirty, Build_indexes (cc_props (chart_canvas p w h ls)), Call (Mark_dirty_many [Tasks, Dependencies]),
            Capture (cc_props (chart_canvas p w h ls))] @
           map (\<lambda>l. Call (Register l (layer_cb l))) layer_order @ [Call Mark_all_dirty]"
  using assms
  by (simp add: comp_effects_def canvas_changed_def chart_canvas_def Let_def included_all_layers)
     (simp add: legacy_canvas_props_def Let_def)

end
