(* ===== verification/ProviderRoutes.thy ===== *)
theory ProviderRoutes
  imports DemoData RouteViews Toolbar TimelineHeader
begin

text \<open>
  The demo routes over the composable provider, concatenated in
  \<open>routes/gantt-bottom-toolbar.tsx\<close>: \<open>/gantt-bottom-toolbar\<close>, \<open>/gantt-sidebar-right\<close>
  and \<open>/gantt-minimal\<close>. Each keeps a task count, generates
  \<open>generateLargeDataset(taskCount)\<close> and hands it to \<open>Gantt.Provider\<close>, whose store is
  created once by \<open>createGanttStore(config)\<close> (\<open>src/unnamed/part_001\<close>) from the
  provider's remaining props. The minimal route adds its own corner controls and time
  navigator.
\<close>

subsection \<open>\<open>createGanttStore\<close>\<close>

record store_config =
  sc_initialZoom :: "zoom_level option"
  sc_initialTime :: "number option"
  sc_initialGrouping :: "grouping_mode option"
  sc_sidebarWidth :: "number option"
  sc_rowHeight :: "number option"
  sc_minResolution :: "number option"

definition empty_config :: store_config where
  "empty_config = \<lparr>sc_initialZoom = None, sc_initialTime = None, sc_initialGrouping = None,
                   sc_sidebarWidth = None, sc_rowHeight = None, sc_minResolution = None\<rparr>"

text \<open>The config overrides: \<open>if (config.x)\<close> tests truthiness, so a time, width or row
  height of 0 is ignored; every grouping mode is a non-empty string; only
  \<open>minResolution\<close> is tested with \<open>!== undefined\<close>.\<close>

definition createGanttStore :: "store_config \<Rightarrow> number \<Rightarrow> store_state" where
  "createGanttStore config now =
     (let s0 = createInitialState now;
          s1 = (case sc_initialZoom config of None \<Rightarrow> s0
                | Some z \<Rightarrow> s0\<lparr>viewport := (viewport s0)\<lparr>zoomLevel := z, pixelsPerHour := zoom_config_pph z\<rparr>\<rparr>);
          s2 = (case sc_initialTime config of None \<Rightarrow> s1
                | Some t \<Rightarrow> if t \<noteq> 0 then s1\<lparr>viewport := (viewport s1)\<lparr>timeOrigin := t - 24 * 60 * 60 * 1000\<rparr>\<rparr> else s1);
          s3 = (case sc_initialGrouping config of None \<Rightarrow> s2
                | Some m \<Rightarrow> s2\<lparr>grouping := (grouping s2)\<lparr>mode := m\<rparr>\<rparr>);
          s4 = (case sc_sidebarWidth config of None \<Rightarrow> s3
                | Some w \<Rightarrow> if w \<noteq> 0 then s3\<lparr>sidebarWidth := w\<rparr> else s3);
          s5 = (case sc_rowHeight config of None \<Rightarrow> s4
                | Some h \<Rightarrow> if h \<noteq> 0 then s4\<lparr>viewport := (viewport s4)\<lparr>rowHeight := h\<rparr>\<rparr> else s4)
      in (case sc_minResolution config of None \<Rightarrow> s5 | Some r \<Rightarrow> s5\<lparr>minResolution := r\<rparr>))"

subsection \<open>The routes\<close>

text \<open>The count buttons of \<open>TaskCountSelector\<close> (bottom toolbar and right sidebar
  routes) and of \<open>MinimalHeader\<close>; a click is \<open>setTaskCount(count)\<close>.\<close>

definition selector_counts :: "nat list" where
  "selector_counts = [100, 500, 1000, 2500]"

definition minimal_counts :: "nat list" where
  "minimal_counts = [100, 500, 1000]"

text \<open>\<open>initialZoom="day"\<close> of the minimal route; the other two pass no config.\<close>

definition minimal_config :: store_config where
  "minimal_config = empty_config\<lparr>sc_initialZoom := Some Day\<rparr>"

definition route_provider_props :: "demo_data \<Rightarrow> provider_props" where
  "route_provider_props d =
     \<lparr>pp_tasks = Some (dd_tasks d), pp_resources = Some (dd_resources d),
      pp_dependencies = Some (dd_dependencies d), pp_orders = Some (dd_orders d),
      pp_groups = Some (dd_groups d)\<rparr>"

definition no_callbacks :: provider_callbacks where
  "no_callbacks = \<lparr>has_onTaskChange = False, has_onSelectionChange = False, has_onViewportChange = False\<rparr>"

text \<open>A route's first render at a count: the data of the count, the provider's store
  created from the config, then the provider's data effect.\<close>

definition route_mount ::
  "store_config \<Rightarrow> nat \<Rightarrow> number \<Rightarrow> real stream \<Rightarrow> (demo_error + store_err) + store_state history" where
  "route_mount config n now s =
     (case fst (run_state (generateLargeDataset n now) s) of
        Inl e \<Rightarrow> Inl (Inl e)
      | Inr d \<Rightarrow> (case provider_init no_callbacks (route_provider_props d) (init_history (createGanttStore config now)) of
                   Inl e \<Rightarrow> Inl (Inr e)
                 | Inr (h, _) \<Rightarrow> Inr h))"

text \<open>\<open>MinimalHeader\<close>: the visible time range it prints.\<close>

definition minimal_header_range :: "viewport_state \<Rightarrow> number \<times> number" where
  "minimal_header_range v = (visibleStartTime v, visibleEndTime v (vp_width v))"

text \<open>\<open>CornerControls\<close>: zoom by 1.3 and 0.7 about the middle of the canvas, and undo and
  redo, disabled when the history has nothing to undo or redo.\<close>

datatype corner_button = Corner_zoom_in | Corner_zoom_out | Corner_undo | Corner_redo

fun corner_events :: "viewport_state \<Rightarrow> corner_button \<Rightarrow> session_event list" where
  "corner_events v Corner_zoom_in = [Act (Zoom_viewport (13 / 10) (vp_width v / 2))]"
| "corner_events v Corner_zoom_out = [Act (Zoom_viewport (7 / 10) (vp_width v / 2))]"
| "corner_events v Corner_undo = [Undo]"
| "corner_events v Corner_redo = [Redo]"

definition corner_click ::
  "provider_callbacks \<Rightarrow> corner_button \<Rightarrow> store_state history \<Rightarrow> store_err + store_state history \<times> provider_event list" where
  "corner_click cbs b h =
     (if (b = Corner_undo \<longrightarrow> useGanttCanUndo h) \<and> (b = Corner_redo \<longrightarrow> useGanttCanRedo h)
      then provider_run cbs (corner_events (viewport (present h)) b) h else Inr (h, []))"

text \<open>\<open>TimeNavigator\<close>: pan left by half the width, today, pan right.\<close>

definition time_navigator :: "number \<Rightarrow> toolbar_button list" where
  "time_navigator now = [Pan_left_btn, Today_btn now, Pan_right_btn]"

subsection \<open>Lemmas\<close>

lemma createGanttStore_empty: "createGanttStore empty_config now = createInitialState now"
  by (simp add: createGanttStore_def empty_config_def)

text \<open>The minimal route's \<open>initialZoom="day"\<close> changes nothing: day zoom at 10 pixels
  per hour is the initial viewport already.\<close>

lemma createGanttStore_minimal: "createGanttStore minimal_config now = createInitialState now"
  by (simp add: createGanttStore_def minimal_config_def empty_config_def createInitialState_def)

text \<open>An \<open>initialTime\<close> of 0 (the epoch) is falsy and ignored.\<close>

lemma createGanttStore_time_zero:
  "createGanttStore (c\<lparr>sc_initialTime := Some 0\<rparr>) now = createGanttStore (c\<lparr>sc_initialTime := None\<rparr>) now"
  by (simp add: createGanttStore_def)

lemma provider_init_route:
  "provider_init no_callbacks (route_provider_props d) h =
     Inr (handle_set (initializeData \<lparr>init_tasks = dd_tasks d, init_resources = dd_resources d,
            init_dependencies = Some (dd_dependencies d), init_orders = Some (dd_orders d),
            init_groups = Some (dd_groups d)\<rparr>) h, [])"
  by (simp add: provider_init_def route_provider_props_def provider_dispatch_def provider_set_def
                provider_notify_def no_callbacks_def)

text \<open>A route's first render loads the generated data into the provider's store, keyed
  \<open>task-0\<close> to \<open>task-(n-1)\<close> with an acyclic dependency graph, and keeps the viewport
  the config gave the store.\<close>

lemma route_mount_loads:
  assumes "sset s \<subseteq> {0..<1}"
  shows "\<exists>d h. fst (run_state (generateLargeDataset n now) s) = Inr d \<and> route_mount config n now s = Inr h \<and>
           tasks (present h) = map (\<lambda>t. (task_id t, hydrateTask t)) (dd_tasks d) \<and>
           obj_keys (tasks (present h)) = map (\<lambda>i. ''task-'' @ nat_str i) [0..<n] \<and>
           acyclic {(predecessorId e, successorId e) | e. e \<in> set (obj_values (dependencies (present h)))} \<and>
           viewport (present h) = viewport (createGanttStore config now)"
proof -
  obtain d where run: "fst (run_state (generateLargeDataset n now) s) = Inr d"
    and fold: "\<And>f :: stored_task \<Rightarrow> task. fold (\<lambda>t m. obj_set m (task_id t) (f t)) (dd_tasks d) [] = map (\<lambda>t. (task_id t, f t)) (dd_tasks d)"
    and ids: "\<And>f :: stored_task \<Rightarrow> task. obj_keys (map (\<lambda>t. (task_id t, f t)) (dd_tasks d)) = map (\<lambda>i. ''task-'' @ nat_str i) [0..<n]"
    and deps: "acyclic {(predecessorId e, successorId e) | e. e \<in> set (obj_values (obj_of_list dep_id (dd_dependencies d)))}"
    by (rule generateLargeDataset_loads [OF assms, where n = n and now = now]) blast
  define h where "h = handle_set (initializeData \<lparr>init_tasks = dd_tasks d, init_resources = dd_resources d,
            init_dependencies = Some (dd_dependencies d), init_orders = Some (dd_orders d),
            init_groups = Some (dd_groups d)\<rparr>) (init_history (createGanttStore config now))"
  have mount: "route_mount config n now s = Inr h"
    using run by (simp add: route_mount_def provider_init_route h_def)
  have pres: "present h = initializeData \<lparr>init_tasks = dd_tasks d, init_resources = dd_resources d,
            init_dependencies = Some (dd_dependencies d), init_orders = Some (dd_orders d),
            init_groups = Some (dd_groups d)\<rparr> (createGanttStore config now)"
    by (simp add: h_def temporal_set_def init_history_def Let_def)
  have tasks: "tasks (present h) = map (\<lambda>t. (task_id t, hydrateTask t)) (dd_tasks d)"
    using fold [of hydrateTask] by (simp add: pres initializeData_def)
  have dep: "dependencies (present h) = obj_of_list dep_id (dd_dependencies d)"
    by (simp add: pres initializeData_def)
  show ?thesis
  proof (intro exI conjI)
    show "fst (run_state (generateLargeDataset n now) s) = Inr d" by (rule run)
    show "route_mount config n now s = Inr h" by (rule mount)
    show "tasks (present h) = map (\<lambda>t. (task_id t, hydrateTask t)) (dd_tasks d)" by (rule tasks)
    show "obj_keys (tasks (present h)) = map (\<lambda>i. ''task-'' @ nat_str i) [0..<n]"
      unfolding tasks by (rule ids)
    show "acyclic {(predecessorId e, successorId e) | e. e \<in> set (obj_values (dependencies (present h)))}"
      unfolding dep by (rule deps)
    show "viewport (present h) = viewport (createGanttStore config now)"
      by (simp add: pres initializeData_def)
  qed
qed

text \<open>The corner controls do not undo each other: zooming in by 1.3 and out by 0.7 leaves
  the zoom at 91\% of what it was, away from the bounds.\<close>

lemma corner_zoom_in_out:
  assumes "25 / 91 \<le> pixelsPerHour v" and "pixelsPerHour v \<le> 1200 / 13"
  shows "pixelsPerHour (zoomViewport (7 / 10) c (zoomViewport (13 / 10) c v)) = pixelsPerHour v * 91 / 100"
  using assms by (simp add: zoomViewport_def Let_def)

lemma corner_undo_disabled: "\<not> useGanttCanUndo h \<Longrightarrow> corner_click cbs Corner_undo h = Inr (h, [])"
  by (simp add: corner_click_def)

lemma corner_redo_disabled: "\<not> useGanttCanRedo h \<Longrightarrow> corner_click cbs Corner_redo h = Inr (h, [])"
  by (simp add: corner_click_def)

end
