(* ===== verification/Samples.thy ===== *)
theory Samples
  imports Task Viewport RowLayout Scheduler Indexes History Interaction Renderers LegacyStore Hook CanvasWiring LegacyRows TimelineHeader Provider Sidebar Toolbar RouteViews ThemeColors Colors DemoData LegacySidebar DemoRoute LegacyChart ProviderRoutes
begin

text \<open>
  Concrete inputs at which the hypotheses of the development's theorems hold, and the
  witness theorems that apply each theorem there, evaluated by the simplifier.
\<close>

definition sample_phases :: "task_phase list" where
  "sample_phases =
     [\<lparr>phase_type = Setup, duration = 20, phase_color = None\<rparr>,
      \<lparr>phase_type = Execution, duration = 100, phase_color = None\<rparr>,
      \<lparr>phase_type = Cleanup, duration = 20, phase_color = None\<rparr>]"

definition sample_stored :: stored_task where
  "sample_stored =
     \<lparr>task_id = ''t1'', startTime = 3600000, phases = sample_phases, resourceId = ''r1'',
      orderId = ''o1'', task_name = ''Task 1'', task_color = None, priority = 1,
      status = Scheduled, progress = 0, task_constraints = None\<rparr>"

definition sample_viewport :: viewport_state where
  "sample_viewport =
     \<lparr>scrollX = 100, timeOrigin = 0, pixelsPerHour = 10, scrollY = 0, rowHeight = 40,
      vp_width = 800, vp_height = 600, zoomLevel = Day\<rparr>"

definition sample_resource :: "string \<Rightarrow> resource_type \<Rightarrow> resource" where
  "sample_resource i t = \<lparr>res_id = i, res_name = i, res_type = t, capacity = 1, res_groupId = None\<rparr>"

definition sample_resources :: "(resource_id, resource) obj" where
  "sample_resources =
     [(''r1'', sample_resource ''r1'' Operator), (''r2'', sample_resource ''r2'' Machine),
      (''r3'', sample_resource ''r3'' Operator)]"

definition sample_grouping :: grouping_state where
  "sample_grouping = \<lparr>mode = Group_none, expandedGroups = [''type-operator'']\<rparr>"

definition sample_scheduler :: scheduler where
  "sample_scheduler =
     \<lparr>frameId = Some 3, dirtyLayers = [Interaction, Grid],
      renderers = [(Grid, \<lparr>cb_name = ''grid'', cb_throws = True\<rparr>),
                   (Tasks, \<lparr>cb_name = ''tasks'', cb_throws = False\<rparr>),
                   (Interaction, \<lparr>cb_name = ''interaction'', cb_throws = False\<rparr>)],
      isDestroyed = False, next_frame = 4\<rparr>"

definition sample_dependency :: "string \<Rightarrow> task_id \<Rightarrow> task_id \<Rightarrow> task_dependency" where
  "sample_dependency i p q = \<lparr>dep_id = i, predecessorId = p, successorId = q, dep_type = FS, lag = 0\<rparr>"

text \<open>A cycle \<open>a -> b -> c -> a\<close> and an edge \<open>c -> d\<close>.\<close>

definition sample_dependencies :: "task_dependency list" where
  "sample_dependencies =
     [sample_dependency ''d1'' ''a'' ''b'', sample_dependency ''d2'' ''b'' ''c'',
      sample_dependency ''d3'' ''c'' ''a'', sample_dependency ''d4'' ''c'' ''d'']"

definition sample_index_manager :: index_manager where
  "sample_index_manager =
     \<lparr>spatialIndex = \<lparr>tree = [], taskBoundsMap = []\<rparr>, resourceTasksIndex = [],
      orderTasksIndex = [], predecessorIndex = [], successorIndex = [], dependencyMap = [],
      taskDependenciesIndex = [], im_virtualRows = [], rowByResourceId = []\<rparr>"

definition sample_task :: task where
  "sample_task = hydrateTask sample_stored"


definition sample_init_data :: init_data where
  "sample_init_data =
     \<lparr>init_tasks = [sample_stored], init_resources = [sample_resource ''r1'' Operator],
      init_dependencies = None, init_orders = None, init_groups = None\<rparr>"


definition sample_store :: store_state where
  "sample_store = initializeData sample_init_data (createInitialState 0)"


definition sample_drag_state :: "drag_type \<Rightarrow> number \<Rightarrow> number \<Rightarrow> drag_state" where
  "sample_drag_state ty ps pe =
     \<lparr>dtype = ty, drag_taskId = ''t1'', originalTask = sample_task,
      previewStartTime = ps, previewEndTime = pe, previewResourceId = ''r1'', collisions = [],
      dependencyViolations = [], startX = 0, startY = 0, currentX = 10, currentY = 0\<rparr>"

definition sample_renderer :: renderer where
  "sample_renderer = \<lparr>has_ctx = True, r_width = 800, r_height = 600\<rparr>"

definition sample_data :: data_state where
  "sample_data = data_initialState\<lparr>d_tasks := [(''t1'', sample_task)]\<rparr>"

definition sample_ui :: ui_state where
  "sample_ui = (ui_initialState 0)\<lparr>u_drag := Some (sample_drag_state Move 7200000 15600000)\<rparr>"

definition sample_legacy :: legacy_state where
  "sample_legacy = \<lparr>l_data = init_history sample_data, l_ui = ui_initialState 0\<rparr>"

definition sample_drag_started :: drag_state where
  "sample_drag_started =
     \<lparr>dtype = Move, drag_taskId = ''t1'', originalTask = sample_task,
      previewStartTime = 3600000, previewEndTime = 12000000, previewResourceId = ''r1'', collisions = [],
      dependencyViolations = [], startX = 0, startY = 0, currentX = 0, currentY = 0\<rparr>"


definition sample_cb :: render_callback where
  "sample_cb = \<lparr>cb_name = ''drawGrid'', cb_throws = False\<rparr>"


definition sample_phases_scaled :: "task_phase list" where
  "sample_phases_scaled =
     [\<lparr>phase_type = Setup, duration = 9, phase_color = None\<rparr>,
      \<lparr>phase_type = Execution, duration = 43, phase_color = None\<rparr>,
      \<lparr>phase_type = Cleanup, duration = 9, phase_color = None\<rparr>]"


definition sample_fixed_store :: store_state where
  "sample_fixed_store =
     sample_store\<lparr>tasks := [(''t1'', sample_task\<lparr>task_constraints :=
        Some \<lparr>earliestStart = None, latestEnd = None, fixedTime = Some True\<rparr>\<rparr>)]\<rparr>"


definition sample_gesture :: "number \<Rightarrow> session_event list" where
  "sample_gesture dx = [Act (Start_drag ''t1'' Move 0 0), Act (Update_drag dx 0), Act Commit_drag]"


definition sample_env :: ui_env where
  "sample_env = \<lparr>canvas_rect = Some (0, 0), viewportManager = None, indexManager = sample_index_manager\<rparr>"

definition sample_pressed :: interaction_state where
  "sample_pressed =
     \<lparr>isMouseDown = True, mouseDownX = 0, mouseDownY = 0, mouseDownTime = 0,
      hitTaskId = Some ''t1'', hitZone = Some Zone_body, isDragging = False\<rparr>"

definition sample_canvas_props :: canvas_props where
  "sample_canvas_props =
     \<lparr>cp_viewport = sample_viewport, cp_visibleRows = [], cp_virtualRows = [], cp_tasks = [],
      cp_dependencies = [], cp_selection = [], cp_hovered = None, cp_drag = None,
      cp_width = 800, cp_height = 600\<rparr>"

definition sample_canvas_state :: canvas_state where
  "sample_canvas_state =
     \<lparr>cs_scheduler = sample_scheduler, cs_index = sample_index_manager, cs_gridR = sample_renderer,
      cs_tasksR = sample_renderer, cs_depsR = sample_renderer, cs_interR = sample_renderer,
      cs_captured = Some sample_canvas_props\<rparr>"

subsection \<open>Witnesses\<close>

text \<open>Stylesheets that define \<open>--border\<close> in both themes and \<open>--background\<close> in the
  dark one only, and stylesheets that define nothing.\<close>

definition sample_dom :: dom_env where
  "sample_dom =
     \<lparr>dark_class = False,
      css_rules = (\<lambda>b k. if k = ''--border'' then (if b then ''#334155'' else ''#e2e8f0'')
                         else if k = ''--background'' \<and> b then ''#0f172a'' else []),
      computed_color = (\<lambda>_ _. [])\<rparr>"

definition sample_dom_unset :: dom_env where
  "sample_dom_unset = \<lparr>dark_class = False, css_rules = (\<lambda>_ _. []), computed_color = (\<lambda>_ _. [])\<rparr>"

definition sample_demo_options :: demo_options where
  "sample_demo_options = \<lparr>opt_taskCount = Some 3, opt_resourceCount = Some 2, opt_orderCount = Some 1,
                          opt_dependencyRatio = Some 1\<rparr>"

theorem viewport_transform_roundtrip_witness:
  "0 < pixelsPerHour sample_viewport \<and>
   xToTime sample_viewport (timeToX sample_viewport 7200000) = 7200000 \<and>
   timeToX sample_viewport 7200000 = -80"
  using Viewport.viewport_transform_roundtrip [of sample_viewport 7200000 0 0 0]
  by (simp add: sample_viewport_def timeToX_def MS_PER_HOUR_def)

theorem zoomViewport_keeps_anchor_witness:
  "0 < pixelsPerHour sample_viewport \<and>
   xToTime (zoomViewport 2 50 sample_viewport) 50 = xToTime sample_viewport 50 \<and>
   xToTime (zoomViewport (1 / 4) 100 sample_viewport) 100 \<noteq> xToTime sample_viewport 100"
proof -
  have pos: "0 < pixelsPerHour sample_viewport" by (simp add: sample_viewport_def)
  have "xToTime (zoomViewport 2 50 sample_viewport) 50 = xToTime sample_viewport 50"
    using Viewport.zoomViewport_keeps_anchor [OF pos, of 2 50]
    by (simp add: sample_viewport_def zoomViewport_def Let_def)
  moreover have "xToTime (zoomViewport (1 / 4) 100 sample_viewport) 100 \<noteq> xToTime sample_viewport 100"
    using Viewport.zoomViewport_keeps_anchor [OF pos, of "1 / 4" 100]
    by (simp add: sample_viewport_def zoomViewport_def Let_def)
  ultimately show ?thesis using pos by simp
qed

theorem hydrate_dehydrate_roundtrip_witness:
  "task_consistent (hydrateTask sample_stored) \<and>
   hydrateTask (dehydrate (hydrateTask sample_stored)) = hydrateTask sample_stored \<and>
   endTime (hydrateTask sample_stored) = 12000000"
proof -
  have c: "task_consistent (hydrateTask sample_stored)" by (rule hydrateTask_consistent)
  show ?thesis
    using c Task.hydrate_dehydrate_roundtrip [OF c]
    by (simp add: sample_stored_def sample_phases_def calculateTotalDuration_def)
qed

theorem getPhaseRanges_tile_witness:
  "fst (snd (snd (last (getPhaseRanges (hydrateTask sample_stored))))) = 12000000 \<and>
   fst (snd (getPhaseRanges (hydrateTask sample_stored) ! 1)) = 4800000"
proof -
  have c: "task_consistent (hydrateTask sample_stored)" by (rule hydrateTask_consistent)
  have ne: "phases (hydrateTask sample_stored) \<noteq> []"
    by (simp add: sample_stored_def sample_phases_def)
  have "fst (snd (snd (last (getPhaseRanges (hydrateTask sample_stored))))) =
          endTime (hydrateTask sample_stored)"
    using Task.getPhaseRanges_tile [OF c ne] by blast
  then show ?thesis
    by (simp add: sample_stored_def sample_phases_def calculateTotalDuration_def
                  getPhaseRanges_def)
qed

theorem setGroupingMode_collapses_witness:
  "expandedGroups (setGroupingMode Group_resource_type sample_grouping) = [] \<and>
   length (layout_of sample_resources [] [] (setGroupingMode Group_resource_type sample_grouping) 40) = 2 \<and>
   collapsed_header (layout_of sample_resources [] [] (setGroupingMode Group_resource_type sample_grouping) 40 ! 0) \<and>
   collapsed_header (layout_of sample_resources [] [] (setGroupingMode Group_resource_type sample_grouping) 40 ! 1)"
proof -
  let ?L = "layout_of sample_resources [] [] (setGroupingMode Group_resource_type sample_grouping) 40"
  have m: "Group_resource_type \<noteq> Group_none" by simp
  have all: "expandedGroups (setGroupingMode Group_resource_type sample_grouping) = [] \<and>
             (\<forall>r \<in> set ?L. collapsed_header r)"
    by (rule RowLayout.setGroupingMode_collapses [OF m])
  have len: "length ?L = 2"
    by (simp add: layout_of_def virtualRows_def setGroupingMode_def sample_resources_def
                  sample_resource_def obj_values_def jsset_of_list_def jsset_add_def
                  emit_group_def Let_def)
  show ?thesis using all len by (simp add: nth_mem)
qed

theorem virtualRows_none_witness:
  "(1::nat) < length (obj_values sample_resources) \<and>
   virtualRows sample_resources [] [] Group_none [] 40 ! 1 =
     resource_row ''resource-r2'' (sample_resource ''r2'' Machine) 40 40 None"
  using RowLayout.virtualRows_none [of sample_resources "[]" "[]" "[]" 40]
  by (simp add: sample_resources_def obj_values_def sample_resource_def)

theorem render_pass_witness:
  "fire sample_scheduler =
     (sample_scheduler\<lparr>frameId := None, dirtyLayers := []\<rparr>,
      [Draw_failed Grid ''grid'', Drawn Interaction ''interaction''])"
proof -
  have nd: "\<not> isDestroyed (sample_scheduler\<lparr>frameId := None\<rparr>)"
    by (simp add: sample_scheduler_def)
  have r: "render (sample_scheduler\<lparr>frameId := None\<rparr>) = fire sample_scheduler"
    by (simp add: fire_def)
  have "map effect_layer (snd (fire sample_scheduler)) = [Some Grid, Some Interaction]"
    using Scheduler.render_pass [OF nd, of "fst (fire sample_scheduler)" "snd (fire sample_scheduler)"] r
    by (simp add: sample_scheduler_def layer_order_def obj_get_def)
  then show ?thesis
    by (simp add: fire_def render_def render_layer_effect_def layer_order_def sample_scheduler_def
                  obj_get_def)
qed

theorem sched_reachable_inv_witness:
  "sched_reachable (fst (markDirty Grid init_scheduler)) [1] \<and>
   frameId (fst (markDirty Grid init_scheduler)) = Some 1"
proof -
  have step: "sched_reachable (fst (markDirty Grid init_scheduler))
                (env_apply [] (snd (markDirty Grid init_scheduler)))"
    using sched_reachable.call [OF sched_reachable.start, of "Mark_dirty Grid"] by simp
  have eff: "snd (markDirty Grid init_scheduler) = [Request_frame 1]"
    by (simp add: markDirty_def scheduleRender_def init_scheduler_def)
  have reach: "sched_reachable (fst (markDirty Grid init_scheduler)) [1]"
    using step eff by simp
  have "[1] = (case frameId (fst (markDirty Grid init_scheduler)) of None \<Rightarrow> [] | Some i \<Rightarrow> [i])"
    using Scheduler.sched_reachable_inv [OF reach] by blast
  with reach show ?thesis by (simp split: option.splits)
qed

theorem markDirty_coalesces_witness:
  "snd (markDirty Tasks sample_scheduler) = [] \<and>
   snd (markDirty Grid init_scheduler) = [Request_frame 1]"
proof -
  have nd1: "\<not> isDestroyed sample_scheduler" by (simp add: sample_scheduler_def)
  have nd2: "\<not> isDestroyed init_scheduler" by (simp add: init_scheduler_def)
  show ?thesis
    using Scheduler.markDirty_coalesces [OF nd1, of Tasks "fst (markDirty Tasks sample_scheduler)"
            "snd (markDirty Tasks sample_scheduler)"]
          Scheduler.markDirty_coalesces [OF nd2, of Grid "fst (markDirty Grid init_scheduler)"
            "snd (markDirty Grid init_scheduler)"]
    by (simp add: sample_scheduler_def init_scheduler_def)
qed

theorem virtualRows_contiguous_witness:
  "0 \<le> (40::real) \<and> contiguous_from 0 (virtualRows sample_resources [] [] Group_resource_type [''type-operator''] 40) \<and>
   map virtualY (virtualRows sample_resources [] [] Group_resource_type [''type-operator''] 40) = [0, 32, 72, 112]"
proof -
  have "contiguous_from 0 (virtualRows sample_resources [] [] Group_resource_type [''type-operator''] 40) \<and>
        sorted (map virtualY (virtualRows sample_resources [] [] Group_resource_type [''type-operator''] 40))"
    by (rule RowLayout.virtualRows_contiguous) simp
  moreover have "map virtualY (virtualRows sample_resources [] [] Group_resource_type [''type-operator''] 40) = [0, 32, 72, 112]"
    by (simp add: virtualRows_def sample_resources_def sample_resource_def obj_values_def
                  jsset_of_list_def jsset_add_def emit_group_def Let_def GROUP_HEADER_HEIGHT_def)
  ultimately show ?thesis by simp
qed

theorem getTaskDependencies_buildIndexes_witness:
  "distinct (map dep_id sample_dependencies) \<and>
   set (getTaskDependencies (buildIndexes [] sample_dependencies [] sample_index_manager) ''c'') =
     {sample_dependency ''d2'' ''b'' ''c'', sample_dependency ''d3'' ''c'' ''a'',
      sample_dependency ''d4'' ''c'' ''d''}"
proof -
  have d: "distinct (map dep_id sample_dependencies)"
    by (simp add: sample_dependencies_def sample_dependency_def)
  have eq: "set (getTaskDependencies (buildIndexes [] sample_dependencies [] sample_index_manager) ''c'') =
            {d \<in> set sample_dependencies. predecessorId d = ''c'' \<or> successorId d = ''c''}"
    by (rule Indexes.getTaskDependencies_buildIndexes [OF d])
  have "{d \<in> set sample_dependencies. predecessorId d = ''c'' \<or> successorId d = ''c''} =
        {sample_dependency ''d2'' ''b'' ''c'', sample_dependency ''d3'' ''c'' ''a'',
         sample_dependency ''d4'' ''c'' ''d''}"
    unfolding set_filter [symmetric] by (simp add: sample_dependencies_def sample_dependency_def)
  with d eq show ?thesis by simp
qed

theorem buildIndexes_layout_rows_witness:
  "0 \<le> (40::real) \<and>
   getTotalHeight (buildIndexes [] [] (layout_of sample_resources [] [] sample_grouping 40) sample_index_manager) = 120 \<and>
   layout_of sample_resources [] [] sample_grouping 40 ! 1 \<in>
     set (fst (getVisibleRows (buildIndexes [] [] (layout_of sample_resources [] [] sample_grouping 40) sample_index_manager) 50 10))"
proof -
  let ?rows = "layout_of sample_resources [] [] sample_grouping 40"
  let ?im = "buildIndexes [] [] ?rows sample_index_manager"
  have h: "0 \<le> (40::real)" by simp
  have rows: "?rows =
      [resource_row ''resource-r1'' (sample_resource ''r1'' Operator) 0 40 None,
       resource_row ''resource-r2'' (sample_resource ''r2'' Machine) 40 40 None,
       resource_row ''resource-r3'' (sample_resource ''r3'' Operator) 80 40 None]"
    by (simp add: layout_of_def sample_grouping_def virtualRows_def sample_resources_def
                  obj_values_def sample_resource_def)
  have T: "getTotalHeight ?im = rows_height ?rows \<and>
        (\<forall>j < length ?rows. 50 < virtualY (?rows ! j) + row_height (?rows ! j) \<and>
                           virtualY (?rows ! j) \<le> 50 + 10 \<longrightarrow>
                           ?rows ! j \<in> set (fst (getVisibleRows ?im 50 10)))"
    using Indexes.buildIndexes_layout_rows [OF h, where res = sample_resources and tm = "[]"
            and os = "[]" and g = sample_grouping and ts = "[]" and deps = "[]"
            and im = sample_index_manager and sy = 50 and vh = 10]
    unfolding Let_def .
  then have t1: "getTotalHeight ?im = rows_height ?rows" by (rule conjunct1)
  from T have t2: "1 < length ?rows \<Longrightarrow> 50 < virtualY (?rows ! 1) + row_height (?rows ! 1) \<Longrightarrow>
                   virtualY (?rows ! 1) \<le> 50 + 10 \<Longrightarrow> ?rows ! 1 \<in> set (fst (getVisibleRows ?im 50 10))"
    by blast
  have p1: "1 < length ?rows" "50 < virtualY (?rows ! 1) + row_height (?rows ! 1)"
           "virtualY (?rows ! 1) \<le> 50 + 10" "rows_height ?rows = 120"
    by (simp_all only: rows) simp_all
  show ?thesis using t1 t2 [OF p1(1-3)] p1(4) by simp
qed

theorem getVisibleRows_all_above_witness:
  "im_virtualRows (sample_index_manager\<lparr>im_virtualRows := virtualRows sample_resources [] [] Group_none [] 40\<rparr>) \<noteq> [] \<and>
   getVisibleRows (sample_index_manager\<lparr>im_virtualRows := virtualRows sample_resources [] [] Group_none [] 40\<rparr>) 500 100 =
     (virtualRows sample_resources [] [] Group_none [] 40, 0, 3)"
proof -
  let ?im = "sample_index_manager\<lparr>im_virtualRows := virtualRows sample_resources [] [] Group_none [] 40\<rparr>"
  have rows: "virtualRows sample_resources [] [] Group_none [] 40 =
      [resource_row ''resource-r1'' (sample_resource ''r1'' Operator) 0 40 None,
       resource_row ''resource-r2'' (sample_resource ''r2'' Machine) 40 40 None,
       resource_row ''resource-r3'' (sample_resource ''r3'' Operator) 80 40 None]"
    by (simp add: virtualRows_def sample_resources_def obj_values_def sample_resource_def)
  have "getVisibleRows ?im 500 100 = (im_virtualRows ?im, 0, length (im_virtualRows ?im))"
    by (rule Indexes.getVisibleRows_all_above) (simp_all add: rows)
  then show ?thesis by (simp add: rows)
qed


lemma sample_task_simps:
  "startTime sample_task = 3600000" "totalDuration sample_task = 140"
  "endTime sample_task = 12000000" "phases sample_task = sample_phases"
  "task_consistent sample_task" "\<not> is_fixed sample_task" "resourceId sample_task = ''r1''"
  by (simp_all add: sample_task_def hydrateTask_consistent is_fixed_def sample_stored_def
                    sample_phases_def calculateTotalDuration_def hydrateTask_def Let_def
                    stored_task.defs task.defs task_consistent_def)


lemma sample_store_tasks: "tasks sample_store = [(''t1'', sample_task)]"
  by (simp add: sample_store_def initializeData_def sample_init_data_def sample_task_def
                sample_stored_def obj_set_def)


lemma sample_store_view: "zoomLevel (viewport sample_store) = Day" "minResolution sample_store = 30"
  "drag sample_store = None"
  by (simp_all add: sample_store_def initializeData_def createInitialState_def DEFAULT_MIN_RESOLUTION_def)


theorem commitDrag_move_witness:
  "drag (sample_store\<lparr>drag := Some (sample_drag_state Move 7000000 15400000)\<rparr>) =
     Some (sample_drag_state Move 7000000 15400000) \<and>
   store_apply Commit_drag (sample_store\<lparr>drag := Some (sample_drag_state Move 7000000 15400000)\<rparr>) =
     Inr (sample_store\<lparr>tasks := [(''t1'', sample_task\<lparr>startTime := 7200000, resourceId := ''r1'',
                                                       endTime := 15600000\<rparr>)]\<rparr>)"
proof -
  let ?s = "sample_store\<lparr>drag := Some (sample_drag_state Move 7000000 15400000)\<rparr>"
  have pre: "drag ?s = Some (sample_drag_state Move 7000000 15400000)"
    "dependencyViolations (sample_drag_state Move 7000000 15400000) = []"
    "dtype (sample_drag_state Move 7000000 15400000) = Move \<or> dtype (sample_drag_state Move 7000000 15400000) = Reassign"
    "obj_get (tasks ?s) (drag_taskId (sample_drag_state Move 7000000 15400000)) = Some sample_task"
    "task_consistent sample_task"
    by (simp_all add: sample_drag_state_def sample_store_tasks sample_task_simps obj_get_def)
  have snap: "snap_ms (getSnapIntervalMs Day 30) 7000000 = 7200000"
    by (simp add: snap_ms_def getSnapIntervalMs_def js_round_def)
  show ?thesis
    using Store.commitDrag_move [OF pre] snap
    by (simp add: sample_store_tasks sample_store_view sample_task_simps obj_set_def sample_drag_state_def)
qed


lemma scale_sample_phases: "scale_phases (3 / 7) sample_phases = sample_phases_scaled"
  by (simp add: scale_phases_def sample_phases_def sample_phases_scaled_def js_round_def)


lemma total_scaled: "calculateTotalDuration sample_phases_scaled = 61"
  by (simp add: calculateTotalDuration_def sample_phases_scaled_def)


theorem commitDrag_resize_witness:
  "totalDuration sample_task \<noteq> 0 \<and>
   store_apply Commit_drag (sample_store\<lparr>drag := Some (sample_drag_state Resize_end 3600000 7300000)\<rparr>) =
     Inr (sample_store\<lparr>tasks := [(''t1'', sample_task\<lparr>startTime := 3600000, phases := sample_phases_scaled,
                                       totalDuration := 61, endTime := 7260000\<rparr>)]\<rparr>)"
proof -
  let ?d = "sample_drag_state Resize_end 3600000 7300000"
  let ?s = "sample_store\<lparr>drag := Some ?d\<rparr>"
  have pre: "drag ?s = Some ?d" "dependencyViolations ?d = []"
    "dtype ?d = Resize_start \<or> dtype ?d = Resize_end"
    "obj_get (tasks ?s) (drag_taskId ?d) = Some sample_task" "totalDuration sample_task \<noteq> 0"
    by (simp_all add: sample_drag_state_def sample_store_tasks sample_task_simps obj_get_def)
  have snap: "snap_ms (getSnapIntervalMs Day 30) 3600000 = 3600000"
    "snap_ms (getSnapIntervalMs Day 30) 7300000 = 7200000"
    by (simp_all add: snap_ms_def getSnapIntervalMs_def js_round_def)
  have sf: "(7200000 - 3600000) / (60 * 1000) / (140::real) = 3 / 7" by simp
  show ?thesis
    using conjunct1 [OF Store.commitDrag_resize [OF pre, unfolded Let_def]] pre(5)
    by (simp add: snap sf sample_store_view sample_task_simps scale_sample_phases total_scaled
                  sample_store_tasks obj_set_def sample_drag_state_def)
qed


theorem commitDrag_blocked_witness:
  "drag (sample_store\<lparr>drag := Some ((sample_drag_state Move 0 0)\<lparr>dependencyViolations :=
      [\<lparr>violation_dep = ''d1'', violation_message = ''FS''\<rparr>]\<rparr>)\<rparr>) \<noteq> None \<and>
   store_apply Commit_drag (sample_store\<lparr>drag := Some ((sample_drag_state Move 0 0)\<lparr>dependencyViolations :=
      [\<lparr>violation_dep = ''d1'', violation_message = ''FS''\<rparr>]\<rparr>)\<rparr>) = Inr sample_store"
  using Store.commitDrag_blocked [of "sample_store\<lparr>drag := Some ((sample_drag_state Move 0 0)\<lparr>dependencyViolations :=
      [\<lparr>violation_dep = ''d1'', violation_message = ''FS''\<rparr>]\<rparr>)\<rparr>"]
  by (simp add: sample_store_view)


theorem drag_fixed_task_refused_witness:
  "is_fixed (sample_task\<lparr>task_constraints := Some \<lparr>earliestStart = None, latestEnd = None, fixedTime = Some True\<rparr>\<rparr>) \<and>
   store_run [Start_drag ''t1'' Move 0 0, Update_drag 50 0, Commit_drag] sample_fixed_store = Inr sample_fixed_store"
  using Store.drag_fixed_task_refused [of sample_fixed_store "''t1''"
          "sample_task\<lparr>task_constraints := Some \<lparr>earliestStart = None, latestEnd = None, fixedTime = Some True\<rparr>\<rparr>"
          Move 0 0 50 0]
  by (simp add: sample_fixed_store_def sample_store_view is_fixed_def obj_get_def)


theorem commitDrag_zero_move_witness:
  "\<exists>s' t'. store_run [Start_drag ''t1'' Move 0 0, Update_drag 0 5, Commit_drag] sample_store = Inr s' \<and>
     obj_get (tasks s') ''t1'' = Some t' \<and> startTime t' = 3600000 \<and> phases t' = sample_phases"
proof -
  have pre: "drag sample_store = None" "obj_get (tasks sample_store) ''t1'' = Some sample_task"
    "\<not> is_fixed sample_task" "task_consistent sample_task"
    by (simp_all add: sample_store_view sample_store_tasks obj_get_def sample_task_simps)
  have al: "\<exists>k::int. startTime sample_task = of_int k * getSnapIntervalMs (zoomLevel (viewport sample_store)) (minResolution sample_store)"
    by (rule exI [of _ 1]) (simp add: sample_task_simps sample_store_view getSnapIntervalMs_def)
  show ?thesis
    using Store.commitDrag_zero_move [OF pre, of 0 0 5] al by (auto simp: sample_task_simps)
qed

text \<open>
  The undo scenario on a store loaded through initializeData: after three committed moves of a task, three undos restore the loaded task collection exactly; a fourth undo is not a no-op but restores the empty store from before the load, because initializeData itself pushed a history entry.
\<close>

theorem undo_scenario:
  "\<exists>h. session_run (Act (Initialize_data sample_init_data) # sample_gesture 10 @ sample_gesture 10 @
                        sample_gesture 10 @ [Undo, Undo, Undo]) (init_history (createInitialState 0)) = Inr h \<and>
          tasks (present h) = [(''t1'', sample_task)] \<and> tasks (present (undo h)) = []"
  by (simp add: sample_gesture_def dispatch_def startDrag_def updateDrag_def
        commitDrag_steps_def temporal_set_def tracked_equal_def init_history_def undo_def
        initializeData_def createInitialState_def sample_init_data_def obj_of_list_def
        obj_get_def obj_set_def push_bounded_def HISTORY_LIMIT_def Let_def updateTask_def update_in_def
        apply_task_update_def assign_update_def no_update_def cancelDrag_def snap_ms_def
        getSnapIntervalMs_def js_round_def DEFAULT_MIN_RESOLUTION_def sample_task_def hydrateTask_def
        sample_stored_def sample_phases_def calculateTotalDuration_def is_fixed_def
        stored_task.defs task.defs)

lemma sample_store_inv: "store_inv sample_store"
  unfolding store_inv_def
  by (simp add: sample_store_tasks obj_wf_def tasks_consistent_def obj_values_def sample_task_simps)
     (simp add: sample_store_def initializeData_def obj_wf_of_list [unfolded obj_wf_def])


theorem history_inv_witness:
  "hist_inv (init_history sample_store) \<and> hist_inv (redo (init_history sample_store)) \<and>
   (\<exists>h'. dispatch (Move_tasks [''t1''] 3600000 None) (init_history sample_store) = Inr h' \<and> hist_inv h')"
proof -
  have h: "hist_inv (init_history sample_store)"
    using sample_store_inv by (simp add: hist_inv_def init_history_def)
  have "\<exists>h'. dispatch (Move_tasks [''t1''] 3600000 None) (init_history sample_store) = Inr h'"
    by (simp add: dispatch_def)
  then show ?thesis
    using History.history_inv [OF h, of "Move_tasks [''t1''] 3600000 None"] h by blast
qed


theorem untracked_no_history_witness:
  "untracked_action (Zoom_viewport 2 100) \<and>
   dispatch (Zoom_viewport 2 100) (init_history sample_store) =
     Inr (init_history (sample_store\<lparr>viewport := zoomViewport 2 100 (viewport sample_store)\<rparr>))"
proof -
  have u: "untracked_action (Zoom_viewport 2 100)" by simp
  obtain s' where "store_apply (Zoom_viewport 2 100) (present (init_history sample_store)) = Inr s'"
    "dispatch (Zoom_viewport 2 100) (init_history sample_store) = Inr ((init_history sample_store)\<lparr>present := s'\<rparr>)"
    using History.untracked_no_history [OF u] by blast
  then show ?thesis using u
    by (simp add: store_apply_def init_history_def on_viewport_def)
qed


theorem undo_after_commit_restores_drag_witness:
  "\<exists>h'. dispatch Commit_drag (init_history (sample_store\<lparr>drag := Some (sample_drag_state Move 7000000 15400000)\<rparr>)) = Inr h' \<and>
       tasks (present h') \<noteq> tasks sample_store \<and> drag (present h') = None \<and>
       drag (present (undo h')) = Some (sample_drag_state Move 7000000 15400000)"
proof -
  let ?h = "init_history (sample_store\<lparr>drag := Some (sample_drag_state Move 7000000 15400000)\<rparr>)"
  let ?t' = "sample_task\<lparr>startTime := 7200000, resourceId := ''r1'', endTime := 15600000\<rparr>"
  have "?t' \<noteq> sample_task"
  proof
    assume "?t' = sample_task"
    then have "startTime ?t' = startTime sample_task" by simp
    then show False by (simp add: sample_task_simps)
  qed
  then have ne: "[(''t1'', ?t')] \<noteq> tasks sample_store"
    by (simp add: sample_store_tasks)
  have "\<exists>h'. dispatch Commit_drag ?h = Inr h' \<and> tasks (present h') = [(''t1'', ?t')] \<and> drag (present h') = None"
    by (simp add: dispatch_def init_history_def commitDrag_steps_def sample_drag_state_def Let_def
                  temporal_set_def tracked_equal_def updateTask_def update_in_def cancelDrag_def
                  sample_store_tasks sample_store_view obj_get_def obj_set_def sample_task_simps
                  apply_update_start_resource snap_ms_def getSnapIntervalMs_def js_round_def)
  then obtain h' where h': "dispatch Commit_drag ?h = Inr h'" "tasks (present h') = [(''t1'', ?t')]"
    "drag (present h') = None" by blast
  have "present (undo h') = present ?h \<and> drag (present (undo h')) = Some (sample_drag_state Move 7000000 15400000)"
    by (rule History.undo_after_commit_restores_drag) (use h' ne in \<open>simp_all add: init_history_def\<close>)
  then show ?thesis using h' ne by auto
qed


text \<open>
  Undo reverts the viewport: after a committed move and a zoom, undo restores the task collection and also the zoom (pixelsPerHour) of the moment before the commit, and the zoom cannot be recovered except by redo.
\<close>

theorem undo_reverts_zoom:
  "\<exists>h. session_run (Act (Initialize_data sample_init_data) # sample_gesture 10 @
                      [Act (Zoom_viewport 2 0), Undo]) (init_history (createInitialState 0)) = Inr h \<and>
       tasks (present h) = [(''t1'', sample_task)] \<and> pixelsPerHour (viewport (present h)) = 10 \<and>
       futureStates h \<noteq> []"
  by (simp add: sample_gesture_def dispatch_def startDrag_def updateDrag_def
        commitDrag_steps_def temporal_set_def tracked_equal_def init_history_def undo_def
        initializeData_def createInitialState_def sample_init_data_def obj_of_list_def
        obj_get_def obj_set_def push_bounded_def HISTORY_LIMIT_def Let_def updateTask_def update_in_def
        apply_task_update_def assign_update_def no_update_def cancelDrag_def snap_ms_def
        getSnapIntervalMs_def js_round_def DEFAULT_MIN_RESOLUTION_def sample_task_def hydrateTask_def
        sample_stored_def sample_phases_def calculateTotalDuration_def is_fixed_def
        stored_task.defs task.defs on_viewport_def zoomViewport_def getZoomLevel_def)


theorem resize_duration_70_unreachable_witness:
  "minResolution sample_store = DEFAULT_MIN_RESOLUTION \<and>
   snap_ms (getSnapIntervalMs Day 30) 7800000 - snap_ms (getSnapIntervalMs Day 30) 3600000 \<noteq> 70 * 60 * 1000"
  using Store.resize_duration_70_unreachable [of sample_store 7800000 3600000]
  by (simp add: sample_store_view DEFAULT_MIN_RESOLUTION_def Let_def)

theorem drag_threshold_witness:
  "handleMouseMove sample_env sample_store 3 4 sample_pressed = (sample_pressed, []) \<and>
   handleMouseMove sample_env sample_store 6 0 sample_pressed =
     (sample_pressed\<lparr>isDragging := True\<rparr>, [Act (Start_drag ''t1'' Move 0 0)])"
proof -
  have pre: "isMouseDown sample_pressed" "\<not> isDragging sample_pressed"
    by (simp_all add: sample_pressed_def)
  have a: "((3::real) - mouseDownX sample_pressed)\<^sup>2 + (4 - mouseDownY sample_pressed)\<^sup>2 \<le> 25"
    by (simp add: sample_pressed_def power2_eq_square)
  have b: "((6::real) - mouseDownX sample_pressed)\<^sup>2 + (0 - mouseDownY sample_pressed)\<^sup>2 > 25 \<and>
           hitTaskId sample_pressed = Some ''t1'' \<and> ''t1'' \<noteq> [] \<and> hitZone sample_pressed = Some Zone_body \<and>
           drag sample_store = None"
    by (simp add: sample_pressed_def power2_eq_square sample_store_view)
  show ?thesis
    using Interaction.drag_threshold [OF pre, of 3 4 sample_env sample_store "''t1''" Zone_body]
          Interaction.drag_threshold [OF pre, of 6 0 sample_env sample_store "''t1''" Zone_body] a b
    by (simp add: sample_pressed_def)
qed



theorem snap_guides_commit_witness:
  "renderSnapLines sample_renderer (sample_drag_state Move 1000 7201000) sample_viewport =
     snap_guide sample_renderer sample_viewport 0 @ snap_guide sample_renderer sample_viewport 7200000"
proof -
  have h: "30 \<le> zoom_snap_minutes (zoomLevel sample_viewport)" by (simp add: sample_viewport_def)
  have r1: "js_round (1 / 3600) = 0" and r2: "js_round (7201 / 3600) = 2"
    by (simp_all add: js_round_def floor_eq_iff)
  show ?thesis
    using Renderers.snap_guides_commit [OF h, of sample_renderer "sample_drag_state Move 1000 7201000"]
    by (simp add: sample_viewport_def sample_drag_state_def getSnapIntervalMs_def snap_ms_def r1 r2)
qed

text \<open>In day zoom the time grid marks 12:00 as major and 06:00 as minor: majors come every
  12 hours, not every 24 as \<open>GRID_INTERVALS\<close> says.\<close>

lemma grid_day_major_noon: "grid_isMajor Day 0 (12 * 3600000) \<and> \<not> grid_isMajor Day 0 (6 * 3600000)"
  by (simp add: grid_isMajor_def local_hour_def js_rem_def)

text \<open>With a 120-minute minimum resolution in day zoom, the guides do not stand where the commit
  snaps.\<close>

lemma snap_guide_diverges:
  "renderSnapLines sample_renderer (sample_drag_state Move 3600000 7200000) sample_viewport \<noteq>
     snap_guide sample_renderer sample_viewport (snap_ms (getSnapIntervalMs Day 120) 3600000) @
     snap_guide sample_renderer sample_viewport (snap_ms (getSnapIntervalMs Day 120) 7200000)"
proof -
  have r: "js_round (1 / 2) = 1" "js_round 1 = 1" by (simp_all add: js_round_def)
  show ?thesis
    by (simp add: renderSnapLines_def sample_viewport_def sample_drag_state_def getSnapIntervalMs_def
        snap_ms_def r snap_guide_def drawDashedLine_def r_timeToX_def)
qed

theorem legacy_refines_store_witness:
  "store_apply (Select_task ''t1'' Sel_toggle) (merge sample_data sample_ui) =
     Inr (merge sample_data (ui_selectTask ''t1'' Sel_toggle sample_ui))"
  using LegacyStore.legacy_refines_store [of "Select_task ''t1'' Sel_toggle" sample_data sample_ui]
  by (simp add: legacy_apply_def)

theorem legacy_commit_undo_witness:
  "\<exists>h1. legacy_session_run [Act Commit_drag, Undo] \<lparr>l_data = init_history sample_data, l_ui = sample_ui\<rparr> =
          Inr \<lparr>l_data = undo h1, l_ui = sample_ui\<lparr>u_drag := None\<rparr>\<rparr> \<and>
        (\<exists>t'. obj_get (d_tasks (present h1)) ''t1'' = Some t' \<and> startTime t' = 7200000 \<and> resourceId t' = ''r1'') \<and>
        present (undo h1) = sample_data"
proof -
  have pre: "u_drag sample_ui = Some (sample_drag_state Move 7200000 15600000)"
    "dependencyViolations (sample_drag_state Move 7200000 15600000) = []"
    "dtype (sample_drag_state Move 7200000 15600000) = Move \<or> dtype (sample_drag_state Move 7200000 15600000) = Reassign"
    "obj_get (d_tasks (present (init_history sample_data))) (drag_taskId (sample_drag_state Move 7200000 15600000)) = Some sample_task"
    "previewStartTime (sample_drag_state Move 7200000 15600000) \<noteq> startTime sample_task"
    by (simp_all add: sample_ui_def sample_drag_state_def init_history_def sample_data_def obj_get_def sample_task_simps)
  show ?thesis
    using LegacyStore.legacy_commit_undo [OF pre]
    by (simp add: sample_drag_state_def init_history_def)
qed






theorem dirty_layer_drawn_witness:
  "\<exists>i. [1] = [i] \<and> frameId (fst (markDirty Grid (registerRenderer Grid sample_cb init_scheduler))) = Some i \<and>
       Drawn Grid ''drawGrid'' \<in> set (snd (fire (fst (markDirty Grid (registerRenderer Grid sample_cb init_scheduler)))))"
proof -
  let ?s1 = "registerRenderer Grid sample_cb init_scheduler"
  let ?s2 = "fst (markDirty Grid ?s1)"
  have r1: "sched_reachable ?s1 []"
    using sched_reachable.call [OF sched_reachable.start, of "Register Grid sample_cb"] by simp
  have r2: "sched_reachable ?s2 (env_apply [] (snd (markDirty Grid ?s1)))"
    using sched_reachable.call [OF r1, of "Mark_dirty Grid"] by simp
  have eff: "snd (markDirty Grid ?s1) = [Request_frame 1]"
    by (simp add: markDirty_def scheduleRender_def init_scheduler_def registerRenderer_def)
  have reach: "sched_reachable ?s2 [1]" using r2 eff by simp
  have dirty: "Grid \<in> set (dirtyLayers ?s2)"
    by (simp add: markDirty_def scheduleRender_def init_scheduler_def registerRenderer_def jsset_simps)
  have reg: "obj_get (renderers ?s2) Grid = Some sample_cb"
    by (simp add: markDirty_def scheduleRender_def init_scheduler_def registerRenderer_def obj_simps)
  show ?thesis
    using Scheduler.dirty_layer_drawn [OF reach dirty reg] by (simp add: sample_cb_def)
qed


text \<open>A drag starting on the canvas re-registers the callbacks and marks the interaction
  layer; the task layer stays clean and draws as before.\<close>

theorem clean_layer_fresh_witness:
  "\<exists>cs' es. canvas_update (Some sample_canvas_props) (sample_canvas_props\<lparr>cp_drag := Some sample_drag_started\<rparr>)
              sample_canvas_state = (cs', es) \<and>
            Tasks \<notin> set (dirtyLayers (cs_scheduler cs')) \<and>
            (\<forall>env. layer_draw env cs' Tasks = layer_draw env sample_canvas_state Tasks)"
proof -
  obtain cs' es where u: "canvas_update (Some sample_canvas_props) (sample_canvas_props\<lparr>cp_drag := Some sample_drag_started\<rparr>)
              sample_canvas_state = (cs', es)" by fastforce
  have live: "\<not> isDestroyed (cs_scheduler sample_canvas_state)"
    by (simp add: sample_canvas_state_def sample_scheduler_def)
  have cap: "cs_captured sample_canvas_state = Some sample_canvas_props"
    by (simp add: sample_canvas_state_def)
  have clean: "Tasks \<notin> set (dirtyLayers (cs_scheduler cs'))"
    using u
    by (simp add: canvas_update_def canvas_effects_def canvas_changed_def register_deps_def sample_canvas_props_def
        sample_canvas_state_def sample_scheduler_def layer_order_def registerRenderer_def unregisterRenderer_def
        markDirty_def scheduleRender_def jsset_add_def obj_set_def obj_delete_def) auto
  show ?thesis
    using CanvasWiring.clean_layer_fresh [OF live cap u _ clean] u clean by auto
qed
text \<open>At 10 pixels per hour scrolled 100 pixels, a 100-pixel day-zoom header carries the
  marker at 12:00 UTC.\<close>

theorem markers_exact_witness:
  "\<exists>m \<in> set (markers (\<lambda>_ _. []) 0 sample_viewport 100). tm_time m = 43200000"
proof -
  have fl: "\<lfloor>(36000000::real) / 21600000\<rfloor> = 1" by (simp add: floor_eq_iff)
  have "(\<exists>j::int. (43200000::real) = of_int j * (header_intervalHours (zoomLevel sample_viewport) * 3600000) \<and>
                \<lfloor>visibleStartTime sample_viewport / (header_intervalHours (zoomLevel sample_viewport) * 3600000)\<rfloor> \<le> j) \<and>
        43200000 \<le> visibleEndTime sample_viewport 100 \<and> -100 \<le> timeToX sample_viewport 43200000 \<and>
        timeToX sample_viewport 43200000 \<le> 100 + 100"
    by (simp add: sample_viewport_def visibleStartTime_def visibleEndTime_def timeToX_def MS_PER_HOUR_def fl
        exI [of _ 2])
  then show ?thesis
    using TimelineHeader.markers_exact [of "\<lambda>_ _. []" 0 sample_viewport 100 43200000] by blast
qed
text \<open>Deleting the sample task through a provider with all three callbacks reports no
  task change.\<close>

theorem deleteTask_unreported_witness:
  "\<exists>h' evs. provider_dispatch \<lparr>has_onTaskChange = True, has_onSelectionChange = True, has_onViewportChange = True\<rparr>
              (Delete_task ''t1'') (init_history sample_store) = Inr (h', evs) \<and>
            obj_get (tasks (present h')) ''t1'' = None \<and> (\<forall>x t'. Task_changed x t' \<notin> set evs)"
  using Provider.deleteTask_unreported [of "init_history sample_store" "''t1''" sample_task]
  by (simp add: init_history_def sample_store_tasks obj_get_def)

text \<open>The row of resource r1 appears, the timer fires, and the same layout is set again:
  the row is flagged new both times.\<close>

theorem sidebar_reanimates_witness:
  "''resource-r1'' \<in> set (sb_newRowIds (sidebar_run [Rows_changed [resource_row ''resource-r1'' (sample_resource ''r1'' Operator) 0 40 None]]
                              sidebar_initial)) \<and>
   ''resource-r1'' \<in> set (sb_newRowIds (sidebar_run
      [Rows_changed [resource_row ''resource-r1'' (sample_resource ''r1'' Operator) 0 40 None], Timeout_fired,
       Rows_changed [resource_row ''resource-r1'' (sample_resource ''r1'' Operator) 0 40 None]] sidebar_initial))"
  by (rule Sidebar.sidebar_reanimates [where ra = "resource_row ''resource-r1'' (sample_resource ''r1'' Operator) 0 40 None"
                                          and rb = "resource_row ''resource-r1'' (sample_resource ''r1'' Operator) 0 40 None"])
     (simp_all add: resource_row_def sidebar_initial_def)


text \<open>With the sample task selected, deleting it through the actions leaves the indicator at
  one selected task while no selected task exists.\<close>

theorem deleteTask_stale_selection_witness:
  "\<exists>h' evs. provider_dispatch \<lparr>has_onTaskChange = False, has_onSelectionChange = False, has_onViewportChange = False\<rparr>
              (Delete_task ''t1'')
              (init_history (sample_store\<lparr>selection := \<lparr>sel_taskIds = [''t1''], sel_resourceIds = [],
                                                           lastSelectedTaskId = Some ''t1''\<rparr>\<rparr>)) = Inr (h', evs) \<and>
            selectionIndicator (present h') = Some 1 \<and> length (useGanttSelectedTasks (present h')) < 1"
  using RouteViews.deleteTask_stale_selection
          [of "''t1''" "init_history (sample_store\<lparr>selection := \<lparr>sel_taskIds = [''t1''], sel_resourceIds = [],
                                                           lastSelectedTaskId = Some ''t1''\<rparr>\<rparr>)"
              "\<lparr>has_onTaskChange = False, has_onSelectionChange = False, has_onViewportChange = False\<rparr>"]
  by (simp add: init_history_def)


theorem themed_grid_session_equiv_witness:
  "(\<forall>b. css_rules sample_dom b ''--border'' \<noteq> []) \<and>
   fst (theme_session 0 0 [Theme_event Toggle_theme, Grid_frame sample_renderer sample_viewport [] None]
          (themeProvider_mount sample_dom [] theme_cache_initial)) =
   theme_session_ref 0 0 [Theme_event Toggle_theme, Grid_frame sample_renderer sample_viewport [] None]
          (themeProvider_mount sample_dom [] theme_cache_initial)"
proof -
  have h: "\<forall>b. css_rules sample_dom b ''--border'' \<noteq> []" by (simp add: sample_dom_def)
  show ?thesis using h ThemeColors.themed_grid_session_equiv [OF h] by blast
qed

text \<open>Without a \<open>--border\<close> rule the major grid lines take the fallback of the minor
  ones, where the uncached read gives their own.\<close>

lemma gridLineMajor_fallback_unused:
  "gridLineMajor (fst (run_state (getGridColors (Some sample_dom_unset)) theme_cache_initial)) = ''#e2e8f0'' \<and>
   gridLineMajor (grid_colors_ref (Some sample_dom_unset)) = ''#cbd5e1''"
  by (simp add: getGridColors_def run_getThemeColor theme_check_def cache_hit_def obj_simps getCSSColor_def
                resolveColor_def theme_name_def Let_def theme_cache_initial_def sample_dom_unset_def grid_colors_ref_def)

lemma sample_demo_run:
  "\<exists>d. fst (run_state (generateDemoData sample_demo_options 0) (sconst 0)) = Inr d \<and>
       map (\<lambda>e. (predecessorId e, successorId e)) (dd_dependencies d) = [(''task-0'', ''task-1''), (''task-0'', ''task-2'')] \<and>
       map priority (dd_tasks d) = [0, 0, 0]"
  by (simp add: sample_demo_options_def generateDemoData_def demo_phases_def demo_task_def demo_resources_def
      demo_orders_def Let_def tasks_per_order_def tasksByOrder_def obj_set_def obj_get_def upt_conv_Cons
      nat_str_lt nat_str_ge obj_simps taskColors_def)

theorem generateDemoData_acyclic_witness:
  "sset (sconst (0::real)) \<subseteq> {0..<1} \<and>
   (\<exists>d. fst (run_state (generateDemoData sample_demo_options 0) (sconst 0)) = Inr d \<and>
       map (\<lambda>e. (predecessorId e, successorId e)) (dd_dependencies d) = [(''task-0'', ''task-1''), (''task-0'', ''task-2'')] \<and>
       acyclic {(predecessorId e, successorId e) | e. e \<in> set (dd_dependencies d)})"
  using sample_demo_run DemoData.generateDemoData_acyclic [of "sconst 0" sample_demo_options 0] by auto


theorem generateDemoData_type_error_witness:
  "fst (run_state (generateDemoData \<lparr>opt_taskCount = Some 3, opt_resourceCount = Some 0,
          opt_orderCount = Some 2, opt_dependencyRatio = None\<rparr> 0) (sconst 0)) = Inl Demo_type_error"
  using DemoData.generateDemoData_type_error [of 3 0 2 None 0 "sconst 0"] by simp

theorem generateLargeDataset_ok_witness:
  "\<exists>d. fst (run_state (generateLargeDataset 1000 0) (sconst 0)) = Inr d \<and> length (dd_tasks d) = 1000 \<and>
       length (dd_resources d) = 20 \<and> length (dd_orders d) = 5"
  using DemoData.generateLargeDataset_ok [of "sconst 0" 1000 0] by simp

theorem demo_route_loads_witness:
  "sset (sconst (0::real)) \<subseteq> {0..<1} \<and> \<not> dr_isLoading demo_route_initial \<and>
   (\<exists>d ls'. demo_route_data demo_route_initial 0 (sconst 0) = Inr d \<and>
      demo_route_mount demo_route_initial 0 (sconst 0) sample_legacy = Inr ls' \<and>
      d_tasks (present (l_data ls')) = map (\<lambda>t. (task_id t, hydrateTask t)) (dd_tasks d) \<and>
      obj_keys (d_tasks (present (l_data ls'))) = map (\<lambda>i. ''task-'' @ nat_str i) [0..<500] \<and>
      acyclic {(predecessorId e, successorId e) | e. e \<in> set (obj_values (d_dependencies (present (l_data ls'))))})"
  using DemoRoute.demo_route_loads [of "sconst 0" demo_route_initial 0 sample_legacy]
  by (simp add: demo_route_initial_def)

end
