(* ===== verification/Spec2Isabelle.thy ===== *)
theory Spec2Isabelle
  imports Samples
begin

text \<open>
  \<^bold>\<open>A verification development of the Gantt chart engine of the repository.\<close>

  \<^bold>\<open>The program.\<close> The engine under \<open>src/\<close> renders a schedule of tasks on
  resources as a zoomable, scrollable chart on four canvas layers and lets the user edit
  it with the pointer. Its parts and how they interact:
  \<^item> The data model and task utilities (\<open>types/index.ts\<close>,
    \<open>src/unnamed/part_005\<close>): tasks made of phases, with the cached fields
    \<open>_endTime\<close> and \<open>_totalDuration\<close>.
  \<^item> The viewport transform (\<open>engine/viewport-manager.ts\<close>) and the store's zoom,
    pan and scroll actions: time to pixels and back, snapping.
  \<^item> The row layout (\<open>hooks/useComposableVirtualRows.ts\<close>, and its copy over the
    global stores in \<open>src/unnamed/part_008\<close>): the virtual rows of the resources,
    grouped or not.
  \<^item> The spatial and relational indexes (\<open>src/unnamed/part_003\<close>,
    \<open>src/unnamed/part_002\<close>), built from the tasks, the dependencies and the rows.
  \<^item> Two store implementations:
    \<^item> the composable store \<open>createGanttStore\<close> (\<open>src/unnamed/part_001\<close>), with
      its undo history (the \<open>zundo\<close> middleware);
    \<^item> the global data and UI stores (\<open>store/data-store.ts\<close>,
      \<open>src/unnamed/part_004\<close>), which the interaction hook and the toolbar use.
  \<^item> The interaction hook (\<open>src/unnamed/part_009\<close>). Its handlers read the
    stores, hit-test through the indexes and call store actions.
  \<^item> The render scheduler (\<open>engine/render-scheduler.ts\<close>). It batches redraws of
    the four layers into animation frames.
  \<^item> The layer renderers (\<open>src/unnamed/part_006\<close>, \<open>src/unnamed/part_007\<close>,
    \<open>utils/theme-colors.ts\<close>, \<open>renderers/interaction-renderer.ts\<close>). They draw
    with the helpers of \<open>utils/canvas-utils.ts\<close>.
  \<^item> The theme colors (\<open>utils/theme-colors.ts\<close>): the grid renderer reads CSS
    custom properties through a module-level cache that the \<open>ThemeProvider\<close>
    (\<open>src/unnamed/part_016\<close>) clears when it switches the theme.
  \<^item> The color helpers \<open>lightenColor\<close>, \<open>darkenColor\<close> and \<open>hexToRgba\<close> of
    \<open>utils/canvas-utils.ts\<close>, exported but called nowhere.
  \<^item> The time axis \<open>TimelineHeader\<close> (\<open>components/TimelineHeader.tsx\<close>): tick
    markers and day headers above the canvas, placed with the viewport transform.
  \<^item> The canvas component \<open>GanttCanvas\<close> (\<open>src/unnamed/part_010\<close>). Its effects
    rebuild the indexes, register the renderers' callbacks with the scheduler and mark
    layers dirty when the store changes.
  \<^item> The context provider \<open>GanttProvider\<close> (\<open>src/unnamed/part_000\<close>) around the
    composable store: it loads the data and reports changes of tasks, selection and
    viewport through optional callbacks; its selector hooks feed the views.
  \<^item> The views over the provider: the resource sidebar
    (\<open>components/composable/GanttSidebar.tsx\<close>), the composable time axis
    (\<open>GanttTimeline.tsx\<close>), the chart controls (\<open>controls/\<close> and the legacy
    \<open>GanttToolbar\<close> of \<open>components/GanttToolbar.tsx\<close>), the two legacy sidebars
    concatenated in the same file, and the panels of the
    demo routes (\<open>routes/gantt-bottom-toolbar.tsx\<close>).
  \<^item> The demo data generator (\<open>utils/demo-data.ts\<close>), which the routes call to fill
    the store: random tasks, resources, orders and dependencies.

  \<^bold>\<open>Theories.\<close> Each theory holds one part. Within a theory come its records and
  datatypes (the code's state and data), then one definition per operation in the order
  of the source, then its lemmas.
  \<^item> \<open>Prelude\<close>: the JavaScript vocabulary.
    \<^item> Numbers are reals.
    \<^item> \<open>Math.round\<close> is \<open>js_round\<close>.
    \<^item> Dictionaries and Maps are insertion-ordered association lists
      (\<open>obj_get\<close>, \<open>obj_set\<close>, \<open>obj_delete\<close>).
    \<^item> Sets are duplicate-free lists.
  \<^item> \<open>Task\<close>: the entities and the task utilities.
  \<^item> \<open>Viewport\<close>: the manager's transforms and state (\<open>viewport_manager\<close>,
    \<open>setCanvasRect\<close>, \<open>calculateZoomToFit\<close>, \<open>vm_scale\<close>) and the zoom actions.
  \<^item> \<open>RowLayout\<close>: \<open>virtualRows\<close> as state-passing emitters (\<open>emit_group\<close>,
    \<open>emit_type_groups\<close>, ...), returning the rows and the next offset.
  \<^item> \<open>LegacyRows\<close>: the legacy layout hooks \<open>useVirtualRows\<close> and
    \<open>useVisibleRows\<close> (\<open>src/unnamed/part_008\<close>) as accumulator loops over the
    global stores.
  \<^item> \<open>Scheduler\<close>: every method as a function returning the new state and its
    effects (frame requests, cancellations, callback calls).
    \<^item> The browser's frame queue is \<open>env_apply\<close>.
    \<^item> \<open>sched_reachable\<close> is the inductive set of states reachable by any
      interleaving of calls and frame callbacks.
  \<^item> \<open>Indexes\<close>: \<open>rebuild\<close>, \<open>buildIndexes\<close> and the queries.
    \<^item> rbush is the library of the code; it is modelled by its search contract.
    \<^item> The BFS of \<open>getDependencyChain\<close> is \<open>chain_bfs\<close>.
  \<^item> \<open>Store\<close>: each action of \<open>createGanttStore\<close> as the list of its \<open>set\<close>
    steps (\<open>store_steps\<close>) over the interface \<open>store_action\<close>. Exceptions are
    values of \<open>store_err\<close>.
  \<^item> \<open>History\<close>: the \<open>temporal\<close> middleware (\<open>temporal_set\<close>, \<open>undo\<close>,
    \<open>redo\<close>) for any state type, and the composable store wrapped in it.
  \<^item> \<open>LegacyStore\<close>: the data store (with its history) and the UI store.
    \<^item> \<open>legacy_steps\<close> interprets the same \<open>store_action\<close>s on them.
    \<^item> \<open>merge\<close> shows the pair as one composable state.
  \<^item> \<open>Interaction\<close>: the handlers, each returning the store calls it makes.
    \<open>ui_step\<close> runs them on the composable store.
  \<^item> \<open>Hook\<close>: \<open>hook_step\<close> runs the handlers on the legacy stores, as
    \<open>src/unnamed/part_009\<close> is wired.
  \<^item> \<open>Canvas\<close> and \<open>Renderers\<close>: each renderer's \<open>render\<close> as the list of canvas
    calls (\<open>ctx_op\<close>) it makes.
  \<^item> \<open>TimelineHeader\<close>: \<open>markers\<close> and \<open>dayHeaders\<close> with their loops
    \<open>marker_loop\<close> and \<open>day_loop\<close>; \<open>ganttTimeline\<close> is the composable
    \<open>GanttTimeline\<close>, the same computations plus the current time line
    (\<open>currentTimeX\<close>).
  \<^item> \<open>CanvasWiring\<close>: the effects of \<open>GanttCanvas\<close> after a render, in React's
    order, as a list of \<open>canvas_action\<close>s (\<open>canvas_effects\<close>) run on the scheduler,
    the index manager and the renderers (\<open>canvas_run\<close>); \<open>layer_draw\<close> is what a
    registered callback draws when its frame fires. \<open>comp_effects\<close> is the composable
    \<open>GanttCanvas\<close>.
  \<^item> \<open>Provider\<close>: \<open>provider_dispatch\<close> and \<open>provider_step\<close> are an action, undo or
    redo through \<open>useGanttActions\<close>, returning the new history and the callback
    calls (\<open>provider_event\<close>s) of the store's listeners (\<open>provider_notify\<close>).
  \<^item> \<open>Sidebar\<close>: the animation state of \<open>GanttSidebar\<close> as the record
    \<open>sidebar_state\<close>, its effect and timer as \<open>sidebar_step\<close>, the listed rows as
    \<open>sidebar_items\<close>, the header click and the resize handle as the actions they call.
  \<^item> \<open>Toolbar\<close>: a button as a \<open>toolbar_button\<close>, the store calls of its handler
    (\<open>toolbar_events\<close>), run on the legacy stores (\<open>legacy_toolbar_run\<close>) or
    through the provider with the enabled state of undo and redo (\<open>control_click\<close>);
    the composable toolbar of \<open>src/unnamed/part_012\<close> as the list of its children
    (\<open>toolbar_layout\<close>) and the buttons each offers (\<open>element_buttons\<close>,
    \<open>zoom_controls\<close>); the zoom and grouping selects read the value of the chosen
    option back (\<open>zoom_select_change\<close>, \<open>grouping_select_change\<close>).
  \<^item> \<open>RouteViews\<close>: the panels of the demo routes as functions of the store state:
    the canvas size arithmetic, the selection bar, the task detail panel (single task
    or summary of several), the status and priority labels, the selection indicator.
  \<^item> \<open>ThemeColors\<close>: the cache globals as the record \<open>theme_cache\<close>, each getter
    a computation of \<open>HOL-Library.State_Monad\<close> over it (\<open>getThemeColor\<close>,
    \<open>getGridColors\<close>, ...), the document a parameter \<open>dom_env\<close>; the
    \<open>ThemeProvider\<close> as \<open>theme_step\<close> on \<open>theme_app\<close>, and \<open>theme_session\<close>
    interleaving theme events with grid frames (\<open>gridRender\<close>).
  \<^item> \<open>Colors\<close>: the color helpers on \<open>32 word\<close> values, with \<open>parseInt\<close> and
    \<open>toString(16)\<close> written out (\<open>parseInt16\<close>, \<open>js_toString16\<close>).
  \<^item> \<open>LegacySidebar\<close>: the animated legacy sidebar (\<open>legacy_sidebar_state\<close>,
    \<open>legacy_sidebar_step\<close>, \<open>legacy_sidebar_view\<close>, the header key handler and the
    mount animation of a row) and the plain one (\<open>plain_sidebar_view\<close>), over the
    legacy stores.
  \<^item> \<open>DemoData\<close>: \<open>generateDemoData\<close> and \<open>generateLargeDataset\<close> as computations
    of \<open>HOL-Library.State_Monad\<close> over an infinite stream of draws
    (\<open>HOL-Library.Stream\<close>): each \<open>Math.random()\<close> is \<open>random\<close>, taking the head of
    the stream, in the code's order. The task loop is \<open>demo_tasks\<close> over
    \<open>demo_task\<close>, the \<open>Map\<close> of tasks by order is \<open>tasksByOrder\<close>, and the
    dependency loops are \<open>demo_dependencies\<close> over \<open>order_deps\<close>, with JavaScript's
    stable sort as \<open>sort_key\<close>. A \<open>TypeError\<close> is the value \<open>Demo_type_error\<close>.
  \<^item> \<open>DemoRoute\<close>: the chart over the global stores, \<open>GanttChart\<close>
    (\<open>src/unnamed/part_014\<close>: \<open>chart_init_effect\<close>, \<open>chart_layout\<close>,
    \<open>chart_view\<close>), and the demo page of \<open>routes/gantt.tsx\<close> (\<open>demo_route_state\<close>,
    \<open>demo_route_step\<close> for the count buttons and their timer, \<open>demo_route_data\<close>,
    \<open>demo_stats\<close>, \<open>count_label\<close>, \<open>demo_route_mount\<close>), composed with the
    generator and the legacy data store.
  \<^item> \<open>LegacyChart\<close>: the canvas of \<open>GanttChart\<close>, \<open>GanttCanvas\<close> of
    \<open>src/unnamed/part_011\<close>, as the composable canvas's effects on props read from the
    legacy stores (\<open>legacy_canvas_props\<close>, \<open>chart_canvas\<close>,
    \<open>chart_canvas_update\<close>).
  \<^item> \<open>ProviderRoutes\<close>: \<open>createGanttStore\<close> with its config overrides
    (\<open>src/unnamed/part_001\<close>), and the three routes over \<open>Gantt.Provider\<close> in
    \<open>routes/gantt-bottom-toolbar.tsx\<close>: the count selectors, \<open>route_mount\<close> (generated
    data into the provider's store), the minimal route's header range, corner controls
    (\<open>corner_click\<close>) and time navigator.
  \<^item> \<open>Samples\<close>: concrete inputs, the witnesses of the theorems with hypotheses,
    and end-to-end scenarios.

  \<^bold>\<open>What the lemmas show.\<close> The properties are the theorems named C1 to C40 in the
  text before them. By group:
  \<^item> Round trips of the coordinate transforms and of the cached task fields.
  \<^item> Zoom: the anchor is kept exactly unless the scroll offset is clamped; the zoom
    stays within bounds.
  \<^item> Snapping correctness.
  \<^item> Layout:
    \<^item> the rows are contiguous and sorted in every grouping mode;
    \<^item> a grouping switch collapses every group;
    \<^item> the legacy hook's loops compute the same rows (equivalence), its visible-rows
      buffer does not.
  \<^item> Scheduler:
    \<^item> a render pass draws exactly the dirty layers, in the fixed order, and
      tolerates throwing callbacks;
    \<^item> every reachable state has at most one live frame;
    \<^item> marks are coalesced;
    \<^item> \<open>dispose\<close> is idempotent and final (a lemma);
    \<^item> every dirty layer is drawn by the pending frame (liveness).
  \<^item> Indexes:
    \<^item> the spatial queries after \<open>rebuild\<close> are exact;
    \<^item> the adjacency indexes refine the dependency list;
    \<^item> \<open>getDependencyChain\<close> is the reachability closure, also on cyclic graphs;
    \<^item> \<open>getVisibleRows\<close> is complete.
  \<^item> Store and history:
    \<^item> the history invariant over every action, undo and redo;
    \<^item> the functional behaviour of \<open>commitDrag\<close> on each branch, errors included;
    \<^item> actions on untracked state do not touch the history.
  \<^item> Interaction: the drag threshold, clicks, Escape, Delete.
  \<^item> Renderers:
    \<^item> the arrow endpoints (a lemma);
    \<^item> the draw order of the dependencies;
    \<^item> the snap guides;
    \<^item> the bound on the iterations of the time grid loop.
  \<^item> Legacy stores:
    \<^item> they refine the composable store, except \<open>commitDrag\<close> and \<open>reset\<close>;
    \<^item> their commit and undo.
  \<^item> A full drag gesture through the hook as wired.
  \<^item> Timeline header: the markers stand at the viewport transform of their times and
    are exactly the interval multiples in view; the day headers start inside the header.
  \<^item> Canvas wiring: a task or dependency layer left clean by a render draws what it
    drew before (the effects mark every change that matters to it), in both variants;
    the interaction layer of \<open>src/unnamed/part_010\<close>, in contrast, is marked only when
    the drag changes.
  \<^item> Provider: it refines the store (an action, undo or redo through it changes the
    history exactly as the store alone); a deleted task is never reported to
    \<open>onTaskChange\<close>, and it stays selected, so the route's selection indicator counts
    it while the detail panel does not.
  \<^item> Sidebar: the expand animation of a new row replays on the next change of the
    rows; the content height is the layout's height; the resize handle starts from 200.
  \<^item> Controls: zoom in then out restores both legacy stores below the clamp (and not
    above it, a lemma); undo and redo are enabled exactly when they change the history.
  \<^item> Route views: bounds of the average progress; the current time line stands where
    the legacy header draws the today marker (a lemma).
  \<^item> Theme colors: the cache is transparent to the grid layer through any theme
    switches when the stylesheets define \<open>--border\<close> (an equivalence with uncached
    reads, proved with the invariant \<open>cache_coherent\<close> and the small calculus
    \<open>coherent_run\<close>); and the major grid lines always get the color of the minor ones.
    The stored theme is read back on reload (a lemma).
  \<^item> Colors (lemmas): on any color \<open>parseInt\<close> reads below \<open>2^24\<close> and a
    non-negative percentage, each channel is shifted and clamped and the result is
    \<open>#rrggbb\<close>; the print and parse of the digits agree; the shorthand and
    negative percentages go wrong (concrete lemmas).
  \<^item> Legacy sidebars (lemmas): the animated one refines the composable sidebar (same
    items after the same events, \<open>legacy_sidebar_refines\<close>), so it replays the
    expand animation as well; the plain one shows what the animated one shows when no
    row is new; Enter and Space on a header toggle its group in the UI store.
  \<^item> Demo data: for any draws in \<open>[0, 1)\<close> the dependency graph is acyclic (each
    dependency joins a task to one sorted before it in its order, and the stable sort
    orders the tasks by start time, then index; \<open>draws_post\<close> carries a property of
    the returned value through the binds); priorities lie in \<open>[0, 5]\<close>, and 0 is
    reached; no resource or no order gives the \<open>TypeError\<close>; and
    \<open>generateLargeDataset\<close> always returns its counts of tasks, resources and orders.
  \<^item> Legacy chart (lemmas): the first commit of the canvas sets up, indexes,
    registers and marks all four layers; a clean grid, task or dependency layer draws
    what it drew across re-renders. Composable toolbar (lemmas): dividers stand only
    between two controls, and the default items offer every button but panning; each
    select option reads back as itself, and a level set by the zoom select is the
    level of its zoom band.
  \<^item> Demo page: its first render loads the generated tasks, hydrated and keyed
    \<open>task-0\<close> to \<open>task-(n-1)\<close>, and an acyclic dependency collection into the legacy
    data store (a composition of the generator, the page, the chart's effect and the
    store); a second count click before the timer is ignored, the page loads exactly
    while a timer is pending, and the button labels are \<open>100\<close> to \<open>10k\<close> (lemmas).
  \<^item> Provider routes (lemmas): a route's first render loads the generated data into
    the provider's store with the config's viewport; the minimal route's
    \<open>initialZoom\<close> is the default; an \<open>initialTime\<close> of 0 is ignored; the corner
    zoom buttons leave 91\% of the zoom after in and out; undo and redo are inert when
    disabled.
  \<^item> Equivalence: the \<open>while\<close> loop of \<open>truncateText\<close> computes its reference.

  Several theorems record where the code departs from the spec. The manifest lists them
  as findings. Examples:
  \<^item> undo restores the drag and the viewport;
  \<^item> the hook's commit does not snap;
  \<^item> the highlighted arrows are not drawn last;
  \<^item> the major grid lines are wrong outside hour zoom.

  \<^bold>\<open>Loops, measures and fuel.\<close> No loop is modelled with fuel. Every loop is a
  total function:
  \<^item> The structural recursions include the emitters, \<open>phase_ranges_from\<close> and
    \<open>truncate_loop\<close>.
  \<^item> \<open>chain_bfs\<close> terminates by the measure of the unvisited nodes, then the queue
    length.
  \<^item> The \<open>for\<close> loop of the grid renderer, \<open>time_grid_loop\<close>, and the marker loop
    of the header, \<open>marker_loop\<close>, terminate by the number of hours left. Each step
    advances by a whole interval, which is at least an hour.
  \<^item> The day loop of the header, \<open>day_loop\<close>, terminates by the number of days left.
  \<^item> The loops of the demo data generator run over the index lists
    \<open>[0..<taskCount]\<close> and \<open>[1..<length orderSorted]\<close> and over the list of order
    groups, so they are structural recursions; the stream of draws is infinite, so no
    draw fails.
  Termination is thus proved for every loop. \<open>time_grid_loop_bound\<close> also bounds the
  number of iterations.

  \<^bold>\<open>Not modelled.\<close>
  \<^item> The JSX of the components and routes: markup, styles and class names, the
    resize observers, and the re-export files (\<open>composable.ts\<close>, \<open>index.ts\<close>,
    \<open>part_013\<close>, \<open>part_015\<close>, \<open>part_017\<close>). Their logic is modelled as the values
    they compute and the actions they call.
  \<^item> The static markup of \<open>GanttChart\<close> (\<open>part_014\<close>) and of the demo page
    (\<open>routes/gantt.tsx\<close>): headings and instructions.
  \<^item> \<open>useTheme\<close> of \<open>part_016\<close>, which only reads the context.
  \<^item> The effects of \<open>GanttCanvas\<close> that only feed the viewport manager
    (\<open>setViewport\<close>, \<open>setCanvasRect\<close>) and the reset of the scheduler at unmount.
  \<^item> The fields of the demo data the entity model omits (descriptions, colors and due
    dates of orders, colors of groups).
  \<^item> The browser's CSS: the value of each custom property per theme and the color
    a temporary element computes are parameters of \<open>dom_env\<close>. The task and
    interaction renderers use their own constant colors, not the theme getters.
  \<^item> \<open>drawArrow\<close> and \<open>createHorizontalGradient\<close> of \<open>utils/canvas-utils.ts\<close>,
    called nowhere, which only pass their arguments to the canvas.
  \<^item> From the browser:
    \<^item> the time zone, which is a fixed offset \<open>tz\<close>;
    \<^item> \<open>measureText\<close> and date formatting, which are parameters;
    \<^item> floating-point rounding, which is not modelled (numbers are reals).
  \<^item> \<open>updateResource\<close> and \<open>setViewport\<close> of the stores (\<open>Object.assign\<close> of a
    partial record).
\<close>

end
